(* ===== verification/LVMS_Prelude.thy ===== *)
theory LVMS_Prelude
  imports Main "HOL-Library.State_Monad" "HOL-Library.Char_ord" "HOL-Library.List_Lexorder"
begin

text \<open>
  Shared vocabulary of the development.

  \<^item> Go errors as values: \<open>errors.New\<close>, \<open>fmt.Errorf\<close> (the format string and its arguments,
    where \<open>W\<close> marks a \<open>%w\<close> operand and \<open>V\<close> an error printed by \<open>%v\<close>), \<open>errors.Join\<close>, the
    exit status of a process and the \<open>internalError\<close> of \<open>internal/controllers/vgmanager/exec\<close>.
    A run-time panic is the value \<open>GoPanic\<close>; where one can be raised the callers end with it.
  \<^item> Go's 64-bit \<open>int\<close> arithmetic: \<open>wrap64\<close> is the value of a sum or product after wrap-around,
    \<open>go_rem\<close> the truncated remainder \<open>%\<close>.
  \<^item> The functions of Go's \<open>strings\<close> package the sources use, on byte strings.
  \<^item> A state monad in which every effect on the outside world (a host command, a call of the
    Kubernetes API, a file access, an event) is appended to a trace.  The answer of the outside
    world is a function of the trace so far, so that nothing is assumed about it.
  \<^item> A small program logic over that monad: \<open>guarded G P m Q\<close> says that from a history
    satisfying \<open>P\<close> every action of \<open>m\<close> is allowed by \<open>G\<close> at the history it happens in, and that
    result and final history satisfy \<open>Q\<close>; \<open>only A m\<close> is the special case in which \<open>m\<close> performs
    actions of the set \<open>A\<close> only.  The collection \<open>only_intros\<close> decomposes a program.
\<close>

section \<open>Go errors\<close>

datatype go_error =
    ErrorsNew string
  | Errorf string "fmt_arg list"
  | ErrorsJoin "go_error list"
  | ExitError int
  | InternalError go_error string
  | GoPanic string
and fmt_arg = S string | D int | W go_error | V go_error

type_synonym 'a res = "go_error + 'a"

text \<open>\<open>errors.Is\<close> against a sentinel: the chain of wrapped errors is searched.\<close>

fun errors_Is :: "go_error \<Rightarrow> go_error \<Rightarrow> bool"
and arg_Is :: "fmt_arg \<Rightarrow> go_error \<Rightarrow> bool" where
  "errors_Is (ErrorsNew n) t = (ErrorsNew n = t)"
| "errors_Is (Errorf f as) t = (\<exists>a \<in> set as. arg_Is a t)"
| "errors_Is (ErrorsJoin es) t = (\<exists>e \<in> set es. errors_Is e t)"
| "errors_Is (ExitError c) t = (ExitError c = t)"
| "errors_Is (InternalError e s) t = errors_Is e t"
| "errors_Is (GoPanic p) t = False"
| "arg_Is (W e) t = errors_Is e t"
| "arg_Is (V e) t = False"
| "arg_Is (S s) t = False"
| "arg_Is (D i) t = False"

section \<open>The strings package\<close>

definition HasPrefix :: "string \<Rightarrow> string \<Rightarrow> bool" where
  "HasPrefix s p \<longleftrightarrow> take (length p) s = p"

definition TrimPrefix :: "string \<Rightarrow> string \<Rightarrow> string" where
  "TrimPrefix s p = (if HasPrefix s p then drop (length p) s else s)"

fun Contains :: "string \<Rightarrow> string \<Rightarrow> bool" where
  "Contains [] sub = (sub = [])"
| "Contains (c # s) sub = (HasPrefix (c # s) sub \<or> Contains s sub)"

definition ToLower_char :: "char \<Rightarrow> char" where
  "ToLower_char c = (if 65 \<le> (of_char c :: nat) \<and> (of_char c :: nat) \<le> 90
     then char_of ((of_char c :: nat) + 32) else c)"

definition ToLower :: "string \<Rightarrow> string" where
  "ToLower s = map ToLower_char s"

fun JoinStrings :: "string list \<Rightarrow> string \<Rightarrow> string" where
  "JoinStrings [] sep = []"
| "JoinStrings [x] sep = x"
| "JoinStrings (x # y # zs) sep = x @ sep @ JoinStrings (y # zs) sep"

text \<open>\<open>strings.Split\<close> with a separator of one byte.\<close>

fun SplitChar :: "string \<Rightarrow> char \<Rightarrow> string list" where
  "SplitChar [] c = [[]]"
| "SplitChar (x # xs) c =
     (if x = c then [] # SplitChar xs c
      else (case SplitChar xs c of [] \<Rightarrow> [[x]] | y # ys \<Rightarrow> (x # y) # ys))"

lemma HasPrefix_append [simp]: "HasPrefix (p @ s) p"
  by (simp add: HasPrefix_def)

lemma HasPrefix_iff: "HasPrefix s p \<longleftrightarrow> (\<exists>r. s = p @ r)"
proof
  assume "HasPrefix s p"
  moreover have "s = take (length p) s @ drop (length p) s" by simp
  ultimately have "s = p @ drop (length p) s" by (simp add: HasPrefix_def)
  then show "\<exists>r. s = p @ r" by blast
qed auto

lemma Contains_iff: "Contains s sub \<longleftrightarrow> (\<exists>l r. s = l @ sub @ r)"
proof (induction s sub rule: Contains.induct)
  case (2 c s sub)
  have "(\<exists>l r. c # s = l @ sub @ r) \<longleftrightarrow>
      (\<exists>r. c # s = sub @ r) \<or> (\<exists>l r. s = l @ sub @ r)"
    by (auto simp: Cons_eq_append_conv)
  with 2 show ?case by (simp add: HasPrefix_iff)
qed auto

lemma TrimPrefix_append [simp]: "TrimPrefix (p @ s) p = s"
  by (simp add: TrimPrefix_def)

lemma SplitChar_nonempty [simp]: "SplitChar s c \<noteq> []"
  by (induction s) (auto split: list.splits)

text \<open>Joining the pieces of a split restores the string.\<close>

lemma Join_Split: "JoinStrings (SplitChar s c) [c] = s"
proof (induction s)
  case (Cons x xs)
  obtain y ys where sp: "SplitChar xs c = y # ys"
    by (cases "SplitChar xs c") auto
  with Cons show ?case by (cases ys) auto
qed simp

section \<open>Integers\<close>

definition wrap64 :: "int \<Rightarrow> int" where
  "wrap64 x = signed_take_bit 63 x"

definition go_rem :: "int \<Rightarrow> int \<Rightarrow> int" where
  "go_rem a b = sgn a * (\<bar>a\<bar> mod \<bar>b\<bar>)"

definition go_div :: "int \<Rightarrow> int \<Rightarrow> int" where
  "go_div a b = sgn a * sgn b * (\<bar>a\<bar> div \<bar>b\<bar>)"

lemma wrap64_id: "- (2 ^ 63) \<le> x \<Longrightarrow> x < 2 ^ 63 \<Longrightarrow> wrap64 x = x"
  by (simp add: wrap64_def signed_take_bit_int_eq_self_iff)

lemma go_rem_nonneg: "0 \<le> a \<Longrightarrow> 0 < b \<Longrightarrow> go_rem a b = a mod b"
  by (cases "a = 0") (auto simp: go_rem_def)

lemma go_div_nonneg: "0 \<le> a \<Longrightarrow> 0 < b \<Longrightarrow> go_div a b = a div b"
  by (cases "a = 0") (auto simp: go_div_def)

section \<open>Pointers\<close>

text \<open>A nil-able pointer is an option; \<open>ptr.Deref\<close> reads it with a default.\<close>

definition Deref :: "'a option \<Rightarrow> 'a \<Rightarrow> 'a" where
  "Deref p d = (case p of None \<Rightarrow> d | Some v \<Rightarrow> v)"

lemma Deref_simps [simp]: "Deref None d = d" "Deref (Some v) d = v"
  by (simp_all add: Deref_def)

section \<open>Traced programs\<close>

record 'act traced =
  tr :: "'act list"

definition emit :: "'act \<Rightarrow> (('act, 'b) traced_scheme, unit) state" where
  "emit a = State (\<lambda>s. ((), s\<lparr>tr := tr s @ [a]\<rparr>))"

text \<open>\<open>ask q a\<close> performs action \<open>a\<close>; its answer is \<open>q\<close> of the history at that point.\<close>

definition ask :: "('act list \<Rightarrow> 'r) \<Rightarrow> 'act \<Rightarrow> (('act, 'b) traced_scheme, 'r) state" where
  "ask q a = State (\<lambda>s. (q (tr s), s\<lparr>tr := tr s @ [a]\<rparr>))"

definition catch :: "('s, 'a res) state \<Rightarrow> (go_error \<Rightarrow> ('s, 'b) state) \<Rightarrow>
    ('a \<Rightarrow> ('s, 'b) state) \<Rightarrow> ('s, 'b) state" where
  "catch m h k = do { r \<leftarrow> m; case r of Inl e \<Rightarrow> h e | Inr v \<Rightarrow> k v }"

text \<open>A call whose only result is an error that may be nil.\<close>

definition catch_err :: "('s, go_error option) state \<Rightarrow> (go_error \<Rightarrow> ('s, 'b) state) \<Rightarrow>
    ('s, 'b) state \<Rightarrow> ('s, 'b) state" where
  "catch_err m h k = do { r \<leftarrow> m; case r of Some e \<Rightarrow> h e | None \<Rightarrow> k }"

abbreviation ret :: "'a \<Rightarrow> ('s, 'a) state" where
  "ret x \<equiv> State_Monad.return x"

lemma run_emit [simp]: "run_state (emit a) s = ((), s\<lparr>tr := tr s @ [a]\<rparr>)"
  by (simp add: emit_def)

lemma run_ask [simp]: "run_state (ask q a) s = (q (tr s), s\<lparr>tr := tr s @ [a]\<rparr>)"
  by (simp add: ask_def)

lemma run_catch: "run_state (catch m h k) s =
    (case run_state m s of (Inl e, s') \<Rightarrow> run_state (h e) s' | (Inr v, s') \<Rightarrow> run_state (k v) s')"
  by (auto simp: catch_def split: prod.splits sum.splits)

lemma run_catch_err: "run_state (catch_err m h k) s =
    (case run_state m s of (Some e, s') \<Rightarrow> run_state (h e) s' | (None, s') \<Rightarrow> run_state k s')"
  by (auto simp: catch_err_def split: prod.splits option.splits)

subsection \<open>Program logic\<close>

definition guarded :: "('act list \<Rightarrow> 'act \<Rightarrow> bool) \<Rightarrow> ('act list \<Rightarrow> bool) \<Rightarrow>
    (('act, 'b) traced_scheme, 'a) state \<Rightarrow> ('a \<Rightarrow> 'act list \<Rightarrow> bool) \<Rightarrow> bool" where
  "guarded G P m Q \<longleftrightarrow> (\<forall>s. P (tr s) \<longrightarrow>
     (\<exists>es. tr (snd (run_state m s)) = tr s @ es
         \<and> (\<forall>pre a post. es = pre @ a # post \<longrightarrow> G (tr s @ pre) a)
         \<and> Q (fst (run_state m s)) (tr (snd (run_state m s)))))"

definition only :: "'act set \<Rightarrow> (('act, 'b) traced_scheme, 'a) state \<Rightarrow> bool" where
  "only A m \<longleftrightarrow> guarded (\<lambda>_ a. a \<in> A) (\<lambda>_. True) m (\<lambda>_ _. True)"

named_theorems only_intros \<open>decomposition of a traced program\<close>

lemma guarded_conseq:
  fixes m :: "(('act, 'b) traced_scheme, 'x) state"
  assumes "guarded G' P' m Q'"
    and "\<And>h. P h \<Longrightarrow> P' h" and "\<And>h a. G' h a \<Longrightarrow> G h a" and "\<And>x h. Q' x h \<Longrightarrow> Q x h"
  shows "guarded G P m Q"
  unfolding guarded_def
proof (intro allI impI)
  fix s :: "('act, 'b) traced_scheme"
  assume "P (tr s)"
  then have "P' (tr s)" by (rule assms(2))
  with assms(1) obtain es where "tr (snd (run_state m s)) = tr s @ es"
      "\<forall>pre a post. es = pre @ a # post \<longrightarrow> G' (tr s @ pre) a"
      "Q' (fst (run_state m s)) (tr (snd (run_state m s)))"
    unfolding guarded_def by blast
  with assms(3,4) show "\<exists>es. tr (snd (run_state m s)) = tr s @ es
      \<and> (\<forall>pre a post. es = pre @ a # post \<longrightarrow> G (tr s @ pre) a)
      \<and> Q (fst (run_state m s)) (tr (snd (run_state m s)))"
    by (intro exI[of _ es] conjI allI impI) simp_all
qed

lemma guarded_return: "(\<And>h. P h \<Longrightarrow> Q x h) \<Longrightarrow> guarded G P (ret x) Q"
  by (simp add: guarded_def)

lemma guarded_emit:
  "(\<And>h. P h \<Longrightarrow> G h a) \<Longrightarrow> (\<And>h. P h \<Longrightarrow> Q () (h @ [a])) \<Longrightarrow> guarded G P (emit a) Q"
  by (auto simp: guarded_def Cons_eq_append_conv)

lemma guarded_ask:
  "(\<And>h. P h \<Longrightarrow> G h a) \<Longrightarrow> (\<And>h. P h \<Longrightarrow> Q (q h) (h @ [a])) \<Longrightarrow> guarded G P (ask q a) Q"
  by (auto simp: guarded_def Cons_eq_append_conv)

lemma guarded_bind:
  fixes m :: "(('act, 'b) traced_scheme, 'x) state"
  assumes m: "guarded G P m R" and f: "\<And>x. guarded G (R x) (f x) Q"
  shows "guarded G P (State_Monad.bind m f) Q"
  unfolding guarded_def
proof (intro allI impI)
  fix s :: "('act, 'b) traced_scheme"
  assume P: "P (tr s)"
  obtain x s' where ms: "run_state m s = (x, s')" by (cases "run_state m s") auto
  from m P have "\<exists>es. tr s' = tr s @ es
      \<and> (\<forall>pre a post. es = pre @ a # post \<longrightarrow> G (tr s @ pre) a) \<and> R x (tr s')"
    unfolding guarded_def by (auto dest: spec[of _ s] simp: ms)
  then obtain es where es: "tr s' = tr s @ es"
      "\<And>pre a post. es = pre @ a # post \<Longrightarrow> G (tr s @ pre) a" "R x (tr s')"
    by blast
  obtain y s'' where fs: "run_state (f x) s' = (y, s'')" by (cases "run_state (f x) s'") auto
  from f[of x] es(3) have "\<exists>fs'. tr s'' = tr s' @ fs'
      \<and> (\<forall>pre a post. fs' = pre @ a # post \<longrightarrow> G (tr s' @ pre) a) \<and> Q y (tr s'')"
    unfolding guarded_def by (auto dest: spec[of _ s'] simp: fs)
  then obtain fs' where fs': "tr s'' = tr s' @ fs'"
      "\<And>pre a post. fs' = pre @ a # post \<Longrightarrow> G (tr s' @ pre) a" "Q y (tr s'')"
    by blast
  have "G (tr s @ pre) a" if "es @ fs' = pre @ a # post" for pre a post
  proof -
    from that consider (l) us where "es = pre @ a # us" | (r) us where "pre = es @ us" "fs' = us @ a # post"
      by (auto simp: append_eq_append_conv2 append_eq_Cons_conv)
    then show ?thesis
    proof cases
      case l
      then show ?thesis by (rule es(2))
    next
      case r
      from fs'(2)[OF r(2)] show ?thesis by (simp add: es(1) r(1))
    qed
  qed
  moreover have "run_state (State_Monad.bind m f) s = (y, s'')" by (simp add: ms fs)
  moreover have "tr s'' = tr s @ (es @ fs')" by (simp add: es(1) fs'(1))
  ultimately show "\<exists>es. tr (snd (run_state (State_Monad.bind m f) s)) = tr s @ es
      \<and> (\<forall>pre a post. es = pre @ a # post \<longrightarrow> G (tr s @ pre) a)
      \<and> Q (fst (run_state (State_Monad.bind m f) s)) (tr (snd (run_state (State_Monad.bind m f) s)))"
    using fs'(3) by (metis fst_conv snd_conv)
qed

lemma guarded_catch:
  assumes "guarded G P m R" and "\<And>e. guarded G (R (Inl e)) (h e) Q"
    and "\<And>v. guarded G (R (Inr v)) (k v) Q"
  shows "guarded G P (catch m h k) Q"
  unfolding catch_def
  by (rule guarded_bind[OF assms(1)]) (use assms(2,3) in \<open>auto split: sum.split\<close>)

lemma guarded_catch_err:
  assumes "guarded G P m R" and "\<And>e. guarded G (R (Some e)) (h e) Q" and "guarded G (R None) k Q"
  shows "guarded G P (catch_err m h k) Q"
  unfolding catch_err_def
  by (rule guarded_bind[OF assms(1)]) (use assms(2,3) in \<open>auto split: option.split\<close>)

text \<open>Facts about the past stay true.\<close>

definition stable :: "('act list \<Rightarrow> bool) \<Rightarrow> bool" where
  "stable R \<longleftrightarrow> (\<forall>h es. R h \<longrightarrow> R (h @ es))"

lemma guarded_frame:
  fixes m :: "(('act, 'b) traced_scheme, 'x) state"
  assumes "guarded G P m Q" and "stable R"
  shows "guarded G (\<lambda>h. P h \<and> R h) m (\<lambda>x h. Q x h \<and> R h)"
  unfolding guarded_def
proof (intro allI impI)
  fix s :: "('act, 'b) traced_scheme"
  assume P: "P (tr s) \<and> R (tr s)"
  with assms(1) obtain es where es: "tr (snd (run_state m s)) = tr s @ es"
      "\<forall>pre a post. es = pre @ a # post \<longrightarrow> G (tr s @ pre) a"
      "Q (fst (run_state m s)) (tr (snd (run_state m s)))"
    unfolding guarded_def by blast
  moreover have "R (tr s @ es)" using P assms(2) by (simp add: stable_def)
  ultimately show "\<exists>es. tr (snd (run_state m s)) = tr s @ es
      \<and> (\<forall>pre a post. es = pre @ a # post \<longrightarrow> G (tr s @ pre) a)
      \<and> (Q (fst (run_state m s)) (tr (snd (run_state m s))) \<and> R (tr (snd (run_state m s))))"
    by auto
qed

lemma only_return [only_intros]: "only A (ret x)"
  by (simp add: only_def guarded_return)

lemma only_emit [only_intros]: "a \<in> A \<Longrightarrow> only A (emit a)"
  by (simp add: only_def guarded_emit)

lemma only_ask [only_intros]: "a \<in> A \<Longrightarrow> only A (ask q a)"
  by (simp add: only_def guarded_ask)

lemma only_bind [only_intros]:
  "only A m \<Longrightarrow> (\<And>x. only A (f x)) \<Longrightarrow> only A (State_Monad.bind m f)"
  unfolding only_def by (rule guarded_bind)

lemma only_catch [only_intros]:
  "only A m \<Longrightarrow> (\<And>e. only A (h e)) \<Longrightarrow> (\<And>v. only A (k v)) \<Longrightarrow> only A (catch m h k)"
  unfolding only_def by (rule guarded_catch)

lemma only_catch_err [only_intros]:
  "only A m \<Longrightarrow> (\<And>e. only A (h e)) \<Longrightarrow> only A k \<Longrightarrow> only A (catch_err m h k)"
  unfolding only_def by (rule guarded_catch_err)

lemma only_if [only_intros]:
  "(b \<Longrightarrow> only A m) \<Longrightarrow> (\<not> b \<Longrightarrow> only A n) \<Longrightarrow> only A (if b then m else n)"
  by simp

lemma only_option [only_intros]:
  "(x = None \<Longrightarrow> only A m) \<Longrightarrow> (\<And>v. x = Some v \<Longrightarrow> only A (f v)) \<Longrightarrow>
   only A (case x of None \<Rightarrow> m | Some v \<Rightarrow> f v)"
  by (simp split: option.split)

lemma only_sum [only_intros]:
  "(\<And>e. x = Inl e \<Longrightarrow> only A (f e)) \<Longrightarrow> (\<And>v. x = Inr v \<Longrightarrow> only A (g v)) \<Longrightarrow>
   only A (case x of Inl e \<Rightarrow> f e | Inr v \<Rightarrow> g v)"
  by (simp split: sum.split)

lemma only_prod [only_intros]:
  "(\<And>a b. x = (a, b) \<Longrightarrow> only A (f a b)) \<Longrightarrow> only A (case x of (a, b) \<Rightarrow> f a b)"
  by (simp split: prod.split)

lemma only_let [only_intros]: "only A (f x) \<Longrightarrow> only A (let y = x in f y)"
  by simp

lemma only_mono: "only A m \<Longrightarrow> A \<subseteq> B \<Longrightarrow> only B m"
  unfolding only_def by (erule guarded_conseq) auto

text \<open>A program whose actions are all allowed under a stable fact keeps the fact.\<close>

lemma guarded_only:
  fixes m :: "(('act, 'b) traced_scheme, 'x) state"
  assumes "only A m" and "stable P" and "\<And>h a. P h \<Longrightarrow> a \<in> A \<Longrightarrow> G h a"
  shows "guarded G P m (\<lambda>_ h. P h)"
  unfolding guarded_def
proof (intro allI impI)
  fix s :: "('act, 'b) traced_scheme"
  assume P: "P (tr s)"
  from assms(1) obtain es where es: "tr (snd (run_state m s)) = tr s @ es"
      "\<forall>pre a post. es = pre @ a # post \<longrightarrow> a \<in> A"
    unfolding only_def guarded_def by blast
  have keep: "P (tr s @ xs)" for xs using P assms(2) by (simp add: stable_def)
  have "G (tr s @ pre) a" if "es = pre @ a # post" for pre a post
    by (rule assms(3)[OF keep]) (use es(2) that in blast)
  with es(1) keep show "\<exists>es. tr (snd (run_state m s)) = tr s @ es
      \<and> (\<forall>pre a post. es = pre @ a # post \<longrightarrow> G (tr s @ pre) a)
      \<and> P (tr (snd (run_state m s)))"
    by (intro exI[of _ es] conjI allI impI) simp_all
qed

lemma stable_const [simp]: "stable (\<lambda>_. b)"
  by (simp add: stable_def)

lemma stable_conj [intro]: "stable P \<Longrightarrow> stable Q \<Longrightarrow> stable (\<lambda>h. P h \<and> Q h)"
  by (simp add: stable_def)

lemma stable_disj [intro]: "stable P \<Longrightarrow> stable Q \<Longrightarrow> stable (\<lambda>h. P h \<or> Q h)"
  by (auto simp: stable_def)

lemma stable_mem [simp, intro]: "stable (\<lambda>h. a \<in> set h)"
  by (simp add: stable_def)

text \<open>What \<open>only\<close> says of a run: the trace grows by actions of the set.\<close>

lemma only_run:
  fixes s :: "('act, 'b) traced_scheme"
  assumes "only A m"
  obtains es where "tr (snd (run_state m s)) = tr s @ es" and "set es \<subseteq> A"
proof -
  from assms obtain es where es: "tr (snd (run_state m s)) = tr s @ es"
      "\<forall>pre a post. es = pre @ a # post \<longrightarrow> a \<in> A"
    unfolding only_def guarded_def by blast
  have "set es \<subseteq> A"
  proof
    fix a assume "a \<in> set es"
    then obtain pre post where "es = pre @ a # post" by (auto dest: split_list)
    with es(2) show "a \<in> A" by blast
  qed
  with es(1) show ?thesis by (rule that)
qed

end
