(* ===== verification/API_Types.thy ===== *)
theory API_Types
  imports LVMS_Prelude
begin

text \<open>
  The custom resources of \<open>api/v1alpha1\<close>: \<open>LVMCluster\<close> with its device classes,
  \<open>LVMVolumeGroup\<close> and \<open>LVMVolumeGroupNodeStatus\<close>, and the helper methods on them.

  A typed Go string with named constants is a datatype with one constructor per constant and one
  for every other string.  A pointer field is an option.  A Go map that is only looked up and
  iterated is an association list (iteration order is the list's).  The metadata fields are those
  the code reads: name, namespace, UID, finalizers, annotations, owner references (with their
  controller flag, false when nil) and whether the deletion timestamp is set.  A \<open>resource.Quantity\<close> is its amount in bytes (what \<open>Value\<close> and
  \<open>Cmp\<close> observe) together with the rest of its representation, which only \<open>reflect.DeepEqual\<close>
  sees.  Node selectors and tolerations are Kubernetes types of which the code only passes the
  terms on.
\<close>

section \<open>Kubernetes types\<close>

record Quantity =
  q_bytes :: int
  q_repr :: string

abbreviation Value :: "Quantity \<Rightarrow> int" where
  "Value q \<equiv> q_bytes q"

definition Cmp :: "Quantity \<Rightarrow> Quantity \<Rightarrow> int" where
  "Cmp a b = sgn (q_bytes a - q_bytes b)"

datatype NodeSelectorTerm = NodeSelectorTerm string

record NodeSelector =
  NodeSelectorTerms :: "NodeSelectorTerm list"

datatype Toleration = Toleration string

record Taint =
  taint_Key :: string
  taint_Rest :: string

record Node =
  node_Name :: string
  node_Labels :: "(string \<times> string) list"
  node_Annotations :: "(string \<times> string) list"
  node_Taints :: "Taint list"

record OwnerReference =
  or_APIVersion :: string
  or_Kind :: string
  or_Name :: string
  or_UID :: string
  or_Controller :: bool

section \<open>LVMCluster\<close>

datatype MetadataSizePolicy =
    MetadataSizePolicyHost | MetadataSizePolicyStatic | MetadataSizePolicyOther string

datatype ChunkSizeCalculationPolicy =
    ChunkSizeCalculationPolicyHost | ChunkSizeCalculationPolicyStatic
  | ChunkSizeCalculationPolicyOther string

record ThinPoolConfig =
  tpc_Name :: string
  tpc_SizePercent :: int
  tpc_OverprovisionRatio :: int
  tpc_ChunkSizeCalculationPolicy :: ChunkSizeCalculationPolicy
  tpc_ChunkSize :: "Quantity option"
  tpc_MetadataSize :: "Quantity option"
  tpc_MetadataSizeCalculationPolicy :: MetadataSizePolicy

definition ThinPoolMetadataSizeMinimum :: Quantity where
  "ThinPoolMetadataSizeMinimum = \<lparr>q_bytes = 2 * 1024 ^ 2, q_repr = ''2Mi''\<rparr>"

definition ThinPoolMetadataSizeMaximum :: Quantity where
  "ThinPoolMetadataSizeMaximum = \<lparr>q_bytes = 16 * 1024 ^ 3, q_repr = ''16Gi''\<rparr>"

definition ThinPoolMetadataSizeDefault :: Quantity where
  "ThinPoolMetadataSizeDefault = \<lparr>q_bytes = 1024 ^ 3, q_repr = ''1Gi''\<rparr>"

definition ChunkSizeMinimum :: Quantity where
  "ChunkSizeMinimum = \<lparr>q_bytes = 64 * 1024, q_repr = ''64Ki''\<rparr>"

definition ChunkSizeDefault :: Quantity where
  "ChunkSizeDefault = \<lparr>q_bytes = 128 * 1024, q_repr = ''128Ki''\<rparr>"

definition ChunkSizeMaximum :: Quantity where
  "ChunkSizeMaximum = \<lparr>q_bytes = 1024 ^ 3, q_repr = ''1Gi''\<rparr>"

datatype DeviceFilesystemType =
    FilesystemTypeExt4 | FilesystemTypeXFS | FilesystemTypeOther string

datatype RAIDType =
    RAIDTypeRAID1 | RAIDTypeRAID4 | RAIDTypeRAID5 | RAIDTypeRAID6 | RAIDTypeRAID10
  | RAIDTypeOther string

fun RAIDType_string :: "RAIDType \<Rightarrow> string" where
  "RAIDType_string RAIDTypeRAID1 = ''raid1''"
| "RAIDType_string RAIDTypeRAID4 = ''raid4''"
| "RAIDType_string RAIDTypeRAID5 = ''raid5''"
| "RAIDType_string RAIDTypeRAID6 = ''raid6''"
| "RAIDType_string RAIDTypeRAID10 = ''raid10''"
| "RAIDType_string (RAIDTypeOther s) = s"

text \<open>Sums and products of Go's \<open>int\<close> wrap around at 64 bits.\<close>

fun MinDeviceCount :: "RAIDType \<Rightarrow> int \<Rightarrow> int option \<Rightarrow> int" where
  "MinDeviceCount RAIDTypeRAID1 mirrors stripes = wrap64 (mirrors + 1)"
| "MinDeviceCount RAIDTypeRAID4 mirrors stripes = wrap64 (Deref stripes 2 + 1)"
| "MinDeviceCount RAIDTypeRAID5 mirrors stripes = wrap64 (Deref stripes 2 + 1)"
| "MinDeviceCount RAIDTypeRAID6 mirrors stripes = wrap64 (Deref stripes 3 + 2)"
| "MinDeviceCount RAIDTypeRAID10 mirrors stripes = wrap64 (2 * wrap64 (mirrors + 1))"
| "MinDeviceCount (RAIDTypeOther s) mirrors stripes = 0"

record RAIDConfig =
  rc_Type :: RAIDType
  rc_Mirrors :: "int option"
  rc_Stripes :: "int option"
  rc_StripeSize :: "Quantity option"

definition EffectiveMirrors :: "RAIDConfig \<Rightarrow> int" where
  "EffectiveMirrors r = (case rc_Mirrors r of Some m \<Rightarrow> m | None \<Rightarrow> 1)"

type_synonym DevicePath = string

definition Unresolved :: "DevicePath \<Rightarrow> string" where
  "Unresolved d = d"

record DeviceSelector =
  ds_Paths :: "DevicePath list"
  ds_OptionalPaths :: "DevicePath list"
  ds_ForceWipeDevicesAndDestroyAllData :: "bool option"

datatype DeviceDiscoveryPolicySpec =
    DeviceDiscoveryPolicyStatic | DeviceDiscoveryPolicyDynamic | DeviceDiscoveryPolicyOther string

datatype ReclaimPolicy =
    PersistentVolumeReclaimDelete | PersistentVolumeReclaimRetain | PersistentVolumeReclaimOther string

datatype VolumeBindingMode =
    VolumeBindingWaitForFirstConsumer | VolumeBindingImmediate | VolumeBindingOther string

record StorageClassOptions =
  sco_ReclaimPolicy :: "ReclaimPolicy option"
  sco_VolumeBindingMode :: "VolumeBindingMode option"
  sco_AdditionalParameters :: "(string \<times> string) list"
  sco_AdditionalLabels :: "(string \<times> string) list"

record DeviceClass =
  dc_Name :: string
  dc_DeviceSelector :: "DeviceSelector option"
  dc_NodeSelector :: "NodeSelector option"
  dc_ThinPoolConfig :: "ThinPoolConfig option"
  dc_RAIDConfig :: "RAIDConfig option"
  dc_Default :: bool
  dc_FilesystemType :: DeviceFilesystemType
  dc_DeviceDiscoveryPolicy :: "DeviceDiscoveryPolicySpec option"
  dc_StorageClassOptions :: "StorageClassOptions option"

definition HasExplicitPaths :: "DeviceClass \<Rightarrow> bool" where
  "HasExplicitPaths dc \<longleftrightarrow> (case dc_DeviceSelector dc of None \<Rightarrow> False
     | Some ds \<Rightarrow> length (ds_Paths ds) > 0 \<or> length (ds_OptionalPaths ds) > 0)"

section \<open>Node status\<close>

datatype DeviceDiscoveryPolicyStatus =
    DeviceDiscoveryPolicyUnset | DeviceDiscoveryPolicyPreconfigured
  | DeviceDiscoveryPolicyRuntimeDynamic | DeviceDiscoveryPolicyRuntimeStatic

datatype VGStatusType =
    VGStatusProgressing | VGStatusReady | VGStatusFailed | VGStatusDegraded | VGStatusOther string

datatype RAIDHealthStatus =
    RAIDHealthStatusHealthy | RAIDHealthStatusDegraded | RAIDHealthStatusFailed

record RAIDLVHealth =
  rlh_Name :: string
  rlh_RAIDType :: RAIDType
  rlh_SyncPercent :: int
  rlh_HealthStatus :: string

record RAIDStatus =
  rs_Status :: RAIDHealthStatus
  rs_MemberCount :: nat
  rs_DegradedMemberCount :: nat
  rs_MinSyncPercent :: "int option"
  rs_LVHealth :: "RAIDLVHealth list"

record ExcludedDevice =
  ed_Name :: string
  ed_Reasons :: "string list"

record VGStatus =
  vs_Name :: string
  vs_Status :: VGStatusType
  vs_Reason :: string
  vs_Devices :: "string list"
  vs_Excluded :: "ExcludedDevice list"
  vs_DeviceDiscoveryPolicy :: DeviceDiscoveryPolicyStatus
  vs_RAIDStatus :: "RAIDStatus option"

record LVMVolumeGroupNodeStatus =
  ns_Name :: string
  ns_Namespace :: string
  ns_OwnerReferences :: "OwnerReference list"
  ns_Finalizers :: "string list"
  ns_Deleted :: bool
  ns_LVMVGStatus :: "VGStatus list"

section \<open>LVMVolumeGroup\<close>

record LVMVolumeGroupSpec =
  vgs_DeviceSelector :: "DeviceSelector option"
  vgs_NodeSelector :: "NodeSelector option"
  vgs_ThinPoolConfig :: "ThinPoolConfig option"
  vgs_RAIDConfig :: "RAIDConfig option"
  vgs_Default :: bool
  vgs_DeviceDiscoveryPolicy :: "DeviceDiscoveryPolicySpec option"

record LVMVolumeGroup =
  vg_Name :: string
  vg_Namespace :: string
  vg_UID :: string
  vg_Finalizers :: "string list"
  vg_Annotations :: "(string \<times> string) list"
  vg_OwnerReferences :: "OwnerReference list"
  vg_Deleted :: bool
  vg_Spec :: LVMVolumeGroupSpec

section \<open>LVMCluster status\<close>

datatype LVMStateType =
    LVMStatusProgressing | LVMStatusReady | LVMStatusFailed | LVMStatusDegraded | LVMStatusUnknown

datatype ConditionStatus = ConditionTrue | ConditionFalse | ConditionUnknown

record Condition =
  cond_Type :: string
  cond_Status :: ConditionStatus
  cond_Reason :: string
  cond_Message :: string

record NodeStatus =
  nst_Node :: string
  nst_VGStatus :: VGStatus

record DeviceClassStatus =
  dcs_Name :: string
  dcs_NodeStatus :: "NodeStatus list"

record LVMClusterStatus =
  lcs_Ready :: bool
  lcs_State :: LVMStateType
  lcs_Conditions :: "Condition list"
  lcs_DeviceClassStatuses :: "DeviceClassStatus list"

record LVMCluster =
  lc_Name :: string
  lc_Namespace :: string
  lc_UID :: string
  lc_Finalizers :: "string list"
  lc_Deleted :: bool
  lc_Tolerations :: "Toleration list"
  lc_DeviceClasses :: "DeviceClass list"
  lc_Status :: LVMClusterStatus

section \<open>Bounds of the device count\<close>

text \<open>Without overflow the device count is the arithmetic the comment of the method states.\<close>

lemma MinDeviceCount_no_overflow:
  assumes "0 \<le> mirrors" "mirrors < 2 ^ 61" "0 \<le> Deref stripes 2" "Deref stripes 2 < 2 ^ 61"
    "Deref stripes 3 < 2 ^ 61" "0 \<le> Deref stripes 3"
  shows "MinDeviceCount t mirrors stripes = (case t of
      RAIDTypeRAID1 \<Rightarrow> mirrors + 1
    | RAIDTypeRAID4 \<Rightarrow> Deref stripes 2 + 1 | RAIDTypeRAID5 \<Rightarrow> Deref stripes 2 + 1
    | RAIDTypeRAID6 \<Rightarrow> Deref stripes 3 + 2
    | RAIDTypeRAID10 \<Rightarrow> 2 * (mirrors + 1) | RAIDTypeOther s \<Rightarrow> 0)"
  using assms by (cases t) (simp_all add: wrap64_id)

lemma Cmp_less: "Cmp a b < 0 \<longleftrightarrow> q_bytes a < q_bytes b"
  by (simp add: Cmp_def sgn_if)

lemma Cmp_greater: "0 < Cmp a b \<longleftrightarrow> q_bytes b < q_bytes a"
  by (simp add: Cmp_def sgn_if)

end
