(* ===== verification/Constants_Labels.thy ===== *)
theory Constants_Labels
  imports API_Types "HOL-Library.AList"
begin

text \<open>
  The constants of \<open>internal/controllers/constants\<close> the modelled code refers to, the lookup of
  the operator namespace (\<open>internal/cluster/namespace.go\<close>) and the ownership labels of
  \<open>internal/controllers/labels/managed.go\<close>.

  A string map (\<open>map[string]string\<close>) is an association list written by \<open>AList.update\<close> and read
  by \<open>map_of\<close>; \<open>go_index\<close> is Go's indexing, which yields the zero value for a missing key.
\<close>

section \<open>Constants\<close>

definition TopolvmCSIDriverName :: string where
  "TopolvmCSIDriverName = ''topolvm.io''"

definition DeviceClassKey :: string where
  "DeviceClassKey = ''topolvm.io/device-class''"

definition FsTypeKey :: string where
  "FsTypeKey = ''csi.storage.k8s.io/fstype''"

definition DevicesWipedAnnotationPrefix :: string where
  "DevicesWipedAnnotationPrefix = ''wiped.devices.lvms.openshift.io/''"

definition AppKubernetesPartOfLabel :: string where
  "AppKubernetesPartOfLabel = ''app.kubernetes.io/part-of''"

definition AppKubernetesNameLabel :: string where
  "AppKubernetesNameLabel = ''app.kubernetes.io/name''"

definition AppKubernetesManagedByLabel :: string where
  "AppKubernetesManagedByLabel = ''app.kubernetes.io/managed-by''"

definition AppKubernetesComponentLabel :: string where
  "AppKubernetesComponentLabel = ''app.kubernetes.io/component''"

definition StorageClassPrefix :: string where
  "StorageClassPrefix = ''lvms-''"

definition DeleteProtectionFinalizer :: string where
  "DeleteProtectionFinalizer = ''delete-protection.lvm.openshift.io''"

definition ReservedStorageClassLabelKeys :: "string list" where
  "ReservedStorageClassLabelKeys =
     [AppKubernetesManagedByLabel, AppKubernetesPartOfLabel, AppKubernetesNameLabel,
      AppKubernetesComponentLabel]"

section \<open>Operator namespace\<close>

definition OperatorNamespaceEnvVar :: string where
  "OperatorNamespaceEnvVar = ''NAMESPACE''"

text \<open>The process environment is the argument: \<open>os.LookupEnv\<close>.\<close>

definition GetOperatorNamespace :: "(string \<Rightarrow> string option) \<Rightarrow> string res" where
  "GetOperatorNamespace LookupEnv = (case LookupEnv OperatorNamespaceEnvVar of
     None \<Rightarrow> Inl (Errorf ''%s not found'' [S OperatorNamespaceEnvVar])
   | Some ns \<Rightarrow> Inr ns)"

section \<open>Ownership labels\<close>

definition OwnedByPrefix :: string where "OwnedByPrefix = ''owned-by.topolvm.io''"
definition OwnedByName :: string where "OwnedByName = OwnedByPrefix @ ''/name''"
definition OwnedByNamespace :: string where "OwnedByNamespace = OwnedByPrefix @ ''/namespace''"
definition OwnedByUID :: string where "OwnedByUID = OwnedByPrefix @ ''/uid''"
definition OwnedByGroup :: string where "OwnedByGroup = OwnedByPrefix @ ''/group''"
definition OwnedByVersion :: string where "OwnedByVersion = OwnedByPrefix @ ''/version''"
definition OwnedByKind :: string where "OwnedByKind = OwnedByPrefix @ ''/kind''"

lemmas owned_by_defs = OwnedByName_def OwnedByNamespace_def OwnedByUID_def OwnedByGroup_def
  OwnedByVersion_def OwnedByKind_def OwnedByPrefix_def

type_synonym labels = "(string \<times> string) list"

definition go_index :: "labels \<Rightarrow> string \<Rightarrow> string" where
  "go_index m k = (case map_of m k of None \<Rightarrow> [] | Some v \<Rightarrow> v)"

text \<open>What the label functions read of the owner, and its group, version and kind.\<close>

record owner =
  ow_Name :: string
  ow_Namespace :: string
  ow_UID :: string

record gvk =
  gvk_Group :: string
  gvk_Version :: string
  gvk_Kind :: string

text \<open>The result of \<open>apiutil.GVKForObject\<close> is an argument; \<open>Inl\<close> is its error.\<close>

definition SetManagedLabels :: "gvk res \<Rightarrow> labels \<Rightarrow> owner \<Rightarrow> labels" where
  "SetManagedLabels g lbls0 ow =
     (let lbls = AList.update OwnedByUID (ow_UID ow)
            (AList.update OwnedByNamespace (ow_Namespace ow)
              (AList.update OwnedByName (ow_Name ow) lbls0))
      in case g of Inl _ \<Rightarrow> lbls
         | Inr k \<Rightarrow> AList.update OwnedByKind (gvk_Kind k)
             (AList.update OwnedByVersion (gvk_Version k)
               (AList.update OwnedByGroup (gvk_Group k) lbls)))"

definition MatchesManagedLabels :: "gvk res \<Rightarrow> labels option \<Rightarrow> owner \<Rightarrow> bool" where
  "MatchesManagedLabels g ls ow = (case ls of
     None \<Rightarrow> False
   | Some lbls \<Rightarrow>
       let baseMatch = (go_index lbls OwnedByName = ow_Name ow
             \<and> go_index lbls OwnedByNamespace = ow_Namespace ow
             \<and> go_index lbls OwnedByUID = ow_UID ow)
       in if \<not> baseMatch then False
          else (case g of
              Inl _ \<Rightarrow> False
            | Inr k \<Rightarrow> go_index lbls OwnedByGroup = gvk_Group k
                \<and> go_index lbls OwnedByVersion = gvk_Version k
                \<and> go_index lbls OwnedByKind = gvk_Kind k))"

lemma go_index_update [simp]:
  "go_index (AList.update k v m) k' = (if k' = k then v else go_index m k')"
  by (simp add: go_index_def update_conv')

text \<open>Labels set for an owner are recognised for that owner and only for it.\<close>

lemma Matches_SetManagedLabels:
  "MatchesManagedLabels (Inr k) (Some (SetManagedLabels (Inr k) lbls ow)) ow' \<longleftrightarrow>
     ow_Name ow = ow_Name ow' \<and> ow_Namespace ow = ow_Namespace ow' \<and> ow_UID ow = ow_UID ow'"
  by (simp add: MatchesManagedLabels_def SetManagedLabels_def owned_by_defs)

text \<open>Labels that are not ownership labels are kept.\<close>

lemma SetManagedLabels_keeps:
  assumes "\<not> HasPrefix key OwnedByPrefix"
  shows "go_index (SetManagedLabels g lbls ow) key = go_index lbls key"
proof -
  have "key \<noteq> OwnedByPrefix @ t" for t using assms by auto
  then have "key \<notin> {OwnedByName, OwnedByNamespace, OwnedByUID, OwnedByGroup, OwnedByVersion, OwnedByKind}"
    unfolding OwnedByName_def OwnedByNamespace_def OwnedByUID_def OwnedByGroup_def
      OwnedByVersion_def OwnedByKind_def by blast
  then show ?thesis by (simp add: SetManagedLabels_def Let_def split: sum.split)
qed

end
