(* ===== verification/Webhook.thy ===== *)
theory Webhook
  imports Constants_Labels
begin

unbundle bit_operations_syntax

text \<open>
  The admission webhook of \<open>api/v1alpha1/lvmcluster_webhook.go\<close>: the defaulter, the validators
  of creation, update and deletion, and every check they are made of.

  A validator returns its warnings and an error that may be nil.  A warning is the format string
  with its arguments.  The checks that write the default metadata size through a pointer return
  the device classes after the write.  The Kubernetes client, the process environment and the
  validation functions of \<open>k8s.io/apimachinery\<close> are the record \<open>webhook_env\<close>, an argument of
  the definitions that use them.
\<close>

section \<open>Errors, warnings and the environment\<close>

datatype warning = Sprintf string "fmt_arg list"

type_synonym verdict = "warning list \<times> go_error option"

record webhook_env =
  we_LookupEnv :: "string \<Rightarrow> string option"
  we_List :: "string \<Rightarrow> (string \<times> string) list res"
  we_NodeSelector_String :: "NodeSelector option \<Rightarrow> string"
  we_IsQualifiedName :: "string \<Rightarrow> string list"
  we_IsValidLabelValue :: "string \<Rightarrow> string list"

definition ErrDeviceClassNotFound :: go_error where
  "ErrDeviceClassNotFound = ErrorsNew ''DeviceClass not found in the LVMCluster''"
definition ErrThinPoolConfigNotSet :: go_error where
  "ErrThinPoolConfigNotSet = ErrorsNew ''ThinPoolConfig is not set for the DeviceClass''"
definition ErrNodeSelectorNotSet :: go_error where
  "ErrNodeSelectorNotSet = ErrorsNew ''NodeSelector is not set for the DeviceClass''"
definition ErrInvalidNamespace :: go_error where
  "ErrInvalidNamespace = ErrorsNew ''invalid namespace was supplied''"
definition ErrOnlyOneDefaultDeviceClassAllowed :: go_error where
  "ErrOnlyOneDefaultDeviceClassAllowed = ErrorsNew ''only one default deviceClass is allowed''"
definition ErrPathsOrOptionalPathsMandatoryWithNonNilDeviceSelector :: go_error where
  "ErrPathsOrOptionalPathsMandatoryWithNonNilDeviceSelector =
     ErrorsNew ''either paths or optionalPaths must be specified when DeviceSelector is specified''"
definition ErrEmptyPathsWithMultipleDeviceClasses :: go_error where
  "ErrEmptyPathsWithMultipleDeviceClasses =
     ErrorsNew ''path list should not be empty when there are multiple deviceClasses''"
definition ErrDuplicateLVMCluster :: go_error where
  "ErrDuplicateLVMCluster = ErrorsNew (''duplicate LVMClusters are not allowed, '' @
     ''remove the old LVMCluster or work with the existing instance'')"
definition ErrThinPoolConfigCannotBeChanged :: go_error where
  "ErrThinPoolConfigCannotBeChanged = ErrorsNew ''ThinPoolConfig can not be changed''"
definition ErrThinPoolMetadataSizeCanOnlyBeIncreased :: go_error where
  "ErrThinPoolMetadataSizeCanOnlyBeIncreased =
     ErrorsNew ''thin pool metadata size can only be increased''"
definition ErrNodeSelectorCannotBeChanged :: go_error where
  "ErrNodeSelectorCannotBeChanged = ErrorsNew ''NodeSelector can not be changed''"
definition ErrDevicePathsCannotBeAddedInUpdate :: go_error where
  "ErrDevicePathsCannotBeAddedInUpdate =
     ErrorsNew ''device paths can not be added after a device class has been initialized''"
definition ErrForceWipeOptionCannotBeChanged :: go_error where
  "ErrForceWipeOptionCannotBeChanged =
     ErrorsNew ''ForceWipeDevicesAndDestroyAllData can not be changed''"
definition ErrRAIDAndThinPoolMutuallyExclusive :: go_error where
  "ErrRAIDAndThinPoolMutuallyExclusive =
     ErrorsNew ''raidConfig and thinPoolConfig are mutually exclusive''"
definition ErrRAIDMirrorsOnlyForRAID1AndRAID10 :: go_error where
  "ErrRAIDMirrorsOnlyForRAID1AndRAID10 = ErrorsNew ''mirrors is only valid for raid1 and raid10''"
definition ErrRAIDStripesNotForRAID1 :: go_error where
  "ErrRAIDStripesNotForRAID1 =
     ErrorsNew ''stripes is only valid for raid4, raid5, raid6, and raid10''"
definition ErrRAIDStripeSizeNotForRAID1 :: go_error where
  "ErrRAIDStripeSizeNotForRAID1 =
     ErrorsNew ''stripeSize is only valid for raid4, raid5, raid6, and raid10''"
definition ErrRAIDDeviceSelectorRequired :: go_error where
  "ErrRAIDDeviceSelectorRequired =
     ErrorsNew ''at least one of paths or optionalPaths is required when raidConfig is set''"
definition ErrRAIDStripeSizeNotPowerOf2 :: go_error where
  "ErrRAIDStripeSizeNotPowerOf2 =
     ErrorsNew ''stripeSize must be a power of 2 (e.g., 64Ki, 128Ki, 256Ki, 512Ki)''"
definition ErrRAIDConfigCannotBeChanged :: go_error where
  "ErrRAIDConfigCannotBeChanged = ErrorsNew ''raidConfig cannot be changed''"
definition ErrRAIDConfigNotSet :: go_error where
  "ErrRAIDConfigNotSet = ErrorsNew ''RAIDConfig is not set for the DeviceClass''"

definition ThinPoolConfigMaxRecommendedSizePercent :: int where
  "ThinPoolConfigMaxRecommendedSizePercent = 90"

text \<open>The sequence of checks: warnings accumulate, the first error ends the validation.\<close>

definition and_then :: "verdict \<Rightarrow> verdict \<Rightarrow> verdict" where
  "and_then a b = (case snd a of Some e \<Rightarrow> (fst a, Some e) | None \<Rightarrow> (fst a @ fst b, snd b))"

definition check :: "go_error option \<Rightarrow> verdict" where
  "check e = ([], e)"

text \<open>The first error a check finds in a list.\<close>

fun first_error :: "('a \<Rightarrow> go_error option) \<Rightarrow> 'a list \<Rightarrow> go_error option" where
  "first_error f [] = None"
| "first_error f (x # xs) = (case f x of Some e \<Rightarrow> Some e | None \<Rightarrow> first_error f xs)"

section \<open>Defaulting\<close>

definition defaultDeviceClass :: "DeviceClass \<Rightarrow> DeviceClass" where
  "defaultDeviceClass dc =
     (if dc_DeviceDiscoveryPolicy dc = None \<and> \<not> HasExplicitPaths dc
      then dc\<lparr>dc_DeviceDiscoveryPolicy := Some DeviceDiscoveryPolicyStatic\<rparr> else dc)"

definition Default :: "LVMCluster \<Rightarrow> LVMCluster" where
  "Default l = l\<lparr>lc_DeviceClasses := map defaultDeviceClass (lc_DeviceClasses l)\<rparr>"

section \<open>Checks of one object\<close>

definition verifyThinPoolConfig :: "ThinPoolConfig \<Rightarrow> verdict" where
  "verifyThinPoolConfig config =
     (if tpc_SizePercent config \<le> ThinPoolConfigMaxRecommendedSizePercent then ([], None)
      else ([Sprintf (''ThinPoolConfig.SizePercent for %[1]s is greater than %[2]d%%, '' @
          ''this may lead to issues once the thin pool metadata that is created by default is nearing full capacity, '' @
          ''as it will be impossible to extent the metadata pool size. '' @
          ''You can ignore this warning if '' @
          ''a) you are certain that you do not need to extend the metadata pool in the future or '' @
          ''b) you set it above %[2]d%% but below 100%% because the buffer is sufficiently big with a smaller reserved percentage'')
          [S (tpc_Name config), D ThinPoolConfigMaxRecommendedSizePercent]], None))"

fun verifyDeviceClass_loop :: "DeviceClass list \<Rightarrow> int \<Rightarrow> warning list \<Rightarrow> (int \<times> warning list) res" where
  "verifyDeviceClass_loop [] countDefault warnings = Inr (countDefault, warnings)"
| "verifyDeviceClass_loop (dc # dcs) countDefault warnings =
     (let countDefault = (if dc_Default dc then countDefault + 1 else countDefault)
      in case dc_ThinPoolConfig dc of
           None \<Rightarrow> verifyDeviceClass_loop dcs countDefault warnings
         | Some tpConfig \<Rightarrow>
             (case verifyThinPoolConfig tpConfig of
                (tpWarnings, Some err) \<Rightarrow> Inl err
              | (tpWarnings, None) \<Rightarrow>
                  verifyDeviceClass_loop dcs countDefault (warnings @ tpWarnings)))"

definition noDefaultWarning :: warning where
  "noDefaultWarning = Sprintf (''no default deviceClass was specified, it will be mandatory to specify '' @
     ''the generated storage class in any PVC explicitly or you will have to declare another default StorageClass'') []"

definition verifyDeviceClass :: "LVMCluster \<Rightarrow> verdict" where
  "verifyDeviceClass l = (case verifyDeviceClass_loop (lc_DeviceClasses l) 0 [] of
     Inl err \<Rightarrow> ([], Some err)
   | Inr (countDefault, warnings) \<Rightarrow>
       if countDefault > 1
       then ([], Some (Errorf ''%w. Currently, there are %d default deviceClasses''
                  [W ErrOnlyOneDefaultDeviceClassAllowed, D countDefault]))
       else if countDefault = 0 then (warnings @ [noDefaultWarning], None)
       else (warnings, None))"

fun verifyPathsAreNotEmpty_loop :: "DeviceClass list \<Rightarrow> string list \<Rightarrow> string list res" where
  "verifyPathsAreNotEmpty_loop [] without = Inr without"
| "verifyPathsAreNotEmpty_loop (dc # dcs) without = (case dc_DeviceSelector dc of
     Some ds \<Rightarrow>
       if length (ds_Paths ds) = 0 \<and> length (ds_OptionalPaths ds) = 0
       then Inl ErrPathsOrOptionalPathsMandatoryWithNonNilDeviceSelector
       else verifyPathsAreNotEmpty_loop dcs without
   | None \<Rightarrow> verifyPathsAreNotEmpty_loop dcs (without @ [dc_Name dc]))"

definition verifyPathsAreNotEmpty :: "LVMCluster \<Rightarrow> verdict" where
  "verifyPathsAreNotEmpty l = (case verifyPathsAreNotEmpty_loop (lc_DeviceClasses l) [] of
     Inl err \<Rightarrow> ([], Some err)
   | Inr without \<Rightarrow>
       if length (lc_DeviceClasses l) > 1 \<and> length without > 0
       then ([], Some (Errorf (''%w. Please specify device path(s) under deviceSelector.paths '' @
                  ''for %s deviceClass(es)'')
                  [W ErrEmptyPathsWithMultipleDeviceClasses, S (JoinStrings without '','')]))
       else if length (lc_DeviceClasses l) = 1 \<and> length without = 1
       then ([Sprintf (''no device path(s) under deviceSelector.paths was specified for the %s deviceClass, '' @
                ''device discovery will be based on the deviceDiscoveryPolicy (defaults to Static). '' @
                ''This is not recommended for production environments. '' @
                ''Please refer to the limitations outlined in the product documentation for further details.'')
                [S (without ! 0)]], None)
       else ([], None))"

definition verifyAbsolutePath_dc :: "DeviceClass \<Rightarrow> go_error option" where
  "verifyAbsolutePath_dc dc = (case dc_DeviceSelector dc of None \<Rightarrow> None | Some ds \<Rightarrow>
     (case first_error (\<lambda>path. if \<not> HasPrefix (Unresolved path) ''/dev/''
         then Some (Errorf ''path %s must be an absolute path to the device'' [S (Unresolved path)])
         else None) (ds_Paths ds) of
        Some e \<Rightarrow> Some e
      | None \<Rightarrow> first_error (\<lambda>path. if \<not> HasPrefix (Unresolved path) ''/dev/''
         then Some (Errorf ''optional path %s must be an absolute path to the device'' [S (Unresolved path)])
         else None) (ds_OptionalPaths ds)))"

definition verifyAbsolutePath :: "LVMCluster \<Rightarrow> go_error option" where
  "verifyAbsolutePath l = first_error verifyAbsolutePath_dc (lc_DeviceClasses l)"

subsection \<open>Device overlap\<close>

text \<open>The nested map from node selector to path to device class.\<close>

type_synonym device_map = "string \<rightharpoonup> (DevicePath \<rightharpoonup> string)"

definition device_at :: "device_map \<Rightarrow> string \<Rightarrow> DevicePath \<Rightarrow> string option" where
  "device_at devices ns path = (case devices ns of None \<Rightarrow> None | Some m \<Rightarrow> m path)"

definition device_put :: "device_map \<Rightarrow> string \<Rightarrow> DevicePath \<Rightarrow> string \<Rightarrow> device_map" where
  "device_put devices ns path v =
     devices(ns \<mapsto> (case devices ns of None \<Rightarrow> Map.empty | Some m \<Rightarrow> m)(path \<mapsto> v))"

fun overlap_loop :: "string \<Rightarrow> string \<Rightarrow> string \<Rightarrow> string \<Rightarrow> DevicePath list \<Rightarrow> device_map \<Rightarrow> device_map res"
where
  "overlap_loop two one ns name [] devices = Inr devices"
| "overlap_loop two one ns name (path # paths) devices =
     (case device_at devices ns path of
        Some val \<Rightarrow>
          if val \<noteq> name then Inl (Errorf two [S path, S val, S name])
          else Inl (Errorf one [S path, S val])
      | None \<Rightarrow> overlap_loop two one ns name paths (device_put devices ns path name))"

fun verifyNoDeviceOverlap_loop ::
  "(NodeSelector option \<Rightarrow> string) \<Rightarrow> DeviceClass list \<Rightarrow> device_map \<Rightarrow> go_error option"
where
  "verifyNoDeviceOverlap_loop str [] devices = None"
| "verifyNoDeviceOverlap_loop str (dc # dcs) devices = (case dc_DeviceSelector dc of
     None \<Rightarrow> verifyNoDeviceOverlap_loop str dcs devices
   | Some ds \<Rightarrow>
       let nodeSelector = str (dc_NodeSelector dc) in
       (case overlap_loop
            ''error: device path %s overlaps in two different deviceClasss %s and %s''
            ''error: device path %s is specified at multiple places in deviceClass %s''
            nodeSelector (dc_Name dc) (ds_Paths ds) devices of
          Inl err \<Rightarrow> Some err
        | Inr devices' \<Rightarrow>
            (case overlap_loop
                ''error: optional device path %s overlaps in two different deviceClasss %s and %s''
                ''error: optional device path %s is specified at multiple places in deviceClass %s''
                nodeSelector (dc_Name dc) (ds_OptionalPaths ds) devices' of
               Inl err \<Rightarrow> Some err
             | Inr devices'' \<Rightarrow> verifyNoDeviceOverlap_loop str dcs devices'')))"

definition verifyNoDeviceOverlap :: "webhook_env \<Rightarrow> LVMCluster \<Rightarrow> go_error option" where
  "verifyNoDeviceOverlap env l =
     verifyNoDeviceOverlap_loop (we_NodeSelector_String env) (lc_DeviceClasses l) Map.empty"

subsection \<open>Lookup of a device class by name\<close>

definition getPathsOfDeviceClass ::
  "LVMCluster \<Rightarrow> string \<Rightarrow> (DevicePath list \<times> DevicePath list \<times> bool option) res" where
  "getPathsOfDeviceClass l name = (case find (\<lambda>dc. dc_Name dc = name) (lc_DeviceClasses l) of
     None \<Rightarrow> Inl ErrDeviceClassNotFound
   | Some dc \<Rightarrow> (case dc_DeviceSelector dc of
        None \<Rightarrow> Inr ([], [], None)
      | Some ds \<Rightarrow> Inr (ds_Paths ds, ds_OptionalPaths ds, ds_ForceWipeDevicesAndDestroyAllData ds)))"

definition getNodeSelectorOfDeviceClass :: "LVMCluster \<Rightarrow> string \<Rightarrow> NodeSelector res" where
  "getNodeSelectorOfDeviceClass l name = (case find (\<lambda>dc. dc_Name dc = name) (lc_DeviceClasses l) of
     None \<Rightarrow> Inl ErrDeviceClassNotFound
   | Some dc \<Rightarrow> (case dc_NodeSelector dc of Some ns \<Rightarrow> Inr ns | None \<Rightarrow> Inl ErrNodeSelectorNotSet))"

definition getThinPoolsConfigOfDeviceClass :: "LVMCluster \<Rightarrow> string \<Rightarrow> ThinPoolConfig res" where
  "getThinPoolsConfigOfDeviceClass l name =
     (case find (\<lambda>dc. dc_Name dc = name) (lc_DeviceClasses l) of
        None \<Rightarrow> Inl ErrDeviceClassNotFound
      | Some dc \<Rightarrow> (case dc_ThinPoolConfig dc of Some c \<Rightarrow> Inr c | None \<Rightarrow> Inl ErrThinPoolConfigNotSet))"

definition getRAIDConfigOfDeviceClass :: "LVMCluster \<Rightarrow> string \<Rightarrow> RAIDConfig res" where
  "getRAIDConfigOfDeviceClass l name =
     (case find (\<lambda>dc. dc_Name dc = name) (lc_DeviceClasses l) of
        None \<Rightarrow> Inl ErrDeviceClassNotFound
      | Some dc \<Rightarrow> (case dc_RAIDConfig dc of Some c \<Rightarrow> Inr c | None \<Rightarrow> Inl ErrRAIDConfigNotSet))"

subsection \<open>File system, chunk and metadata sizes\<close>

fun fstype_string :: "DeviceFilesystemType \<Rightarrow> string" where
  "fstype_string FilesystemTypeExt4 = ''ext4''"
| "fstype_string FilesystemTypeXFS = ''xfs''"
| "fstype_string (FilesystemTypeOther s) = s"

definition verifyFstype :: "LVMCluster \<Rightarrow> go_error option" where
  "verifyFstype l = first_error (\<lambda>dc.
     if dc_FilesystemType dc \<noteq> FilesystemTypeExt4 \<and> dc_FilesystemType dc \<noteq> FilesystemTypeXFS
     then Some (Errorf ''fstype '%s' is not a supported filesystem type''
                  [S (fstype_string (dc_FilesystemType dc))])
     else None) (lc_DeviceClasses l)"

definition verifyChunkSize_dc :: "DeviceClass \<Rightarrow> go_error option" where
  "verifyChunkSize_dc dc = (case dc_ThinPoolConfig dc of None \<Rightarrow> None | Some tpc \<Rightarrow>
     (case tpc_ChunkSize tpc of
        None \<Rightarrow> None
      | Some cs \<Rightarrow>
          if tpc_ChunkSizeCalculationPolicy tpc = ChunkSizeCalculationPolicyHost
          then Some (Errorf ''chunk size can not be set when chunk size calculation policy is set to Host'' [])
          else if Cmp cs ChunkSizeMinimum < 0
          then Some (Errorf ''chunk size must be greater than or equal to %s'' [S (q_repr ChunkSizeMinimum)])
          else if Cmp cs ChunkSizeMaximum > 0
          then Some (Errorf ''chunk size must be less than or equal to %s'' [S (q_repr ChunkSizeMaximum)])
          else None))"

definition verifyChunkSize :: "LVMCluster \<Rightarrow> go_error option" where
  "verifyChunkSize l = first_error verifyChunkSize_dc (lc_DeviceClasses l)"

text \<open>The unset metadata size of the static policy is written as the default.\<close>

fun verifyMetadataSize ::
  "DeviceClass list \<Rightarrow> warning list \<Rightarrow> DeviceClass list \<times> warning list \<times> go_error option" where
  "verifyMetadataSize [] warnings = ([], warnings, None)"
| "verifyMetadataSize (dc # dcs) warnings = (case dc_ThinPoolConfig dc of
     None \<Rightarrow> (case verifyMetadataSize dcs warnings of (dcs', ws, e) \<Rightarrow> (dc # dcs', ws, e))
   | Some tpc \<Rightarrow>
       if tpc_MetadataSizeCalculationPolicy tpc = MetadataSizePolicyHost \<and> tpc_MetadataSize tpc \<noteq> None
       then (dc # dcs, warnings,
         Some (Errorf ''metadata size can not be set when metadata size calculation policy is set to Host'' []))
       else let unset = (tpc_MetadataSizeCalculationPolicy tpc = MetadataSizePolicyStatic
                  \<and> tpc_MetadataSize tpc = None);
                warnings = (if unset
                  then warnings @ [Sprintf ''metadata size in unset. LVMS will set it to 1Gi by default'' []]
                  else warnings);
                tpc = (if unset then tpc\<lparr>tpc_MetadataSize := Some ThinPoolMetadataSizeDefault\<rparr> else tpc);
                dc = dc\<lparr>dc_ThinPoolConfig := Some tpc\<rparr>;
                next = (case verifyMetadataSize dcs warnings of (dcs', ws, e) \<Rightarrow> (dc # dcs', ws, e))
            in (case tpc_MetadataSize tpc of
                  None \<Rightarrow> next
                | Some ms \<Rightarrow>
                    if Cmp ms ThinPoolMetadataSizeMinimum < 0
                    then (dc # dcs, warnings, Some (Errorf ''metadata size must be greater than or equal to %s''
                            [S (q_repr ThinPoolMetadataSizeMinimum)]))
                    else if Cmp ms ThinPoolMetadataSizeMaximum > 0
                    then (dc # dcs, warnings, Some (Errorf ''metadata size must be less than or equal to %s''
                            [S (q_repr ThinPoolMetadataSizeMaximum)]))
                    else next))"

definition verifyDeviceDiscoveryPolicy :: "LVMCluster \<Rightarrow> warning list" where
  "verifyDeviceDiscoveryPolicy l = map (\<lambda>dc. Sprintf
       (''deviceDiscoveryPolicy is set to Dynamic for device class %q without explicit device paths. '' @
        ''LVMS will continuously discover and add new devices. '' @
        ''This is not recommended for production environments.'') [S (dc_Name dc)])
     (filter (\<lambda>dc. dc_DeviceDiscoveryPolicy dc = Some DeviceDiscoveryPolicyDynamic
        \<and> \<not> HasExplicitPaths dc) (lc_DeviceClasses l))"

subsection \<open>Parameters and labels of the storage class\<close>

definition lvmsOwnedParameterKeys :: "string list" where
  "lvmsOwnedParameterKeys = [DeviceClassKey, FsTypeKey]"

definition checkParameter :: "string \<Rightarrow> string \<times> string \<Rightarrow> go_error option" where
  "checkParameter name kv = (let key = fst kv in
     if key = [] then Some (Errorf ''device class %q: additionalParameters must not contain empty keys'' [S name])
     else if key \<in> set lvmsOwnedParameterKeys
     then Some (Errorf ''device class %q: additionalParameters key %q is managed by LVMS and cannot be set''
            [S name, S key])
     else None)"

definition checkLabel :: "webhook_env \<Rightarrow> string \<Rightarrow> string \<times> string \<Rightarrow> go_error option" where
  "checkLabel env name kv = (case kv of (key, val) \<Rightarrow>
     if length (we_IsQualifiedName env key) > 0
     then Some (Errorf ''device class %q: additionalLabels key %q is invalid: %s''
            [S name, S key, S (JoinStrings (we_IsQualifiedName env key) ''; '')])
     else if length (we_IsValidLabelValue env val) > 0
     then Some (Errorf ''device class %q: additionalLabels value %q for key %q is invalid: %s''
            [S name, S val, S key, S (JoinStrings (we_IsValidLabelValue env val) ''; '')])
     else if key \<in> set ReservedStorageClassLabelKeys
     then Some (Errorf ''device class %q: additionalLabels key %q is operator-reserved and cannot be set''
            [S name, S key])
     else if HasPrefix key OwnedByPrefix
     then Some (Errorf ''device class %q: additionalLabels key %q is operator-reserved and cannot be set''
            [S name, S key])
     else None)"

definition validateAdditionalParamsAndLabels_dc :: "webhook_env \<Rightarrow> DeviceClass \<Rightarrow> go_error option" where
  "validateAdditionalParamsAndLabels_dc env dc = (case dc_StorageClassOptions dc of
     None \<Rightarrow> None
   | Some opts \<Rightarrow> (case first_error (checkParameter (dc_Name dc)) (sco_AdditionalParameters opts) of
        Some e \<Rightarrow> Some e
      | None \<Rightarrow> first_error (checkLabel env (dc_Name dc)) (sco_AdditionalLabels opts)))"

definition validateAdditionalParamsAndLabels :: "webhook_env \<Rightarrow> LVMCluster \<Rightarrow> verdict" where
  "validateAdditionalParamsAndLabels env l =
     ([], first_error (validateAdditionalParamsAndLabels_dc env) (lc_DeviceClasses l))"

subsection \<open>RAID\<close>

definition verifyRAIDConfig_dc :: "DeviceClass \<Rightarrow> go_error option" where
  "verifyRAIDConfig_dc dc = (case dc_RAIDConfig dc of None \<Rightarrow> None | Some rc \<Rightarrow>
     (let fail = (\<lambda>e. Some (Errorf ''device class %q: %w'' [S (dc_Name dc), W e]));
          paths = (case dc_DeviceSelector dc of None \<Rightarrow> [] | Some ds \<Rightarrow> ds_Paths ds);
          optional = (case dc_DeviceSelector dc of None \<Rightarrow> [] | Some ds \<Rightarrow> ds_OptionalPaths ds);
          bytes = (case rc_StripeSize rc of None \<Rightarrow> 1 | Some q \<Rightarrow> Value q);
          hasDevices = (dc_DeviceSelector dc \<noteq> None \<and> (length paths > 0 \<or> length optional > 0));
          totalDevices = int (length paths + length optional);
          minDevices = MinDeviceCount (rc_Type rc) (EffectiveMirrors rc) (rc_Stripes rc);
          divisor = wrap64 (EffectiveMirrors rc + 1)
      in if dc_ThinPoolConfig dc \<noteq> None then fail ErrRAIDAndThinPoolMutuallyExclusive
         else if rc_Mirrors rc \<noteq> None \<and> rc_Type rc \<noteq> RAIDTypeRAID1 \<and> rc_Type rc \<noteq> RAIDTypeRAID10
         then fail ErrRAIDMirrorsOnlyForRAID1AndRAID10
         else if rc_Stripes rc \<noteq> None \<and> rc_Type rc = RAIDTypeRAID1 then fail ErrRAIDStripesNotForRAID1
         else if rc_StripeSize rc \<noteq> None \<and> rc_Type rc = RAIDTypeRAID1 then fail ErrRAIDStripeSizeNotForRAID1
         else if rc_StripeSize rc \<noteq> None \<and> (bytes \<le> 0 \<or> bytes AND (bytes - 1) \<noteq> 0)
         then fail ErrRAIDStripeSizeNotPowerOf2
         else if \<not> hasDevices then fail ErrRAIDDeviceSelectorRequired
         else if totalDevices < minDevices
         then Some (Errorf ''device class %q: %s requires at least %d devices, got %d''
                [S (dc_Name dc), S (RAIDType_string (rc_Type rc)), D minDevices, D totalDevices])
         else if rc_Type rc = RAIDTypeRAID10 \<and> length optional = 0
         then (if divisor = 0 then Some (GoPanic ''runtime error: integer divide by zero'')
               else if go_rem totalDevices divisor \<noteq> 0
               then Some (Errorf
                  ''device class %q: raid10 with mirrors=%d requires device count to be a multiple of %d, got %d''
                  [S (dc_Name dc), D (EffectiveMirrors rc), D divisor, D totalDevices])
               else None)
         else None))"

definition verifyRAIDConfig :: "LVMCluster \<Rightarrow> go_error option" where
  "verifyRAIDConfig l = first_error verifyRAIDConfig_dc (lc_DeviceClasses l)"

section \<open>Checks of an update\<close>

definition validateDeviceClassRemoval :: "DeviceClass list \<Rightarrow> DeviceClass list \<Rightarrow> go_error option" where
  "validateDeviceClassRemoval old new =
     (if length new = 0
      then Some (Errorf ''cannot remove all device classes: at least one device class must remain'' [])
      else first_error (\<lambda>dc. if dc_Name dc \<notin> set (map dc_Name new) \<and> dc_Default dc
             then Some (Errorf ''cannot delete default device class %s'' [S (dc_Name dc)]) else None) old)"

text \<open>The map of the old options: for a repeated name the last entry counts.\<close>

definition oldOptions :: "DeviceClass list \<Rightarrow> string \<rightharpoonup> StorageClassOptions option" where
  "oldOptions old = map_of (rev (map (\<lambda>dc. (dc_Name dc, dc_StorageClassOptions dc)) old))"

definition validateStorageClassOptionsUpgrade ::
  "DeviceClass list \<Rightarrow> DeviceClass list \<Rightarrow> go_error option" where
  "validateStorageClassOptionsUpgrade old new = first_error (\<lambda>dc.
     case dc_StorageClassOptions dc of None \<Rightarrow> None | Some opts \<Rightarrow>
     (case oldOptions old (dc_Name dc) of
        None \<Rightarrow> None
      | Some (Some oldOpts) \<Rightarrow> None
      | Some None \<Rightarrow>
          if sco_ReclaimPolicy opts \<noteq> None \<and> sco_ReclaimPolicy opts \<noteq> Some PersistentVolumeReclaimDelete
          then Some (Errorf ''device class %q: reclaimPolicy is immutable once set'' [S (dc_Name dc)])
          else if sco_VolumeBindingMode opts \<noteq> None
             \<and> sco_VolumeBindingMode opts \<noteq> Some VolumeBindingWaitForFirstConsumer
          then Some (Errorf ''device class %q: volumeBindingMode is immutable once set'' [S (dc_Name dc)])
          else if length (sco_AdditionalParameters opts) > 0
          then Some (Errorf ''device class %q: additionalParameters is immutable once set'' [S (dc_Name dc)])
          else None)) new"

text \<open>The immutability rules for one device class.  The comparison of the metadata sizes first
  replaces an unset size by the default in the new and in the old object.\<close>

definition compareThinPool ::
  "ThinPoolConfig \<Rightarrow> ThinPoolConfig \<Rightarrow> ThinPoolConfig \<times> ThinPoolConfig \<times> verdict" where
  "compareThinPool new old =
     (if tpc_Name new \<noteq> tpc_Name old
      then (new, old, [], Some (Errorf ''ThinPoolConfig.Name is invalid: %w'' [W ErrThinPoolConfigCannotBeChanged]))
      else if tpc_SizePercent new \<noteq> tpc_SizePercent old
      then (new, old, [], Some (Errorf ''ThinPoolConfig.SizePercent is invalid: %w'' [W ErrThinPoolConfigCannotBeChanged]))
      else if tpc_ChunkSizeCalculationPolicy new \<noteq> tpc_ChunkSizeCalculationPolicy old
      then (new, old, [], Some (Errorf ''ThinPoolConfig.ChunkSizeCalculationPolicy is invalid: %w''
              [W ErrThinPoolConfigCannotBeChanged]))
      else if tpc_ChunkSize new \<noteq> tpc_ChunkSize old
      then (new, old, [], Some (Errorf ''ThinPoolConfig.ChunkSize is invalid: %w'' [W ErrThinPoolConfigCannotBeChanged]))
      else if tpc_MetadataSizeCalculationPolicy new = MetadataSizePolicyStatic
      then let ws = (if tpc_MetadataSize new = None
                then [Sprintf (''thin pool metadata size is unset. LVMS operator will automatically set it to 1Gb '' @
                  ''and grow metadata size if needed'') []] else []);
               newSize = Deref (tpc_MetadataSize new) ThinPoolMetadataSizeDefault;
               oldSize = Deref (tpc_MetadataSize old) ThinPoolMetadataSizeDefault;
               new = new\<lparr>tpc_MetadataSize := Some newSize\<rparr>
           in if tpc_MetadataSizeCalculationPolicy old = MetadataSizePolicyStatic
              then (new, old\<lparr>tpc_MetadataSize := Some oldSize\<rparr>, ws,
                    if Value newSize < Value oldSize
                    then Some (Errorf ''ThinPoolConfig.MetadataSize is invalid: %w''
                            [W ErrThinPoolMetadataSizeCanOnlyBeIncreased])
                    else None)
              else (new, old, ws, None)
      else (new, old, [], None))"

text \<open>Writing through the pointer to the thin pool configuration of the first device class of
  that name.\<close>

fun setThinPoolConfig :: "string \<Rightarrow> ThinPoolConfig \<Rightarrow> DeviceClass list \<Rightarrow> DeviceClass list" where
  "setThinPoolConfig name c [] = []"
| "setThinPoolConfig name c (dc # dcs) =
     (if dc_Name dc = name then dc\<lparr>dc_ThinPoolConfig := Some c\<rparr> # dcs
      else dc # setThinPoolConfig name c dcs)"

text \<open>Old and new pointer of a field: set only on one side, while the class is not new.\<close>

definition presence_changed :: "'a option \<Rightarrow> 'a res \<Rightarrow> bool" where
  "presence_changed new old \<longleftrightarrow>
     (new \<noteq> None \<and> (case old of Inl err \<Rightarrow> \<not> errors_Is err ErrDeviceClassNotFound | Inr _ \<Rightarrow> False))
     \<or> (new = None \<and> (case old of Inl _ \<Rightarrow> False | Inr _ \<Rightarrow> True))"

definition validateThinPoolUpdate ::
  "LVMCluster \<Rightarrow> DeviceClass \<Rightarrow> LVMCluster \<times> DeviceClass \<times> verdict" where
  "validateThinPoolUpdate old dc =
     (let oldCfg = getThinPoolsConfigOfDeviceClass old (dc_Name dc) in
      if presence_changed (dc_ThinPoolConfig dc) oldCfg
      then (old, dc, [], Some ErrThinPoolConfigCannotBeChanged)
      else (case (dc_ThinPoolConfig dc, oldCfg) of
          (Some new, Inr prev) \<Rightarrow>
            (case compareThinPool new prev of (new', prev', v) \<Rightarrow>
              (old\<lparr>lc_DeviceClasses := setThinPoolConfig (dc_Name dc) prev' (lc_DeviceClasses old)\<rparr>,
               dc\<lparr>dc_ThinPoolConfig := Some new'\<rparr>, v))
        | _ \<Rightarrow> (old, dc, [], None)))"

definition validateRAIDUpdate :: "LVMCluster \<Rightarrow> DeviceClass \<Rightarrow> go_error option" where
  "validateRAIDUpdate old dc =
     (let oldCfg = getRAIDConfigOfDeviceClass old (dc_Name dc) in
      if presence_changed (dc_RAIDConfig dc) oldCfg then Some ErrRAIDConfigCannotBeChanged
      else (case (dc_RAIDConfig dc, oldCfg) of
          (Some new, Inr prev) \<Rightarrow>
            if new \<noteq> prev then Some (Errorf ''RAIDConfig fields are immutable: %w'' [W ErrRAIDConfigCannotBeChanged])
            else None
        | _ \<Rightarrow> None))"

definition validateNodeSelectorUpdate :: "LVMCluster \<Rightarrow> DeviceClass \<Rightarrow> go_error option" where
  "validateNodeSelectorUpdate old dc =
     (let oldSel = getNodeSelectorOfDeviceClass old (dc_Name dc) in
      if presence_changed (dc_NodeSelector dc) oldSel
         \<or> (case (dc_NodeSelector dc, oldSel) of (Some n, Inr prev) \<Rightarrow> n \<noteq> prev | _ \<Rightarrow> False)
      then Some ErrNodeSelectorCannotBeChanged else None)"

definition validatePathsUpdate :: "LVMCluster \<Rightarrow> DeviceClass \<Rightarrow> go_error option" where
  "validatePathsUpdate old dc =
     (let newDevices = (case dc_DeviceSelector dc of None \<Rightarrow> [] | Some ds \<Rightarrow> ds_Paths ds);
          newOptionalDevices = (case dc_DeviceSelector dc of None \<Rightarrow> [] | Some ds \<Rightarrow> ds_OptionalPaths ds);
          newForceWipeOption = (case dc_DeviceSelector dc of None \<Rightarrow> None
            | Some ds \<Rightarrow> ds_ForceWipeDevicesAndDestroyAllData ds)
      in case getPathsOfDeviceClass old (dc_Name dc) of
           Inl err \<Rightarrow> None
         | Inr (oldDevices, oldOptionalDevices, oldForceWipeOption) \<Rightarrow>
             if oldForceWipeOption \<noteq> newForceWipeOption then Some ErrForceWipeOptionCannotBeChanged
             else if length oldDevices = 0 \<and> length oldOptionalDevices = 0
                \<and> (length newDevices > 0 \<or> length newOptionalDevices > 0)
             then Some ErrDevicePathsCannotBeAddedInUpdate
             else if length oldDevices + length oldOptionalDevices > 0
                \<and> length newDevices + length newOptionalDevices = 0
             then Some (Errorf (''cannot remove all device paths from device class %s: '' @
                    ''at least one device path must remain'') [S (dc_Name dc)])
             else None)"

fun validateUpdate_loop ::
  "LVMCluster \<Rightarrow> DeviceClass list \<Rightarrow> LVMCluster \<times> DeviceClass list \<times> verdict" where
  "validateUpdate_loop old [] = (old, [], [], None)"
| "validateUpdate_loop old (dc # dcs) =
     (case validateThinPoolUpdate old dc of (old', dc', ws, err) \<Rightarrow>
        (case and_then (ws, err) (check (validateRAIDUpdate old' dc')) of (ws, err) \<Rightarrow>
        (case and_then (ws, err) (check (validateNodeSelectorUpdate old' dc')) of (ws, err) \<Rightarrow>
        (case and_then (ws, err) (check (validatePathsUpdate old' dc')) of
           (ws, Some e) \<Rightarrow> (old', dc' # dcs, ws, Some e)
         | (ws, None) \<Rightarrow>
             (case validateUpdate_loop old' dcs of (old'', dcs', v) \<Rightarrow>
                (old'', dc' # dcs', and_then (ws, None) v))))))"

section \<open>The validators\<close>

definition ValidateCreate :: "webhook_env \<Rightarrow> LVMCluster \<Rightarrow> LVMCluster \<times> verdict" where
  "ValidateCreate env l = (case GetOperatorNamespace (we_LookupEnv env) of
     Inl err \<Rightarrow> (l, [], Some (Errorf ''could not verify namespace of lvmcluster: %w'' [W err]))
   | Inr namespace \<Rightarrow>
     if namespace \<noteq> lc_Namespace l
     then (l, [], Some (Errorf ''creating LVMCluster is only supported within namespace %q: %w''
             [S namespace, W ErrInvalidNamespace]))
     else (case we_List env (lc_Namespace l) of
       Inl err \<Rightarrow> (l, [], Some (Errorf ''could not verify that LVMCluster was not already created %w'' [W err]))
     | Inr (existing # _) \<Rightarrow> (l, [], Some (Errorf ''LVMCluster exists at %q: %w''
             [S (fst existing @ ''/'' @ snd existing), W ErrDuplicateLVMCluster]))
     | Inr [] \<Rightarrow>
         (case and_then (verifyDeviceClass l)
              (and_then (check (verifyRAIDConfig l))
              (and_then (verifyPathsAreNotEmpty l)
              (and_then (check (verifyAbsolutePath l))
              (and_then (check (verifyNoDeviceOverlap env l))
              (and_then (check (verifyFstype l))
                        (check (verifyChunkSize l))))))) of
            (warnings, Some err) \<Rightarrow> (l, warnings, Some err)
          | (warnings, None) \<Rightarrow>
              (case verifyMetadataSize (lc_DeviceClasses l) [] of (dcs, metadataWarnings, err) \<Rightarrow>
                 (let l = l\<lparr>lc_DeviceClasses := dcs\<rparr> in
                  case err of
                    Some e \<Rightarrow> (l, warnings, Some e)
                  | None \<Rightarrow> (l, and_then
                        (warnings @ metadataWarnings @ verifyDeviceDiscoveryPolicy l, None)
                        (validateAdditionalParamsAndLabels env l)))))))"

definition ValidateUpdate ::
  "webhook_env \<Rightarrow> LVMCluster \<Rightarrow> LVMCluster \<Rightarrow> LVMCluster \<times> LVMCluster \<times> verdict" where
  "ValidateUpdate env old l =
     (let wrap = (\<lambda>f e. check (map_option (\<lambda>err. Errorf f [W err]) e)) in
      case and_then (verifyDeviceClass l)
          (and_then (check (verifyRAIDConfig l))
          (and_then (verifyPathsAreNotEmpty l)
          (and_then (check (verifyAbsolutePath l))
          (and_then (check (verifyNoDeviceOverlap env l))
          (and_then (check (verifyFstype l))
          (and_then (validateAdditionalParamsAndLabels env l)
          (and_then (wrap ''storageClassOptions upgrade validation failed: %w''
              (validateStorageClassOptionsUpgrade (lc_DeviceClasses old) (lc_DeviceClasses l)))
                    (wrap ''device class removal validation failed: %w''
              (validateDeviceClassRemoval (lc_DeviceClasses old) (lc_DeviceClasses l)))))))))) of
        (warnings, Some err) \<Rightarrow> (old, l, warnings, Some err)
      | (warnings, None) \<Rightarrow>
          (case validateUpdate_loop old (lc_DeviceClasses l) of (old', dcs', v) \<Rightarrow>
             (old', l\<lparr>lc_DeviceClasses := dcs'\<rparr>, and_then (warnings, None) v)))"

definition ValidateDelete :: "LVMCluster \<Rightarrow> verdict" where
  "ValidateDelete l = ([], None)"

end
