(* ===== verification/Webhook_Props.thy ===== *)
theory Webhook_Props
  imports Webhook
begin

text \<open>
  What the admission webhook guarantees.  \<open>admissible\<close> is the declarative contract of a new
  \<open>LVMCluster\<close>: namespace, uniqueness, at most one default class, disjoint devices per node
  selector, absolute paths, file system types, bounds of the thin pool sizes, the RAID rules and
  the reserved parameters and labels.  The lemmas show each check equivalent to its conjunct; the
  chain of checks accepts exactly the admissible clusters.  \<open>unchanged\<close> is the contract of an
  update for a device class that exists before and after it.
\<close>

section \<open>Combinators\<close>

lemma first_error_None [simp]: "first_error f xs = None \<longleftrightarrow> (\<forall>x \<in> set xs. f x = None)"
  by (induction xs) (auto split: option.splits)

lemma or_error_None [simp]:
  "(case x of None \<Rightarrow> y | Some e \<Rightarrow> Some e) = None \<longleftrightarrow> x = None \<and> y = None"
  by (simp split: option.split)

lemma if_error_None:
  "(if b then Some e else x) = None \<longleftrightarrow> \<not> b \<and> x = None"
  "(if b then y else None) = None \<longleftrightarrow> (b \<longrightarrow> y = None)"
  by simp_all

lemma and_then_ok [simp]: "snd (and_then a b) = None \<longleftrightarrow> snd a = None \<and> snd b = None"
  by (simp add: and_then_def split: option.splits)

lemma check_ok [simp]: "snd (check e) = e"
  by (simp add: check_def)

section \<open>Powers of two\<close>

text \<open>The test \<open>b & (b - 1) == 0\<close> recognises the powers of two among the positive numbers.\<close>

lemma and_minus_one_even:
  fixes c :: int
  assumes "0 < c"
  shows "(2 * c) AND (2 * c - 1) = 2 * (c AND (c - 1))"
proof -
  have "(2 * c - 1) div 2 = c - 1" by simp
  then show ?thesis by (subst and_rec) simp
qed

lemma and_minus_one_odd:
  fixes c :: int
  assumes "0 < c"
  shows "(2 * c + 1) AND (2 * c + 1 - 1) = 2 * c"
  by (subst and_rec) simp

lemma power_of_two_test:
  fixes b :: int
  assumes "0 < b"
  shows "b AND (b - 1) = 0 \<longleftrightarrow> (\<exists>k. b = 2 ^ k)"
  using assms
proof (induction "nat b" arbitrary: b rule: less_induct)
  case less
  define c where "c = b div 2"
  consider (one) "b = 1" | (even) "b = 2 * c" "0 < c" | (odd) "b = 2 * c + 1" "0 < c"
    unfolding c_def using less.prems by fastforce
  then show ?case
  proof cases
    case one
    then show ?thesis by (auto intro: exI[of _ 0])
  next
    case even
    then have "c AND (c - 1) = 0 \<longleftrightarrow> (\<exists>k. c = 2 ^ k)"
      by (intro less.hyps) auto
    moreover have "(\<exists>k. b = 2 ^ k) \<longleftrightarrow> (\<exists>k. c = 2 ^ k)"
    proof
      assume "\<exists>k. b = 2 ^ k"
      then obtain k where "b = 2 ^ k" by blast
      with even show "\<exists>k. c = 2 ^ k" by (cases k) auto
    next
      assume "\<exists>k. c = 2 ^ k"
      then obtain k where "c = 2 ^ k" by blast
      with even have "b = 2 ^ Suc k" by simp
      then show "\<exists>k. b = 2 ^ k" by blast
    qed
    ultimately show ?thesis using even by (simp add: and_minus_one_even)
  next
    case odd
    have "b \<noteq> 2 ^ k" for k
      using odd by (cases k) (auto dest: arg_cong[of _ _ even])
    then show ?thesis using odd and_minus_one_odd[of c] by auto
  qed
qed

section \<open>The contract of a new cluster\<close>

definition paths_of :: "DeviceClass \<Rightarrow> DevicePath list" where
  "paths_of dc = (case dc_DeviceSelector dc of None \<Rightarrow> [] | Some ds \<Rightarrow> ds_Paths ds @ ds_OptionalPaths ds)"

definition chunk_ok :: "ThinPoolConfig \<Rightarrow> bool" where
  "chunk_ok c \<longleftrightarrow> (case tpc_ChunkSize c of None \<Rightarrow> True | Some q \<Rightarrow>
     tpc_ChunkSizeCalculationPolicy c \<noteq> ChunkSizeCalculationPolicyHost
     \<and> 64 * 1024 \<le> q_bytes q \<and> q_bytes q \<le> 1024 ^ 3)"

definition metadata_ok :: "ThinPoolConfig \<Rightarrow> bool" where
  "metadata_ok c \<longleftrightarrow> (case tpc_MetadataSize c of None \<Rightarrow> True | Some q \<Rightarrow>
     tpc_MetadataSizeCalculationPolicy c \<noteq> MetadataSizePolicyHost
     \<and> 2 * 1024 ^ 2 \<le> q_bytes q \<and> q_bytes q \<le> 16 * 1024 ^ 3)"

definition stripe_size_ok :: "RAIDConfig \<Rightarrow> bool" where
  "stripe_size_ok rc \<longleftrightarrow> (case rc_StripeSize rc of None \<Rightarrow> True | Some q \<Rightarrow>
     rc_Type rc \<noteq> RAIDTypeRAID1 \<and> (\<exists>k. q_bytes q = 2 ^ k))"

definition raid_ok :: "DeviceClass \<Rightarrow> RAIDConfig \<Rightarrow> bool" where
  "raid_ok dc rc \<longleftrightarrow> dc_ThinPoolConfig dc = None
     \<and> (rc_Mirrors rc = None \<or> rc_Type rc = RAIDTypeRAID1 \<or> rc_Type rc = RAIDTypeRAID10)
     \<and> (rc_Type rc = RAIDTypeRAID1 \<longrightarrow> rc_Stripes rc = None)
     \<and> stripe_size_ok rc \<and> paths_of dc \<noteq> []
     \<and> MinDeviceCount (rc_Type rc) (EffectiveMirrors rc) (rc_Stripes rc) \<le> int (length (paths_of dc))
     \<and> (rc_Type rc = RAIDTypeRAID10 \<and> (\<forall>ds. dc_DeviceSelector dc = Some ds \<longrightarrow> ds_OptionalPaths ds = [])
        \<longrightarrow> wrap64 (EffectiveMirrors rc + 1) \<noteq> 0
          \<and> go_rem (int (length (paths_of dc))) (wrap64 (EffectiveMirrors rc + 1)) = 0)"

definition options_ok :: "webhook_env \<Rightarrow> StorageClassOptions \<Rightarrow> bool" where
  "options_ok env opts \<longleftrightarrow>
     (\<forall>(k, v) \<in> set (sco_AdditionalParameters opts). k \<noteq> [] \<and> k \<notin> {DeviceClassKey, FsTypeKey})
     \<and> (\<forall>(k, v) \<in> set (sco_AdditionalLabels opts).
          we_IsQualifiedName env k = [] \<and> we_IsValidLabelValue env v = []
          \<and> k \<notin> set ReservedStorageClassLabelKeys \<and> \<not> HasPrefix k OwnedByPrefix)"

definition device_keys :: "webhook_env \<Rightarrow> DeviceClass \<Rightarrow> (string \<times> DevicePath) list" where
  "device_keys env dc = map (Pair (we_NodeSelector_String env (dc_NodeSelector dc))) (paths_of dc)"

definition class_ok :: "webhook_env \<Rightarrow> DeviceClass \<Rightarrow> bool" where
  "class_ok env dc \<longleftrightarrow>
     (dc_DeviceSelector dc \<noteq> None \<longrightarrow> paths_of dc \<noteq> [])
     \<and> (\<forall>p \<in> set (paths_of dc). HasPrefix p ''/dev/'')
     \<and> dc_FilesystemType dc \<in> {FilesystemTypeExt4, FilesystemTypeXFS}
     \<and> (\<forall>rc. dc_RAIDConfig dc = Some rc \<longrightarrow> raid_ok dc rc)
     \<and> (\<forall>opts. dc_StorageClassOptions dc = Some opts \<longrightarrow> options_ok env opts)"

definition classes_ok :: "webhook_env \<Rightarrow> DeviceClass list \<Rightarrow> bool" where
  "classes_ok env dcs \<longleftrightarrow> length (filter dc_Default dcs) \<le> 1
     \<and> distinct (concat (map (device_keys env) dcs))
     \<and> (length dcs > 1 \<longrightarrow> (\<forall>dc \<in> set dcs. dc_DeviceSelector dc \<noteq> None))
     \<and> (\<forall>dc \<in> set dcs. class_ok env dc)"

definition admissible :: "webhook_env \<Rightarrow> LVMCluster \<Rightarrow> bool" where
  "admissible env l \<longleftrightarrow> we_LookupEnv env ''NAMESPACE'' = Some (lc_Namespace l)
     \<and> we_List env (lc_Namespace l) = Inr []
     \<and> classes_ok env (lc_DeviceClasses l)
     \<and> (\<forall>dc \<in> set (lc_DeviceClasses l). \<forall>c. dc_ThinPoolConfig dc = Some c \<longrightarrow> chunk_ok c \<and> metadata_ok c)"

section \<open>Each check against its conjunct\<close>

lemma verifyDeviceClass_loop_count:
  "verifyDeviceClass_loop dcs n w = Inr (n + int (length (filter dc_Default dcs)),
     w @ concat (map (\<lambda>dc. case dc_ThinPoolConfig dc of None \<Rightarrow> [] | Some c \<Rightarrow> fst (verifyThinPoolConfig c)) dcs))"
  by (induction dcs arbitrary: n w) (auto simp: verifyThinPoolConfig_def split: option.split)

lemma verifyDeviceClass_ok:
  "snd (verifyDeviceClass l) = None \<longleftrightarrow> length (filter dc_Default (lc_DeviceClasses l)) \<le> 1"
  by (simp add: verifyDeviceClass_def verifyDeviceClass_loop_count)

lemma paths_loop:
  "verifyPathsAreNotEmpty_loop dcs w =
     (if \<forall>dc \<in> set dcs. dc_DeviceSelector dc \<noteq> None \<longrightarrow> paths_of dc \<noteq> []
      then Inr (w @ map dc_Name (filter (\<lambda>dc. dc_DeviceSelector dc = None) dcs))
      else Inl ErrPathsOrOptionalPathsMandatoryWithNonNilDeviceSelector)"
  by (induction dcs arbitrary: w) (auto simp: paths_of_def split: option.splits)

lemma filter_empty_all: "filter P xs \<noteq> [] \<longleftrightarrow> (\<exists>x \<in> set xs. P x)"
  by (simp add: filter_empty_conv)

lemma verifyPathsAreNotEmpty_ok:
  "snd (verifyPathsAreNotEmpty l) = None \<longleftrightarrow>
     (\<forall>dc \<in> set (lc_DeviceClasses l). dc_DeviceSelector dc \<noteq> None \<longrightarrow> paths_of dc \<noteq> [])
     \<and> (length (lc_DeviceClasses l) > 1 \<longrightarrow>
          (\<forall>dc \<in> set (lc_DeviceClasses l). dc_DeviceSelector dc \<noteq> None))"
  by (simp add: verifyPathsAreNotEmpty_def paths_loop filter_empty_all del: filter_empty_conv)

lemma verifyAbsolutePath_dc_ok:
  "verifyAbsolutePath_dc dc = None \<longleftrightarrow> (\<forall>p \<in> set (paths_of dc). HasPrefix p ''/dev/'')"
  by (cases "dc_DeviceSelector dc")
    (auto simp: verifyAbsolutePath_dc_def paths_of_def Unresolved_def)

lemma verifyAbsolutePath_ok:
  "verifyAbsolutePath l = None \<longleftrightarrow>
     (\<forall>dc \<in> set (lc_DeviceClasses l). \<forall>p \<in> set (paths_of dc). HasPrefix p ''/dev/'')"
  by (simp add: verifyAbsolutePath_def verifyAbsolutePath_dc_ok)

lemma verifyFstype_ok:
  "verifyFstype l = None \<longleftrightarrow>
     (\<forall>dc \<in> set (lc_DeviceClasses l). dc_FilesystemType dc \<in> {FilesystemTypeExt4, FilesystemTypeXFS})"
  by (auto simp: verifyFstype_def split: if_splits)

lemma verifyChunkSize_dc_ok:
  "verifyChunkSize_dc dc = None \<longleftrightarrow> (\<forall>c. dc_ThinPoolConfig dc = Some c \<longrightarrow> chunk_ok c)"
  by (auto simp: verifyChunkSize_dc_def chunk_ok_def Cmp_less Cmp_greater
      ChunkSizeMinimum_def ChunkSizeMaximum_def split: option.split)

lemma verifyChunkSize_ok:
  "verifyChunkSize l = None \<longleftrightarrow>
     (\<forall>dc \<in> set (lc_DeviceClasses l). \<forall>c. dc_ThinPoolConfig dc = Some c \<longrightarrow> chunk_ok c)"
  by (simp add: verifyChunkSize_def verifyChunkSize_dc_ok)

text \<open>The metadata check: the sizes are in bounds, and afterwards a static policy has a size.\<close>

definition default_metadata :: "DeviceClass \<Rightarrow> DeviceClass" where
  "default_metadata dc = (case dc_ThinPoolConfig dc of None \<Rightarrow> dc | Some c \<Rightarrow>
     if tpc_MetadataSizeCalculationPolicy c = MetadataSizePolicyStatic \<and> tpc_MetadataSize c = None
     then dc\<lparr>dc_ThinPoolConfig := Some (c\<lparr>tpc_MetadataSize := Some ThinPoolMetadataSizeDefault\<rparr>)\<rparr>
     else dc)"

lemma verifyMetadataSize_ok:
  "snd (snd (verifyMetadataSize dcs ws)) = None \<longleftrightarrow>
     (\<forall>dc \<in> set dcs. \<forall>c. dc_ThinPoolConfig dc = Some c \<longrightarrow> metadata_ok c)"
proof (induction dcs arbitrary: ws)
  case (Cons dc dcs)
  show ?case
  proof (cases "dc_ThinPoolConfig dc")
    case None
    then show ?thesis by (simp add: Cons.IH case_prod_beta)
  next
    case (Some c)
    then show ?thesis
      by (cases "tpc_MetadataSize c")
        (auto simp: Cons.IH case_prod_beta metadata_ok_def Cmp_less Cmp_greater Let_def
          ThinPoolMetadataSizeMinimum_def ThinPoolMetadataSizeMaximum_def
          ThinPoolMetadataSizeDefault_def)
  qed
qed simp

lemma ThinPoolConfig_same: "dc_ThinPoolConfig dc = Some c \<Longrightarrow> dc\<lparr>dc_ThinPoolConfig := Some c\<rparr> = dc"
  by (cases dc) simp

lemma verifyMetadataSize_result:
  "snd (snd (verifyMetadataSize dcs ws)) = None \<Longrightarrow>
     fst (verifyMetadataSize dcs ws) = map default_metadata dcs"
proof (induction dcs arbitrary: ws)
  case (Cons dc dcs)
  show ?case
  proof (cases "dc_ThinPoolConfig dc")
    case None
    with Cons show ?thesis by (simp add: case_prod_beta default_metadata_def)
  next
    case (Some c)
    define c' where "c' = (if tpc_MetadataSizeCalculationPolicy c = MetadataSizePolicyStatic
        \<and> tpc_MetadataSize c = None then c\<lparr>tpc_MetadataSize := Some ThinPoolMetadataSizeDefault\<rparr> else c)"
    have dm: "default_metadata dc = dc\<lparr>dc_ThinPoolConfig := Some c'\<rparr>"
      by (simp add: default_metadata_def Some c'_def ThinPoolConfig_same)
    from Cons.prems obtain ws' where
      "snd (snd (verifyMetadataSize dcs ws')) = None"
      "fst (verifyMetadataSize (dc # dcs) ws) = dc\<lparr>dc_ThinPoolConfig := Some c'\<rparr> # fst (verifyMetadataSize dcs ws')"
      by (simp add: Some Let_def case_prod_beta c'_def[symmetric] split: option.splits if_splits)
    with Cons.IH[of ws'] show ?thesis by (simp add: dm)
  qed
qed simp

lemma checkParameter_ok:
  "checkParameter name (k, v) = None \<longleftrightarrow> k \<noteq> [] \<and> k \<notin> {DeviceClassKey, FsTypeKey}"
  by (auto simp: checkParameter_def lvmsOwnedParameterKeys_def Let_def)

lemma checkLabel_ok:
  "checkLabel env name (k, v) = None \<longleftrightarrow> we_IsQualifiedName env k = [] \<and> we_IsValidLabelValue env v = []
     \<and> k \<notin> set ReservedStorageClassLabelKeys \<and> \<not> HasPrefix k OwnedByPrefix"
  by (simp add: checkLabel_def)

lemma options_dc_ok:
  "validateAdditionalParamsAndLabels_dc env dc = None \<longleftrightarrow>
     (\<forall>opts. dc_StorageClassOptions dc = Some opts \<longrightarrow> options_ok env opts)"
  by (cases "dc_StorageClassOptions dc")
    (auto simp: validateAdditionalParamsAndLabels_dc_def options_ok_def checkParameter_ok checkLabel_ok)

lemma options_check_ok:
  "snd (validateAdditionalParamsAndLabels env l) = None \<longleftrightarrow>
     (\<forall>dc \<in> set (lc_DeviceClasses l). \<forall>opts. dc_StorageClassOptions dc = Some opts \<longrightarrow> options_ok env opts)"
  by (simp add: validateAdditionalParamsAndLabels_def options_dc_ok)

subsection \<open>Device overlap\<close>

definition taken :: "device_map \<Rightarrow> (string \<times> DevicePath) set" where
  "taken d = {(ns, p). device_at d ns p \<noteq> None}"

lemma device_at_put [simp]:
  "device_at (device_put d ns p v) ns' p' = (if ns' = ns \<and> p' = p then Some v else device_at d ns' p')"
  by (auto simp: device_at_def device_put_def split: option.splits)

lemma overlap_case:
  assumes "\<And>d. f d = None \<longleftrightarrow> g (taken d)"
  shows "(case overlap_loop two one ns name paths d of Inl e \<Rightarrow> Some e | Inr d' \<Rightarrow> f d') = None \<longleftrightarrow>
     distinct paths \<and> Pair ns ` set paths \<inter> taken d = {} \<and> g (taken d \<union> Pair ns ` set paths)"
proof (induction two one ns name paths d rule: overlap_loop.induct)
  case (1 two one ns name d)
  then show ?case by (simp add: assms)
next
  case (2 two one ns name p paths d)
  show ?case
  proof (cases "device_at d ns p")
    case None
    have "taken (device_put d ns p name) = insert (ns, p) (taken d)"
      by (auto simp: taken_def)
    with 2[OF None] None show ?thesis
      by (auto simp: taken_def insert_commute)
  next
    case (Some v)
    then show ?thesis by (simp add: taken_def)
  qed
qed

lemma disjoint_regroup:
  "(A \<inter> T = {} \<and> B \<inter> (T \<union> A) = {} \<and> C \<inter> (T \<union> A \<union> B) = {}) \<longleftrightarrow>
     (B \<inter> A = {} \<and> C \<inter> (A \<union> B) = {} \<and> (A \<union> B \<union> C) \<inter> T = {})"
  by blast

lemma verifyNoDeviceOverlap_loop_ok:
  "verifyNoDeviceOverlap_loop (we_NodeSelector_String env) dcs d = None \<longleftrightarrow>
     distinct (concat (map (device_keys env) dcs))
     \<and> set (concat (map (device_keys env) dcs)) \<inter> taken d = {}"
proof (induction dcs arbitrary: d)
  case (Cons dc dcs)
  show ?case
  proof (cases "dc_DeviceSelector dc")
    case None
    with Cons show ?thesis by (simp add: device_keys_def paths_of_def)
  next
    case (Some ds)
    define ns where "ns = we_NodeSelector_String env (dc_NodeSelector dc)"
    have keys: "device_keys env dc = map (Pair ns) (ds_Paths ds @ ds_OptionalPaths ds)"
      by (simp add: device_keys_def paths_of_def Some ns_def)
    have dist: "distinct (map (Pair ns) xs) \<longleftrightarrow> distinct xs" for xs :: "DevicePath list"
      by (simp add: distinct_map inj_on_def)
    let ?g = "\<lambda>T. distinct (concat (map (device_keys env) dcs))
      \<and> set (concat (map (device_keys env) dcs)) \<inter> T = {}"
    have "verifyNoDeviceOverlap_loop (we_NodeSelector_String env) (dc # dcs) d = None \<longleftrightarrow>
        distinct (ds_Paths ds) \<and> Pair ns ` set (ds_Paths ds) \<inter> taken d = {}
        \<and> distinct (ds_OptionalPaths ds)
        \<and> Pair ns ` set (ds_OptionalPaths ds) \<inter> (taken d \<union> Pair ns ` set (ds_Paths ds)) = {}
        \<and> ?g (taken d \<union> Pair ns ` set (ds_Paths ds) \<union> Pair ns ` set (ds_OptionalPaths ds))"
      unfolding verifyNoDeviceOverlap_loop.simps Some option.case Let_def ns_def[symmetric]
      by (rule overlap_case, rule overlap_case, rule Cons.IH)
    moreover have "distinct (concat (map (device_keys env) (dc # dcs))) \<longleftrightarrow>
        distinct (ds_Paths ds) \<and> distinct (ds_OptionalPaths ds)
        \<and> Pair ns ` set (ds_OptionalPaths ds) \<inter> Pair ns ` set (ds_Paths ds) = {}
        \<and> distinct (concat (map (device_keys env) dcs))
        \<and> set (concat (map (device_keys env) dcs)) \<inter>
            (Pair ns ` set (ds_Paths ds) \<union> Pair ns ` set (ds_OptionalPaths ds)) = {}"
      unfolding list.map concat.simps keys map_append distinct_append dist set_append set_map
      by blast
    moreover have "set (concat (map (device_keys env) (dc # dcs))) =
        Pair ns ` set (ds_Paths ds) \<union> Pair ns ` set (ds_OptionalPaths ds)
        \<union> set (concat (map (device_keys env) dcs))"
      unfolding list.map concat.simps keys map_append set_append set_map ..
    ultimately show ?thesis
      using disjoint_regroup[of "Pair ns ` set (ds_Paths ds)" "taken d"
          "Pair ns ` set (ds_OptionalPaths ds)" "set (concat (map (device_keys env) dcs))"]
      by argo
  qed
qed simp

lemma verifyNoDeviceOverlap_ok:
  "verifyNoDeviceOverlap env l = None \<longleftrightarrow> distinct (concat (map (device_keys env) (lc_DeviceClasses l)))"
proof -
  have "taken Map.empty = {}" by (simp add: taken_def device_at_def)
  then show ?thesis by (simp add: verifyNoDeviceOverlap_def verifyNoDeviceOverlap_loop_ok)
qed

subsection \<open>RAID\<close>

lemma power_of_two_iff:
  fixes b :: int
  shows "\<not> (b \<le> 0 \<or> b AND (b - 1) \<noteq> 0) \<longleftrightarrow> (\<exists>k. b = 2 ^ k)"
proof (cases "0 < b")
  case True
  then show ?thesis using power_of_two_test[of b] by auto
next
  case False
  moreover have "(0 :: int) < 2 ^ k" for k by simp
  ultimately show ?thesis by (metis not_less)
qed

lemma verifyRAIDConfig_dc_ok:
  "verifyRAIDConfig_dc dc = None \<longleftrightarrow> (\<forall>rc. dc_RAIDConfig dc = Some rc \<longrightarrow> raid_ok dc rc)"
proof (cases "dc_RAIDConfig dc")
  case (Some rc)
  let ?b = "case rc_StripeSize rc of None \<Rightarrow> 1 | Some q \<Rightarrow> q_bytes q"
  have stripe: "stripe_size_ok rc \<longleftrightarrow> \<not> (rc_StripeSize rc \<noteq> None \<and> rc_Type rc = RAIDTypeRAID1)
      \<and> \<not> (rc_StripeSize rc \<noteq> None \<and> (?b \<le> 0 \<or> ?b AND (?b - 1) \<noteq> 0))"
    using power_of_two_iff by (auto simp: stripe_size_ok_def split: option.split)
  show ?thesis
  proof (cases "dc_DeviceSelector dc")
    case None
    then show ?thesis
      by (simp add: Some verifyRAIDConfig_dc_def raid_ok_def paths_of_def Let_def)
  next
    case (Some ds)
    have opt: "(\<forall>ds'. Some ds = Some ds' \<longrightarrow> ds_OptionalPaths ds' = []) \<longleftrightarrow> ds_OptionalPaths ds = []"
      by simp
    have "verifyRAIDConfig_dc dc = None \<longleftrightarrow> raid_ok dc rc"
      unfolding verifyRAIDConfig_dc_def raid_ok_def paths_of_def Let_def stripe
        \<open>dc_RAIDConfig dc = Some rc\<close> Some option.case if_error_None not_less
        length_0_conv length_greater_0_conv length_append append_is_Nil_conv opt
      by (simp only: option.distinct simp_thms de_Morgan_conj de_Morgan_disj conj_assoc) blast
    then show ?thesis using \<open>dc_RAIDConfig dc = Some rc\<close> by simp
  qed
qed (simp add: verifyRAIDConfig_dc_def)

lemma verifyRAIDConfig_ok:
  "verifyRAIDConfig l = None \<longleftrightarrow>
     (\<forall>dc \<in> set (lc_DeviceClasses l). \<forall>rc. dc_RAIDConfig dc = Some rc \<longrightarrow> raid_ok dc rc)"
  by (simp add: verifyRAIDConfig_def verifyRAIDConfig_dc_ok)

lemmas checks_ok = verifyDeviceClass_ok verifyRAIDConfig_ok verifyPathsAreNotEmpty_ok
  verifyAbsolutePath_ok verifyNoDeviceOverlap_ok verifyFstype_ok

section \<open>Creation\<close>

lemma classes_ok_checks:
  "classes_ok env (lc_DeviceClasses l) \<longleftrightarrow>
     snd (verifyDeviceClass l) = None \<and> verifyRAIDConfig l = None
     \<and> snd (verifyPathsAreNotEmpty l) = None \<and> verifyAbsolutePath l = None
     \<and> verifyNoDeviceOverlap env l = None \<and> verifyFstype l = None
     \<and> snd (validateAdditionalParamsAndLabels env l) = None"
  unfolding checks_ok options_check_ok classes_ok_def class_ok_def by blast

text \<open>Defaulting the metadata size does not touch what the option check reads.\<close>

lemma options_default_metadata:
  "snd (validateAdditionalParamsAndLabels env (l\<lparr>lc_DeviceClasses := map default_metadata dcs\<rparr>)) = None
   \<longleftrightarrow> snd (validateAdditionalParamsAndLabels env (l\<lparr>lc_DeviceClasses := dcs\<rparr>)) = None"
proof -
  have "dc_StorageClassOptions (default_metadata dc) = dc_StorageClassOptions dc" for dc
    by (simp add: default_metadata_def split: option.split)
  then show ?thesis by (simp add: options_check_ok)
qed

lemma verdict_cases:
  "snd (snd (case v of (ws, Some e) \<Rightarrow> (l, ws, Some e) | (ws, None) \<Rightarrow> f ws)) = None \<longleftrightarrow>
     snd v = None \<and> snd (snd (f (fst v))) = None"
  by (cases v) (simp split: option.split)

lemma ValidateCreate_checks:
  "snd (snd (ValidateCreate env l)) = None \<longleftrightarrow>
     GetOperatorNamespace (we_LookupEnv env) = Inr (lc_Namespace l)
     \<and> we_List env (lc_Namespace l) = Inr []
     \<and> classes_ok env (lc_DeviceClasses l) \<and> verifyChunkSize l = None
     \<and> snd (snd (verifyMetadataSize (lc_DeviceClasses l) [])) = None"
proof -
  let ?m = "verifyMetadataSize (lc_DeviceClasses l) []"
  have l: "l\<lparr>lc_DeviceClasses := lc_DeviceClasses l\<rparr> = l" by simp
  have tail: "snd (snd (case ?m of (dcs, mw, err) \<Rightarrow> (let l = l\<lparr>lc_DeviceClasses := dcs\<rparr> in
        case err of Some e \<Rightarrow> (l, w, Some e)
        | None \<Rightarrow> (l, and_then (w @ mw @ verifyDeviceDiscoveryPolicy l, None)
                     (validateAdditionalParamsAndLabels env l))))) = None \<longleftrightarrow>
      snd (snd ?m) = None \<and> snd (validateAdditionalParamsAndLabels env l) = None" for w
    using verifyMetadataSize_result[of "lc_DeviceClasses l" "[]"]
      options_default_metadata[of env "lc_DeviceClasses l" l]
    by (cases ?m) (auto simp: Let_def l split: option.split)
  show ?thesis
    unfolding ValidateCreate_def classes_ok_checks
    by (auto simp: verdict_cases tail split: sum.split list.split)
qed

section \<open>Update\<close>

definition thin_pool_kept :: "ThinPoolConfig option \<Rightarrow> ThinPoolConfig option \<Rightarrow> bool" where
  "thin_pool_kept old new = (case (old, new) of
     (None, None) \<Rightarrow> True
   | (Some a, Some b) \<Rightarrow> tpc_Name b = tpc_Name a \<and> tpc_SizePercent b = tpc_SizePercent a
       \<and> tpc_ChunkSizeCalculationPolicy b = tpc_ChunkSizeCalculationPolicy a
       \<and> tpc_ChunkSize b = tpc_ChunkSize a
       \<and> (tpc_MetadataSizeCalculationPolicy a = MetadataSizePolicyStatic
          \<and> tpc_MetadataSizeCalculationPolicy b = MetadataSizePolicyStatic \<longrightarrow>
            q_bytes (Deref (tpc_MetadataSize a) ThinPoolMetadataSizeDefault)
              \<le> q_bytes (Deref (tpc_MetadataSize b) ThinPoolMetadataSizeDefault))
   | _ \<Rightarrow> False)"

definition force_wipe :: "DeviceClass \<Rightarrow> bool option" where
  "force_wipe dc = Option.bind (dc_DeviceSelector dc) ds_ForceWipeDevicesAndDestroyAllData"

definition unchanged :: "DeviceClass \<Rightarrow> DeviceClass \<Rightarrow> bool" where
  "unchanged old new \<longleftrightarrow> thin_pool_kept (dc_ThinPoolConfig old) (dc_ThinPoolConfig new)
     \<and> dc_RAIDConfig new = dc_RAIDConfig old \<and> dc_NodeSelector new = dc_NodeSelector old
     \<and> force_wipe new = force_wipe old \<and> (paths_of new = [] \<longleftrightarrow> paths_of old = [])"

definition class_named :: "LVMCluster \<Rightarrow> string \<Rightarrow> DeviceClass option" where
  "class_named l n = find (\<lambda>dc. dc_Name dc = n) (lc_DeviceClasses l)"

text \<open>Reading a class back, the size that the comparison wrote is the only difference.\<close>

definition same_class :: "DeviceClass \<Rightarrow> DeviceClass \<Rightarrow> bool" where
  "same_class a b \<longleftrightarrow> b = a \<or> b = default_metadata a"

lemma default_metadata_fields [simp]:
  "dc_Name (default_metadata dc) = dc_Name dc"
  "dc_RAIDConfig (default_metadata dc) = dc_RAIDConfig dc"
  "dc_NodeSelector (default_metadata dc) = dc_NodeSelector dc"
  "dc_DeviceSelector (default_metadata dc) = dc_DeviceSelector dc"
  by (simp_all add: default_metadata_def split: option.split)

lemma unchanged_same_class:
  assumes "same_class a b"
  shows "unchanged b new \<longleftrightarrow> unchanged a new"
proof -
  have "thin_pool_kept (dc_ThinPoolConfig (default_metadata a)) c = thin_pool_kept (dc_ThinPoolConfig a) c" for c
    by (cases "dc_ThinPoolConfig a"; cases c) (auto simp: default_metadata_def thin_pool_kept_def)
  with assms show ?thesis by (auto simp: same_class_def unchanged_def force_wipe_def paths_of_def)
qed

lemma same_class_refl [simp]: "same_class a a"
  by (simp add: same_class_def)

lemma default_metadata_idem [simp]: "default_metadata (default_metadata a) = default_metadata a"
  by (auto simp: default_metadata_def split: option.splits)

lemma same_class_trans: "same_class a b \<Longrightarrow> same_class b c \<Longrightarrow> same_class a c"
  by (auto simp: same_class_def)

lemmas update_errors = ErrDeviceClassNotFound_def ErrThinPoolConfigNotSet_def
  ErrNodeSelectorNotSet_def ErrRAIDConfigNotSet_def

lemma compareThinPool_ok:
  "snd (snd (snd (compareThinPool new old))) = None \<longleftrightarrow> thin_pool_kept (Some old) (Some new)"
  by (simp add: compareThinPool_def thin_pool_kept_def Let_def)

lemma validateRAIDUpdate_ok:
  "validateRAIDUpdate old dc = None \<longleftrightarrow>
     (\<forall>o'. class_named old (dc_Name dc) = Some o' \<longrightarrow> dc_RAIDConfig dc = dc_RAIDConfig o')"
  by (auto simp: validateRAIDUpdate_def getRAIDConfigOfDeviceClass_def class_named_def
      presence_changed_def update_errors Let_def split: option.split)

lemma validateNodeSelectorUpdate_ok:
  "validateNodeSelectorUpdate old dc = None \<longleftrightarrow>
     (\<forall>o'. class_named old (dc_Name dc) = Some o' \<longrightarrow> dc_NodeSelector dc = dc_NodeSelector o')"
  by (auto simp: validateNodeSelectorUpdate_def getNodeSelectorOfDeviceClass_def class_named_def
      presence_changed_def update_errors Let_def split: option.split)

lemma validatePathsUpdate_ok:
  "validatePathsUpdate old dc = None \<longleftrightarrow>
     (\<forall>o'. class_named old (dc_Name dc) = Some o' \<longrightarrow>
        force_wipe dc = force_wipe o' \<and> (paths_of dc = [] \<longleftrightarrow> paths_of o' = []))"
  by (auto simp: validatePathsUpdate_def getPathsOfDeviceClass_def class_named_def force_wipe_def
      paths_of_def Let_def split: option.split)

lemma validateThinPoolUpdate_ok:
  "snd (snd (snd (validateThinPoolUpdate old dc))) = None \<longleftrightarrow>
     (\<forall>o'. class_named old (dc_Name dc) = Some o' \<longrightarrow>
        thin_pool_kept (dc_ThinPoolConfig o') (dc_ThinPoolConfig dc))"
proof (cases "class_named old (dc_Name dc)")
  case None
  then show ?thesis
    by (auto simp: validateThinPoolUpdate_def getThinPoolsConfigOfDeviceClass_def class_named_def
        presence_changed_def update_errors split: option.split)
next
  case (Some o')
  then have get: "getThinPoolsConfigOfDeviceClass old (dc_Name dc) =
      (case dc_ThinPoolConfig o' of Some c \<Rightarrow> Inr c | None \<Rightarrow> Inl ErrThinPoolConfigNotSet)"
    by (simp add: getThinPoolsConfigOfDeviceClass_def class_named_def)
  show ?thesis
    unfolding validateThinPoolUpdate_def get Some
    by (cases "dc_ThinPoolConfig o'"; cases "dc_ThinPoolConfig dc")
      (auto simp: presence_changed_def update_errors thin_pool_kept_def
        compareThinPool_ok[unfolded thin_pool_kept_def, simplified] case_prod_beta)
qed

text \<open>The fields of the new class that the later checks read are not written.\<close>

lemma validateThinPoolUpdate_new:
  assumes "validateThinPoolUpdate old dc = (old', dc', v)"
  shows "dc_Name dc' = dc_Name dc" "dc_RAIDConfig dc' = dc_RAIDConfig dc"
    "dc_NodeSelector dc' = dc_NodeSelector dc" "dc_DeviceSelector dc' = dc_DeviceSelector dc"
  using assms
  by (auto simp: validateThinPoolUpdate_def Let_def split: if_splits option.splits sum.splits prod.splits)

lemma compareThinPool_old:
  assumes "compareThinPool new old = (new', old', v)" and "dc_ThinPoolConfig dc = Some old"
  shows "same_class dc (dc\<lparr>dc_ThinPoolConfig := Some old'\<rparr>)"
  using assms
  by (cases "tpc_MetadataSize old")
    (auto simp: compareThinPool_def Let_def same_class_def default_metadata_def ThinPoolConfig_same
      split: if_splits)

lemma find_setThinPoolConfig:
  assumes "find (\<lambda>dc. dc_Name dc = m) dcs = Some d"
    and "same_class d (d\<lparr>dc_ThinPoolConfig := Some c\<rparr>)"
  shows "rel_option same_class (find (\<lambda>dc. dc_Name dc = n) dcs)
    (find (\<lambda>dc. dc_Name dc = n) (setThinPoolConfig m c dcs))"
  using assms
  by (induction m c dcs rule: setThinPoolConfig.induct) (auto simp: option.rel_refl split: if_splits)

lemma validateThinPoolUpdate_old:
  assumes "validateThinPoolUpdate old dc = (old', dc', v)"
  shows "rel_option same_class (class_named old n) (class_named old' n)"
proof (cases "old' = old")
  case True
  then show ?thesis by (simp add: option.rel_refl)
next
  case False
  with assms obtain new prev new' prev' where *:
    "getThinPoolsConfigOfDeviceClass old (dc_Name dc) = Inr prev"
    "compareThinPool new prev = (new', prev', v)"
    "old' = old\<lparr>lc_DeviceClasses := setThinPoolConfig (dc_Name dc) prev' (lc_DeviceClasses old)\<rparr>"
    by (auto simp: validateThinPoolUpdate_def Let_def split: if_splits option.splits sum.splits prod.splits)
  from *(1) obtain d where d: "find (\<lambda>dc'. dc_Name dc' = dc_Name dc) (lc_DeviceClasses old) = Some d"
      "dc_ThinPoolConfig d = Some prev"
    by (auto simp: getThinPoolsConfigOfDeviceClass_def split: option.splits)
  from compareThinPool_old[OF *(2) d(2)] find_setThinPoolConfig[OF d(1)] *(3)
  show ?thesis by (simp add: class_named_def)
qed

lemma all_class_same:
  assumes "rel_option same_class (class_named old n) (class_named old' n)"
  shows "(\<forall>a. class_named old' n = Some a \<longrightarrow> unchanged a new) \<longleftrightarrow>
     (\<forall>a. class_named old n = Some a \<longrightarrow> unchanged a new)"
  using assms by (cases "class_named old n"; cases "class_named old' n") (auto simp: unchanged_same_class)

lemma validateUpdate_step_ok:
  assumes "validateThinPoolUpdate old dc = (old', dc', ws, err)"
  shows "err = None \<and> validateRAIDUpdate old' dc' = None \<and> validateNodeSelectorUpdate old' dc' = None
      \<and> validatePathsUpdate old' dc' = None \<longleftrightarrow>
    (\<forall>a. class_named old (dc_Name dc) = Some a \<longrightarrow> unchanged a dc)"
proof -
  note new = validateThinPoolUpdate_new[OF assms]
  have rel: "rel_option same_class (class_named old (dc_Name dc)) (class_named old' (dc_Name dc))"
    by (rule validateThinPoolUpdate_old[OF assms])
  have thin: "err = None \<longleftrightarrow> (\<forall>a. class_named old (dc_Name dc) = Some a \<longrightarrow>
      thin_pool_kept (dc_ThinPoolConfig a) (dc_ThinPoolConfig dc))"
    using validateThinPoolUpdate_ok[of old dc] by (simp add: assms)
  show ?thesis
    using rel new
    by (cases "class_named old (dc_Name dc)"; cases "class_named old' (dc_Name dc)")
      (auto simp: thin validateRAIDUpdate_ok validateNodeSelectorUpdate_ok validatePathsUpdate_ok
        unchanged_def same_class_def force_wipe_def paths_of_def)
qed

lemma validateUpdate_loop_ok:
  "snd (snd (snd (validateUpdate_loop old dcs))) = None \<longleftrightarrow>
     (\<forall>dc \<in> set dcs. \<forall>a. class_named old (dc_Name dc) = Some a \<longrightarrow> unchanged a dc)"
proof (induction dcs arbitrary: old)
  case (Cons dc dcs)
  obtain old' dc' ws err where v: "validateThinPoolUpdate old dc = (old', dc', ws, err)"
    by (metis prod_cases4)
  have step: "snd (snd (snd (validateUpdate_loop old (dc # dcs)))) = None \<longleftrightarrow>
      (err = None \<and> validateRAIDUpdate old' dc' = None \<and> validateNodeSelectorUpdate old' dc' = None
       \<and> validatePathsUpdate old' dc' = None) \<and> snd (snd (snd (validateUpdate_loop old' dcs))) = None"
    by (auto simp: v and_then_def check_def split: option.split prod.split)
  have "(\<forall>a. class_named old' (dc_Name d) = Some a \<longrightarrow> unchanged a d) \<longleftrightarrow>
      (\<forall>a. class_named old (dc_Name d) = Some a \<longrightarrow> unchanged a d)" for d
    by (rule all_class_same[OF validateThinPoolUpdate_old[OF v]])
  then show ?case
    unfolding step validateUpdate_step_ok[OF v] Cons.IH by simp
qed simp

definition options_upgrade_ok :: "LVMCluster \<Rightarrow> DeviceClass \<Rightarrow> bool" where
  "options_upgrade_ok old dc \<longleftrightarrow>
     (\<forall>opts. dc_StorageClassOptions dc = Some opts
        \<and> oldOptions (lc_DeviceClasses old) (dc_Name dc) = Some None \<longrightarrow>
          sco_ReclaimPolicy opts \<in> {None, Some PersistentVolumeReclaimDelete}
          \<and> sco_VolumeBindingMode opts \<in> {None, Some VolumeBindingWaitForFirstConsumer}
          \<and> sco_AdditionalParameters opts = [])"

definition update_allowed :: "webhook_env \<Rightarrow> LVMCluster \<Rightarrow> LVMCluster \<Rightarrow> bool" where
  "update_allowed env old l \<longleftrightarrow> classes_ok env (lc_DeviceClasses l)
     \<and> lc_DeviceClasses l \<noteq> []
     \<and> (\<forall>dc \<in> set (lc_DeviceClasses old). dc_Default dc \<longrightarrow> dc_Name dc \<in> dc_Name ` set (lc_DeviceClasses l))
     \<and> (\<forall>dc \<in> set (lc_DeviceClasses l). options_upgrade_ok old dc
          \<and> (\<forall>a. class_named old (dc_Name dc) = Some a \<longrightarrow> unchanged a dc))"

lemma validateDeviceClassRemoval_ok:
  "validateDeviceClassRemoval old new = None \<longleftrightarrow>
     new \<noteq> [] \<and> (\<forall>dc \<in> set old. dc_Default dc \<longrightarrow> dc_Name dc \<in> dc_Name ` set new)"
  by (auto simp: validateDeviceClassRemoval_def)

lemma options_upgrade_check:
  "validateStorageClassOptionsUpgrade (lc_DeviceClasses old) dcs = None \<longleftrightarrow>
     (\<forall>dc \<in> set dcs. options_upgrade_ok old dc)"
  unfolding validateStorageClassOptionsUpgrade_def first_error_None
  by (rule ball_cong[OF refl]) (auto simp: options_upgrade_ok_def split: option.split)

section \<open>Properties\<close>



text \<open>Defaulting settles the discovery policy: afterwards every class without explicit device
  paths has a policy, the policies a user wrote and the classes with explicit paths are untouched,
  and defaulting twice is defaulting once.\<close>

lemma Default_settles_policy:
  "Default (Default l) = Default l
   \<and> map dc_Name (lc_DeviceClasses (Default l)) = map dc_Name (lc_DeviceClasses l)
   \<and> list_all2 (\<lambda>dc dc'. case dc_DeviceDiscoveryPolicy dc of Some _ \<Rightarrow> dc' = dc
        | None \<Rightarrow> if HasExplicitPaths dc then dc' = dc
            else dc' = dc\<lparr>dc_DeviceDiscoveryPolicy := Some DeviceDiscoveryPolicyStatic\<rparr>)
      (lc_DeviceClasses l) (lc_DeviceClasses (Default l))"
proof -
  have idem: "defaultDeviceClass (defaultDeviceClass dc) = defaultDeviceClass dc" for dc
    by (simp add: defaultDeviceClass_def)
  have "list_all2 (\<lambda>dc dc'. case dc_DeviceDiscoveryPolicy dc of Some _ \<Rightarrow> dc' = dc
        | None \<Rightarrow> if HasExplicitPaths dc then dc' = dc
            else dc' = dc\<lparr>dc_DeviceDiscoveryPolicy := Some DeviceDiscoveryPolicyStatic\<rparr>)
      dcs (map defaultDeviceClass dcs)" for dcs
    by (induction dcs) (auto simp: defaultDeviceClass_def split: option.split)
  moreover have "dc_Name (defaultDeviceClass dc) = dc_Name dc" for dc
    by (simp add: defaultDeviceClass_def)
  ultimately show ?thesis by (simp add: Default_def idem comp_def)
qed

section \<open>What admission lets through\<close>

text \<open>The device count of raid1 wraps around: with the largest 64-bit number of mirrors a single
  device is accepted.\<close>

definition overflowing_class :: DeviceClass where
  "overflowing_class = \<lparr>dc_Name = ''vg1'',
     dc_DeviceSelector = Some \<lparr>ds_Paths = [''/dev/sda''], ds_OptionalPaths = [],
       ds_ForceWipeDevicesAndDestroyAllData = None\<rparr>,
     dc_NodeSelector = None, dc_ThinPoolConfig = None,
     dc_RAIDConfig = Some \<lparr>rc_Type = RAIDTypeRAID1, rc_Mirrors = Some (2 ^ 63 - 1),
       rc_Stripes = None, rc_StripeSize = None\<rparr>,
     dc_Default = True, dc_FilesystemType = FilesystemTypeXFS,
     dc_DeviceDiscoveryPolicy = None, dc_StorageClassOptions = None\<rparr>"

lemma raid1_mirrors_overflow: "verifyRAIDConfig_dc overflowing_class = None"
  by (simp add: verifyRAIDConfig_dc_def overflowing_class_def EffectiveMirrors_def Let_def
      wrap64_def signed_take_bit_eq_take_bit_minus take_bit_eq_mod)

text \<open>An update does not check chunk sizes: a class added by it may have any.\<close>

lemma update_skips_chunk_size:
  assumes "update_allowed env old l" and "class_named old (dc_Name dc) = None"
    and "lc_DeviceClasses l = [dc]" and "dc_ThinPoolConfig dc = Some c" and "dc_RAIDConfig dc = None"
  shows "update_allowed env old (l\<lparr>lc_DeviceClasses := [dc\<lparr>dc_ThinPoolConfig :=
           Some (c\<lparr>tpc_ChunkSize := Some \<lparr>q_bytes = 1, q_repr = ''1''\<rparr>\<rparr>)\<rparr>]\<rparr>)"
  using assms
  by (simp add: update_allowed_def classes_ok_def class_ok_def options_upgrade_ok_def
      device_keys_def paths_of_def)

end
