(* ===== verification/Go_Numbers.thy ===== *)
theory Go_Numbers
  imports Complex_Main LVMS_Prelude
begin

text \<open>
  Number conversions of Go's \<open>strconv\<close> package and its floating-point arithmetic, as far as the
  sources use them: \<open>strconv.Itoa\<close>, \<open>strconv.ParseInt(s, 10, 64)\<close>, \<open>strconv.ParseFloat\<close>,
  division, multiplication, comparison and conversion to \<open>int\<close> of \<open>float64\<close> values.

  A finite \<open>float64\<close> is a rational; \<open>round_bits p\<close> rounds to the nearest value with a \<open>p\<close>-bit
  significand, ties to even (53 bits for \<open>float64\<close>, 24 for \<open>float32\<close>).  Values too large for the
  format are a range error of \<open>ParseFloat\<close>.  Signed zeros, subnormal numbers, hexadecimal
  floats and digit separators are outside the model: lvm prints plain decimals.
\<close>

section \<open>Integers and decimal strings\<close>

definition digit_char :: "int \<Rightarrow> char" where
  "digit_char d = char_of (nat d + 48)"

text \<open>The decimal digits of a non-negative integer.\<close>

function dec_digits :: "int \<Rightarrow> string" where
  "dec_digits n = (if n < 10 then [digit_char n] else dec_digits (n div 10) @ [digit_char (n mod 10)])"
  by pat_completeness auto
termination
  by (relation "measure nat") auto

declare dec_digits.simps [simp del]

definition Itoa :: "int \<Rightarrow> string" where
  "Itoa i = (if i < 0 then ''-'' @ dec_digits (- i) else dec_digits i)"

definition is_digit :: "char \<Rightarrow> bool" where
  "is_digit c \<longleftrightarrow> 48 \<le> (of_char c :: nat) \<and> (of_char c :: nat) \<le> 57"

definition digit_val :: "char \<Rightarrow> int" where
  "digit_val c = of_char c - 48"

definition digits_val :: "string \<Rightarrow> int" where
  "digits_val s = foldl (\<lambda>acc c. 10 * acc + digit_val c) 0 s"

definition ErrSyntax :: go_error where
  "ErrSyntax = ErrorsNew ''invalid syntax''"

definition ErrRange :: go_error where
  "ErrRange = ErrorsNew ''value out of range''"

text \<open>An optional sign, as a flag for minus, and what follows it.\<close>

definition sign_of :: "string \<Rightarrow> bool \<times> string" where
  "sign_of s = (case s of [] \<Rightarrow> (False, []) | c # r \<Rightarrow>
     if c = CHR ''+'' then (False, r) else if c = CHR ''-'' then (True, r) else (False, s))"

definition ParseInt :: "string \<Rightarrow> int res" where
  "ParseInt s = (let (neg, ds) = sign_of s in
     if ds = [] \<or> \<not> list_all is_digit ds then Inl (Errorf ''strconv.ParseInt'' [S s, W ErrSyntax])
     else let v = digits_val ds in
       if (if neg then v \<le> 2 ^ 63 else v < 2 ^ 63) then Inr (if neg then - v else v)
       else Inl (Errorf ''strconv.ParseInt'' [S s, W ErrRange]))"

lemma of_char_digit_char: "0 \<le> d \<Longrightarrow> d < 10 \<Longrightarrow> (of_char (digit_char d) :: nat) = nat d + 48"
  by (simp add: digit_char_def)

lemma is_digit_digit_char: "0 \<le> d \<Longrightarrow> d < 10 \<Longrightarrow> is_digit (digit_char d)"
  by (simp add: is_digit_def of_char_digit_char)

lemma digit_val_digit_char: "0 \<le> d \<Longrightarrow> d < 10 \<Longrightarrow> digit_val (digit_char d) = d"
proof -
  assume "0 \<le> d" "d < 10"
  then have "(of_char (digit_char d) :: int) = int (nat d + 48)"
    by (metis of_char_digit_char of_nat_of_char)
  with \<open>0 \<le> d\<close> show ?thesis by (simp add: digit_val_def)
qed

lemma dec_digits_digits: "0 \<le> n \<Longrightarrow> list_all is_digit (dec_digits n)"
  by (induction n rule: dec_digits.induct) (subst dec_digits.simps, simp add: is_digit_digit_char)

lemma dec_digits_nonempty: "dec_digits n \<noteq> []"
  by (subst dec_digits.simps) simp

lemma digits_val_snoc: "digits_val (s @ [c]) = 10 * digits_val s + digit_val c"
  by (simp add: digits_val_def)

lemma digits_val_dec_digits: "0 \<le> n \<Longrightarrow> digits_val (dec_digits n) = n"
proof (induction n rule: dec_digits.induct)
  case (1 n)
  show ?case
  proof (cases "n < 10")
    case True
    with 1 show ?thesis
      by (subst dec_digits.simps) (simp add: digits_val_def digit_val_digit_char)
  next
    case False
    with 1 show ?thesis
      by (subst dec_digits.simps) (simp add: digits_val_snoc digit_val_digit_char)
  qed
qed

lemma sign_of_digits:
  assumes "list_all is_digit s"
  shows "sign_of s = (False, s)"
proof (cases s)
  case (Cons c r)
  with assms have "is_digit c" by simp
  then have "c \<noteq> CHR ''+''" "c \<noteq> CHR ''-''" by (auto simp: is_digit_def)
  with Cons show ?thesis by (simp add: sign_of_def)
qed (simp add: sign_of_def)

text \<open>Printing a 64-bit integer and parsing it back is the identity.\<close>

lemma ParseInt_Itoa:
  assumes "- (2 ^ 63) \<le> i" and "i < 2 ^ 63"
  shows "ParseInt (Itoa i) = Inr i"
proof (cases "i < 0")
  case True
  have "sign_of (Itoa i) = (True, dec_digits (- i))"
    using True by (simp add: Itoa_def sign_of_def)
  with True assms show ?thesis
    by (simp add: ParseInt_def dec_digits_nonempty dec_digits_digits digits_val_dec_digits)
next
  case False
  have "sign_of (Itoa i) = (False, dec_digits i)"
    using False by (simp add: Itoa_def sign_of_digits dec_digits_digits)
  with False assms show ?thesis
    by (simp add: ParseInt_def dec_digits_nonempty dec_digits_digits digits_val_dec_digits)
qed

section \<open>Floating point\<close>

datatype float64 = Fin rat | PInf | NInf | NaN

function bit_len :: "int \<Rightarrow> int" where
  "bit_len n = (if n \<le> 0 then 0 else 1 + bit_len (n div 2))"
  by pat_completeness auto
termination
  by (relation "measure nat") auto

declare bit_len.simps [simp del]

definition pow2 :: "int \<Rightarrow> rat" where
  "pow2 i = (if 0 \<le> i then 2 ^ nat i else 1 / 2 ^ nat (- i))"

definition round_half_even :: "rat \<Rightarrow> int" where
  "round_half_even q = (let f = \<lfloor>q\<rfloor>; r = q - of_int f in
     if r < 1 / 2 then f else if 1 / 2 < r then f + 1 else if even f then f else f + 1)"

text \<open>The exponent \<open>e\<close> with \<open>2^e \<le> a < 2^(e+1)\<close> for a positive rational.\<close>

definition exponent_of :: "rat \<Rightarrow> int" where
  "exponent_of a = (let (n, d) = quotient_of a; e = bit_len n - bit_len d in
     if a < pow2 e then e - 1 else e)"

definition round_bits :: "nat \<Rightarrow> rat \<Rightarrow> rat" where
  "round_bits p x = (if x = 0 then 0 else let a = \<bar>x\<bar>; e = exponent_of a; k = int p - 1 - e in
     sgn x * of_int (round_half_even (a * pow2 k)) * pow2 (- k))"

fun fdiv :: "float64 \<Rightarrow> float64 \<Rightarrow> float64" where
  "fdiv (Fin a) (Fin b) = (if b \<noteq> 0 then Fin (round_bits 53 (a / b))
     else if 0 < a then PInf else if a < 0 then NInf else NaN)"
| "fdiv (Fin a) PInf = Fin 0"
| "fdiv (Fin a) NInf = Fin 0"
| "fdiv PInf (Fin b) = (if 0 \<le> b then PInf else NInf)"
| "fdiv NInf (Fin b) = (if 0 \<le> b then NInf else PInf)"
| "fdiv _ _ = NaN"

fun fscale :: "float64 \<Rightarrow> rat \<Rightarrow> float64" where
  "fscale (Fin a) c = Fin (round_bits 53 (a * c))"
| "fscale PInf c = (if 0 < c then PInf else if c < 0 then NInf else NaN)"
| "fscale NInf c = (if 0 < c then NInf else if c < 0 then PInf else NaN)"
| "fscale NaN c = NaN"

fun fgreater :: "float64 \<Rightarrow> rat \<Rightarrow> bool" where
  "fgreater (Fin a) c = (c < a)"
| "fgreater PInf c = True"
| "fgreater NInf c = False"
| "fgreater NaN c = False"

definition trunc_rat :: "rat \<Rightarrow> int" where
  "trunc_rat x = (if x < 0 then - \<lfloor>- x\<rfloor> else \<lfloor>x\<rfloor>)"

text \<open>
  Conversion to \<open>int\<close>: truncation towards zero.  For an infinity, a NaN or a value outside of the
  64-bit range the result is implementation specific, a parameter.
\<close>

definition float_to_int :: "(float64 \<Rightarrow> int) \<Rightarrow> float64 \<Rightarrow> int" where
  "float_to_int special f = (case f of
     Fin x \<Rightarrow> if - (2 ^ 63) \<le> trunc_rat x \<and> trunc_rat x < 2 ^ 63 then trunc_rat x else special f
   | _ \<Rightarrow> special f)"

definition scan_digits :: "string \<Rightarrow> string \<times> string" where
  "scan_digits s = (takeWhile is_digit s, dropWhile is_digit s)"

text \<open>An unsigned decimal \<open>digits[.digits][e[sign]digits]\<close> as a rational.\<close>

definition parse_decimal :: "string \<Rightarrow> rat option" where
  "parse_decimal s = (let (ip, r) = scan_digits s;
       (fp, r') = (case r of c # t \<Rightarrow> if c = CHR ''.'' then scan_digits t else ([], r) | [] \<Rightarrow> ([], []));
       m = of_int (digits_val (ip @ fp)) / 10 ^ length fp in
     if ip = [] \<and> fp = [] then None
     else (case r' of [] \<Rightarrow> Some m
       | c # t \<Rightarrow> if ToLower_char c \<noteq> CHR ''e'' then None
           else let (neg, ds) = sign_of t in
             if ds = [] \<or> \<not> list_all is_digit ds then None
             else Some (if neg then m / 10 ^ nat (digits_val ds) else m * 10 ^ nat (digits_val ds))))"

definition ParseFloat :: "string \<Rightarrow> nat \<Rightarrow> float64 res" where
  "ParseFloat s bits = (let (neg, u) = sign_of s in
     if ToLower u = ''inf'' \<or> ToLower u = ''infinity'' then Inr (if neg then NInf else PInf)
     else if ToLower s = ''nan'' then Inr NaN
     else (case parse_decimal u of
         None \<Rightarrow> Inl (Errorf ''strconv.ParseFloat'' [S s, W ErrSyntax])
       | Some x \<Rightarrow> let v = round_bits (if bits = 32 then 24 else 53) x in
           if (if bits = 32 then 2 ^ 128 else 2 ^ 1024) \<le> v
           then Inl (Errorf ''strconv.ParseFloat'' [S s, W ErrRange])
           else Inr (Fin (if neg then - v else v))))"

subsection \<open>Rounding\<close>

lemma round_half_even_int [simp]: "round_half_even (of_int i) = i"
  by (simp add: round_half_even_def)

lemma round_half_even_near: "\<bar>of_int (round_half_even q) - q\<bar> \<le> 1 / 2"
proof -
  have "of_int \<lfloor>q\<rfloor> \<le> q" "q < of_int \<lfloor>q\<rfloor> + 1" by linarith+
  then show ?thesis by (auto simp: round_half_even_def Let_def)
qed

lemma pow2_pos [simp]: "0 < pow2 i"
  by (simp add: pow2_def)

lemma pow2_minus: "pow2 (- i) * pow2 i = 1"
  by (auto simp: pow2_def)

text \<open>The relative error of rounding is bounded by half a unit in the last place.\<close>

lemma round_bits_error:
  assumes "x \<noteq> 0"
  shows "\<bar>round_bits p x - x\<bar> \<le> pow2 (exponent_of \<bar>x\<bar> - int p + 1) / 2"
proof -
  let ?k = "int p - 1 - exponent_of \<bar>x\<bar>"
  let ?r = "of_int (round_half_even (\<bar>x\<bar> * pow2 ?k)) :: rat"
  have sx: "sgn x * \<bar>x\<bar> = x" by (simp add: sgn_mult_abs)
  have "round_bits p x - x = sgn x * (?r * pow2 (- ?k) - \<bar>x\<bar>)"
    using assms sx by (simp add: round_bits_def Let_def algebra_simps)
  also have "?r * pow2 (- ?k) - \<bar>x\<bar> = (?r - \<bar>x\<bar> * pow2 ?k) * pow2 (- ?k)"
    using pow2_minus[of ?k] by (simp add: algebra_simps)
  finally have "\<bar>round_bits p x - x\<bar> = \<bar>?r - \<bar>x\<bar> * pow2 ?k\<bar> * pow2 (- ?k)"
    using assms by (simp add: abs_mult abs_sgn_eq abs_of_pos)
  also have "\<dots> \<le> 1 / 2 * pow2 (- ?k)"
    using round_half_even_near[of "\<bar>x\<bar> * pow2 ?k"] pow2_pos[of "- ?k"]
    by (intro mult_right_mono) (auto intro: less_imp_le)
  finally show ?thesis by (simp add: algebra_simps)
qed

end
