(* ===== verification/Go_Errors.thy ===== *)
theory Go_Errors
  imports Go_Numbers
begin

text \<open>
  The parts of Go's \<open>fmt\<close> and \<open>errors\<close> packages the controllers rely on: the text of an error
  (\<open>Error()\<close>), \<open>errors.Join\<close> and \<open>errors.As\<close> for the exit status of a process.  \<open>sprintf\<close>
  interprets the verbs of a format string against the texts of its arguments; \<open>%q\<close> quotes as
  \<open>strconv.Quote\<close> does for printable text.
\<close>

section \<open>Formatting\<close>

definition quote_char :: "char \<Rightarrow> string" where
  "quote_char c = (if c = CHR 0x22 \<or> c = CHR 0x5C then [CHR 0x5C, c]
     else if c = CHR 0x0A then [CHR 0x5C, CHR ''n'']
     else if c = CHR 0x09 then [CHR 0x5C, CHR ''t''] else [c])"

definition Quote :: "string \<Rightarrow> string" where
  "Quote s = [CHR 0x22] @ concat (map quote_char s) @ [CHR 0x22]"

fun sprintf :: "string \<Rightarrow> string list \<Rightarrow> string" where
  "sprintf [] as = []"
| "sprintf [c] as = (if c = CHR ''%'' then ''%!(NOVERB)'' else [c])"
| "sprintf (c # v # r) as =
     (if c \<noteq> CHR ''%'' then c # sprintf (v # r) as
      else if v = CHR ''%'' then CHR ''%'' # sprintf r as
      else (case as of
          [] \<Rightarrow> ''%!'' @ [v] @ ''(MISSING)'' @ sprintf r []
        | a # as' \<Rightarrow> (if v = CHR ''q'' then Quote a else a) @ sprintf r as'))"

fun Error :: "go_error \<Rightarrow> string" and arg_text :: "fmt_arg \<Rightarrow> string" where
  "Error (ErrorsNew m) = m"
| "Error (Errorf f as) = sprintf f (map arg_text as)"
| "Error (ErrorsJoin es) = JoinStrings (map Error es) [CHR 0x0A]"
| "Error (ExitError c) = ''exit status '' @ Itoa c"
| "Error (InternalError e stderr) = Error e @ '': '' @ stderr"
| "Error (GoPanic m) = m"
| "arg_text (S s) = s"
| "arg_text (D i) = Itoa i"
| "arg_text (W e) = Error e"
| "arg_text (V e) = Error e"

text \<open>A slice of strings under \<open>%v\<close> or \<open>%s\<close>.\<close>

definition slice_text :: "string list \<Rightarrow> string" where
  "slice_text xs = ''['' @ JoinStrings xs '' '' @ '']''"

section \<open>Joining and inspecting errors\<close>

text \<open>\<open>errors.Join\<close> drops nil errors and is nil when all are.\<close>

definition errors_Join :: "go_error option list \<Rightarrow> go_error option" where
  "errors_Join es = (let ns = concat (map (\<lambda>e. case e of None \<Rightarrow> [] | Some x \<Rightarrow> [x]) es) in
     if ns = [] then None else Some (ErrorsJoin ns))"

text \<open>The first value a search through a list finds.\<close>

fun first_some :: "('a \<Rightarrow> 'b option) \<Rightarrow> 'a list \<Rightarrow> 'b option" where
  "first_some f [] = None"
| "first_some f (x # xs) = (case f x of Some y \<Rightarrow> Some y | None \<Rightarrow> first_some f xs)"

lemma first_some_cong [fundef_cong]:
  "xs = ys \<Longrightarrow> (\<And>x. x \<in> set ys \<Longrightarrow> f x = g x) \<Longrightarrow> first_some f xs = first_some g ys"
proof -
  assume "xs = ys" and "\<And>x. x \<in> set ys \<Longrightarrow> f x = g x"
  moreover have "(\<And>x. x \<in> set zs \<Longrightarrow> f x = g x) \<Longrightarrow> first_some f zs = first_some g zs" for zs
    by (induction zs) (auto split: option.split)
  ultimately show ?thesis by blast
qed

text \<open>\<open>errors.As\<close> for an error with an exit code, and for the error type of the executor.\<close>

fun as_exit_error :: "go_error \<Rightarrow> int option" and as_exit_arg :: "fmt_arg \<Rightarrow> int option" where
  "as_exit_error (ExitError c) = Some c"
| "as_exit_error (Errorf f as) = first_some as_exit_arg as"
| "as_exit_error (ErrorsJoin es) = first_some as_exit_error es"
| "as_exit_error (InternalError e s) = Some (case as_exit_error e of Some c \<Rightarrow> c | None \<Rightarrow> -1)"
| "as_exit_error (ErrorsNew m) = None"
| "as_exit_error (GoPanic m) = None"
| "as_exit_arg (W e) = as_exit_error e"
| "as_exit_arg (V e) = None"
| "as_exit_arg (S s) = None"
| "as_exit_arg (D i) = None"

fun AsExecError :: "go_error \<Rightarrow> go_error option" and AsExecError_arg :: "fmt_arg \<Rightarrow> go_error option" where
  "AsExecError (InternalError e s) = Some (InternalError e s)"
| "AsExecError (Errorf f as) = first_some AsExecError_arg as"
| "AsExecError (ErrorsJoin es) = first_some AsExecError es"
| "AsExecError (ExitError c) = None"
| "AsExecError (ErrorsNew m) = None"
| "AsExecError (GoPanic m) = None"
| "AsExecError_arg (W e) = AsExecError e"
| "AsExecError_arg (V e) = None"
| "AsExecError_arg (S s) = None"
| "AsExecError_arg (D i) = None"

text \<open>\<open>ExitCode\<close> of the executor's error: the wrapped exit status, -1 without one.\<close>

fun ExitCode :: "go_error \<Rightarrow> int" where
  "ExitCode (InternalError e s) = (case as_exit_error e of Some c \<Rightarrow> c | None \<Rightarrow> -1)"
| "ExitCode e = -1"

lemma errors_Join_None [simp]: "errors_Join es = None \<longleftrightarrow> set es \<subseteq> {None}"
  by (auto simp: errors_Join_def Let_def split: option.splits)

end
