(* ===== verification/Symlink_Resolver.thy ===== *)
theory Symlink_Resolver
  imports LVMS_Prelude
begin

text \<open>
  The caching symlink resolver of \<open>internal/controllers/symlink-resolver/resolver.go\<close>.  A resolver
  is its cache; \<open>resolveFn\<close>, which the program takes as a parameter (by default
  \<open>filepath.EvalSymlinks\<close>), is a parameter here.  A failed resolution is not cached.

  The contract of the cache is the locale \<open>memo\<close>: a lookup that agrees with a function and keeps
  the invariant that lets it agree.  The development's clients of a resolver take the function it
  computes; the interpretation shows that a fresh resolver computes exactly \<open>resolveFn\<close>, whatever
  was resolved before.
\<close>

type_synonym resolveFn = "string \<Rightarrow> string res"

record Resolver =
  cache :: "string \<rightharpoonup> string"

definition NewWithResolver :: Resolver where
  "NewWithResolver = \<lparr>cache = Map.empty\<rparr>"

definition Resolve :: "resolveFn \<Rightarrow> Resolver \<Rightarrow> string \<Rightarrow> Resolver \<times> string res" where
  "Resolve resolveFn r path = (case cache r path of
     Some val \<Rightarrow> (r, Inr val)
   | None \<Rightarrow> (case resolveFn path of
        Inl err \<Rightarrow> (r, Inl err)
      | Inr val \<Rightarrow> (r\<lparr>cache := (cache r)(path \<mapsto> val)\<rparr>, Inr val)))"

section \<open>Memoisation\<close>

locale memo =
  fixes look :: "'s \<Rightarrow> 'k \<Rightarrow> 's \<times> 'v"
    and spec :: "'k \<Rightarrow> 'v"
    and start :: 's
    and inv :: "'s \<Rightarrow> bool"
  assumes inv_start: "inv start"
    and inv_look: "inv s \<Longrightarrow> inv (fst (look s k))"
    and look_spec: "inv s \<Longrightarrow> snd (look s k) = spec k"
begin

fun run_memo :: "'s \<Rightarrow> 'k list \<Rightarrow> 's \<times> 'v list" where
  "run_memo s [] = (s, [])"
| "run_memo s (k # ks) = (let (s1, v) = look s k; (s2, vs) = run_memo s1 ks in (s2, v # vs))"

lemma run_memo_spec: "inv s \<Longrightarrow> snd (run_memo s ks) = map spec ks"
  by (induction ks arbitrary: s)
    (auto simp: case_prod_beta inv_look look_spec)

lemma run_memo_start: "snd (run_memo start ks) = map spec ks"
  by (rule run_memo_spec) (rule inv_start)

end

definition coherent :: "resolveFn \<Rightarrow> Resolver \<Rightarrow> bool" where
  "coherent f r \<longleftrightarrow> (\<forall>p v. cache r p = Some v \<longrightarrow> f p = Inr v)"

interpretation resolver: memo "Resolve f" f NewWithResolver "coherent f" for f
  by unfold_locales
    (auto simp: coherent_def NewWithResolver_def Resolve_def split: option.splits sum.splits)

section \<open>Sequences of resolutions\<close>

fun ResolveAll :: "resolveFn \<Rightarrow> Resolver \<Rightarrow> string list \<Rightarrow> Resolver \<times> string res list" where
  "ResolveAll f r [] = (r, [])"
| "ResolveAll f r (p # ps) = (let (r1, v) = Resolve f r p; (r2, vs) = ResolveAll f r1 ps in (r2, v # vs))"

lemma ResolveAll_run_memo: "ResolveAll f r ps = resolver.run_memo f r ps"
  by (induction ps arbitrary: r) auto

text \<open>Whatever paths are resolved, in whatever order and however often, a fresh resolver
  answers every one as \<open>resolveFn\<close> does: caching does not change a result, and an error is not
  remembered as a success.\<close>

lemma Resolver_transparent:
  "snd (ResolveAll resolveFn NewWithResolver paths) = map resolveFn paths"
  unfolding ResolveAll_run_memo by (rule resolver.run_memo_start)

end
