(* ===== verification/Traced_Programs.thy ===== *)
theory Traced_Programs
  imports LVMS_Prelude
begin

text \<open>
  Building blocks of traced programs shared by the controllers: the answer of the Kubernetes API
  server to a request, reading and writing of process state, loops over slices, and the derived rules
  of the program logic.
\<close>

section \<open>Answers of the API server\<close>

datatype 'a api = Found 'a | NotFound go_error | ApiErr go_error

datatype OperationResult =
    OperationResultNone | OperationResultCreated | OperationResultUpdated

section \<open>State and loops\<close>

text \<open>Reading and writing the state beside the trace.\<close>

definition gets :: "('s \<Rightarrow> 'a) \<Rightarrow> ('s, 'a) state" where
  "gets f = State (\<lambda>s. (f s, s))"

definition modify :: "('s \<Rightarrow> 's) \<Rightarrow> ('s, unit) state" where
  "modify f = State (\<lambda>s. ((), f s))"

lemma run_gets [simp]: "run_state (gets f) s = (f s, s)"
  by (simp add: gets_def)

lemma run_modify [simp]: "run_state (modify f) s = ((), f s)"
  by (simp add: modify_def)

lemma guarded_gets: "guarded G P (gets f) (\<lambda>_. P)"
  by (simp add: guarded_def)

lemma guarded_modify: "(\<And>s. tr (f s) = tr s) \<Longrightarrow> guarded G P (modify f) (\<lambda>_. P)"
  by (simp add: guarded_def)

lemma only_gets [only_intros]: "only A (gets f)"
  by (simp add: only_def guarded_def)

lemma only_modify [only_intros]: "(\<And>s. tr (f s) = tr s) \<Longrightarrow> only A (modify f)"
  by (simp add: only_def guarded_def)

text \<open>Iteration over a list whose body may end it with an error.\<close>

fun for_each :: "'x list \<Rightarrow> ('x \<Rightarrow> ('s, go_error option) state) \<Rightarrow> ('s, go_error option) state" where
  "for_each [] f = ret None"
| "for_each (x # xs) f = catch_err (f x) (\<lambda>e. ret (Some e)) (for_each xs f)"

text \<open>Iteration with no result.\<close>

fun for_do :: "'x list \<Rightarrow> ('x \<Rightarrow> ('s, unit) state) \<Rightarrow> ('s, unit) state" where
  "for_do [] f = ret ()"
| "for_do (x # xs) f = do { _ \<leftarrow> f x; for_do xs f }"

lemma only_for_each [only_intros]: "(\<And>x. x \<in> set xs \<Longrightarrow> only A (f x)) \<Longrightarrow> only A (for_each xs f)"
  by (induction xs) (auto intro!: only_intros)

lemma only_for_do [only_intros]: "(\<And>x. x \<in> set xs \<Longrightarrow> only A (f x)) \<Longrightarrow> only A (for_do xs f)"
  by (induction xs) (auto intro!: only_intros)

lemma only_api [only_intros]:
  "(\<And>v. x = Found v \<Longrightarrow> only A (f v)) \<Longrightarrow> (\<And>e. x = NotFound e \<Longrightarrow> only A (g e)) \<Longrightarrow>
   (\<And>e. x = ApiErr e \<Longrightarrow> only A (k e)) \<Longrightarrow>
   only A (case x of Found v \<Rightarrow> f v | NotFound e \<Rightarrow> g e | ApiErr e \<Rightarrow> k e)"
  by (simp split: api.split)

section \<open>Derived rules\<close>

text \<open>Every action of every run satisfies the guard at the history it happens in.\<close>

definition always :: "('act list \<Rightarrow> 'act \<Rightarrow> bool) \<Rightarrow> (('act, 'b) traced_scheme, 'a) state \<Rightarrow> bool" where
  "always G m \<longleftrightarrow> guarded G (\<lambda>_. True) m (\<lambda>_ _. True)"

lemma always_iff:
  "always G m \<longleftrightarrow> (\<forall>s. \<exists>es. tr (snd (run_state m s)) = tr s @ es
     \<and> (\<forall>pre a post. es = pre @ a # post \<longrightarrow> G (tr s @ pre) a))"
  by (simp add: always_def guarded_def)

lemma alwaysI: "guarded G (\<lambda>_. True) m Q \<Longrightarrow> always G m"
  unfolding always_def by (erule guarded_conseq) simp_all

lemma always_only: "only A m \<Longrightarrow> (\<And>h a. a \<in> A \<Longrightarrow> G h a) \<Longrightarrow> always G m"
  unfolding always_def by (rule guarded_only[where A = A]) simp_all

lemma guarded_if:
  "(b \<Longrightarrow> guarded G P m Q) \<Longrightarrow> (\<not> b \<Longrightarrow> guarded G P n Q) \<Longrightarrow> guarded G P (if b then m else n) Q"
  by simp

lemma guarded_option:
  "(x = None \<Longrightarrow> guarded G P m Q) \<Longrightarrow> (\<And>v. x = Some v \<Longrightarrow> guarded G P (f v) Q) \<Longrightarrow>
   guarded G P (case x of None \<Rightarrow> m | Some v \<Rightarrow> f v) Q"
  by (simp split: option.split)

lemma guarded_prod:
  "(\<And>a b. x = (a, b) \<Longrightarrow> guarded G P (f a b) Q) \<Longrightarrow> guarded G P (case x of (a, b) \<Rightarrow> f a b) Q"
  by (simp split: prod.split)

lemma guarded_let: "guarded G P (f x) Q \<Longrightarrow> guarded G P (let y = x in f y) Q"
  by simp

lemma guarded_weaken: "guarded G P' m Q \<Longrightarrow> (\<And>h. P h \<Longrightarrow> P' h) \<Longrightarrow> guarded G P m Q"
  by (erule guarded_conseq) simp_all

text \<open>A step whose actions are allowed in any case, before one that needs nothing of it.\<close>

lemma guarded_any: "only A m \<Longrightarrow> (\<And>h a. a \<in> A \<Longrightarrow> G h a) \<Longrightarrow> guarded G P m (\<lambda>_ _. True)"
  by (rule guarded_weaken[where P' = "\<lambda>_. True"], rule guarded_only[where A = A]) simp_all

lemma guarded_both:
  fixes m :: "(('act, 'b) traced_scheme, 'x) state"
  assumes "guarded G P m Q" and "guarded G' P' m Q'"
  shows "guarded (\<lambda>h a. G h a \<and> G' h a) (\<lambda>h. P h \<and> P' h) m (\<lambda>x h. Q x h \<and> Q' x h)"
  unfolding guarded_def
proof (intro allI impI)
  fix s :: "('act, 'b) traced_scheme"
  assume "P (tr s) \<and> P' (tr s)"
  with assms obtain es es' where
    "tr (snd (run_state m s)) = tr s @ es" "tr (snd (run_state m s)) = tr s @ es'"
    and G: "\<forall>pre a post. es = pre @ a # post \<longrightarrow> G (tr s @ pre) a"
      "\<forall>pre a post. es' = pre @ a # post \<longrightarrow> G' (tr s @ pre) a"
    and Q: "Q (fst (run_state m s)) (tr (snd (run_state m s)))" "Q' (fst (run_state m s)) (tr (snd (run_state m s)))"
    unfolding guarded_def by blast
  then have t: "tr (snd (run_state m s)) = tr s @ es" "es' = es" by simp_all
  with G Q show "\<exists>es. tr (snd (run_state m s)) = tr s @ es
      \<and> (\<forall>pre a post. es = pre @ a # post \<longrightarrow> G (tr s @ pre) a \<and> G' (tr s @ pre) a)
      \<and> Q (fst (run_state m s)) (tr (snd (run_state m s))) \<and> Q' (fst (run_state m s)) (tr (snd (run_state m s)))"
    by (intro exI[of _ es]) simp
qed

lemma stable_ex [intro]: "(\<And>x. stable (P x)) \<Longrightarrow> stable (\<lambda>h. \<exists>x. P x h)"
  unfolding stable_def by blast

lemma guarded_result:
  assumes "guarded G P m Q" and "\<And>s. R (fst (run_state m s))"
  shows "guarded G P m (\<lambda>x h. Q x h \<and> R x)"
  using assms unfolding guarded_def by blast

lemma guarded_fact: "(b \<Longrightarrow> guarded G P m Q) \<Longrightarrow> guarded G (\<lambda>h. P h \<and> b) m Q"
  by (cases b) (simp_all add: guarded_def)

lemma stable_all_const: "(\<And>h es. R h \<Longrightarrow> R (h @ es)) \<Longrightarrow> stable R"
  by (simp add: stable_def)

text \<open>An iteration that establishes something for every element.\<close>

lemma guarded_for_each:
  assumes "stable P" and "\<And>x. stable (U x)"
    and "\<And>x. x \<in> set xs \<Longrightarrow> guarded G P (f x) (\<lambda>r h. P h \<and> (r = None \<longrightarrow> U x h))"
  shows "guarded G P (for_each xs f) (\<lambda>r h. P h \<and> (r = None \<longrightarrow> (\<forall>x \<in> set xs. U x h)))"
  using assms(3)
proof (induction xs)
  case Nil
  show ?case by (simp add: guarded_return)
next
  case (Cons x xs)
  have x: "guarded G P (f x) (\<lambda>r h. P h \<and> (r = None \<longrightarrow> U x h))" by (rule Cons.prems) simp
  have xs: "guarded G P (for_each xs f) (\<lambda>r h. P h \<and> (r = None \<longrightarrow> (\<forall>x \<in> set xs. U x h)))"
    by (rule Cons.IH) (rule Cons.prems, simp)
  show ?case
    unfolding for_each.simps
    apply (rule guarded_catch_err[OF x])
     apply (rule guarded_return, simp)
    apply (rule guarded_conseq[OF guarded_frame[OF xs assms(2)[of x]]])
      apply auto
    done
qed

lemma for_each_keep:
  assumes "stable P" and "\<And>x. x \<in> set xs \<Longrightarrow> guarded G P (f x) (\<lambda>_. P)"
  shows "guarded G P (for_each xs f) (\<lambda>_. P)"
  by (rule guarded_conseq[OF guarded_for_each[where U = "\<lambda>_ _. True", OF assms(1)]])
    (auto intro!: guarded_conseq[OF assms(2)])

text \<open>A guard may be strengthened by a stable fact.\<close>

lemma guarded_while:
  fixes m :: "(('act, 'b) traced_scheme, 'x) state"
  assumes "guarded G (\<lambda>_. True) m Q" and "stable P" and "\<And>h a. P h \<Longrightarrow> G h a \<Longrightarrow> G' h a"
  shows "guarded G' P m (\<lambda>x h. P h \<and> Q x h)"
proof -
  have "only UNIV m" unfolding only_def by (rule guarded_conseq[OF assms(1)]) auto
  from guarded_only[OF this assms(2), of "\<lambda>h _. P h"]
  have "guarded (\<lambda>h _. P h) P m (\<lambda>_. P)" by simp
  from guarded_both[OF this assms(1)] show ?thesis
    by (rule guarded_conseq) (auto intro: assms(3))
qed

lemma guarded_under:
  assumes "guarded G (\<lambda>_. True) m Q" and "stable P" and "\<And>h a. P h \<Longrightarrow> G h a \<Longrightarrow> G' h a"
  shows "guarded G' P m (\<lambda>_ _. True)"
  by (rule guarded_conseq[OF guarded_while[where G' = G', OF assms]]) simp_all

section \<open>Evidence\<close>

text \<open>The action happened, at a history with the property.\<close>

definition seen :: "('act list \<Rightarrow> bool) \<Rightarrow> 'act \<Rightarrow> 'act list \<Rightarrow> bool" where
  "seen P a h \<longleftrightarrow> (\<exists>pre post. h = pre @ a # post \<and> P pre)"

lemma stable_seen [simp, intro]: "stable (seen P a)"
  unfolding stable_def seen_def by fastforce

lemma seen_last [simp]: "P h \<Longrightarrow> seen P a (h @ [a])"
  by (auto simp: seen_def)

lemma seen_mono: "seen P a h \<Longrightarrow> seen P a (h @ es)"
  using stable_seen[of P a] by (simp add: stable_def)

lemma stable_all [intro]: "(\<And>x. x \<in> A \<Longrightarrow> stable (P x)) \<Longrightarrow> stable (\<lambda>h. \<forall>x \<in> A. P x h)"
  by (auto simp: stable_def)

lemma guarded_ask_seen:
  assumes "stable P" and "\<And>h. P h \<Longrightarrow> G h a"
  shows "guarded G P (ask q a) (\<lambda>r h. P h \<and> seen (\<lambda>pre. q pre = r) a h)"
  using assms by (intro guarded_ask) (auto simp: stable_def)

text \<open>Units that are torn down one after the other: each has the actions it may perform and, when it
  reports no error, evidence that it is gone.\<close>

locale teardown =
  fixes run :: "'u \<Rightarrow> (('act, 'b) traced_scheme, go_error option) state"
    and gone :: "'u \<Rightarrow> 'act list \<Rightarrow> bool"
    and may :: "'u \<Rightarrow> 'act set"
  assumes gone_stable: "stable (gone u)"
    and run_guarded: "guarded (\<lambda>_ a. a \<in> may u) (\<lambda>_. True) (run u) (\<lambda>r h. r = None \<longrightarrow> gone u h)"
begin

lemma in_order:
  "guarded (\<lambda>h a. \<exists>before u after. us = before @ u # after \<and> a \<in> may u \<and> (\<forall>v \<in> set before. gone v h))
     (\<lambda>_. True) (for_each us run) (\<lambda>r h. r = None \<longrightarrow> (\<forall>u \<in> set us. gone u h))"
proof -
  let ?G = "\<lambda>us h a. \<exists>before u after. us = before @ u # after \<and> a \<in> may u \<and> (\<forall>v \<in> set before. gone v h)"
  let ?D = "\<lambda>ds h. \<forall>v \<in> set ds. gone v h"
  have sD: "stable (?D ds)" for ds by (intro stable_all gone_stable)
  have "guarded (?G us) (?D ds) (for_each rest run) (\<lambda>r h. r = None \<longrightarrow> (\<forall>u \<in> set us. gone u h))"
    if "us = ds @ rest" for ds rest
    using that
  proof (induction rest arbitrary: ds)
    case Nil
    then show ?case by (simp add: guarded_return)
  next
    case (Cons u rest)
    have "guarded (\<lambda>h a. ?D ds h \<and> a \<in> may u) (?D ds) (run u) (\<lambda>r h. ?D ds h \<and> (r = None \<longrightarrow> gone u h))"
    proof -
      have 1: "guarded (\<lambda>h a. True) (?D ds) (run u) (\<lambda>r h. ?D ds h \<and> (r = None \<longrightarrow> gone u h))"
        by (rule guarded_conseq[OF guarded_frame[OF run_guarded sD]]) auto
      have 2: "guarded (\<lambda>h a. ?D ds h) (?D ds) (run u) (\<lambda>_ _. True)"
      proof (rule guarded_conseq[where Q' = "\<lambda>_. ?D ds"])
        have "only UNIV (run u)"
          unfolding only_def by (rule guarded_conseq[OF run_guarded]) auto
        then show "guarded (\<lambda>h a. ?D ds h) (?D ds) (run u) (\<lambda>_. ?D ds)"
          by (rule guarded_only[OF _ sD])
      qed simp_all
      have 3: "guarded (\<lambda>h a. a \<in> may u) (?D ds) (run u) (\<lambda>_ _. True)"
        by (rule guarded_conseq[OF run_guarded]) auto
      show ?thesis
        by (rule guarded_conseq[OF guarded_both[OF guarded_both[OF 1 2] 3]]) auto
    qed
    then have u: "guarded (?G us) (?D ds) (run u) (\<lambda>r h. ?D ds h \<and> (r = None \<longrightarrow> gone u h))"
      by (rule guarded_conseq) (use Cons.prems in auto)
    have rest: "guarded (?G us) (?D (ds @ [u])) (for_each rest run) (\<lambda>r h. r = None \<longrightarrow> (\<forall>u \<in> set us. gone u h))"
      by (rule Cons.IH) (simp add: Cons.prems)
    show ?case
      unfolding for_each.simps
      by (rule guarded_catch_err[OF u], simp add: guarded_return, rule guarded_weaken[OF rest]) auto
  qed
  from this[of "[]" us] show ?thesis by (simp add: guarded_weaken)
qed

end

end
