(* ===== verification/VGM_World.thy ===== *)
theory VGM_World
  imports Constants_Labels Go_Errors Symlink_Resolver Traced_Programs
begin

text \<open>
  The world of the volume group manager (\<open>internal/controllers/vgmanager\<close>): the reports of the
  host commands as the sources declare them, the configuration of lvmd, the actions on the outside
  world, and the environment that answers them.

  Every action is recorded in the trace \<open>tr\<close> of the state, in order.  The field of \<open>vgm_env\<close> that
  answers an action gets the trace so far, so an answer may depend on everything that happened and
  may differ each time.  The fields stand for the kernel and the host's programs, the Kubernetes
  API, \<open>encoding/json\<close>, \<open>sigs.k8s.io/yaml\<close>, \<open>go-cmp\<close>, \<open>controllerutil\<close> and the event recorder.
  \<open>CreateOrUpdate\<close> is a fetch of the object the mutate function is applied to, followed by the
  write of its result.
\<close>

section \<open>Reports of the host commands\<close>

record VGReportEntry =
  vr_Name :: string
  vr_VgSize :: string
  vr_Tags :: string

type_synonym VGReport = "VGReportEntry list list"

record PhysicalVolume =
  PvName :: string
  pv_UUID :: string
  pv_VgName :: string
  PvFmt :: string
  PvAttr :: string
  PvSize :: string
  PvFree :: string
  PvMissing :: string
  DevSize :: string

type_synonym PVReport = "PhysicalVolume list list"

record LogicalVolume =
  lv_Name :: string
  lv_VgName :: string
  lv_PoolName :: string
  LvAttr :: string
  LvSize :: string
  MetadataPercent :: string
  lv_ChunkSize :: string
  lv_MetadataSize :: string
  RAIDSyncPercent :: string
  LVHealthStatus :: string
  LVLayout :: string
  RAIDSyncAction :: string

type_synonym LVReport = "LogicalVolume list list"

record VolumeGroup =
  lvg_Name :: string
  lvg_VgSize :: string
  lvg_PVs :: "PhysicalVolume list"
  lvg_Tags :: "string list"

datatype BlockDevice = BlockDevice
  (bd_Name: string)
  (bd_KName: string)
  (bd_Type: string)
  (bd_Model: string)
  (bd_Vendor: string)
  (bd_State: string)
  (bd_FSType: string)
  (bd_Size: string)
  (bd_Children: "BlockDevice list")
  (bd_ReadOnly: bool)
  (bd_Serial: string)
  (bd_PartLabel: string)

section \<open>Configuration of lvmd\<close>

datatype lvmd_type = TypeThin | TypeThick

record lvmd_ThinPoolConfig =
  ltp_Name :: string
  ltp_OverprovisionRatio :: int

text \<open>The overprovision ratio is the \<open>float64\<close> of an integer, an exact value for the ratios the
  API admits; it is kept as that integer.\<close>

record lvmd_DeviceClass =
  ldc_Name :: string
  ldc_VolumeGroup :: string
  ldc_Default :: bool
  ldc_SpareGB :: "nat option"
  ldc_Stripe :: "nat option"
  ldc_StripeSize :: string
  ldc_LVCreateOptions :: "string list"
  ldc_Type :: lvmd_type
  ldc_ThinPoolConfig :: "lvmd_ThinPoolConfig option"

record lvmd_Config =
  cfg_SocketName :: string
  cfg_DeviceClasses :: "lvmd_DeviceClass list"
  cfg_LvcreateOptionClasses :: "(string \<times> string list) list"

section \<open>Actions\<close>

text \<open>The result of a process: the error of its start, its output, the error of reading it line
  by line, its error stream with the errors of reading and closing that, and the error of
  \<open>Wait\<close>.\<close>

record process =
  ps_start :: "go_error option"
  ps_stdout :: string
  ps_scan :: "go_error option"
  ps_stderr :: string
  ps_stderr_read :: "go_error option"
  ps_stderr_close :: "go_error option"
  ps_wait :: "go_error option"

datatype gauge = raidHealthStatus | raidSyncInProgress | raidMemberCount | raidDegradedCount | raidSyncPercent

datatype event_object =
    EvNodeStatus string string
  | EvOwner OwnerReference string
  | EvVolumeGroup string string

datatype action =
    Exec string "string list"
  | ExecCombined string "string list"
  | GetVolumeGroup string string
  | GetNode string
  | GetNodeStatus string string
  | GetStorageClass string
  | UpdateVolumeGroup LVMVolumeGroup
  | FetchNodeStatus string string
  | WriteNodeStatus LVMVolumeGroupNodeStatus
  | Event event_object bool string string
  | OpenFile string
  | WriteFile string string
  | RemoveFile string
  | SetGauge gauge string string int
  | DeleteGauge gauge string string

type_synonym history = "action list"

section \<open>The environment and the state\<close>

record vgm_env =
  NodeName :: string
  Namespace :: string
  resolve :: resolveFn
  run_process :: "history \<Rightarrow> string \<Rightarrow> string list \<Rightarrow> process"
  run_combined :: "history \<Rightarrow> string \<Rightarrow> string list \<Rightarrow> string \<times> go_error option"
  decode_vgs :: "string \<Rightarrow> VGReport res"
  decode_pvs :: "string \<Rightarrow> PVReport res"
  decode_lvs :: "string \<Rightarrow> LVReport res"
  decode_lsblk :: "string \<Rightarrow> BlockDevice list res"
  decode_losetup :: "string \<Rightarrow> string list res"
  api_VolumeGroup :: "history \<Rightarrow> string \<Rightarrow> string \<Rightarrow> LVMVolumeGroup api"
  api_Node :: "history \<Rightarrow> string \<Rightarrow> Node api"
  api_NodeStatus :: "history \<Rightarrow> string \<Rightarrow> string \<Rightarrow> LVMVolumeGroupNodeStatus api"
  api_StorageClass :: "history \<Rightarrow> string \<Rightarrow> ReclaimPolicy option api"
  api_Update :: "history \<Rightarrow> LVMVolumeGroup \<Rightarrow> go_error option"
  cou_fetch :: "history \<Rightarrow> string \<Rightarrow> string \<Rightarrow> LVMVolumeGroupNodeStatus res"
  cou_write :: "history \<Rightarrow> LVMVolumeGroupNodeStatus \<Rightarrow> OperationResult \<times> go_error option"
  MatchNodeSelectorTerms :: "Node \<Rightarrow> NodeSelector \<Rightarrow> bool res"
  SetOwnerReference :: "LVMVolumeGroup \<Rightarrow> OwnerReference list \<Rightarrow> OwnerReference list res"
  AddFinalizer :: "string list \<Rightarrow> string \<Rightarrow> string list \<times> bool"
  RemoveFinalizer :: "string list \<Rightarrow> string \<Rightarrow> string list \<times> bool"
  V1Enabled :: bool
  fmt_float :: "float64 \<Rightarrow> string"
  float_special :: "float64 \<Rightarrow> int"
  now :: "history \<Rightarrow> string"
  lvmd_path :: string
  open_error :: "history \<Rightarrow> go_error option"
  read_error :: "history \<Rightarrow> go_error option"
  write_error :: "history \<Rightarrow> (go_error \<times> string option) option"
  remove_error :: "history \<Rightarrow> go_error option"
  cmp_Equal :: "lvmd_Config \<Rightarrow> lvmd_Config \<Rightarrow> bool"
  yaml_Marshal :: "lvmd_Config \<Rightarrow> string res"
  yaml_Unmarshal :: "string \<Rightarrow> lvmd_Config res"

text \<open>The state of the process beside the trace: the cached lvmd configuration and the content of
  the configuration file, \<open>None\<close> while it does not exist.\<close>

record vgm_state = "action traced" +
  lvmd_cache :: "lvmd_Config option"
  lvmd_file :: "string option"

type_synonym 'a vgm = "(vgm_state, 'a) state"

section \<open>A concrete environment\<close>

text \<open>A host on which every command succeeds and reports nothing, an API server that has nothing and
  accepts every write, and a disk without errors; instances for concrete runs update it.\<close>

definition ok_process :: process where
  "ok_process = \<lparr>ps_start = None, ps_stdout = [], ps_scan = None, ps_stderr = [], ps_stderr_read = None,
     ps_stderr_close = None, ps_wait = None\<rparr>"

definition sample_config :: lvmd_Config where
  "sample_config = \<lparr>cfg_SocketName = [], cfg_DeviceClasses = [], cfg_LvcreateOptionClasses = []\<rparr>"

definition absent :: go_error where
  "absent = ErrorsNew ''not found''"

definition quiet_env :: vgm_env where
  "quiet_env = \<lparr>NodeName = ''node1'', Namespace = ''openshift-lvm-storage'', resolve = Inr,
     run_process = (\<lambda>h c as. ok_process), run_combined = (\<lambda>h c as. ([], None)),
     decode_vgs = (\<lambda>_. Inr []), decode_pvs = (\<lambda>_. Inr []), decode_lvs = (\<lambda>_. Inr []),
     decode_lsblk = (\<lambda>_. Inr []), decode_losetup = (\<lambda>_. Inr []),
     api_VolumeGroup = (\<lambda>h ns n. NotFound absent), api_Node = (\<lambda>h n. NotFound absent),
     api_NodeStatus = (\<lambda>h ns n. NotFound absent), api_StorageClass = (\<lambda>h n. NotFound absent),
     api_Update = (\<lambda>h vg. None),
     cou_fetch = (\<lambda>h ns n. Inr \<lparr>ns_Name = n, ns_Namespace = ns, ns_OwnerReferences = [], ns_Finalizers = [], ns_Deleted = False, ns_LVMVGStatus = []\<rparr>),
     cou_write = (\<lambda>h st. (OperationResultUpdated, None)),
     MatchNodeSelectorTerms = (\<lambda>n s. Inr True), SetOwnerReference = (\<lambda>vg refs. Inr refs),
     AddFinalizer = (\<lambda>fs f. if f \<in> set fs then (fs, False) else (fs @ [f], True)),
     RemoveFinalizer = (\<lambda>fs f. (removeAll f fs, f \<in> set fs)),
     V1Enabled = False, fmt_float = (\<lambda>_. []), float_special = (\<lambda>_. 0), now = (\<lambda>_. ''2024-01-01T00:00:00Z''),
     lvmd_path = ''/etc/topolvm/lvmd.yaml'',
     open_error = (\<lambda>_. None), read_error = (\<lambda>_. None), write_error = (\<lambda>_. None), remove_error = (\<lambda>_. None),
     cmp_Equal = (=),
     yaml_Marshal = (\<lambda>c. if c = sample_config then Inr ''empty'' else Inl absent),
     yaml_Unmarshal = (\<lambda>t. if t = ''empty'' then Inr sample_config else Inl absent)\<rparr>"

definition start_state :: vgm_state where
  "start_state = \<lparr>tr = [], lvmd_cache = None, lvmd_file = None\<rparr>"

end
