(* ===== verification/Host_Exec.thy ===== *)
theory Host_Exec
  imports VGM_World
begin

text \<open>
  Running commands in the namespaces of the host: \<open>vgmanager/exec/exec.go\<close>, and the two wrappers
  \<open>vgmanager/wipefs/wipefs.go\<close> and \<open>vgmanager/dmsetup/dmsetup.go\<close>.

  A started process is one action \<open>Exec\<close> with the full command line, \<open>nsenter\<close> included;
  \<open>HostCmd\<close> abbreviates it.  Logging the output is not modelled; reading it is, with its error.
\<close>

section \<open>exec.go\<close>

definition nsEnterPath :: string where
  "nsEnterPath = ''/usr/bin/nsenter''"

definition nsEnterFlags :: "string list" where
  "nsEnterFlags = [''-m'', ''-u'', ''-i'', ''-n'', ''-p'', ''-t'', ''1'']"

definition WrapCommandWithNSenter :: "string \<Rightarrow> string list \<Rightarrow> string \<times> string list" where
  "WrapCommandWithNSenter command arg = (nsEnterPath, nsEnterFlags @ [command] @ arg)"

abbreviation HostCmd :: "string \<Rightarrow> string list \<Rightarrow> action" where
  "HostCmd command arg \<equiv> Exec nsEnterPath (nsEnterFlags @ command # arg)"

abbreviation HostCmdCombined :: "string \<Rightarrow> string list \<Rightarrow> action" where
  "HostCmdCombined command arg \<equiv> ExecCombined nsEnterPath (nsEnterFlags @ command # arg)"

text \<open>The pipes are set up and the process is started; an error of any of these is the error of
  the start.\<close>

definition runCommandWithOutput :: "vgm_env \<Rightarrow> string \<Rightarrow> string list \<Rightarrow> process res vgm" where
  "runCommandWithOutput env command arg =
     do { p \<leftarrow> ask (\<lambda>h. run_process env h command arg) (Exec command arg);
          ret (case ps_start p of Some err \<Rightarrow> Inl err | None \<Rightarrow> Inr p) }"

definition StartCommandWithOutputAsHost :: "vgm_env \<Rightarrow> string \<Rightarrow> string list \<Rightarrow> process res vgm" where
  "StartCommandWithOutputAsHost env command arg =
     (case WrapCommandWithNSenter command arg of (command, arg) \<Rightarrow> runCommandWithOutput env command arg)"

text \<open>\<open>pipeClosingReadCloser.Close\<close>.\<close>

definition Close :: "process \<Rightarrow> go_error option" where
  "Close p = (case ps_stderr_read p of Some err \<Rightarrow> Some err | None \<Rightarrow>
     (case ps_stderr_close p of Some err \<Rightarrow> Some err | None \<Rightarrow>
       (case ps_wait p of Some err \<Rightarrow> Some (InternalError err (ps_stderr p)) | None \<Rightarrow> None)))"

text \<open>With a target to decode into, and without one, where the output is only scanned.\<close>

definition RunCommandAsHostInto ::
  "vgm_env \<Rightarrow> (string \<Rightarrow> 'a res) \<Rightarrow> string \<Rightarrow> string list \<Rightarrow> 'a res vgm" where
  "RunCommandAsHostInto env into command arg =
     catch (StartCommandWithOutputAsHost env command arg)
       (\<lambda>err. ret (Inl (Errorf ''failed to execute command: %v'' [V err])))
       (\<lambda>output. ret (case into (ps_stdout output) of
           Inl err \<Rightarrow> Inl (the (errors_Join [Close output, Some err]))
         | Inr v \<Rightarrow> (case errors_Join [Close output, None] of Some e \<Rightarrow> Inl e | None \<Rightarrow> Inr v)))"

definition RunCommandAsHost :: "vgm_env \<Rightarrow> string \<Rightarrow> string list \<Rightarrow> go_error option vgm" where
  "RunCommandAsHost env command arg =
     catch (StartCommandWithOutputAsHost env command arg)
       (\<lambda>err. ret (Some (Errorf ''failed to execute command: %v'' [V err])))
       (\<lambda>output. ret (errors_Join [Close output, ps_scan output]))"

definition CombinedOutputCommandAsHost ::
  "vgm_env \<Rightarrow> string \<Rightarrow> string list \<Rightarrow> (string \<times> go_error option) vgm" where
  "CombinedOutputCommandAsHost env command arg =
     (case WrapCommandWithNSenter command arg of (command, arg) \<Rightarrow>
        ask (\<lambda>h. run_combined env h command arg) (ExecCombined command arg))"

section \<open>wipefs.go\<close>

definition DefaultWipefs :: string where
  "DefaultWipefs = ''/usr/sbin/wipefs''"

definition Wipe :: "vgm_env \<Rightarrow> string \<Rightarrow> go_error option vgm" where
  "Wipe env deviceName =
     (if length deviceName = 0
      then ret (Some (Errorf ''failed to wipe the device. Device name is empty'' []))
      else do {
        (output, err) \<leftarrow> CombinedOutputCommandAsHost env DefaultWipefs [''--all'', ''--force'', deviceName];
        ret (case err of
            Some e \<Rightarrow> Some (Errorf ''failed to wipe the device %q. %v''
                [S deviceName, V (ErrorsJoin [e, ErrorsNew output])])
          | None \<Rightarrow> None) })"

section \<open>dmsetup.go\<close>

definition DefaultDMSetup :: string where
  "DefaultDMSetup = ''/usr/sbin/dmsetup''"

definition ErrReferenceNotFound :: go_error where
  "ErrReferenceNotFound = ErrorsNew ''device-mapper reference not found''"

definition Remove :: "vgm_env \<Rightarrow> string \<Rightarrow> go_error option vgm" where
  "Remove env deviceName =
     (if length deviceName = 0
      then ret (Some (ErrorsNew ''failed to remove device-mapper reference. Device name is empty''))
      else do {
        (output, err) \<leftarrow> CombinedOutputCommandAsHost env DefaultDMSetup [''remove'', ''--force'', deviceName];
        ret (case err of
            None \<Rightarrow> None
          | Some e \<Rightarrow>
              if Contains output ''not found'' then Some ErrReferenceNotFound
              else Some (Errorf ''failed to remove the reference from device-mapper %q: %w''
                     [S deviceName, W e])) })"

section \<open>What running a command does\<close>

text \<open>A command is exactly one action, whatever comes of it.\<close>

lemma only_RunCommandAsHost [only_intros]:
  "HostCmd command arg \<in> A \<Longrightarrow> only A (RunCommandAsHost env command arg)"
  unfolding RunCommandAsHost_def StartCommandWithOutputAsHost_def WrapCommandWithNSenter_def
    runCommandWithOutput_def by (auto intro!: only_intros)

lemma only_RunCommandAsHostInto [only_intros]:
  "HostCmd command arg \<in> A \<Longrightarrow> only A (RunCommandAsHostInto env into command arg)"
  unfolding RunCommandAsHostInto_def StartCommandWithOutputAsHost_def WrapCommandWithNSenter_def
    runCommandWithOutput_def by (auto intro!: only_intros)

lemma only_CombinedOutput [only_intros]:
  "HostCmdCombined command arg \<in> A \<Longrightarrow> only A (CombinedOutputCommandAsHost env command arg)"
  unfolding CombinedOutputCommandAsHost_def WrapCommandWithNSenter_def by (auto intro!: only_intros)

lemma only_Wipe [only_intros]:
  "(deviceName \<noteq> [] \<Longrightarrow> HostCmdCombined DefaultWipefs [''--all'', ''--force'', deviceName] \<in> A) \<Longrightarrow>
   only A (Wipe env deviceName)"
  unfolding Wipe_def by (auto intro!: only_intros)

lemma only_Remove [only_intros]:
  "(deviceName \<noteq> [] \<Longrightarrow> HostCmdCombined DefaultDMSetup [''remove'', ''--force'', deviceName] \<in> A) \<Longrightarrow>
   only A (Remove env deviceName)"
  unfolding Remove_def by (auto intro!: only_intros)

text \<open>A command succeeds exactly when it starts, its output is read, its error stream is read and
  closed, and it exits with status 0.\<close>

definition succeeded :: "process \<Rightarrow> bool" where
  "succeeded p \<longleftrightarrow> ps_start p = None \<and> ps_stderr_read p = None \<and> ps_stderr_close p = None
     \<and> ps_wait p = None"

lemma Close_None: "Close p = None \<longleftrightarrow> ps_stderr_read p = None \<and> ps_stderr_close p = None \<and> ps_wait p = None"
  by (simp add: Close_def split: option.split)

lemma run_RunCommandAsHost:
  "run_state (RunCommandAsHost env command arg) s =
     (let p = run_process env (tr s) nsEnterPath (nsEnterFlags @ command # arg) in
      (case ps_start p of Some err \<Rightarrow> Some (Errorf ''failed to execute command: %v'' [V err])
       | None \<Rightarrow> errors_Join [Close p, ps_scan p]),
      s\<lparr>tr := tr s @ [HostCmd command arg]\<rparr>)"
  by (simp add: RunCommandAsHost_def StartCommandWithOutputAsHost_def WrapCommandWithNSenter_def
      runCommandWithOutput_def run_catch Let_def split: option.split)

text \<open>The command ran, at some point of the history, with success.\<close>

definition ran_ok :: "vgm_env \<Rightarrow> string \<Rightarrow> string list \<Rightarrow> history \<Rightarrow> bool" where
  "ran_ok env command arg h \<longleftrightarrow> (\<exists>pre post. h = pre @ HostCmd command arg # post
     \<and> succeeded (run_process env pre nsEnterPath (nsEnterFlags @ command # arg)))"

lemma stable_ran_ok [simp, intro]: "stable (ran_ok env command arg)"
  unfolding stable_def ran_ok_def by fastforce

lemma guarded_RunCommandAsHost:
  assumes "\<And>h. P h \<Longrightarrow> G h (HostCmd command arg)"
    and "\<And>h r. P h \<Longrightarrow> (r = None \<Longrightarrow> ran_ok env command arg (h @ [HostCmd command arg])) \<Longrightarrow>
           Q r (h @ [HostCmd command arg])"
  shows "guarded G P (RunCommandAsHost env command arg) Q"
proof -
  have ok: "ran_ok env command arg (h @ [HostCmd command arg])"
    if "succeeded (run_process env h nsEnterPath (nsEnterFlags @ command # arg))" for h
    using that unfolding ran_ok_def by blast
  have "Q (fst (run_state (RunCommandAsHost env command arg) s)) (tr s @ [HostCmd command arg])"
    if "P (tr s)" for s
    by (rule assms(2)[OF that], rule ok)
      (simp add: run_RunCommandAsHost Let_def succeeded_def Close_None split: option.splits)
  then show ?thesis
    using assms(1) by (auto simp: guarded_def run_RunCommandAsHost Let_def Cons_eq_append_conv)
qed

text \<open>The commands with a given program.\<close>

definition cmds :: "string set \<Rightarrow> action set" where
  "cmds C = {a. \<exists>c arg. a = HostCmd c arg \<and> c \<in> C}"

lemma HostCmd_cmds [simp]: "HostCmd c arg \<in> cmds C \<longleftrightarrow> c \<in> C"
  by (simp add: cmds_def)

lemma cmds_insert [simp]:
  "cmds (insert x (insert y Z)) \<subseteq> A \<longleftrightarrow> cmds {x} \<subseteq> A \<and> cmds (insert y Z) \<subseteq> A"
  by (auto simp: cmds_def)

lemma cmds_singleton [simp]: "cmds {x} \<subseteq> cmds C \<longleftrightarrow> x \<in> C"
  by (auto simp: cmds_def)

lemma cmds_singletonD: "cmds {x} \<subseteq> A \<Longrightarrow> HostCmd x arg \<in> A"
  by (auto simp: cmds_def)

lemma cmds_insertE [elim!]:
  assumes "a \<in> cmds (insert x (insert y Z))"
  obtains "a \<in> cmds {x}" | "a \<in> cmds (insert y Z)"
  using assms by (auto simp: cmds_def)

lemma cmds_mono: "X \<subseteq> Y \<Longrightarrow> cmds X \<subseteq> cmds Y"
  by (auto simp: cmds_def)

end
