(* ===== verification/LVM_Host.thy ===== *)
theory LVM_Host
  imports Host_Exec
begin

text \<open>
  The LVM commands of \<open>vgmanager/lvm/lvm.go\<close>: creating, extending, reducing and deleting volume
  groups, listing volume groups, physical and logical volumes, and the operations on logical
  volumes.  Each is the command line the source builds, run on the host, with its guards and error
  wrapping; the reports are the decoded JSON documents.
\<close>

section \<open>Commands and names\<close>

definition vgsCmd :: string where "vgsCmd = ''/usr/sbin/vgs''"
definition pvsCmd :: string where "pvsCmd = ''/usr/sbin/pvs''"
definition lvsCmd :: string where "lvsCmd = ''/usr/sbin/lvs''"
definition vgCreateCmd :: string where "vgCreateCmd = ''/usr/sbin/vgcreate''"
definition vgChangeCmd :: string where "vgChangeCmd = ''/usr/sbin/vgchange''"
definition vgExtendCmd :: string where "vgExtendCmd = ''/usr/sbin/vgextend''"
definition vgReduceCmd :: string where "vgReduceCmd = ''/usr/sbin/vgreduce''"
definition vgRemoveCmd :: string where "vgRemoveCmd = ''/usr/sbin/vgremove''"
definition pvRemoveCmd :: string where "pvRemoveCmd = ''/usr/sbin/pvremove''"
definition lvCreateCmd :: string where "lvCreateCmd = ''/usr/sbin/lvcreate''"
definition lvExtendCmd :: string where "lvExtendCmd = ''/usr/sbin/lvextend''"
definition lvRemoveCmd :: string where "lvRemoveCmd = ''/usr/sbin/lvremove''"
definition lvChangeCmd :: string where "lvChangeCmd = ''/usr/sbin/lvchange''"
definition lvmDevicesCmd :: string where "lvmDevicesCmd = ''/usr/sbin/lvmdevices''"
definition DefaultTag :: string where "DefaultTag = ''@lvms''"

lemmas cmd_defs = vgsCmd_def pvsCmd_def lvsCmd_def vgCreateCmd_def vgChangeCmd_def vgExtendCmd_def
  vgReduceCmd_def vgRemoveCmd_def pvRemoveCmd_def lvCreateCmd_def lvExtendCmd_def lvRemoveCmd_def
  lvChangeCmd_def lvmDevicesCmd_def DefaultWipefs_def DefaultDMSetup_def

definition ErrVolumeGroupNotFound :: go_error where
  "ErrVolumeGroupNotFound = Errorf ''volume group not found'' []"

definition DefaultListLVColumns :: "string list" where
  "DefaultListLVColumns = [''lv_name'', ''vg_name'', ''pool_lv'', ''lv_attr'', ''lv_size'',
     ''metadata_percent'', ''chunk_size'', ''lv_metadata_size'', ''sync_percent'',
     ''lv_health_status'', ''lv_layout'', ''raid_sync_action'']"

definition IsMissingDevices :: "VolumeGroup \<Rightarrow> bool" where
  "IsMissingDevices vg \<longleftrightarrow> (\<exists>pv \<in> set (lvg_PVs vg). PvMissing pv \<noteq> [])"

text \<open>\<open>PhysicalVolume{PvName: name}\<close>.\<close>

definition pv_named :: "string \<Rightarrow> PhysicalVolume" where
  "pv_named name = \<lparr>PvName = name, pv_UUID = [], pv_VgName = [], PvFmt = [], PvAttr = [], PvSize = [],
     PvFree = [], PvMissing = [], DevSize = []\<rparr>"

section \<open>Volume groups\<close>

definition CreateVG :: "vgm_env \<Rightarrow> VolumeGroup \<Rightarrow> bool \<Rightarrow> go_error option vgm" where
  "CreateVG env vg isWiped =
     (if lvg_Name vg = []
      then ret (Some (Errorf ''failed to create volume group: volume group name is empty'' []))
      else if length (lvg_PVs vg) = 0
      then ret (Some (Errorf ''failed to create volume group: physical volume list is empty'' []))
      else let args = [lvg_Name vg, ''--addtag'', DefaultTag]
                 @ (if isWiped then [''-y''] else []) @ map PvName (lvg_PVs vg)
           in catch_err (RunCommandAsHost env vgCreateCmd args)
                (\<lambda>err. ret (Some (Errorf ''failed to create volume group %q. %v'' [S (lvg_Name vg), V err])))
                (ret None))"

definition ExtendVG :: "vgm_env \<Rightarrow> VolumeGroup \<Rightarrow> string list \<Rightarrow> VolumeGroup res vgm" where
  "ExtendVG env vg pvs =
     (if lvg_Name vg = []
      then ret (Inl (Errorf ''failed to extend volume group: volume group name is empty'' []))
      else if length pvs = 0
      then ret (Inl (Errorf ''failed to extend volume group: physical volume list is empty'' []))
      else catch_err (RunCommandAsHost env vgExtendCmd ([lvg_Name vg] @ pvs))
             (\<lambda>err. ret (Inl (Errorf ''failed to extend volume group %q. %v'' [S (lvg_Name vg), V err])))
             (ret (Inr (vg\<lparr>lvg_PVs := lvg_PVs vg @ map pv_named pvs\<rparr>))))"

definition AddTagToVG :: "vgm_env \<Rightarrow> string \<Rightarrow> go_error option vgm" where
  "AddTagToVG env vgName =
     (if vgName = []
      then ret (Some (Errorf ''failed to add tag to the volume group. Volume group name is empty'' []))
      else catch_err (RunCommandAsHost env vgChangeCmd [vgName, ''--addtag'', DefaultTag])
             (\<lambda>err. ret (Some (Errorf ''failed to add tag to the volume group %q. %v'' [S vgName, V err])))
             (ret None))"

text \<open>Removing a physical volume from the devices file: exit status 5 says it is not there.\<close>

definition forgetPV :: "vgm_env \<Rightarrow> VolumeGroup \<Rightarrow> PhysicalVolume \<Rightarrow> go_error option vgm" where
  "forgetPV env vg pv =
     catch_err (RunCommandAsHost env lvmDevicesCmd [''--delpvid'', pv_UUID pv])
       (\<lambda>err. case AsExecError err of
            Some e \<Rightarrow> if ExitCode e = 5 then ret None
              else ret (Some (Errorf ''failed to delete PV %s from device file for the volume group %s: %w''
                     [S (pv_UUID pv), S (lvg_Name vg), W err]))
          | None \<Rightarrow> ret (Some (Errorf ''failed to delete PV %s from device file for the volume group %s: %w''
                     [S (pv_UUID pv), S (lvg_Name vg), W err])))
       (ret None)"

definition DeleteVG :: "vgm_env \<Rightarrow> VolumeGroup \<Rightarrow> go_error option vgm" where
  "DeleteVG env vg =
     catch_err (RunCommandAsHost env vgChangeCmd [''-an'', lvg_Name vg])
       (\<lambda>err. ret (Some (Errorf ''failed to remove volume group %q: %w'' [S (lvg_Name vg), W err])))
     (catch_err (RunCommandAsHost env vgRemoveCmd [lvg_Name vg])
       (\<lambda>err. ret (Some (Errorf ''failed to remove volume group %q: %w'' [S (lvg_Name vg), W err])))
     (catch_err (RunCommandAsHost env pvRemoveCmd (map PvName (lvg_PVs vg)))
       (\<lambda>err. ret (Some (Errorf ''failed to remove physical volumes for the volume group %q: %w''
                [S (lvg_Name vg), W err])))
     (for_each (lvg_PVs vg) (forgetPV env vg))))"

definition ListPVs :: "vgm_env \<Rightarrow> string \<Rightarrow> PhysicalVolume list res vgm" where
  "ListPVs env vgName =
     (let args = [''--units'', ''b'', ''--nosuffix'', ''-v'', ''--reportformat'', ''json'', ''-o'', ''+pv_missing'']
            @ (if vgName \<noteq> [] then [''-S'', ''vgname='' @ vgName] else [])
      in catch (RunCommandAsHostInto env (decode_pvs env) pvsCmd args)
           (\<lambda>err. ret (Inl err))
           (\<lambda>report. ret (Inr (concat report))))"

text \<open>In every report the first entry of that name counts, and the last report that has one.\<close>

definition vg_entry :: "string \<Rightarrow> VGReport \<Rightarrow> VGReportEntry option" where
  "vg_entry name report = fold (\<lambda>r acc. case find (\<lambda>vg. vr_Name vg = name) r of
     None \<Rightarrow> acc | Some vg \<Rightarrow> Some vg) report None"

definition GetVG :: "vgm_env \<Rightarrow> string \<Rightarrow> VolumeGroup res vgm" where
  "GetVG env name =
     catch (RunCommandAsHostInto env (decode_vgs env) vgsCmd
         [DefaultTag, ''--units'', ''b'', ''--nosuffix'', ''--reportformat'', ''json''])
       (\<lambda>err. ret (Inl (Errorf ''failed to list volume groups. %v'' [V err])))
       (\<lambda>report. case vg_entry name report of
            None \<Rightarrow> ret (Inl ErrVolumeGroupNotFound)
          | Some vg \<Rightarrow>
              catch (ListPVs env name)
                (\<lambda>err. ret (Inl (Errorf ''failed to list physical volumes for volume group %q. %v'' [S name, V err])))
                (\<lambda>pvs. ret (Inr \<lparr>lvg_Name = vr_Name vg, lvg_VgSize = vr_VgSize vg, lvg_PVs = pvs, lvg_Tags = []\<rparr>)))"

definition untaggedVGs :: "VolumeGroup list \<Rightarrow> VolumeGroup list" where
  "untaggedVGs vgs = filter (\<lambda>vg. DefaultTag \<notin> set (lvg_Tags vg)) vgs"

definition joinPVs :: "PhysicalVolume list \<Rightarrow> VGReport \<Rightarrow> VolumeGroup list" where
  "joinPVs pvs report = map (\<lambda>vg. \<lparr>lvg_Name = vr_Name vg, lvg_VgSize = vr_VgSize vg,
       lvg_PVs = filter (\<lambda>pv. vr_Name vg = pv_VgName pv) pvs,
       lvg_Tags = SplitChar (vr_Tags vg) (CHR '','')\<rparr>) (concat report)"

definition ListVGs :: "vgm_env \<Rightarrow> bool \<Rightarrow> VolumeGroup list res vgm" where
  "ListVGs env tagged =
     (let args = [''-o'', ''vg_name,vg_size,vg_tags'', ''--units'', ''b'', ''--nosuffix'', ''--reportformat'', ''json'']
            @ (if tagged then [DefaultTag] else [])
      in catch (RunCommandAsHostInto env (decode_vgs env) vgsCmd args)
           (\<lambda>err. ret (Inl (Errorf ''failed to list volume groups. %v'' [V err])))
           (\<lambda>report. catch (ListPVs env [])
             (\<lambda>err. ret (Inl (Errorf ''failed to list physical volumes: %w'' [W err])))
             (\<lambda>pvs. let vgList = joinPVs pvs report in
                ret (Inr (if tagged then vgList else untaggedVGs vgList)))))"

definition ReduceVG :: "vgm_env \<Rightarrow> string \<Rightarrow> string \<Rightarrow> go_error option vgm" where
  "ReduceVG env vgName device =
     catch_err (RunCommandAsHost env vgReduceCmd [vgName, device])
       (\<lambda>err. ret (Some (Errorf ''failed to reduce volume group %s by removing device %s: %w''
                [S vgName, S device, W err])))
       (ret None)"

definition RemovePV :: "vgm_env \<Rightarrow> string \<Rightarrow> go_error option vgm" where
  "RemovePV env devicePath =
     catch_err (RunCommandAsHost env pvRemoveCmd [devicePath])
       (\<lambda>err. ret (Some (Errorf ''failed to remove PV signature from device %s: %w'' [S devicePath, W err])))
       (ret None)"

section \<open>Logical volumes\<close>

definition ListLVs :: "vgm_env \<Rightarrow> string \<Rightarrow> LVReport res vgm" where
  "ListLVs env vgName =
     RunCommandAsHostInto env (decode_lvs env) lvsCmd
       [''-S'', ''vgname='' @ vgName, ''--units'', ''b'', ''--nosuffix'', ''--reportformat'', ''json'',
        ''-o'', JoinStrings DefaultListLVColumns '','']"

definition ListLVsByName :: "vgm_env \<Rightarrow> string \<Rightarrow> string list res vgm" where
  "ListLVsByName env vgName =
     (if vgName = []
      then ret (Inl (Errorf ''failed to list lvs by volume group: volume group name is empty'' []))
      else catch (ListLVs env vgName) (\<lambda>err. ret (Inl err))
             (\<lambda>report. ret (Inr (map lv_Name (concat report)))))"

definition LVExists :: "vgm_env \<Rightarrow> string \<Rightarrow> string \<Rightarrow> bool res vgm" where
  "LVExists env lvName vgName =
     catch (ListLVsByName env vgName) (\<lambda>err. ret (Inl err)) (\<lambda>lvs. ret (Inr (lvName \<in> set lvs)))"

definition DeleteLV :: "vgm_env \<Rightarrow> string \<Rightarrow> string \<Rightarrow> go_error option vgm" where
  "DeleteLV env lvName vgName =
     (if vgName = []
      then ret (Some (Errorf ''failed to delete logical volume in volume group: volume group name is empty'' []))
      else if lvName = []
      then ret (Some (Errorf ''failed to delete logical volume in volume group: logical volume name is empty'' []))
      else let lv = vgName @ ''/'' @ lvName in
        catch_err (RunCommandAsHost env lvChangeCmd [''-an'', lv])
          (\<lambda>err. ret (Some (Errorf ''failed to deactivate thin pool %q in volume group %q. %w''
                   [S lvName, S vgName, W err])))
        (catch_err (RunCommandAsHost env lvRemoveCmd [lv])
          (\<lambda>err. ret (Some (Errorf ''failed to delete logical volume %q in volume group %q. %w''
                   [S lvName, S vgName, W err])))
          (ret None)))"

definition CreateLV :: "vgm_env \<Rightarrow> string \<Rightarrow> string \<Rightarrow> int \<Rightarrow> int \<Rightarrow> int \<Rightarrow> go_error option vgm" where
  "CreateLV env lvName vgName sizePercent chunkSizeBytes metadataSizeBytes =
     (if vgName = []
      then ret (Some (Errorf ''failed to create logical volume in volume group: volume group name is empty'' []))
      else if lvName = []
      then ret (Some (Errorf ''failed to create logical volume in volume group: logical volume name is empty'' []))
      else if sizePercent \<le> 0
      then ret (Some (Errorf ''failed to create logical volume in volume group: size percent should be greater than 0'' []))
      else let args = [''-l'', Itoa sizePercent @ ''%FREE'', ''-Z'', ''y'', ''-T'']
                 @ (if chunkSizeBytes > 0 then [''-c'', Itoa chunkSizeBytes @ ''b''] else [])
                 @ (if metadataSizeBytes > 0 then [''--poolmetadatasize'', Itoa metadataSizeBytes @ ''b''] else [])
                 @ [vgName @ ''/'' @ lvName]
           in catch_err (RunCommandAsHost env lvCreateCmd args)
                (\<lambda>err. ret (Some (Errorf
                   ''failed to create logical volume %q in the volume group %q using command '%s': %w''
                   [S lvName, S vgName, S (lvCreateCmd @ '' '' @ JoinStrings args '' ''), W err])))
                (ret None))"

definition ExtendLV :: "vgm_env \<Rightarrow> string \<Rightarrow> string \<Rightarrow> int \<Rightarrow> go_error option vgm" where
  "ExtendLV env lvName vgName sizePercent =
     (if vgName = []
      then ret (Some (Errorf ''failed to extend logical volume in volume group: volume group name is empty'' []))
      else if lvName = []
      then ret (Some (Errorf ''failed to extend logical volume in volume group: logical volume name is empty'' []))
      else if sizePercent \<le> 0
      then ret (Some (Errorf ''failed to extend logical volume in volume group: size percent should be greater than 0'' []))
      else let args = [''-l'', Itoa sizePercent @ ''%Vg'', vgName @ ''/'' @ lvName]
           in catch_err (RunCommandAsHost env lvExtendCmd args)
                (\<lambda>err. ret (Some (Errorf
                   ''failed to extend logical volume %q in the volume group %q using command '%s': %w''
                   [S lvName, S vgName, S (lvExtendCmd @ '' '' @ JoinStrings args '' ''), W err])))
                (ret None))"

definition ExtendThinPoolMetadata :: "vgm_env \<Rightarrow> string \<Rightarrow> string \<Rightarrow> int \<Rightarrow> go_error option vgm" where
  "ExtendThinPoolMetadata env lvName vgName metadataSizeBytes =
     (if vgName = []
      then ret (Some (Errorf ''failed to extend logical volume metadata size in volume group: volume group name is empty'' []))
      else if lvName = []
      then ret (Some (Errorf ''failed to extend logical volume metadata size in volume group: logical volume name is empty'' []))
      else if metadataSizeBytes \<le> 0
      then ret (Some (Errorf ''failed to extend logical volume metadata size in volume group: size value should be greater than 0'' []))
      else let args = [''--poolmetadatasize'', Itoa metadataSizeBytes @ ''b'', vgName @ ''/'' @ lvName]
           in catch_err (RunCommandAsHost env lvExtendCmd args)
                (\<lambda>err. ret (Some (Errorf
                   ''failed to extend logical volume metadata size %q in the volume group %q using command '%s': %w''
                   [S lvName, S vgName, S (lvExtendCmd @ '' '' @ JoinStrings args '' ''), W err])))
                (ret None))"

definition ActivateLV :: "vgm_env \<Rightarrow> string \<Rightarrow> string \<Rightarrow> go_error option vgm" where
  "ActivateLV env lvName vgName =
     (if vgName = []
      then ret (Some (Errorf ''failed to activate logical volume in volume group: volume group name is empty'' []))
      else if lvName = []
      then ret (Some (Errorf ''failed to activate logical volume in volume group: logical volume name is empty'' []))
      else catch_err (RunCommandAsHost env lvChangeCmd [''-ay'', vgName @ ''/'' @ lvName])
             (\<lambda>err. ret (Some (Errorf ''failed to activate thin pool %q in volume group %q. %w''
                      [S lvName, S vgName, W err])))
             (ret None))"

section \<open>The commands an operation runs\<close>

lemma only_CreateVG [only_intros]: "cmds {vgCreateCmd} \<subseteq> A \<Longrightarrow> only A (CreateVG env vg w)"
  unfolding CreateVG_def by (auto intro!: only_intros)

lemma only_ExtendVG [only_intros]: "cmds {vgExtendCmd} \<subseteq> A \<Longrightarrow> only A (ExtendVG env vg pvs)"
  unfolding ExtendVG_def by (auto intro!: only_intros)

lemma only_DeleteVG [only_intros]:
  "cmds {vgChangeCmd, vgRemoveCmd, pvRemoveCmd, lvmDevicesCmd} \<subseteq> A \<Longrightarrow> only A (DeleteVG env vg)"
  unfolding DeleteVG_def forgetPV_def by (auto intro!: only_intros)

lemma only_ListPVs [only_intros]: "cmds {pvsCmd} \<subseteq> A \<Longrightarrow> only A (ListPVs env n)"
  unfolding ListPVs_def by (auto simp: Let_def intro!: only_intros)

lemma only_GetVG [only_intros]: "cmds {vgsCmd, pvsCmd} \<subseteq> A \<Longrightarrow> only A (GetVG env n)"
  unfolding GetVG_def by (auto intro!: only_intros)

lemma only_ListVGs [only_intros]: "cmds {vgsCmd, pvsCmd} \<subseteq> A \<Longrightarrow> only A (ListVGs env t)"
  unfolding ListVGs_def by (auto simp: Let_def intro!: only_intros)

lemma only_ReduceVG [only_intros]: "cmds {vgReduceCmd} \<subseteq> A \<Longrightarrow> only A (ReduceVG env n d)"
  unfolding ReduceVG_def by (auto intro!: only_intros)

lemma only_RemovePV [only_intros]: "cmds {pvRemoveCmd} \<subseteq> A \<Longrightarrow> only A (RemovePV env d)"
  unfolding RemovePV_def by (auto intro!: only_intros)

lemma only_ListLVs [only_intros]: "cmds {lvsCmd} \<subseteq> A \<Longrightarrow> only A (ListLVs env n)"
  unfolding ListLVs_def by (auto intro!: only_intros)

lemma only_ListLVsByName [only_intros]: "cmds {lvsCmd} \<subseteq> A \<Longrightarrow> only A (ListLVsByName env n)"
  unfolding ListLVsByName_def by (auto intro!: only_intros)

lemma only_LVExists [only_intros]: "cmds {lvsCmd} \<subseteq> A \<Longrightarrow> only A (LVExists env l n)"
  unfolding LVExists_def by (auto intro!: only_intros)

lemma only_DeleteLV [only_intros]: "cmds {lvChangeCmd, lvRemoveCmd} \<subseteq> A \<Longrightarrow> only A (DeleteLV env l n)"
  unfolding DeleteLV_def by (auto simp: Let_def intro!: only_intros)

lemma only_CreateLV [only_intros]: "cmds {lvCreateCmd} \<subseteq> A \<Longrightarrow> only A (CreateLV env l n p c m)"
  unfolding CreateLV_def by (auto simp: Let_def intro!: only_intros)

lemma only_ExtendLV [only_intros]: "cmds {lvExtendCmd} \<subseteq> A \<Longrightarrow> only A (ExtendLV env l n p)"
  unfolding ExtendLV_def by (auto simp: Let_def intro!: only_intros)

lemma only_ExtendThinPoolMetadata [only_intros]:
  "cmds {lvExtendCmd} \<subseteq> A \<Longrightarrow> only A (ExtendThinPoolMetadata env l n m)"
  unfolding ExtendThinPoolMetadata_def by (auto simp: Let_def intro!: only_intros)

lemma only_ActivateLV [only_intros]: "cmds {lvChangeCmd} \<subseteq> A \<Longrightarrow> only A (ActivateLV env l n)"
  unfolding ActivateLV_def by (auto intro!: only_intros)

section \<open>Deleting a volume group\<close>

text \<open>The order of the deletion: a volume group is removed only after it was deactivated, its
  physical volumes are wiped only after it is gone, and nothing is taken from the devices file
  before that.\<close>

definition deletion_order :: "vgm_env \<Rightarrow> VolumeGroup \<Rightarrow> history \<Rightarrow> action \<Rightarrow> bool" where
  "deletion_order env vg h a \<longleftrightarrow>
     (a \<in> cmds {vgRemoveCmd} \<longrightarrow> ran_ok env vgChangeCmd [''-an'', lvg_Name vg] h)
     \<and> (a \<in> cmds {pvRemoveCmd} \<longrightarrow> ran_ok env vgRemoveCmd [lvg_Name vg] h)
     \<and> (a \<in> cmds {lvmDevicesCmd} \<longrightarrow> ran_ok env pvRemoveCmd (map PvName (lvg_PVs vg)) h)"

lemma DeleteVG_guarded:
  "guarded (deletion_order env vg) (\<lambda>_. True) (DeleteVG env vg)
     (\<lambda>r h. r = None \<longrightarrow> ran_ok env vgRemoveCmd [lvg_Name vg] h
        \<and> ran_ok env pvRemoveCmd (map PvName (lvg_PVs vg)) h)"
proof -
  let ?vgr = "ran_ok env vgRemoveCmd [lvg_Name vg]"
  let ?pvr = "ran_ok env pvRemoveCmd (map PvName (lvg_PVs vg))"
  let ?chg = "ran_ok env vgChangeCmd [''-an'', lvg_Name vg]"
  have forget: "guarded (deletion_order env vg) (\<lambda>h. ?vgr h \<and> ?pvr h)
      (for_each (lvg_PVs vg) (forgetPV env vg)) (\<lambda>_ h. ?vgr h \<and> ?pvr h)"
  proof (rule guarded_only[where A = "cmds {lvmDevicesCmd}"])
    show "only (cmds {lvmDevicesCmd}) (for_each (lvg_PVs vg) (forgetPV env vg))"
      unfolding forgetPV_def by (auto intro!: only_intros)
    show "stable (\<lambda>h. ?vgr h \<and> ?pvr h)" by auto
    show "deletion_order env vg h a" if "?vgr h \<and> ?pvr h" "a \<in> cmds {lvmDevicesCmd}" for h a
      using that by (auto simp: deletion_order_def cmds_def cmd_defs)
  qed
  have step: "?vgr (h @ [a])" if "?vgr h" for h a
    using stable_ran_ok that unfolding stable_def by blast
  show ?thesis
    unfolding DeleteVG_def
    apply (rule guarded_catch_err[where R = "\<lambda>r h. r = None \<longrightarrow> ?chg h"])
      apply (rule guarded_RunCommandAsHost; simp add: deletion_order_def cmd_defs)
     apply (rule guarded_return, simp)
    apply (rule guarded_catch_err[where R = "\<lambda>r h. r = None \<longrightarrow> ?vgr h"])
      apply (rule guarded_RunCommandAsHost; simp add: deletion_order_def cmd_defs)
     apply (rule guarded_return, simp)
    apply (rule guarded_catch_err[where R = "\<lambda>r h. r = None \<longrightarrow> ?vgr h \<and> ?pvr h"])
      apply (rule guarded_RunCommandAsHost; simp add: deletion_order_def step)
      apply (simp add: cmd_defs)
     apply (rule guarded_return, simp)
    apply (rule guarded_conseq[OF forget]; simp)
    done
qed

end
