(* ===== verification/Lsblk.thy ===== *)
theory Lsblk
  imports LVM_Host
begin

text \<open>
  The block devices of the host, \<open>vgmanager/lsblk/lsblk.go\<close>: the listing by \<open>lsblk\<close>, the check of
  loop devices by \<open>losetup\<close>, and the flattened map of a device tree.  A Go map is an association
  list in insertion order; Go's iteration order over it is unspecified.
\<close>

definition DefaultLosetup :: string where "DefaultLosetup = ''/usr/sbin/losetup''"
definition DefaultLsblk :: string where "DefaultLsblk = ''/usr/bin/lsblk''"
definition pluginString :: string where "pluginString = ''plugins/kubernetes.io''"
definition DeviceTypeLoop :: string where "DeviceTypeLoop = ''loop''"
definition DeviceTypeROM :: string where "DeviceTypeROM = ''rom''"
definition DeviceTypeLVM :: string where "DeviceTypeLVM = ''lvm''"
definition LSBLK_COLUMNS :: string where
  "LSBLK_COLUMNS = ''NAME,ROTA,TYPE,SIZE,MODEL,VENDOR,RO,STATE,KNAME,SERIAL,PARTLABEL,FSTYPE''"

definition HasChildren :: "BlockDevice \<Rightarrow> bool" where
  "HasChildren b \<longleftrightarrow> length (bd_Children b) > 0"

lemma bd_Children_size [termination_simp]: "size_list size (bd_Children b) < size b"
  by (cases b) simp

definition ListBlockDevices :: "vgm_env \<Rightarrow> BlockDevice list res vgm" where
  "ListBlockDevices env =
     RunCommandAsHostInto env (decode_lsblk env) DefaultLsblk [''--json'', ''--paths'', ''-o'', LSBLK_COLUMNS]"

definition IsUsableLoopDev :: "vgm_env \<Rightarrow> BlockDevice \<Rightarrow> (bool \<times> go_error option) vgm" where
  "IsUsableLoopDev env b =
     catch (RunCommandAsHostInto env (decode_losetup env) DefaultLosetup
         [bd_Name b, ''-O'', ''BACK-FILE'', ''--json''])
       (\<lambda>err. ret (True, Some err))
       (\<lambda>backFiles. ret (\<not> list_ex (\<lambda>f. Contains f pluginString) backFiles, None))"

type_synonym BlockDeviceInfos = "(string \<times> bool) list"

text \<open>\<open>opts.BDI[kname].IsUsableLoopDev\<close>: the zero value is false.\<close>

definition bdi_usable :: "BlockDeviceInfos \<Rightarrow> string \<Rightarrow> bool" where
  "bdi_usable bdi k = (map_of bdi k = Some True)"

fun FlattenedBlockDevices_loop ::
  "(string \<times> BlockDevice) list \<Rightarrow> BlockDevice list \<Rightarrow> (string \<times> BlockDevice) list" where
  "FlattenedBlockDevices_loop flattened [] = flattened"
| "FlattenedBlockDevices_loop flattened (b # bs) =
     (let flattened = AList.update (bd_KName b) b flattened;
          flattened = (if HasChildren b
            then fold (\<lambda>(k, v) m. AList.update k v m) (FlattenedBlockDevices_loop [] (bd_Children b)) flattened
            else flattened)
      in FlattenedBlockDevices_loop flattened bs)"

definition FlattenedBlockDevices :: "BlockDevice list \<Rightarrow> (string \<times> BlockDevice) list" where
  "FlattenedBlockDevices bs = FlattenedBlockDevices_loop [] bs"

fun BlockDeviceInfos_loop ::
  "vgm_env \<Rightarrow> (string \<times> BlockDevice) list \<Rightarrow> BlockDeviceInfos \<Rightarrow> BlockDeviceInfos vgm" where
  "BlockDeviceInfos_loop env [] infos = ret infos"
| "BlockDeviceInfos_loop env ((k, dev) # devs) infos =
     (if bd_Type dev = DeviceTypeLoop
      then do { (usable, _) \<leftarrow> IsUsableLoopDev env dev;
                BlockDeviceInfos_loop env devs (AList.update (bd_KName dev) usable infos) }
      else BlockDeviceInfos_loop env devs infos)"

definition BlockDeviceInfos :: "vgm_env \<Rightarrow> BlockDevice list \<Rightarrow> BlockDeviceInfos res vgm" where
  "BlockDeviceInfos env bs =
     do { infos \<leftarrow> BlockDeviceInfos_loop env (FlattenedBlockDevices bs) []; ret (Inr infos) }"

section \<open>The devices of a tree\<close>

fun tree :: "BlockDevice list \<Rightarrow> BlockDevice list" where
  "tree [] = []"
| "tree (b # bs) = b # tree (bd_Children b) @ tree bs"

lemma not_HasChildren: "\<not> HasChildren b \<Longrightarrow> tree (bd_Children b) = []"
  by (simp add: HasChildren_def)

lemma update_keys_image [simp]: "fst ` set (AList.update k v m) = insert k (fst ` set m)"
  by (induction m) auto

lemma fold_update_set:
  "fst ` set (fold (\<lambda>(k, v) m. AList.update k v m) xs m) = fst ` set m \<union> fst ` set xs"
  by (induction xs arbitrary: m) (simp_all add: case_prod_beta)

lemma fold_update_vals:
  "set (fold (\<lambda>(k, v) m. AList.update k v m) xs m) \<subseteq> set m \<union> set xs"
proof (induction xs arbitrary: m)
  case (Cons x xs)
  obtain k v where x: "x = (k, v)" by (cases x)
  have "set (AList.update k v m) \<subseteq> insert (k, v) (set m)"
    by (induction m) auto
  with Cons[of "AList.update k v m"] x show ?case by auto
qed simp

text \<open>The flattened map has exactly the kernel names of the tree as its keys.\<close>

lemma Flattened_keys:
  "fst ` set (FlattenedBlockDevices_loop acc bs) = fst ` set acc \<union> bd_KName ` set (tree bs)"
proof (induction acc bs rule: FlattenedBlockDevices_loop.induct)
  case (2 acc b bs)
  let ?acc1 = "AList.update (bd_KName b) b acc"
  let ?acc2 = "if HasChildren b then fold (\<lambda>(k, v) m. AList.update k v m)
      (FlattenedBlockDevices_loop [] (bd_Children b)) ?acc1 else ?acc1"
  have "fst ` set ?acc2 = insert (bd_KName b) (fst ` set acc \<union> bd_KName ` set (tree (bd_Children b)))"
    using 2(1)[OF refl] by (simp add: fold_update_set not_HasChildren)
  with 2(2)[OF refl refl] show ?case
    by (simp add: Let_def image_Un Un_assoc)
qed simp

lemma only_ListBlockDevices [only_intros]: "cmds {DefaultLsblk} \<subseteq> A \<Longrightarrow> only A (ListBlockDevices env)"
  unfolding ListBlockDevices_def by (auto intro!: only_intros)

lemma only_BlockDeviceInfos [only_intros]: "cmds {DefaultLosetup} \<subseteq> A \<Longrightarrow> only A (BlockDeviceInfos env bs)"
proof -
  assume A: "cmds {DefaultLosetup} \<subseteq> A"
  have "only A (BlockDeviceInfos_loop env devs infos)" for devs infos
    using A by (induction env devs infos rule: BlockDeviceInfos_loop.induct)
      (auto simp: IsUsableLoopDev_def intro!: only_intros)
  then show ?thesis unfolding BlockDeviceInfos_def by (auto intro!: only_intros)
qed

end
