(* ===== verification/Device_Filter.thy ===== *)
theory Device_Filter
  imports Lsblk
begin

text \<open>
  Which block devices may join a volume group: the filters of \<open>vgmanager/filter/filter.go\<close> and
  their application in \<open>vgmanager/devices.go\<close>.

  A filter is a function from a device to an error that may be nil; the resolver is the function
  \<open>resolve\<close> it computes.  The map of filters is a list of named filters; Go iterates over it in an
  unspecified order.  \<open>passes\<close> says that no filter objects; \<open>usable_device\<close> states what that means
  for the default filters, and the lemmas relate the result of \<open>filterDevices\<close> to the device tree.
\<close>

section \<open>filter.go\<close>

definition StateSuspended :: string where "StateSuspended = ''suspended''"
definition FSTypeLVM2Member :: string where "FSTypeLVM2Member = ''LVM2_member''"

definition ErrDeviceAlreadySetupCorrectly :: go_error where
  "ErrDeviceAlreadySetupCorrectly = ErrorsNew
     ''the device is already setup correctly and was filtered to avoid attempting recreation''"

definition ErrLVMPartition :: go_error where
  "ErrLVMPartition = ErrorsNew ''the device is a lvm partition and is excluded by default''"

definition invalidPartitionLabels :: "string list" where
  "invalidPartitionLabels = [''bios'', ''boot'', ''reserved'']"

type_synonym filter_fn = "BlockDevice \<Rightarrow> go_error option"
type_synonym Filters = "(string \<times> filter_fn) list"

record Options =
  opt_VG :: LVMVolumeGroup
  opt_BDI :: BlockDeviceInfos
  opt_PVs :: "PhysicalVolume list"

definition IsExpectedDeviceErrorAfterSetup :: "go_error \<Rightarrow> bool" where
  "IsExpectedDeviceErrorAfterSetup err \<longleftrightarrow>
     errors_Is err ErrDeviceAlreadySetupCorrectly \<or> errors_Is err ErrLVMPartition"

text \<open>What \<open>Resolve\<close> returns beside an error is the empty string.\<close>

definition resolved :: "resolveFn \<Rightarrow> string \<Rightarrow> string" where
  "resolved res p = (case res p of Inl _ \<Rightarrow> [] | Inr v \<Rightarrow> v)"

definition selector_paths :: "DeviceSelector \<Rightarrow> DevicePath list" where
  "selector_paths ds = ds_Paths ds @ ds_OptionalPaths ds"

definition partOfDeviceSelector :: "resolveFn \<Rightarrow> Options \<Rightarrow> filter_fn" where
  "partOfDeviceSelector res opts dev = (case vgs_DeviceSelector (vg_Spec (opt_VG opts)) of
     None \<Rightarrow> None
   | Some ds \<Rightarrow>
       if list_ex (\<lambda>path. resolved res (Unresolved path) = bd_KName dev) (selector_paths ds) then None
       else Some (Errorf (''%s is not part of the device selector '' @
              ''or could not be resolved via symlink resolution'') [S (bd_Name dev)]))"

definition notReadOnly :: filter_fn where
  "notReadOnly dev = (if bd_ReadOnly dev then Some (Errorf ''%s cannot be read-only'' [S (bd_Name dev)]) else None)"

definition notSuspended :: filter_fn where
  "notSuspended dev = (if bd_State dev = StateSuspended
     then Some (Errorf ''%s cannot be in a %q state'' [S (bd_State dev), S (bd_Name dev)]) else None)"

definition noInvalidPartitionLabel :: filter_fn where
  "noInvalidPartitionLabel dev =
     (if list_ex (\<lambda>l. Contains (ToLower (bd_PartLabel dev)) l) invalidPartitionLabels
      then Some (Errorf ''%s has an invalid partition label %q'' [S (bd_Name dev), S (bd_PartLabel dev)])
      else None)"

text \<open>A physical volume under \<open>%s\<close>.\<close>

definition pv_text :: "PhysicalVolume \<Rightarrow> string" where
  "pv_text pv = ''{'' @ JoinStrings [PvName pv, pv_UUID pv, pv_VgName pv, PvFmt pv, PvAttr pv, PvSize pv,
     PvFree pv, PvMissing pv, DevSize pv] '' '' @ ''}''"

text \<open>The physical volume on a device, or the error of resolving one on the way to it.\<close>

fun findPV :: "resolveFn \<Rightarrow> string \<Rightarrow> PhysicalVolume list \<Rightarrow> PhysicalVolume option res" where
  "findPV res kname [] = Inr None"
| "findPV res kname (pv # pvs) = (case res (PvName pv) of
     Inl err \<Rightarrow> Inl (Errorf ''the pv %s could not be resolved via symlink: %w'' [S (pv_text pv), W err])
   | Inr p \<Rightarrow> if p = kname then Inr (Some pv) else findPV res kname pvs)"

definition onlyValidFilesystemSignatures :: "resolveFn \<Rightarrow> Options \<Rightarrow> filter_fn" where
  "onlyValidFilesystemSignatures res opts dev =
     (let vgName = vg_Name (opt_VG opts);
          invalid = Some (Errorf ''%s has an invalid filesystem signature (%s) and cannot be used''
            [S (bd_Name dev), S (bd_FSType dev)])
      in if bd_FSType dev = [] then None
         else if bd_FSType dev = FSTypeLVM2Member
         then (case findPV res (bd_KName dev) (opt_PVs opts) of
             Inl err \<Rightarrow> Some err
           | Inr None \<Rightarrow> None
           | Inr (Some pv) \<Rightarrow>
               if pv_VgName pv = vgName
               then Some (Errorf ''%s is already a LVM2_Member of %s: %w''
                      [S (bd_Name dev), S vgName, W ErrDeviceAlreadySetupCorrectly])
               else if pv_VgName pv \<noteq> []
               then Some (Errorf (''%s is already a LVM2_Member of another volume group (%s) '' @
                      ''and cannot be used for the volume group %s'')
                      [S (bd_Name dev), S (pv_VgName pv), S vgName])
               else if \<not> HasChildren dev
               then (if PvFree pv = ''0G''
                     then Some (Errorf (''%s was reported as having no free capacity as a physical volume '' @
                            ''and cannot be used'') [S (bd_Name dev)])
                     else None)
               else invalid)
         else invalid)"

definition noChildren :: filter_fn where
  "noChildren dev = (if HasChildren dev
     then Some (Errorf ''%s has children block devices and could not be considered'' [S (bd_Name dev)]) else None)"

definition usableDeviceType :: "Options \<Rightarrow> filter_fn" where
  "usableDeviceType opts dev =
     (if bd_Type dev = DeviceTypeLoop
      then (if \<not> bdi_usable (opt_BDI opts) (bd_KName dev)
            then Some (Errorf ''%s is an unusable loopback device'' [S (bd_Name dev)]) else None)
      else if bd_Type dev = DeviceTypeROM
      then Some (Errorf ''%s has a device type of %q which is unsupported'' [S (bd_Name dev), S (bd_Type dev)])
      else if bd_Type dev = DeviceTypeLVM then Some ErrLVMPartition
      else None)"

definition DefaultFilters :: "resolveFn \<Rightarrow> Options \<Rightarrow> Filters" where
  "DefaultFilters res opts =
     [(''partOfDeviceSelector'', partOfDeviceSelector res opts),
      (''notReadOnly'', notReadOnly),
      (''notSuspended'', notSuspended),
      (''noInvalidPartitionLabel'', noInvalidPartitionLabel),
      (''onlyValidFilesystemSignatures'', onlyValidFilesystemSignatures res opts),
      (''noChildren'', noChildren),
      (''usableDeviceType'', usableDeviceType opts)]"

section \<open>devices.go\<close>

record FilteredBlockDevice =
  fbd_Device :: BlockDevice
  fbd_FilterErrors :: "go_error list"

record FilteredBlockDevices =
  Available :: "BlockDevice list"
  Excluded :: "FilteredBlockDevice list"

definition no_devices :: FilteredBlockDevices where
  "no_devices = \<lparr>Available = [], Excluded = []\<rparr>"

definition IsAvailable :: "FilteredBlockDevices \<Rightarrow> string \<Rightarrow> bool" where
  "IsAvailable f dev \<longleftrightarrow> list_ex (\<lambda>d. dev = bd_KName d) (Available f)"

definition FilterErrors :: "FilteredBlockDevices \<Rightarrow> string \<Rightarrow> go_error list" where
  "FilterErrors f dev = (case find (\<lambda>e. dev = bd_KName (fbd_Device e)) (Excluded f) of
     Some e \<Rightarrow> fbd_FilterErrors e | None \<Rightarrow> [])"

fun VerifyMandatoryDevicePaths ::
  "FilteredBlockDevices \<Rightarrow> resolveFn \<Rightarrow> DevicePath list \<Rightarrow> go_error option" where
  "VerifyMandatoryDevicePaths f res [] = None"
| "VerifyMandatoryDevicePaths f res (p # paths) = (case res (Unresolved p) of
     Inl err \<Rightarrow> Some (Errorf ''failed to resolve symlink to determine available or setup path: %w'' [W err])
   | Inr path \<Rightarrow>
       let available = IsAvailable f path;
           errs = FilterErrors f path;
           alreadySetup = list_ex (\<lambda>err. errors_Is err ErrDeviceAlreadySetupCorrectly) errs
       in if \<not> available \<and> \<not> alreadySetup
          then let err = (if length errs > 0 then ErrorsJoin errs
                 else Errorf (''the device did not exist on the host, '' @
                        ''make sure it is connected and visible via \"lsblk --json --paths -o %s\" '' @
                        ''and confirm it is discoverable via a path resolvable (e.g. via symlink) on the host'')
                        [S LSBLK_COLUMNS])
               in Some (Errorf (''mandatory device path %q cannot be used, '' @
                     ''because it is NOT available as a new device for the volume group and '' @
                     ''NOT part of a valid and tagged existing volume group: %w'') [S path, W err])
          else VerifyMandatoryDevicePaths f res paths)"

definition filterErrs :: "Filters \<Rightarrow> BlockDevice \<Rightarrow> go_error list" where
  "filterErrs filters device =
     concat (map (\<lambda>(name, f). case f device of None \<Rightarrow> [] | Some err \<Rightarrow> [err]) filters)"

text \<open>The merge of the children's result: a name that is there already is kept as it is.\<close>

definition mergeAvailable :: "(string \<times> BlockDevice) list \<Rightarrow> BlockDevice list \<Rightarrow> (string \<times> BlockDevice) list" where
  "mergeAvailable m ds = fold (\<lambda>d m. if map_of m (bd_KName d) \<noteq> None then m else m @ [(bd_KName d, d)]) ds m"

text \<open>For an excluded name that is there already the errors are appended to a copy of the entry,
  which is then dropped.\<close>

definition mergeExcluded ::
  "(string \<times> FilteredBlockDevice) list \<Rightarrow> FilteredBlockDevice list \<Rightarrow> (string \<times> FilteredBlockDevice) list" where
  "mergeExcluded m ds = fold (\<lambda>d m. if map_of m (bd_KName (fbd_Device d)) \<noteq> None then m
     else m @ [(bd_KName (fbd_Device d), d)]) ds m"

fun filterDevices_loop :: "Filters \<Rightarrow> BlockDevice list \<Rightarrow> (string \<times> BlockDevice) list \<Rightarrow>
    (string \<times> FilteredBlockDevice) list \<Rightarrow> FilteredBlockDevices" where
  "filterDevices_loop filters [] availableByKName excludedByKName =
     \<lparr>Available = map snd availableByKName, Excluded = map snd excludedByKName\<rparr>"
| "filterDevices_loop filters (device # devices) availableByKName excludedByKName =
     (let children = filterDevices_loop filters (bd_Children device) [] [];
          av = (if HasChildren device then mergeAvailable availableByKName (Available children)
                else availableByKName);
          ex = (if HasChildren device then mergeExcluded excludedByKName (Excluded children)
                else excludedByKName);
          errs = filterErrs filters device
      in if length errs = 0 then filterDevices_loop filters devices (AList.update (bd_KName device) device av) ex
         else if map_of ex (bd_KName device) \<noteq> None then filterDevices_loop filters devices av ex
         else filterDevices_loop filters devices av
                (ex @ [(bd_KName device, \<lparr>fbd_Device = device, fbd_FilterErrors = errs\<rparr>)]))"

definition filterDevices :: "BlockDevice list \<Rightarrow> Filters \<Rightarrow> FilteredBlockDevices" where
  "filterDevices devices filters = filterDevices_loop filters devices [] []"

definition addDevicesToVG ::
  "vgm_env \<Rightarrow> VolumeGroup list \<Rightarrow> string \<Rightarrow> BlockDevice list \<Rightarrow> bool \<Rightarrow> go_error option vgm" where
  "addDevicesToVG env vgs vgName devices isWiped =
     (if length devices < 1 then ret (Some (Errorf ''can't create vg %q with 0 devices'' [S vgName]))
      else let existingVolumeGroup = find (\<lambda>vg. lvg_Name vg = vgName) (rev vgs);
               args = map bd_KName devices
           in case existingVolumeGroup of
                Some vg \<Rightarrow>
                  catch (ExtendVG env vg args)
                    (\<lambda>err. ret (Some (Errorf ''failed to extend volume group %s: %w'' [S vgName, W err])))
                    (\<lambda>_. ret None)
              | None \<Rightarrow>
                  catch_err (CreateVG env \<lparr>lvg_Name = vgName, lvg_VgSize = [], lvg_PVs = map pv_named args,
                        lvg_Tags = []\<rparr> isWiped)
                    (\<lambda>err. ret (Some (Errorf ''failed to create volume group %s: %w'' [S vgName, W err])))
                    (ret None))"

lemma only_addDevicesToVG [only_intros]:
  "cmds {vgCreateCmd, vgExtendCmd} \<subseteq> A \<Longrightarrow> only A (addDevicesToVG env vgs n ds w)"
  unfolding addDevicesToVG_def by (auto simp: Let_def intro!: only_intros split: option.split)

section \<open>The result of filtering\<close>

definition passes :: "Filters \<Rightarrow> BlockDevice \<Rightarrow> bool" where
  "passes filters d \<longleftrightarrow> (\<forall>(n, f) \<in> set filters. f d = None)"

lemma filterErrs_Nil [simp]: "filterErrs filters d = [] \<longleftrightarrow> passes filters d"
  by (auto simp: filterErrs_def passes_def split: option.splits)

text \<open>The entries of the two maps are stored under the kernel name of their device.\<close>

definition keyed :: "('v \<Rightarrow> string) \<Rightarrow> (string \<times> 'v) list \<Rightarrow> bool" where
  "keyed key m \<longleftrightarrow> (\<forall>(k, v) \<in> set m. k = key v)"

lemma keyed_image: "keyed key m \<Longrightarrow> key ` snd ` set m = fst ` set m"
  by (force simp: keyed_def image_iff)

lemma keyed_update [simp]: "keyed key m \<Longrightarrow> keyed key (AList.update (key v) v m)"
  by (induction m) (auto simp: keyed_def)

lemma update_vals: "snd ` set (AList.update k v m) \<subseteq> insert v (snd ` set m)"
  by (induction m) auto

lemma keyed_snoc [simp]: "keyed key (m @ [(k, v)]) \<longleftrightarrow> keyed key m \<and> k = key v"
  by (auto simp: keyed_def)

text \<open>Adding what is not there yet.\<close>

lemma merge_props:
  fixes key :: "'v \<Rightarrow> string"
  defines "merge \<equiv> \<lambda>ds m. fold (\<lambda>d m. if map_of m (key d) \<noteq> None then m else m @ [(key d, d)]) ds m"
  shows "fst ` set (merge ds m) = fst ` set m \<union> key ` set ds"
    and "snd ` set (merge ds m) \<subseteq> snd ` set m \<union> set ds"
    and "keyed key m \<Longrightarrow> keyed key (merge ds m)"
    and "distinct (map fst m) \<Longrightarrow> distinct (map fst (merge ds m))"
proof -
  have dom: "map_of m k \<noteq> None \<longleftrightarrow> k \<in> fst ` set m" for m :: "(string \<times> 'v) list" and k
    by (metis map_of_eq_None_iff)
  show "fst ` set (merge ds m) = fst ` set m \<union> key ` set ds"
    unfolding merge_def dom by (induction ds arbitrary: m) auto
  show "snd ` set (merge ds m) \<subseteq> snd ` set m \<union> set ds"
    unfolding merge_def by (induction ds arbitrary: m) (fastforce split: if_splits)+
  show "keyed key m \<Longrightarrow> keyed key (merge ds m)"
    unfolding merge_def by (induction ds arbitrary: m) simp_all
  show "distinct (map fst m) \<Longrightarrow> distinct (map fst (merge ds m))"
    unfolding merge_def dom by (induction ds arbitrary: m) auto
qed

lemmas mergeAvailable_props = merge_props[where key = bd_KName, folded mergeAvailable_def]
lemmas mergeExcluded_props = merge_props[where key = "\<lambda>e :: FilteredBlockDevice. bd_KName (fbd_Device e)", folded mergeExcluded_def]

lemma distinct_update_keys: "distinct (map fst m) \<Longrightarrow> distinct (map fst (AList.update k v m))"
  by (rule distinct_update)

definition honest :: "Filters \<Rightarrow> BlockDevice list \<Rightarrow> FilteredBlockDevice \<Rightarrow> bool" where
  "honest filters ds e \<longleftrightarrow> fbd_Device e \<in> set ds \<and> fbd_FilterErrors e = filterErrs filters (fbd_Device e)
     \<and> \<not> passes filters (fbd_Device e)"

text \<open>One pass of the loop body: what it does to the two maps.\<close>

definition filter_step :: "Filters \<Rightarrow> BlockDevice \<Rightarrow> (string \<times> BlockDevice) list \<times> (string \<times> FilteredBlockDevice) list \<Rightarrow>
    (string \<times> BlockDevice) list \<times> (string \<times> FilteredBlockDevice) list" where
  "filter_step filters d m =
     (let children = filterDevices_loop filters (bd_Children d) [] [];
          av = (if HasChildren d then mergeAvailable (fst m) (Available children) else fst m);
          ex = (if HasChildren d then mergeExcluded (snd m) (Excluded children) else snd m)
      in if passes filters d then (AList.update (bd_KName d) d av, ex)
         else if map_of ex (bd_KName d) \<noteq> None then (av, ex)
         else (av, ex @ [(bd_KName d, \<lparr>fbd_Device = d, fbd_FilterErrors = filterErrs filters d\<rparr>)]))"

lemma filterDevices_loop_step:
  "filterDevices_loop filters (d # ds) av ex =
     (case filter_step filters d (av, ex) of (av', ex') \<Rightarrow> filterDevices_loop filters ds av' ex')"
  by (simp add: filter_step_def Let_def)

definition filter_inv :: "Filters \<Rightarrow> BlockDevice list \<Rightarrow> (string \<times> BlockDevice) list \<Rightarrow>
    (string \<times> FilteredBlockDevice) list \<Rightarrow> bool" where
  "filter_inv filters ds av ex \<longleftrightarrow>
     keyed bd_KName av \<and> keyed (\<lambda>e. bd_KName (fbd_Device e)) ex \<and> distinct (map fst av)
     \<and> fst ` set av = bd_KName ` {d \<in> set ds. passes filters d}
     \<and> snd ` set av \<subseteq> {d \<in> set ds. passes filters d}
     \<and> fst ` set ex = bd_KName ` {d \<in> set ds. \<not> passes filters d}
     \<and> (\<forall>e \<in> snd ` set ex. honest filters ds e)"

lemma honest_mono: "honest filters ds e \<Longrightarrow> set ds \<subseteq> set ds' \<Longrightarrow> honest filters ds' e"
  by (auto simp: honest_def)

lemma filter_inv_children:
  assumes inv: "filter_inv filters ds av ex" and sub: "filter_inv filters cs av' ex'"
  shows "filter_inv filters (ds @ cs) (mergeAvailable av (map snd av')) (mergeExcluded ex (map snd ex'))"
proof -
  have keys: "bd_KName ` snd ` set av' = fst ` set av'"
      "(\<lambda>e. bd_KName (fbd_Device e)) ` snd ` set ex' = fst ` set ex'"
    using sub by (simp_all add: filter_inv_def keyed_image)
  have h: "honest filters (ds @ cs) e" if "e \<in> snd ` set ex \<union> snd ` set ex'" for e
    using inv sub that honest_mono[of filters ds e "ds @ cs"] honest_mono[of filters cs e "ds @ cs"]
    unfolding filter_inv_def by auto
  have "\<forall>e \<in> snd ` set (mergeExcluded ex (map snd ex')). honest filters (ds @ cs) e"
  proof
    fix e assume "e \<in> snd ` set (mergeExcluded ex (map snd ex'))"
    then have "e \<in> snd ` set ex \<union> set (map snd ex')" using mergeExcluded_props(2) by (rule rev_subsetD)
    then show "honest filters (ds @ cs) e" by (intro h) simp
  qed
  moreover have U: "{d \<in> set (ds @ cs). P d} = {d \<in> set ds. P d} \<union> {d \<in> set cs. P d}" for P
    by auto
  moreover have "snd ` set (mergeAvailable av (map snd av'))
      \<subseteq> {d \<in> set ds. passes filters d} \<union> {d \<in> set cs. passes filters d}"
  proof (rule order.trans[OF mergeAvailable_props(2)])
    show "snd ` set av \<union> set (map snd av') \<subseteq>
        {d \<in> set ds. passes filters d} \<union> {d \<in> set cs. passes filters d}"
      using inv sub unfolding filter_inv_def set_map by (intro Un_mono) simp_all
  qed
  ultimately show ?thesis
    using inv sub unfolding filter_inv_def U
    by (simp only: mergeAvailable_props mergeExcluded_props set_map keys image_Un simp_thms)
qed

lemma filter_inv_step:
  assumes inv: "filter_inv filters ds av ex"
    and children: "\<exists>av' ex'. filterDevices_loop filters (bd_Children d) [] [] =
        \<lparr>Available = map snd av', Excluded = map snd ex'\<rparr> \<and> filter_inv filters (tree (bd_Children d)) av' ex'"
  shows "case filter_step filters d (av, ex) of (av', ex') \<Rightarrow>
     filter_inv filters (ds @ d # tree (bd_Children d)) av' ex'"
proof -
  from children obtain av1 ex1 where c: "filterDevices_loop filters (bd_Children d) [] [] =
        \<lparr>Available = map snd av1, Excluded = map snd ex1\<rparr>"
      "filter_inv filters (tree (bd_Children d)) av1 ex1" by blast
  define av2 where "av2 = (if HasChildren d then mergeAvailable av (map snd av1) else av)"
  define ex2 where "ex2 = (if HasChildren d then mergeExcluded ex (map snd ex1) else ex)"
  have inv2: "filter_inv filters (ds @ tree (bd_Children d)) av2 ex2"
    using inv filter_inv_children[OF inv c(2)] by (simp add: av2_def ex2_def not_HasChildren)
  have mem: "map_of ex2 k \<noteq> None \<longleftrightarrow> k \<in> fst ` set ex2" for k by (metis map_of_eq_None_iff)
  have step: "filter_step filters d (av, ex) =
      (if passes filters d then (AList.update (bd_KName d) d av2, ex2)
       else if bd_KName d \<in> fst ` set ex2 then (av2, ex2)
       else (av2, ex2 @ [(bd_KName d, \<lparr>fbd_Device = d, fbd_FilterErrors = filterErrs filters d\<rparr>)]))"
    unfolding filter_step_def Let_def c fst_conv snd_conv FilteredBlockDevices.select_convs
      av2_def[symmetric] ex2_def[symmetric] mem ..
  have mono: "honest filters (ds @ d # tree (bd_Children d)) e"
    if "honest filters (ds @ tree (bd_Children d)) e" for e
    by (rule honest_mono[OF that]) auto
  have upd: "snd ` set (AList.update (bd_KName d) d av2) \<subseteq> insert d (snd ` set av2)"
    by (rule update_vals)
  have sets: "{x \<in> set (ds @ d # tree (bd_Children d)). P x} =
      (if P d then insert d {x \<in> set (ds @ tree (bd_Children d)). P x}
       else {x \<in> set (ds @ tree (bd_Children d)). P x})" for P
    by auto
  let ?cs = "ds @ tree (bd_Children d)"
  have p: "keyed bd_KName av2" "keyed (\<lambda>e. bd_KName (fbd_Device e)) ex2" "distinct (map fst av2)"
      "fst ` set av2 = bd_KName ` {d \<in> set ?cs. passes filters d}"
      "snd ` set av2 \<subseteq> {d \<in> set ?cs. passes filters d}"
      "fst ` set ex2 = bd_KName ` {d \<in> set ?cs. \<not> passes filters d}"
    using inv2 by (simp_all only: filter_inv_def simp_thms)
  have "\<forall>e \<in> snd ` set ex2. honest filters ?cs e"
    using inv2 unfolding filter_inv_def by (elim conjE)
  then have h: "\<forall>e \<in> snd ` set ex2. honest filters (ds @ d # tree (bd_Children d)) e"
    by (intro ballI mono) (rule bspec)
  show ?thesis
  proof (cases "passes filters d")
    case True
    have "snd ` set (AList.update (bd_KName d) d av2) \<subseteq> insert d {d \<in> set ?cs. passes filters d}"
      by (rule order.trans[OF upd insert_mono[OF p(5)]])
    then show ?thesis
      unfolding step filter_inv_def sets
      by (simp only: True if_True if_False prod.case not_True_eq_False p keyed_update
          distinct_update update_keys_image image_insert simp_thms) (rule h)
  next
    case False
    have hd: "honest filters (ds @ d # tree (bd_Children d))
        \<lparr>fbd_Device = d, fbd_FilterErrors = filterErrs filters d\<rparr>"
      using False by (simp add: honest_def)
    show ?thesis
    proof (cases "bd_KName d \<in> fst ` set ex2")
      case True
      have "fst ` set ex2 = insert (bd_KName d) (bd_KName ` {d \<in> set ?cs. \<not> passes filters d})"
        using p(6) insert_absorb[OF True] by simp
      then show ?thesis
        unfolding step filter_inv_def sets
        by (simp only: False True insertI1 if_True if_False prod.case not_False_eq_True p(1-5) image_insert simp_thms)
          (rule h)
    next
      case new: False
      let ?x = "(bd_KName d, \<lparr>fbd_Device = d, fbd_FilterErrors = filterErrs filters d\<rparr>)"
      have st: "filter_step filters d (av, ex) = (av2, ex2 @ [?x])"
        by (simp only: step False new if_False)
      have "fst ` set (ex2 @ [?x]) = insert (bd_KName d) (bd_KName ` {d \<in> set ?cs. \<not> passes filters d})"
        using p(6) by simp
      moreover have "\<forall>e \<in> snd ` set (ex2 @ [?x]). honest filters (ds @ d # tree (bd_Children d)) e"
        using h hd by simp
      moreover have "keyed (\<lambda>e. bd_KName (fbd_Device e)) (ex2 @ [?x])"
        using p(2) by simp
      ultimately show ?thesis
        unfolding st prod.case filter_inv_def sets
        by (simp only: False p(1,3-5) if_False if_True not_False_eq_True image_insert simp_thms)
    qed
  qed
qed

lemma filterDevices_loop_inv:
  "filter_inv filters done av ex \<Longrightarrow> \<exists>av' ex'. filterDevices_loop filters ds av ex =
     \<lparr>Available = map snd av', Excluded = map snd ex'\<rparr> \<and> filter_inv filters (done @ tree ds) av' ex'"
proof (induction "size_list size ds" arbitrary: ds "done" av ex rule: less_induct)
  case less
  show ?case
  proof (cases ds)
    case Nil
    then show ?thesis using less.prems by auto
  next
    case (Cons d ds')
    have empty: "filter_inv filters [] [] []" by (simp add: filter_inv_def keyed_def)
    have c: "\<exists>av' ex'. filterDevices_loop filters (bd_Children d) [] [] =
        \<lparr>Available = map snd av', Excluded = map snd ex'\<rparr> \<and> filter_inv filters (tree (bd_Children d)) av' ex'"
      using less.hyps[of "bd_Children d", OF _ empty] bd_Children_size[of d] by (simp add: Cons)
    obtain av1 ex1 where s: "filter_step filters d (av, ex) = (av1, ex1)" by (cases "filter_step filters d (av, ex)")
    with filter_inv_step[OF less.prems c]
    have "filter_inv filters (done @ d # tree (bd_Children d)) av1 ex1" by simp
    from less.hyps[OF _ this, of ds'] show ?thesis
      by (simp add: Cons filterDevices_loop_step s del: filterDevices_loop.simps)
  qed
qed

text \<open>What is available and what is excluded, in terms of the device tree.\<close>

lemma filterDevices_spec:
  "bd_KName ` set (Available (filterDevices ds filters)) = bd_KName ` {d \<in> set (tree ds). passes filters d}"
  "set (Available (filterDevices ds filters)) \<subseteq> {d \<in> set (tree ds). passes filters d}"
  "distinct (map bd_KName (Available (filterDevices ds filters)))"
  "(\<lambda>e. bd_KName (fbd_Device e)) ` set (Excluded (filterDevices ds filters)) =
     bd_KName ` {d \<in> set (tree ds). \<not> passes filters d}"
  "\<forall>e \<in> set (Excluded (filterDevices ds filters)). honest filters (tree ds) e"
proof -
  have "filter_inv filters [] [] []" by (simp add: filter_inv_def keyed_def)
  from filterDevices_loop_inv[OF this, of ds] obtain av ex where
    r: "filterDevices ds filters = \<lparr>Available = map snd av, Excluded = map snd ex\<rparr>"
    and inv: "filter_inv filters (tree ds) av ex"
    by (auto simp: filterDevices_def)
  have eq: "map bd_KName (map snd av) = map fst av"
    using inv by (auto simp: filter_inv_def keyed_def)
  show "distinct (map bd_KName (Available (filterDevices ds filters)))"
    using inv by (simp only: r FilteredBlockDevices.select_convs eq filter_inv_def)
  show "bd_KName ` set (Available (filterDevices ds filters)) = bd_KName ` {d \<in> set (tree ds). passes filters d}"
    "(\<lambda>e. bd_KName (fbd_Device e)) ` set (Excluded (filterDevices ds filters)) =
       bd_KName ` {d \<in> set (tree ds). \<not> passes filters d}"
    using inv keyed_image[of bd_KName av] keyed_image[of "\<lambda>e. bd_KName (fbd_Device e)" ex]
    by (simp_all add: r filter_inv_def)
  show "set (Available (filterDevices ds filters)) \<subseteq> {d \<in> set (tree ds). passes filters d}"
    "\<forall>e \<in> set (Excluded (filterDevices ds filters)). honest filters (tree ds) e"
    using inv by (simp_all add: r filter_inv_def)
qed

section \<open>What the default filters let through\<close>

definition signature_ok :: "resolveFn \<Rightarrow> Options \<Rightarrow> BlockDevice \<Rightarrow> bool" where
  "signature_ok res opts d \<longleftrightarrow> bd_FSType d = []
     \<or> (bd_FSType d = FSTypeLVM2Member
        \<and> (case findPV res (bd_KName d) (opt_PVs opts) of
             Inl _ \<Rightarrow> False
           | Inr None \<Rightarrow> True
           | Inr (Some pv) \<Rightarrow> pv_VgName pv = [] \<and> vg_Name (opt_VG opts) \<noteq> []
               \<and> \<not> HasChildren d \<and> PvFree pv \<noteq> ''0G''))"

definition selected :: "resolveFn \<Rightarrow> Options \<Rightarrow> BlockDevice \<Rightarrow> bool" where
  "selected res opts d = (case vgs_DeviceSelector (vg_Spec (opt_VG opts)) of
     None \<Rightarrow> True | Some ds \<Rightarrow> bd_KName d \<in> resolved res ` set (selector_paths ds))"

definition usable_device :: "resolveFn \<Rightarrow> Options \<Rightarrow> BlockDevice \<Rightarrow> bool" where
  "usable_device res opts d \<longleftrightarrow> selected res opts d
     \<and> \<not> bd_ReadOnly d \<and> bd_State d \<noteq> ''suspended''
     \<and> \<not> (\<exists>l \<in> {''bios'', ''boot'', ''reserved''}. Contains (ToLower (bd_PartLabel d)) l)
     \<and> signature_ok res opts d \<and> bd_Children d = []
     \<and> bd_Type d \<noteq> ''rom'' \<and> bd_Type d \<noteq> ''lvm''
     \<and> (bd_Type d = ''loop'' \<longrightarrow> bdi_usable (opt_BDI opts) (bd_KName d))"

lemma selector_filter_ok: "partOfDeviceSelector res opts d = None \<longleftrightarrow> selected res opts d"
  by (simp add: partOfDeviceSelector_def selected_def Unresolved_def list_ex_iff image_iff
      eq_commute[of "bd_KName d"] split: option.split)

lemma signature_filter_ok: "onlyValidFilesystemSignatures res opts d = None \<longleftrightarrow> signature_ok res opts d"
  by (auto simp: onlyValidFilesystemSignatures_def signature_ok_def Let_def FSTypeLVM2Member_def
      split: sum.split option.split)

lemma type_filter_ok:
  "usableDeviceType opts d = None \<longleftrightarrow> bd_Type d \<noteq> ''rom'' \<and> bd_Type d \<noteq> ''lvm''
     \<and> (bd_Type d = ''loop'' \<longrightarrow> bdi_usable (opt_BDI opts) (bd_KName d))"
  by (simp add: usableDeviceType_def DeviceTypeLoop_def DeviceTypeROM_def DeviceTypeLVM_def)

lemma passes_DefaultFilters: "passes (DefaultFilters res opts) d \<longleftrightarrow> usable_device res opts d"
proof -
  have "passes (DefaultFilters res opts) d \<longleftrightarrow> partOfDeviceSelector res opts d = None
      \<and> notReadOnly d = None \<and> notSuspended d = None \<and> noInvalidPartitionLabel d = None
      \<and> onlyValidFilesystemSignatures res opts d = None \<and> noChildren d = None
      \<and> usableDeviceType opts d = None"
    by (simp add: passes_def DefaultFilters_def)
  also have "\<dots> \<longleftrightarrow> usable_device res opts d"
    unfolding selector_filter_ok signature_filter_ok type_filter_ok usable_device_def
    by (simp add: notReadOnly_def notSuspended_def StateSuspended_def noInvalidPartitionLabel_def
        invalidPartitionLabels_def noChildren_def HasChildren_def)
  finally show ?thesis .
qed

section \<open>Properties\<close>

text \<open>C29: The devices \<open>filterDevices\<close> offers under the default filters are exactly the usable
  devices of the whole lsblk tree, by kernel name, each name once: in the device selector when there
  is one, writable, not suspended, without a boot or reserved partition label, without a foreign
  file system signature or membership in another volume group, without children, and of a usable
  type.  The devices it excludes are exactly the others, each with the errors of its filters.\<close>

theorem filterDevices_exact:
  "bd_KName ` set (Available (filterDevices ds (DefaultFilters res opts))) =
     bd_KName ` {d \<in> set (tree ds). usable_device res opts d}
   \<and> set (Available (filterDevices ds (DefaultFilters res opts))) \<subseteq> {d \<in> set (tree ds). usable_device res opts d}
   \<and> distinct (map bd_KName (Available (filterDevices ds (DefaultFilters res opts))))
   \<and> (\<lambda>e. bd_KName (fbd_Device e)) ` set (Excluded (filterDevices ds (DefaultFilters res opts))) =
       bd_KName ` {d \<in> set (tree ds). \<not> usable_device res opts d}
   \<and> list_all (honest (DefaultFilters res opts) (tree ds)) (Excluded (filterDevices ds (DefaultFilters res opts)))"
  using filterDevices_spec[of ds "DefaultFilters res opts"]
  by (simp add: passes_DefaultFilters list_all_iff)

definition path_covered :: "FilteredBlockDevices \<Rightarrow> resolveFn \<Rightarrow> DevicePath \<Rightarrow> bool" where
  "path_covered f res p = (case res p of Inl _ \<Rightarrow> False
     | Inr k \<Rightarrow> IsAvailable f k
         \<or> list_ex (\<lambda>e. errors_Is e ErrDeviceAlreadySetupCorrectly) (FilterErrors f k))"


section \<open>Repeated kernel names\<close>

text \<open>Two entries with one kernel name, one of which passes, are both available and excluded; the
  errors of the second excluded entry of a name are lost.\<close>

definition twin :: "string \<Rightarrow> bool \<Rightarrow> BlockDevice" where
  "twin n ro = BlockDevice n ''/dev/dm-0'' ''mpath'' [] [] [] [] [] [] ro [] []"

lemma repeated_name_both:
  "filterDevices [twin ''a'' True, twin ''b'' False] [(''notReadOnly'', notReadOnly)] =
     \<lparr>Available = [twin ''b'' False],
      Excluded = [\<lparr>fbd_Device = twin ''a'' True,
        fbd_FilterErrors = [Errorf ''%s cannot be read-only'' [S ''a'']]\<rparr>]\<rparr>"
  by (simp add: filterDevices_def twin_def HasChildren_def filterErrs_def notReadOnly_def)

lemma repeated_name_errors_lost:
  "filterDevices [twin ''a'' True, twin ''b'' True] [(''notReadOnly'', notReadOnly)] =
     \<lparr>Available = [], Excluded = [\<lparr>fbd_Device = twin ''a'' True,
        fbd_FilterErrors = [Errorf ''%s cannot be read-only'' [S ''a'']]\<rparr>]\<rparr>"
  by (simp add: filterDevices_def twin_def HasChildren_def filterErrs_def notReadOnly_def)

end
