(* ===== verification/Raid.thy ===== *)
theory Raid
  imports LVM_Host Webhook_Props
begin

text \<open>
  Attributes of logical volumes (\<open>vgmanager/lv_attr.go\<close>), the RAID support of
  \<open>vgmanager/raid.go\<close> and its metrics (\<open>vgmanager/raid_metrics.go\<close>).

  A rune of the attribute string is the character at its position; \<open>String\<close> prints a rune in
  UTF-8.  The conversion of a \<open>float64\<close> outside of the range of \<open>int\<close> is the parameter \<open>special\<close>.
\<close>

section \<open>lv\_attr.go\<close>

record lv_attr =
  VolumeType :: char
  Permissions :: char
  AllocationPolicy :: char
  Minor :: char
  State :: char
  Open :: char
  OpenTarget :: char
  Zero :: char
  Partial :: char

definition VolumeTypeRAID :: char where "VolumeTypeRAID = CHR ''r''"
definition VolumeTypeRAIDNoInitialSync :: char where "VolumeTypeRAIDNoInitialSync = CHR ''R''"
definition VolumeTypeThinPool :: char where "VolumeTypeThinPool = CHR ''t''"
definition StateActive :: char where "StateActive = CHR ''a''"
definition PartialTrue :: char where "PartialTrue = CHR ''p''"

definition ParsedLvAttr :: "string \<Rightarrow> lv_attr res" where
  "ParsedLvAttr raw =
     (if length raw \<noteq> 10 then Inl (Errorf ''%s is an invalid length lv_attr'' [S raw])
      else Inr \<lparr>VolumeType = raw ! 0, Permissions = raw ! 1, AllocationPolicy = raw ! 2, Minor = raw ! 3,
        State = raw ! 4, Open = raw ! 5, OpenTarget = raw ! 6, Zero = raw ! 7, Partial = raw ! 8\<rparr>)"

definition utf8 :: "char \<Rightarrow> string" where
  "utf8 c = (let n = (of_char c :: nat) in
     if n < 128 then [c] else [char_of (192 + n div 64), char_of (128 + n mod 64)])"

definition LvAttr_String :: "lv_attr \<Rightarrow> string" where
  "LvAttr_String l = concat (map utf8 [VolumeType l, Permissions l, AllocationPolicy l, Minor l,
     State l, Open l, OpenTarget l, Zero l, Partial l])"

section \<open>raid.go\<close>

definition stripe_options :: "RAIDConfig \<Rightarrow> string list" where
  "stripe_options rc =
     (case rc_Stripes rc of None \<Rightarrow> [] | Some n \<Rightarrow> [''--stripes'', Itoa n])
     @ (case rc_StripeSize rc of None \<Rightarrow> [] | Some q \<Rightarrow> [''--stripesize'', Itoa (go_div (Value q) 1024) @ ''k''])"

definition buildRAIDLVCreateOptions :: "RAIDConfig \<Rightarrow> string list" where
  "buildRAIDLVCreateOptions rc =
     (let opts = [''--type'', RAIDType_string (rc_Type rc)] in
      case rc_Type rc of
        RAIDTypeRAID1 \<Rightarrow> opts @ [''-m'', Itoa (EffectiveMirrors rc)]
      | RAIDTypeRAID10 \<Rightarrow> opts @ [''-m'', Itoa (EffectiveMirrors rc)] @ stripe_options rc
      | RAIDTypeRAID4 \<Rightarrow> opts @ stripe_options rc
      | RAIDTypeRAID5 \<Rightarrow> opts @ stripe_options rc
      | RAIDTypeRAID6 \<Rightarrow> opts @ stripe_options rc
      | RAIDTypeOther s \<Rightarrow> opts)"

definition validateRAIDDeviceCount :: "RAIDConfig \<Rightarrow> int \<Rightarrow> go_error option" where
  "validateRAIDDeviceCount rc deviceCount =
     (let mirrors = EffectiveMirrors rc;
          minDevices = MinDeviceCount (rc_Type rc) mirrors (rc_Stripes rc);
          groupSize = wrap64 (mirrors + 1)
      in if deviceCount < minDevices
         then Some (Errorf ''%s requires at least %d devices, got %d''
                [S (RAIDType_string (rc_Type rc)), D minDevices, D deviceCount])
         else if rc_Type rc = RAIDTypeRAID10
         then (if groupSize = 0 then Some (GoPanic ''runtime error: integer divide by zero'')
               else if go_rem deviceCount groupSize \<noteq> 0
               then (if mirrors = 1
                     then Some (Errorf ''raid10 with mirrors=1 requires an even number of devices, got %d''
                            [D deviceCount])
                     else Some (Errorf ''raid10 with mirrors=%d requires a device count divisible by %d, got %d''
                            [D mirrors, D groupSize, D deviceCount]))
               else None)
         else None)"

definition float64_of_int :: "int \<Rightarrow> float64" where
  "float64_of_int i = Fin (round_bits 53 (of_int i))"

definition computeOverheadFactor :: "RAIDConfig \<Rightarrow> int \<Rightarrow> float64" where
  "computeOverheadFactor rc deviceCount =
     (let mirrors = EffectiveMirrors rc;
          parity = (\<lambda>p. case rc_Stripes rc of
             Some n \<Rightarrow> fdiv (float64_of_int (wrap64 (n + p))) (float64_of_int n)
           | None \<Rightarrow> if deviceCount \<le> p then Fin 1
               else fdiv (float64_of_int deviceCount) (float64_of_int (wrap64 (deviceCount - p))))
      in case rc_Type rc of
           RAIDTypeRAID1 \<Rightarrow> float64_of_int (wrap64 (mirrors + 1))
         | RAIDTypeRAID4 \<Rightarrow> parity 1
         | RAIDTypeRAID5 \<Rightarrow> parity 1
         | RAIDTypeRAID6 \<Rightarrow> parity 2
         | RAIDTypeRAID10 \<Rightarrow> float64_of_int (wrap64 (mirrors + 1))
         | RAIDTypeOther s \<Rightarrow> Fin 1)"

definition isRAIDVolume :: "LogicalVolume \<Rightarrow> bool" where
  "isRAIDVolume lv = (case ParsedLvAttr (LvAttr lv) of
     Inl _ \<Rightarrow> False
   | Inr a \<Rightarrow> VolumeType a = VolumeTypeRAID \<or> VolumeType a = VolumeTypeRAIDNoInitialSync)"

text \<open>The sync percentage: 100 when none is reported or it does not parse.\<close>

definition syncPercent :: "(float64 \<Rightarrow> int) \<Rightarrow> LogicalVolume \<Rightarrow> int" where
  "syncPercent special lv =
     (if RAIDSyncPercent lv \<noteq> []
      then (case ParseFloat (RAIDSyncPercent lv) 64 of Inl _ \<Rightarrow> 100 | Inr f \<Rightarrow> float_to_int special f)
      else 100)"

definition lvHealth :: "(float64 \<Rightarrow> int) \<Rightarrow> LogicalVolume list \<Rightarrow> RAIDType \<Rightarrow> RAIDLVHealth list" where
  "lvHealth special lvs raidType =
     map (\<lambda>lv. \<lparr>rlh_Name = lv_Name lv, rlh_RAIDType = raidType, rlh_SyncPercent = syncPercent special lv,
           rlh_HealthStatus = LVHealthStatus lv\<rparr>)
       (filter (\<lambda>lv. isRAIDVolume lv
          \<and> \<not> (Contains (lv_Name lv) ''_rimage_'' \<or> Contains (lv_Name lv) ''_rmeta_'')) lvs)"

definition isPartial :: "LogicalVolume \<Rightarrow> bool" where
  "isPartial lv = (case ParsedLvAttr (LvAttr lv) of Inl _ \<Rightarrow> False | Inr a \<Rightarrow> Partial a = PartialTrue)"

definition buildRAIDStatus ::
  "(float64 \<Rightarrow> int) \<Rightarrow> LogicalVolume list \<Rightarrow> PhysicalVolume list \<Rightarrow> RAIDType \<Rightarrow> RAIDStatus option" where
  "buildRAIDStatus special lvs pvs raidType =
     (let health = lvHealth special lvs raidType in
      if length health = 0 \<and> length pvs = 0 then None
      else let failedCount = length (filter (\<lambda>h. rlh_HealthStatus h \<noteq> [] \<and> rlh_HealthStatus h \<noteq> ''partial'') health);
               degradedCount = length (filter (\<lambda>h. rlh_HealthStatus h = ''partial'') health);
               overallStatus = (if length health > 0
                 then (if failedCount = length health then RAIDHealthStatusFailed
                       else if failedCount > 0 \<or> degradedCount > 0 then RAIDHealthStatusDegraded
                       else RAIDHealthStatusHealthy)
                 else RAIDHealthStatusHealthy);
               overallStatus = (if overallStatus = RAIDHealthStatusHealthy
                   \<and> list_ex (\<lambda>lv. isRAIDVolume lv \<and> isPartial lv) lvs
                 then RAIDHealthStatusDegraded else overallStatus);
               degradedMemberCount = length (filter (\<lambda>pv. PvMissing pv \<noteq> []) pvs);
               overallStatus = (if degradedMemberCount > 0 \<and> overallStatus = RAIDHealthStatusHealthy
                 then RAIDHealthStatusDegraded else overallStatus);
               minSyncPercent = (if length health > 0
                 then Some (fold (\<lambda>h m. if rlh_SyncPercent h < m then rlh_SyncPercent h else m) health 100)
                 else None)
           in Some \<lparr>rs_Status = overallStatus, rs_MemberCount = length pvs,
                rs_DegradedMemberCount = degradedMemberCount, rs_MinSyncPercent = minSyncPercent,
                rs_LVHealth = health\<rparr>)"

section \<open>raid\_metrics.go\<close>

definition updateRAIDMetrics :: "string \<Rightarrow> string \<Rightarrow> RAIDStatus option \<Rightarrow> unit vgm" where
  "updateRAIDMetrics nodeName deviceClassName raidStatus = (case raidStatus of
     None \<Rightarrow> for_do [(raidHealthStatus, 0), (raidSyncInProgress, 0), (raidMemberCount, 0),
         (raidDegradedCount, 0), (raidSyncPercent, 100)]
       (\<lambda>(g, v). emit (SetGauge g nodeName deviceClassName v))
   | Some st \<Rightarrow>
       let healthValue = (case rs_Status st of RAIDHealthStatusHealthy \<Rightarrow> 0
             | RAIDHealthStatusDegraded \<Rightarrow> 1 | RAIDHealthStatusFailed \<Rightarrow> 2);
           syncing = (if list_ex (\<lambda>lv. rlh_SyncPercent lv < 100) (rs_LVHealth st) then 1 else 0)
       in for_do [(raidHealthStatus, healthValue), (raidSyncInProgress, syncing),
            (raidMemberCount, int (rs_MemberCount st)), (raidDegradedCount, int (rs_DegradedMemberCount st)),
            (raidSyncPercent, Deref (rs_MinSyncPercent st) 100)]
          (\<lambda>(g, v). emit (SetGauge g nodeName deviceClassName v)))"

definition deleteRAIDMetrics :: "string \<Rightarrow> string \<Rightarrow> unit vgm" where
  "deleteRAIDMetrics nodeName deviceClassName =
     for_do [raidHealthStatus, raidSyncInProgress, raidMemberCount, raidDegradedCount, raidSyncPercent]
       (\<lambda>g. emit (DeleteGauge g nodeName deviceClassName))"

definition gauges :: "action set" where
  "gauges = {a. \<exists>g n c v. a = SetGauge g n c v \<or> a = DeleteGauge g n c}"

lemma only_updateRAIDMetrics [only_intros]: "gauges \<subseteq> A \<Longrightarrow> only A (updateRAIDMetrics n c r)"
  unfolding updateRAIDMetrics_def by (auto simp: gauges_def Let_def intro!: only_intros)

lemma only_deleteRAIDMetrics [only_intros]: "gauges \<subseteq> A \<Longrightarrow> only A (deleteRAIDMetrics n c)"
  unfolding deleteRAIDMetrics_def by (auto simp: gauges_def intro!: only_intros)

section \<open>Properties\<close>

definition ascii :: "char \<Rightarrow> bool" where
  "ascii c \<longleftrightarrow> (of_char c :: nat) < 128"

lemma utf8_ascii [simp]: "ascii c \<Longrightarrow> utf8 c = [c]"
  by (simp add: utf8_def ascii_def Let_def)

lemma list_of_length_10:
  "length xs = 10 \<Longrightarrow> xs = [xs!0, xs!1, xs!2, xs!3, xs!4, xs!5, xs!6, xs!7, xs!8, xs!9]"
  by (rule nth_equalityI) (auto simp: nth_Cons numeral_eq_Suc split: nat.split)

text \<open>C37: Parsing an \<open>lv_attr\<close> of ten ASCII characters succeeds, and printing the result gives back
  its first nine characters, the ones the type has fields for; any other length is an error.\<close>

theorem LvAttr_round_trip:
  "(length raw = 10 \<and> list_all ascii raw \<longrightarrow> map_sum id LvAttr_String (ParsedLvAttr raw) = Inr (take 9 raw))
   \<and> (length raw \<noteq> 10 \<longrightarrow> ParsedLvAttr raw = Inl (Errorf ''%s is an invalid length lv_attr'' [S raw]))"
proof -
  have "map_sum id LvAttr_String (ParsedLvAttr raw) = Inr (take 9 raw)"
    if "length raw = 10" "list_all ascii raw"
  proof -
    have a: "ascii (raw ! i)" if "i < 10" for i
      using that \<open>list_all ascii raw\<close> \<open>length raw = 10\<close> by (simp add: list_all_length)
    have "take 9 raw = [raw!0, raw!1, raw!2, raw!3, raw!4, raw!5, raw!6, raw!7, raw!8]"
      by (subst (1) list_of_length_10[OF that(1)]) (simp add: numeral_eq_Suc)
    with that(1) a show ?thesis by (simp add: ParsedLvAttr_def LvAttr_String_def)
  qed
  then show ?thesis by (simp add: ParsedLvAttr_def)
qed

theorem LvAttr_round_trip_witness:
  "map_sum id LvAttr_String (ParsedLvAttr ''twi-aotz--'') = Inr ''twi-aotz-''"
  using LvAttr_round_trip[of "''twi-aotz--''"] by (simp add: ascii_def)

text \<open>The minimum of a fold.\<close>

lemma fold_min: "fold (\<lambda>h m. if f h < m then f h else m) hs (a :: int) = Min (insert a (f ` set hs))"
proof (induction hs arbitrary: a)
  case (Cons h hs)
  have "(if f h < a then f h else a) = min a (f h)" by simp
  then have "fold (\<lambda>h m. if f h < m then f h else m) (h # hs) a = Min (insert (min a (f h)) (f ` set hs))"
    using Cons[of "min a (f h)"] by simp
  also have "\<dots> = Min (insert a (f ` set (h # hs)))"
    by (cases "set hs = {}") (simp_all add: min.assoc)
  finally show ?case .
qed simp

lemma filter_all_length: "length (filter P xs) = length xs \<longleftrightarrow> list_all P xs"
  by (metis filter_id_conv length_filter_less list_all_iff nat_less_le)

lemma RAIDStatus_facts:
  assumes "buildRAIDStatus special lvs pvs raidType = Some st"
  shows "rs_LVHealth st = lvHealth special lvs raidType"
    and "rs_Status st = RAIDHealthStatusFailed \<longleftrightarrow>
      rs_LVHealth st \<noteq> [] \<and> list_all (\<lambda>h. rlh_HealthStatus h \<notin> {[], ''partial''}) (rs_LVHealth st)"
    and "rs_Status st = RAIDHealthStatusHealthy \<longleftrightarrow>
      list_all (\<lambda>h. rlh_HealthStatus h = []) (rs_LVHealth st)
      \<and> \<not> list_ex (\<lambda>lv. isRAIDVolume lv \<and> isPartial lv) lvs \<and> list_all (\<lambda>pv. PvMissing pv = []) pvs"
    and "rs_MemberCount st = length pvs"
    and "rs_DegradedMemberCount st = length (filter (\<lambda>pv. PvMissing pv \<noteq> []) pvs)"
    and "rs_MinSyncPercent st = (if rs_LVHealth st = [] then None
      else Some (Min (insert 100 (rlh_SyncPercent ` set (rs_LVHealth st)))))"
proof -
  define health where "health = lvHealth special lvs raidType"
  note b = assms[unfolded buildRAIDStatus_def Let_def health_def[symmetric]]
  show "rs_LVHealth st = lvHealth special lvs raidType" "rs_MemberCount st = length pvs"
    "rs_DegradedMemberCount st = length (filter (\<lambda>pv. PvMissing pv \<noteq> []) pvs)"
    using b by (auto simp: health_def split: if_splits)
  then have h: "rs_LVHealth st = health" by (simp add: health_def)
  show "rs_MinSyncPercent st = (if rs_LVHealth st = [] then None
      else Some (Min (insert 100 (rlh_SyncPercent ` set (rs_LVHealth st)))))"
    unfolding h using b by (auto simp: fold_min split: if_splits)
  have bad: "length (filter (\<lambda>h. rlh_HealthStatus h \<noteq> [] \<and> rlh_HealthStatus h \<noteq> ''partial'') health) = length health
      \<longleftrightarrow> list_all (\<lambda>h. rlh_HealthStatus h \<notin> {[], ''partial''}) health"
    by (simp add: filter_all_length)
  have good: "filter (\<lambda>h. rlh_HealthStatus h \<noteq> [] \<and> rlh_HealthStatus h \<noteq> ''partial'') health = []
      \<and> filter (\<lambda>h. rlh_HealthStatus h = ''partial'') health = []
      \<longleftrightarrow> list_all (\<lambda>h. rlh_HealthStatus h = []) health"
    by (auto simp: filter_empty_conv list_all_iff)
  have missing: "filter (\<lambda>pv. PvMissing pv \<noteq> []) pvs = [] \<longleftrightarrow> list_all (\<lambda>pv. PvMissing pv = []) pvs"
    by (simp add: filter_empty_conv list_all_iff)
  have excl: "health \<noteq> [] \<Longrightarrow> list_all (\<lambda>h. rlh_HealthStatus h \<notin> {[], ''partial''}) health \<Longrightarrow>
      \<not> list_all (\<lambda>h. rlh_HealthStatus h = []) health"
    by (cases health) auto
  show "rs_Status st = RAIDHealthStatusFailed \<longleftrightarrow>
      rs_LVHealth st \<noteq> [] \<and> list_all (\<lambda>h. rlh_HealthStatus h \<notin> {[], ''partial''}) (rs_LVHealth st)"
    unfolding h bad[symmetric] using b by (auto split: if_splits)
  show "rs_Status st = RAIDHealthStatusHealthy \<longleftrightarrow>
      list_all (\<lambda>h. rlh_HealthStatus h = []) (rs_LVHealth st)
      \<and> \<not> list_ex (\<lambda>lv. isRAIDVolume lv \<and> isPartial lv) lvs \<and> list_all (\<lambda>pv. PvMissing pv = []) pvs"
    unfolding h good[symmetric] missing[symmetric] using b excl[folded bad good]
    by (auto split: if_splits)
qed


section \<open>Device counts\<close>

lemma validateRAIDDeviceCount_ok:
  "validateRAIDDeviceCount rc n = None \<longleftrightarrow>
     MinDeviceCount (rc_Type rc) (EffectiveMirrors rc) (rc_Stripes rc) \<le> n
     \<and> (rc_Type rc = RAIDTypeRAID10 \<longrightarrow> wrap64 (EffectiveMirrors rc + 1) \<noteq> 0
          \<and> go_rem n (wrap64 (EffectiveMirrors rc + 1)) = 0)"
  by (simp add: validateRAIDDeviceCount_def Let_def not_less)

text \<open>The device-count check of the node and the one at admission agree: when admission accepts
  a RAID class with only mandatory paths, a node that has exactly these devices passes the check of
  the volume group manager, so an admitted class is not refused for its device count.\<close>

lemma admitted_count_accepted:
  assumes "verifyRAIDConfig_dc dc = None" and "dc_RAIDConfig dc = Some rc"
    and "dc_DeviceSelector dc = Some \<lparr>ds_Paths = paths, ds_OptionalPaths = [],
           ds_ForceWipeDevicesAndDestroyAllData = wipe\<rparr>"
  shows "validateRAIDDeviceCount rc (int (length paths)) = None"
proof -
  from assms(1,2) have "raid_ok dc rc" by (simp add: verifyRAIDConfig_dc_ok)
  with assms(3) show ?thesis
    by (simp add: raid_ok_def paths_of_def validateRAIDDeviceCount_ok)
qed

definition raid10_class :: DeviceClass where
  "raid10_class = \<lparr>dc_Name = ''vg1'',
     dc_DeviceSelector = Some \<lparr>ds_Paths = [''/dev/sda'', ''/dev/sdb'', ''/dev/sdc'', ''/dev/sdd''],
       ds_OptionalPaths = [], ds_ForceWipeDevicesAndDestroyAllData = None\<rparr>,
     dc_NodeSelector = None, dc_ThinPoolConfig = None,
     dc_RAIDConfig = Some \<lparr>rc_Type = RAIDTypeRAID10, rc_Mirrors = Some 1, rc_Stripes = None,
       rc_StripeSize = None\<rparr>,
     dc_Default = True, dc_FilesystemType = FilesystemTypeXFS,
     dc_DeviceDiscoveryPolicy = None, dc_StorageClassOptions = None\<rparr>"

theorem admitted_count_accepted_witness:
  "verifyRAIDConfig_dc raid10_class = None
   \<and> validateRAIDDeviceCount \<lparr>rc_Type = RAIDTypeRAID10, rc_Mirrors = Some 1, rc_Stripes = None,
       rc_StripeSize = None\<rparr> (int (length [''/dev/sda'', ''/dev/sdb'', ''/dev/sdc'', ''/dev/sdd''])) = None"
proof -
  have v: "verifyRAIDConfig_dc raid10_class = None"
    by (simp add: verifyRAIDConfig_dc_def raid10_class_def EffectiveMirrors_def Let_def wrap64_id
        go_rem_nonneg)
  then show ?thesis
    by (intro conjI v admitted_count_accepted[OF v]) (simp_all add: raid10_class_def)
qed

text \<open>A stripe size below 1024 bytes passes admission and becomes a stripe size of 0k.\<close>

lemma small_stripe_size:
  "stripe_options \<lparr>rc_Type = RAIDTypeRAID5, rc_Mirrors = None, rc_Stripes = None,
     rc_StripeSize = Some \<lparr>q_bytes = 512, q_repr = ''512''\<rparr>\<rparr> = [''--stripesize'', ''0k'']
   \<and> stripe_size_ok \<lparr>rc_Type = RAIDTypeRAID5, rc_Mirrors = None, rc_Stripes = None,
       rc_StripeSize = Some \<lparr>q_bytes = 512, q_repr = ''512''\<rparr>\<rparr>"
proof -
  have "(512 :: int) = 2 ^ 9" by simp
  then have "\<exists>k. (512 :: int) = 2 ^ k" by blast
  moreover have "Itoa 0 = ''0''" by code_simp
  ultimately show ?thesis
    by (simp add: stripe_options_def stripe_size_ok_def go_div_def)
qed

end
