(* ===== verification/VG_Status.thy ===== *)
theory VG_Status
  imports Device_Filter Raid
begin

text \<open>
  The status a node reports for its volume groups (\<open>vgmanager/status.go\<close>) and the events of the
  controller (\<open>WarningEvent\<close> and \<open>NormalEvent\<close> in \<open>vgmanager/controller.go\<close>).

  The mutate function of a \<open>CreateOrUpdate\<close> is a function on the node status object.  The result of
  the setters is whether the object was changed, and an error.
\<close>

section \<open>Explicit paths\<close>

definition hasExplicitDevicePaths :: "LVMVolumeGroup \<Rightarrow> bool" where
  "hasExplicitDevicePaths vg = (case vgs_DeviceSelector (vg_Spec vg) of
     None \<Rightarrow> False | Some ds \<Rightarrow> length (ds_Paths ds) > 0 \<or> length (ds_OptionalPaths ds) > 0)"

section \<open>Building a status\<close>

definition new_status :: "string \<Rightarrow> VGStatusType \<Rightarrow> string \<Rightarrow> VGStatus" where
  "new_status name st reason = \<lparr>vs_Name = name, vs_Status = st, vs_Reason = reason, vs_Devices = [],
     vs_Excluded = [], vs_DeviceDiscoveryPolicy = DeviceDiscoveryPolicyUnset, vs_RAIDStatus = None\<rparr>"

text \<open>The devices of the last volume group of that name that has some.\<close>

definition status_devices :: "string \<Rightarrow> VolumeGroup list \<Rightarrow> string list option" where
  "status_devices name vgs = fold (\<lambda>vg acc.
     if name = lvg_Name vg \<and> length (lvg_PVs vg) > 0 then Some (map PvName (lvg_PVs vg)) else acc) vgs None"

definition excluded_entry :: "FilteredBlockDevice \<Rightarrow> ExcludedDevice list" where
  "excluded_entry e =
     (if list_ex IsExpectedDeviceErrorAfterSetup (fbd_FilterErrors e) then []
      else [\<lparr>ed_Name = bd_Name (fbd_Device e), ed_Reasons = sort (map Error (fbd_FilterErrors e))\<rparr>])"

definition setDevices :: "VGStatus \<Rightarrow> VolumeGroup list \<Rightarrow> FilteredBlockDevices \<Rightarrow> VGStatus \<times> bool" where
  "setDevices status vgs devices =
     (let devs = status_devices (vs_Name status) vgs;
          status = (case devs of None \<Rightarrow> status | Some ds \<Rightarrow> status\<lparr>vs_Devices := ds\<rparr>);
          excluded = concat (map excluded_entry (Excluded devices))
      in (status\<lparr>vs_Excluded := sort_key ed_Name excluded\<rparr>, devs \<noteq> None))"

definition applyRAIDStatus :: "vgm_env \<Rightarrow> LVMVolumeGroup \<Rightarrow> RAIDConfig \<Rightarrow> VolumeGroup list \<Rightarrow> VGStatus \<Rightarrow>
    VGStatus res vgm" where
  "applyRAIDStatus env vg rc vgs status =
     catch (ListLVs env (vg_Name vg))
       (\<lambda>err. ret (Inl (Errorf ''failed to list logical volumes for RAID status: %w'' [W err])))
       (\<lambda>lvReport.
          let pvs = (case find (\<lambda>g. lvg_Name g = vg_Name vg) vgs of None \<Rightarrow> [] | Some g \<Rightarrow> lvg_PVs g);
              raidStatus = buildRAIDStatus (float_special env) (concat lvReport) pvs (rc_Type rc);
              status = (case raidStatus of None \<Rightarrow> status | Some st \<Rightarrow>
                let status = status\<lparr>vs_RAIDStatus := Some st\<rparr> in
                if rs_Status st = RAIDHealthStatusDegraded \<or> rs_Status st = RAIDHealthStatusFailed
                then status\<lparr>vs_Status := VGStatusDegraded\<rparr> else status)
          in do { _ \<leftarrow> updateRAIDMetrics (NodeName env) (vg_Name vg) raidStatus; ret (Inr status) })"

section \<open>Writing it\<close>

definition CreateOrUpdateNodeStatus ::
  "vgm_env \<Rightarrow> (LVMVolumeGroupNodeStatus \<Rightarrow> LVMVolumeGroupNodeStatus) \<Rightarrow> (OperationResult \<times> go_error option) vgm" where
  "CreateOrUpdateNodeStatus env f =
     catch (ask (\<lambda>h. cou_fetch env h (Namespace env) (NodeName env)) (FetchNodeStatus (Namespace env) (NodeName env)))
       (\<lambda>err. ret (OperationResultNone, Some err))
       (\<lambda>obj. ask (\<lambda>h. cou_write env h (f obj)) (WriteNodeStatus (f obj)))"

definition upsertStatus :: "VGStatus \<Rightarrow> VGStatus list \<Rightarrow> VGStatus list" where
  "upsertStatus status sts =
     (if list_ex (\<lambda>st. vs_Name st = vs_Name status) sts
      then map (\<lambda>st. if vs_Name st = vs_Name status then status else st) sts
      else sts @ [status])"

definition setStatusIn :: "vgm_env \<Rightarrow> LVMVolumeGroup \<Rightarrow> VGStatus \<Rightarrow> LVMVolumeGroupNodeStatus \<Rightarrow> LVMVolumeGroupNodeStatus" where
  "setStatusIn env vg status obj =
     obj\<lparr>ns_OwnerReferences := (case SetOwnerReference env vg (ns_OwnerReferences obj) of
            Inl err \<Rightarrow> ns_OwnerReferences obj | Inr refs \<Rightarrow> refs),
         ns_LVMVGStatus := upsertStatus status (ns_LVMVGStatus obj)\<rparr>"

definition discoveryPolicyStatus :: "LVMVolumeGroup \<Rightarrow> DeviceDiscoveryPolicyStatus" where
  "discoveryPolicyStatus vg =
     (if hasExplicitDevicePaths vg then DeviceDiscoveryPolicyPreconfigured
      else if vgs_DeviceDiscoveryPolicy (vg_Spec vg) = None
         \<or> vgs_DeviceDiscoveryPolicy (vg_Spec vg) = Some DeviceDiscoveryPolicyDynamic
      then DeviceDiscoveryPolicyRuntimeDynamic
      else DeviceDiscoveryPolicyRuntimeStatic)"

definition setVolumeGroupStatus :: "vgm_env \<Rightarrow> LVMVolumeGroup \<Rightarrow> VGStatus \<Rightarrow> (bool \<times> go_error option) vgm" where
  "setVolumeGroupStatus env vg status =
     (let status = status\<lparr>vs_DeviceDiscoveryPolicy := discoveryPolicyStatus vg\<rparr> in
      do { (result, err) \<leftarrow> CreateOrUpdateNodeStatus env (setStatusIn env vg status);
           ret (result \<noteq> OperationResultNone,
                map_option (\<lambda>e. Errorf ''LVMVolumeGroupNodeStatus could not be updated: %w'' [W e]) err) })"

text \<open>The tail the three setters share: the RAID status of a RAID class, then the write.\<close>

definition finishStatus :: "vgm_env \<Rightarrow> LVMVolumeGroup \<Rightarrow> VolumeGroup list \<Rightarrow> VGStatus \<Rightarrow> (bool \<times> go_error option) vgm" where
  "finishStatus env vg vgs status = (case vgs_RAIDConfig (vg_Spec vg) of
     None \<Rightarrow> setVolumeGroupStatus env vg status
   | Some rc \<Rightarrow>
       catch (applyRAIDStatus env vg rc vgs status)
         (\<lambda>err. ret (False, Some (Errorf ''failed to collect RAID status: %w'' [W err])))
         (\<lambda>status. setVolumeGroupStatus env vg status))"

definition setVolumeGroupProgressingStatus ::
  "vgm_env \<Rightarrow> LVMVolumeGroup \<Rightarrow> VolumeGroup list \<Rightarrow> FilteredBlockDevices \<Rightarrow> (bool \<times> go_error option) vgm" where
  "setVolumeGroupProgressingStatus env vg vgs devices =
     finishStatus env vg vgs (fst (setDevices (new_status (vg_Name vg) VGStatusProgressing []) vgs devices))"

definition setVolumeGroupReadyStatus ::
  "vgm_env \<Rightarrow> LVMVolumeGroup \<Rightarrow> VolumeGroup list \<Rightarrow> FilteredBlockDevices \<Rightarrow> (bool \<times> go_error option) vgm" where
  "setVolumeGroupReadyStatus env vg vgs devices =
     finishStatus env vg vgs (fst (setDevices (new_status (vg_Name vg) VGStatusReady []) vgs devices))"

definition setVolumeGroupFailedStatus ::
  "vgm_env \<Rightarrow> LVMVolumeGroup \<Rightarrow> VolumeGroup list \<Rightarrow> FilteredBlockDevices \<Rightarrow> go_error \<Rightarrow> (bool \<times> go_error option) vgm" where
  "setVolumeGroupFailedStatus env vg vgs devices err =
     (case setDevices (new_status (vg_Name vg) VGStatusFailed (Error err)) vgs devices of
        (status, devicesExist) \<Rightarrow>
          finishStatus env vg vgs (if devicesExist then status\<lparr>vs_Status := VGStatusDegraded\<rparr> else status))"

text \<open>The index is that of the last entry of that name; the owner reference removed is the first with
  the UID.\<close>

fun remove_last :: "('a \<Rightarrow> bool) \<Rightarrow> 'a list \<Rightarrow> 'a list" where
  "remove_last p [] = []"
| "remove_last p (x # xs) = (if list_ex p xs then x # remove_last p xs else if p x then xs else x # xs)"

fun remove_first :: "('a \<Rightarrow> bool) \<Rightarrow> 'a list \<Rightarrow> 'a list" where
  "remove_first p [] = []"
| "remove_first p (x # xs) = (if p x then xs else x # remove_first p xs)"

definition dropStatusIn :: "LVMVolumeGroup \<Rightarrow> LVMVolumeGroupNodeStatus \<Rightarrow> LVMVolumeGroupNodeStatus" where
  "dropStatusIn vg obj =
     (if list_ex (\<lambda>st. vs_Name st = vg_Name vg) (ns_LVMVGStatus obj)
      then obj\<lparr>ns_LVMVGStatus := remove_last (\<lambda>st. vs_Name st = vg_Name vg) (ns_LVMVGStatus obj),
               ns_OwnerReferences := remove_first (\<lambda>r. or_UID r = vg_UID vg) (ns_OwnerReferences obj)\<rparr>
      else obj)"

definition removeVolumeGroupStatus :: "vgm_env \<Rightarrow> LVMVolumeGroup \<Rightarrow> go_error option vgm" where
  "removeVolumeGroupStatus env vg =
     do { _ \<leftarrow> (if vgs_RAIDConfig (vg_Spec vg) \<noteq> None then deleteRAIDMetrics (NodeName env) (vg_Name vg) else ret ());
          (result, err) \<leftarrow> CreateOrUpdateNodeStatus env (dropStatusIn vg);
          ret (map_option (\<lambda>e. Errorf ''failed to create or update LVMVolumeGroupNodeStatus %s, %w''
                 [S (NodeName env), W e]) err) }"

section \<open>Events\<close>

definition key_text :: "string \<Rightarrow> string \<Rightarrow> string" where
  "key_text ns n = ns @ ''/'' @ n"

definition sendEvents :: "vgm_env \<Rightarrow> LVMVolumeGroup \<Rightarrow> bool \<Rightarrow> string \<Rightarrow> string \<Rightarrow> string \<Rightarrow> string \<Rightarrow> unit vgm" where
  "sendEvents env obj warning reason msg ownerMsg objMsg =
     do { st \<leftarrow> ask (\<lambda>h. api_NodeStatus env h (Namespace env) (NodeName env)) (GetNodeStatus (Namespace env) (NodeName env));
          _ \<leftarrow> (case st of Found _ \<Rightarrow> emit (Event (EvNodeStatus (Namespace env) (NodeName env)) warning reason msg)
               | NotFound _ \<Rightarrow> ret () | ApiErr _ \<Rightarrow> ret ());
          _ \<leftarrow> for_do (vg_OwnerReferences obj)
                 (\<lambda>ref. emit (Event (EvOwner ref (vg_Namespace obj)) warning reason ownerMsg));
          emit (Event (EvVolumeGroup (vg_Namespace obj) (vg_Name obj)) warning reason objMsg) }"

definition WarningEvent :: "vgm_env \<Rightarrow> LVMVolumeGroup \<Rightarrow> string \<Rightarrow> go_error \<Rightarrow> unit vgm" where
  "WarningEvent env obj reason errMsg =
     sendEvents env obj True reason (Error errMsg)
       (Error (Errorf ''error on node %s in volume group %s: %w''
          [S (key_text (Namespace env) (NodeName env)), S (key_text (vg_Namespace obj) (vg_Name obj)), W errMsg]))
       (Error (Errorf ''error on node %s: %w'' [S (key_text (Namespace env) (NodeName env)), W errMsg]))"

definition NormalEvent :: "vgm_env \<Rightarrow> LVMVolumeGroup \<Rightarrow> string \<Rightarrow> string \<Rightarrow> unit vgm" where
  "NormalEvent env obj reason msg =
     (if \<not> V1Enabled env then ret ()
      else sendEvents env obj False reason msg
        (sprintf ''update on node %s in volume group %s: %s''
          [key_text (Namespace env) (NodeName env), key_text (vg_Namespace obj) (vg_Name obj), msg])
        (sprintf ''update on node %s: %s'' [key_text (Namespace env) (NodeName env), msg]))"

section \<open>Actions\<close>

definition events :: "action set" where
  "events = {a. (\<exists>ob w r m. a = Event ob w r m) \<or> (\<exists>ns n. a = GetNodeStatus ns n)}"

definition status_writes :: "action set" where
  "status_writes = {a. (\<exists>ns n. a = FetchNodeStatus ns n) \<or> (\<exists>st. a = WriteNodeStatus st)} \<union> gauges \<union> cmds {lvsCmd}"

lemma only_sendEvents: "events \<subseteq> A \<Longrightarrow> only A (sendEvents env vg w r m om vm)"
proof (erule only_mono[rotated])
  show "only events (sendEvents env vg w r m om vm)"
    unfolding sendEvents_def
    by (auto intro!: only_intros split: api.split) (simp_all add: events_def)
qed

lemma only_WarningEvent [only_intros]: "events \<subseteq> A \<Longrightarrow> only A (WarningEvent env vg r e)"
  unfolding WarningEvent_def by (rule only_sendEvents)

lemma only_NormalEvent [only_intros]: "events \<subseteq> A \<Longrightarrow> only A (NormalEvent env vg r e)"
  unfolding NormalEvent_def by (intro only_intros only_sendEvents)

lemma only_finishStatus: "status_writes \<subseteq> A \<Longrightarrow> only A (finishStatus env vg vgs status)"
proof (erule only_mono[rotated])
  have g: "gauges \<subseteq> status_writes" and l: "cmds {lvsCmd} \<subseteq> status_writes"
    by (auto simp: status_writes_def)
  show "only status_writes (finishStatus env vg vgs status)"
    unfolding finishStatus_def applyRAIDStatus_def setVolumeGroupStatus_def CreateOrUpdateNodeStatus_def Let_def
    by (auto intro!: only_intros g l split: option.split) (simp_all add: status_writes_def)
qed

lemma only_setStatus [only_intros]:
  "status_writes \<subseteq> A \<Longrightarrow> only A (setVolumeGroupProgressingStatus env vg vgs ds)"
  "status_writes \<subseteq> A \<Longrightarrow> only A (setVolumeGroupReadyStatus env vg vgs ds)"
  "status_writes \<subseteq> A \<Longrightarrow> only A (setVolumeGroupFailedStatus env vg vgs ds err)"
  by (auto simp: setVolumeGroupProgressingStatus_def setVolumeGroupReadyStatus_def
      setVolumeGroupFailedStatus_def only_finishStatus split: prod.split)

lemma only_removeVolumeGroupStatus [only_intros]:
  "status_writes \<subseteq> A \<Longrightarrow> only A (removeVolumeGroupStatus env vg)"
proof (erule only_mono[rotated])
  have g: "gauges \<subseteq> status_writes" by (auto simp: status_writes_def)
  show "only status_writes (removeVolumeGroupStatus env vg)"
    unfolding removeVolumeGroupStatus_def CreateOrUpdateNodeStatus_def
    by (auto intro!: only_intros g) (simp_all add: status_writes_def)
qed

section \<open>The node status as a map\<close>

text \<open>The entries of the status object are shared by all volume groups of the node.  What they rely on:
  an entry list with one entry per key, under setting and dropping, is a map.\<close>

datatype ('k, 'v) entry_op = PutEntry 'v | DelEntry 'k

locale keyed_entries =
  fixes key :: "'v \<Rightarrow> 'k"
    and put :: "'v \<Rightarrow> 'v list \<Rightarrow> 'v list"
    and del :: "'k \<Rightarrow> 'v list \<Rightarrow> 'v list"
  assumes put_distinct: "distinct (map key es) \<Longrightarrow> distinct (map key (put v es))"
    and put_find: "distinct (map key es) \<Longrightarrow>
      find (\<lambda>e. key e = k) (put v es) = (if k = key v then Some v else find (\<lambda>e. key e = k) es)"
    and del_distinct: "distinct (map key es) \<Longrightarrow> distinct (map key (del k es))"
    and del_find: "distinct (map key es) \<Longrightarrow>
      find (\<lambda>e. key e = k') (del k es) = (if k' = k then None else find (\<lambda>e. key e = k') es)"
begin

lemma ops_refine:
  assumes "distinct (map key es)"
  shows "distinct (map key (fold (\<lambda>p es. case p of PutEntry v \<Rightarrow> put v es | DelEntry k \<Rightarrow> del k es) ps es))
    \<and> (\<lambda>k. find (\<lambda>e. key e = k) (fold (\<lambda>p es. case p of PutEntry v \<Rightarrow> put v es | DelEntry k \<Rightarrow> del k es) ps es)) =
      fold (\<lambda>p m. case p of PutEntry v \<Rightarrow> m(key v \<mapsto> v) | DelEntry k \<Rightarrow> m(k := None)) ps (\<lambda>k. find (\<lambda>e. key e = k) es)"
  using assms
proof (induction ps arbitrary: es)
  case (Cons p ps)
  show ?case
  proof (cases p)
    case (PutEntry v)
    have "(\<lambda>k. find (\<lambda>e. key e = k) (put v es)) = (\<lambda>k. find (\<lambda>e. key e = k) es)(key v \<mapsto> v)"
      using Cons.prems by (auto simp: put_find)
    with Cons.IH[OF put_distinct[OF Cons.prems]] show ?thesis by (simp add: PutEntry)
  next
    case (DelEntry k)
    have "(\<lambda>k'. find (\<lambda>e. key e = k') (del k es)) = (\<lambda>k'. find (\<lambda>e. key e = k') es)(k := None)"
      using Cons.prems by (auto simp: del_find)
    with Cons.IH[OF del_distinct[OF Cons.prems]] show ?thesis by (simp add: DelEntry)
  qed
qed simp

end

lemma ex_key_iff: "list_ex (\<lambda>e. f e = k) es \<longleftrightarrow> k \<in> f ` set es"
  by (induction es) auto

lemma find_key_None: "find (\<lambda>e. f e = k) es = None \<longleftrightarrow> k \<notin> f ` set es"
  by (induction es) auto

lemma upsert_names:
  "map vs_Name (upsertStatus v es) = (if vs_Name v \<in> vs_Name ` set es then map vs_Name es else map vs_Name es @ [vs_Name v])"
proof -
  have "map vs_Name (map (\<lambda>st. if vs_Name st = vs_Name v then v else st) es) = map vs_Name es"
    by (induction es) simp_all
  then show ?thesis unfolding upsertStatus_def ex_key_iff by (simp only: if_splits map_append list.map split: if_split) simp
qed

lemma upsert_find_other:
  "k \<noteq> vs_Name v \<Longrightarrow>
   find (\<lambda>e. vs_Name e = k) (map (\<lambda>st. if vs_Name st = vs_Name v then v else st) es) = find (\<lambda>e. vs_Name e = k) es"
  by (induction es) simp_all

lemma upsert_find_same:
  "vs_Name v \<in> vs_Name ` set es \<Longrightarrow>
   find (\<lambda>e. vs_Name e = vs_Name v) (map (\<lambda>st. if vs_Name st = vs_Name v then v else st) es) = Some v"
proof (induction es)
  case (Cons e es)
  then show ?case by (cases "vs_Name e = vs_Name v") simp_all
qed simp

lemma find_append: "find P (xs @ ys) = (case find P xs of None \<Rightarrow> find P ys | Some x \<Rightarrow> Some x)"
  by (induction xs) auto

lemma upsert_find:
  "find (\<lambda>e. vs_Name e = k) (upsertStatus v es) = (if k = vs_Name v then Some v else find (\<lambda>e. vs_Name e = k) es)"
proof (cases "vs_Name v \<in> vs_Name ` set es")
  case True
  then show ?thesis by (simp add: upsertStatus_def ex_key_iff upsert_find_other upsert_find_same)
next
  case False
  then have "find (\<lambda>e. vs_Name e = vs_Name v) es = None" by (simp add: find_key_None)
  with False show ?thesis by (simp add: upsertStatus_def ex_key_iff find_append split: option.split)
qed

lemma remove_last_filter:
  "distinct (map f es) \<Longrightarrow> remove_last (\<lambda>e. f e = k) es = filter (\<lambda>e. f e \<noteq> k) es"
proof (induction es)
  case (Cons e es)
  have "filter (\<lambda>e. f e \<noteq> k) es = es" if "k \<notin> f ` set es"
    using that by (induction es) auto
  with Cons show ?case by (auto simp: ex_key_iff)
qed simp

lemma find_filter_key:
  "find (\<lambda>e. f e = k') (filter (\<lambda>e. f e \<noteq> k) es) = (if k' = k then None else find (\<lambda>e. f e = k') es)"
  by (induction es) auto

interpretation node_entries: keyed_entries vs_Name upsertStatus "\<lambda>k. remove_last (\<lambda>st. vs_Name st = k)"
proof
  show "distinct (map vs_Name (upsertStatus v es))" if "distinct (map vs_Name es)" for es v
    using that by (simp add: upsert_names)
  show "distinct (map vs_Name (remove_last (\<lambda>st. vs_Name st = k) es))" if "distinct (map vs_Name es)" for es k
    using that by (simp add: remove_last_filter distinct_map_filter)
qed (simp_all add: upsert_find remove_last_filter find_filter_key)

text \<open>The operations of the code on the object.\<close>

datatype status_op = SetStatus LVMVolumeGroup VGStatus | DropStatus LVMVolumeGroup

fun status_step :: "vgm_env \<Rightarrow> status_op \<Rightarrow> LVMVolumeGroupNodeStatus \<Rightarrow> LVMVolumeGroupNodeStatus" where
  "status_step env (SetStatus vg status) obj = setStatusIn env vg status obj"
| "status_step env (DropStatus vg) obj = dropStatusIn vg obj"

fun entry_of :: "status_op \<Rightarrow> (string, VGStatus) entry_op" where
  "entry_of (SetStatus vg status) = PutEntry status"
| "entry_of (DropStatus vg) = DelEntry (vg_Name vg)"

lemma remove_last_absent: "\<not> list_ex p es \<Longrightarrow> remove_last p es = es"
  by (induction es) auto

lemma status_entries:
  "ns_LVMVGStatus (fold (status_step env) ps obj) =
     fold (\<lambda>p es. case p of PutEntry v \<Rightarrow> upsertStatus v es | DelEntry k \<Rightarrow> remove_last (\<lambda>st. vs_Name st = k) es)
       (map entry_of ps) (ns_LVMVGStatus obj)"
proof (induction ps arbitrary: obj)
  case (Cons p ps)
  then show ?case by (cases p) (simp_all add: setStatusIn_def dropStatusIn_def remove_last_absent)
qed simp

text \<open>C25: The status object of a node is a map from volume group names to their status.  Whatever
  sequence of status updates and removals the volume groups of the node perform on it, starting from an
  object without entries, it has at most one entry per name, and the entry of a name is the one written
  last for it, or none if its removal came last: no volume group touches the entry of another.\<close>

theorem node_status_refines_map:
  "distinct (map vs_Name (ns_LVMVGStatus (fold (status_step env) ps (obj\<lparr>ns_LVMVGStatus := []\<rparr>))))
   \<and> (\<lambda>k. find (\<lambda>st. vs_Name st = k) (ns_LVMVGStatus (fold (status_step env) ps (obj\<lparr>ns_LVMVGStatus := []\<rparr>)))) =
     fold (\<lambda>p m. case p of SetStatus vg st \<Rightarrow> m(vs_Name st \<mapsto> st) | DropStatus vg \<Rightarrow> m(vg_Name vg := None)) ps Map.empty"
proof -
  have m: "fold (\<lambda>p m. case p of PutEntry v \<Rightarrow> m(vs_Name v \<mapsto> v) | DelEntry k \<Rightarrow> m(k := None)) (map entry_of ps) f =
      fold (\<lambda>p m. case p of SetStatus vg st \<Rightarrow> m(vs_Name st \<mapsto> st) | DropStatus vg \<Rightarrow> m(vg_Name vg := None)) ps f" for f
  proof (induction ps arbitrary: f)
    case (Cons p ps)
    then show ?case by (cases p) (simp_all add: fun_upd_def)
  qed simp
  show ?thesis
    using node_entries.ops_refine[of "[]" "map entry_of ps"]
    unfolding status_entries by (simp add: m)
qed

end
