(* ===== verification/Wipe.thy ===== *)
theory Wipe
  imports VG_Status
begin

text \<open>
  Wiping devices before their first use: \<open>vgmanager/wipe_devices.go\<close>.  The recursion over the device
  tree is that of the source.  \<open>wipeDevices\<close> returns the volume group object, annotated when a device
  was wiped, with its result.

  The properties bound what is wiped: nothing unless the user asked for it and the devices of the node
  were not wiped before, and then only devices the selector resolves to.
\<close>

definition wipedAnnotation :: "vgm_env \<Rightarrow> string" where
  "wipedAnnotation env = DevicesWipedAnnotationPrefix @ NodeName env"

definition shouldWipeDevicesOnVolumeGroup :: "vgm_env \<Rightarrow> LVMVolumeGroup \<Rightarrow> bool" where
  "shouldWipeDevicesOnVolumeGroup env vg = (case vgs_DeviceSelector (vg_Spec vg) of
     None \<Rightarrow> False
   | Some ds \<Rightarrow> (case ds_ForceWipeDevicesAndDestroyAllData ds of
        None \<Rightarrow> False
      | Some force \<Rightarrow> if \<not> force then False
          else \<not> (map_of (vg_Annotations vg) (wipedAnnotation env) \<noteq> None)))"

text \<open>The children first, then the device unless it is a partition; an error of the removal is only
  logged.\<close>

fun removeMapperReferences :: "vgm_env \<Rightarrow> BlockDevice list \<Rightarrow> unit vgm" where
  "removeMapperReferences env [] = ret ()"
| "removeMapperReferences env (device # devices) =
     do { _ \<leftarrow> removeMapperReferences env (bd_Children device);
          _ \<leftarrow> (if bd_Type device = ''part'' then ret ()
               else do { _ \<leftarrow> Remove env (bd_KName device); ret () });
          removeMapperReferences env devices }"

fun wipeDevice :: "vgm_env \<Rightarrow> string \<Rightarrow> BlockDevice list \<Rightarrow> bool \<Rightarrow> bool res vgm" where
  "wipeDevice env deviceName [] wiped = ret (Inr wiped)"
| "wipeDevice env deviceName (device # devices) wiped =
     (if bd_KName device = deviceName
      then do { _ \<leftarrow> removeMapperReferences env (bd_Children device);
                catch_err (Wipe env (bd_KName device)) (\<lambda>err. ret (Inl err)) (ret (Inr True)) }
      else if HasChildren device
      then catch (wipeDevice env deviceName (bd_Children device) False)
             (\<lambda>err. ret (Inl err))
             (\<lambda>childWiped. wipeDevice env deviceName devices (wiped \<or> childWiped))
      else wipeDevice env deviceName devices wiped)"

fun wipePaths :: "vgm_env \<Rightarrow> BlockDevice list \<Rightarrow> DevicePath list \<Rightarrow> bool \<Rightarrow> bool res vgm" where
  "wipePaths env blockDevices [] updated = ret (Inr updated)"
| "wipePaths env blockDevices (path # paths) updated = (case resolve env (Unresolved path) of
     Inl err \<Rightarrow> ret (Inl (Errorf ''failed to wipe device %s: %w'' [S path, W err]))
   | Inr pathResolved \<Rightarrow>
       catch (wipeDevice env pathResolved blockDevices False)
         (\<lambda>err. ret (Inl (Errorf ''failed to wipe device %s: %w'' [S path, W err])))
         (\<lambda>deviceWiped. wipePaths env blockDevices paths (updated \<or> deviceWiped)))"

text \<open>For an optional path an error of the resolution is logged, and the empty name goes on to
  \<open>wipeDevice\<close>.\<close>

fun wipeOptionalPaths :: "vgm_env \<Rightarrow> BlockDevice list \<Rightarrow> DevicePath list \<Rightarrow> bool \<Rightarrow> bool vgm" where
  "wipeOptionalPaths env blockDevices [] updated = ret updated"
| "wipeOptionalPaths env blockDevices (path # paths) updated =
     catch (wipeDevice env (resolved (resolve env) (Unresolved path)) blockDevices False)
       (\<lambda>err. wipeOptionalPaths env blockDevices paths updated)
       (\<lambda>deviceWiped. wipeOptionalPaths env blockDevices paths (updated \<or> deviceWiped))"

definition wipedText :: "string \<Rightarrow> string" where
  "wipedText t = ''the devices of this volume group have been wiped at '' @ t @
     '' by lvms according to policy. This marker'' @
     ''serves as indicator that the devices have been wiped before and should not be wiped again.'' @
     ''removal of this annotation is unsupported and may lead to data loss due to additional wiping.''"

definition wipeDevices :: "vgm_env \<Rightarrow> LVMVolumeGroup \<Rightarrow> BlockDevice list \<Rightarrow> (LVMVolumeGroup \<times> bool) res vgm" where
  "wipeDevices env vg blockDevices =
     (if \<not> shouldWipeDevicesOnVolumeGroup env vg then ret (Inr (vg, False))
      else (case vgs_DeviceSelector (vg_Spec vg) of
        None \<Rightarrow> ret (Inl (GoPanic ''nil pointer dereference''))
      | Some ds \<Rightarrow>
          catch (wipePaths env blockDevices (ds_Paths ds) False) (\<lambda>err. ret (Inl err))
            (\<lambda>updated. do {
               updated \<leftarrow> wipeOptionalPaths env blockDevices (ds_OptionalPaths ds) updated;
               if updated
               then do { t \<leftarrow> gets (\<lambda>s. now env (tr s));
                         ret (Inr (vg\<lparr>vg_Annotations := AList.update (wipedAnnotation env) (wipedText t)
                                 (vg_Annotations vg)\<rparr>, True)) }
               else ret (Inr (vg, False)) })))"

section \<open>What is wiped\<close>

abbreviation WipeCmd :: "string \<Rightarrow> action" where
  "WipeCmd d \<equiv> HostCmdCombined DefaultWipefs [''--all'', ''--force'', d]"

definition mapper_removals :: "action set" where
  "mapper_removals = {a. \<exists>d. a = HostCmdCombined DefaultDMSetup [''remove'', ''--force'', d]}"

lemma only_removeMapperReferences [only_intros]:
  "mapper_removals \<subseteq> A \<Longrightarrow> only A (removeMapperReferences env ds)"
  by (induction env ds rule: removeMapperReferences.induct)
    (auto simp: mapper_removals_def intro!: only_intros)

text \<open>\<open>wipeDevice\<close> wipes nothing but the named device, and that only when it is in the tree.\<close>

lemma only_wipeDevice [only_intros]:
  assumes "mapper_removals \<subseteq> A"
    and "name \<noteq> [] \<Longrightarrow> name \<in> bd_KName ` set (tree ds) \<Longrightarrow> WipeCmd name \<in> A"
  shows "only A (wipeDevice env name ds w)"
  using assms
proof (induction env name ds w rule: wipeDevice.induct)
  case (2 env name d ds w)
  show ?case
  proof (cases "bd_KName d = name")
    case True
    with 2(4,5) show ?thesis by (auto intro!: only_intros)
  next
    case False
    have r: "only A (wipeDevice env name ds (w \<or> x))" if "HasChildren d" for x
      by (rule 2(2)[OF False that]) (use 2(4,5) in auto)
    have r': "only A (wipeDevice env name ds w)" if "\<not> HasChildren d"
      by (rule 2(3)[OF False that]) (use 2(4,5) in auto)
    have c: "only A (wipeDevice env name (bd_Children d) False)" if "HasChildren d"
      by (rule 2(1)[OF False that]) (use 2(4,5) in auto)
    from False r r' c show ?thesis by (auto intro!: only_catch only_return)
  qed
qed (simp add: only_return)

lemma only_wipePaths:
  assumes "mapper_removals \<subseteq> A"
    and "\<And>p. p \<in> set paths \<Longrightarrow> resolved (resolve env) p \<noteq> [] \<Longrightarrow>
           resolved (resolve env) p \<in> bd_KName ` set (tree ds) \<Longrightarrow> WipeCmd (resolved (resolve env) p) \<in> A"
  shows "only A (wipePaths env ds paths u)"
  using assms
proof (induction paths arbitrary: u)
  case (Cons p paths)
  show ?case
  proof (cases "resolve env p")
    case (Inr v)
    then have "resolved (resolve env) p = v" by (simp add: resolved_def)
    then have "only A (wipeDevice env v ds False)"
      using Cons(2) Cons(3)[of p] by (auto intro!: only_wipeDevice)
    moreover have "only A (wipePaths env ds paths u')" for u'
      using Cons by simp
    ultimately show ?thesis by (auto simp: Inr Unresolved_def intro!: only_catch only_return)
  qed (simp add: Unresolved_def only_return)
qed (simp add: only_return)

lemma only_wipeOptionalPaths:
  assumes "mapper_removals \<subseteq> A"
    and "\<And>p. p \<in> set paths \<Longrightarrow> resolved (resolve env) p \<noteq> [] \<Longrightarrow>
           resolved (resolve env) p \<in> bd_KName ` set (tree ds) \<Longrightarrow> WipeCmd (resolved (resolve env) p) \<in> A"
  shows "only A (wipeOptionalPaths env ds paths u)"
  using assms
proof (induction paths arbitrary: u)
  case (Cons p paths)
  have "only A (wipeDevice env (resolved (resolve env) p) ds False)"
    using Cons(2) Cons(3)[of p] by (auto intro!: only_wipeDevice)
  moreover have "only A (wipeOptionalPaths env ds paths u')" for u'
    using Cons by simp
  ultimately show ?case by (auto simp: Unresolved_def intro!: only_catch)
qed (simp add: only_return)

text \<open>The devices a run may wipe: those the user asked for, by name, while the marker is absent.\<close>

definition may_wipe :: "vgm_env \<Rightarrow> LVMVolumeGroup \<Rightarrow> BlockDevice list \<Rightarrow> string set" where
  "may_wipe env vg ds = {d. \<exists>sel. vgs_DeviceSelector (vg_Spec vg) = Some sel
     \<and> ds_ForceWipeDevicesAndDestroyAllData sel = Some True
     \<and> map_of (vg_Annotations vg) (wipedAnnotation env) = None
     \<and> d \<in> resolved (resolve env) ` set (selector_paths sel)
     \<and> d \<in> bd_KName ` set (tree ds) \<and> d \<noteq> []}"

lemma shouldWipe_iff:
  "shouldWipeDevicesOnVolumeGroup env vg \<longleftrightarrow> (\<exists>sel. vgs_DeviceSelector (vg_Spec vg) = Some sel
     \<and> ds_ForceWipeDevicesAndDestroyAllData sel = Some True
     \<and> map_of (vg_Annotations vg) (wipedAnnotation env) = None)"
  by (auto simp: shouldWipeDevicesOnVolumeGroup_def split: option.splits)

lemma only_wipeDevices [only_intros]:
  assumes "\<And>d. d \<in> may_wipe env vg ds \<Longrightarrow> WipeCmd d \<in> A"
    and "shouldWipeDevicesOnVolumeGroup env vg \<Longrightarrow> mapper_removals \<subseteq> A"
  shows "only A (wipeDevices env vg ds)"
proof (cases "shouldWipeDevicesOnVolumeGroup env vg")
  case True
  then obtain sel where sel: "vgs_DeviceSelector (vg_Spec vg) = Some sel"
      "ds_ForceWipeDevicesAndDestroyAllData sel = Some True"
      "map_of (vg_Annotations vg) (wipedAnnotation env) = None"
    by (auto simp: shouldWipe_iff)
  have w: "WipeCmd (resolved (resolve env) p) \<in> A" if "p \<in> set (selector_paths sel)"
      "resolved (resolve env) p \<noteq> []" "resolved (resolve env) p \<in> bd_KName ` set (tree ds)" for p
    by (rule assms(1)) (use sel that in \<open>auto simp: may_wipe_def\<close>)
  have "only A (wipePaths env ds (ds_Paths sel) u)" "only A (wipeOptionalPaths env ds (ds_OptionalPaths sel) u)" for u
    by (rule only_wipePaths only_wipeOptionalPaths; use assms(2)[OF True] w in \<open>auto simp: selector_paths_def\<close>)+
  then show ?thesis
    unfolding wipeDevices_def by (auto simp: True sel intro!: only_intros)
qed (simp add: wipeDevices_def only_return)

section \<open>Properties\<close>

text \<open>A run of \<open>wipeDevices\<close> performs no \<open>wipefs\<close> except on devices that are in the device tree of
  the host and that a path of the device selector resolves to, and only when the volume group asks for
  wiping with \<open>forceWipeDevicesAndDestroyAllData\<close> and its annotation does not say that this node's
  devices were wiped already; device-mapper references are removed only then, too.\<close>

lemma wipeDevices_bounded:
  "set (tr (snd (run_state (wipeDevices env vg ds) s))) \<subseteq>
     set (tr s) \<union> WipeCmd ` may_wipe env vg ds
       \<union> (if shouldWipeDevicesOnVolumeGroup env vg then mapper_removals else {})"
proof -
  have "only (WipeCmd ` may_wipe env vg ds
      \<union> (if shouldWipeDevicesOnVolumeGroup env vg then mapper_removals else {})) (wipeDevices env vg ds)"
    by (rule only_wipeDevices) auto
  from only_run[OF this, of s] obtain es where "tr (snd (run_state (wipeDevices env vg ds) s)) = tr s @ es"
    "set es \<subseteq> WipeCmd ` may_wipe env vg ds
      \<union> (if shouldWipeDevicesOnVolumeGroup env vg then mapper_removals else {})" .
  then show ?thesis by (simp only: set_append Un_assoc Un_mono order_refl)
qed

lemma wipeDevices_marks:
  assumes "fst (run_state (wipeDevices env vg ds) s) = Inr (vg', True)"
  shows "\<exists>t. vg' = vg\<lparr>vg_Annotations := AList.update (wipedAnnotation env) (wipedText t) (vg_Annotations vg)\<rparr>"
proof (cases "shouldWipeDevicesOnVolumeGroup env vg")
  case True
  then obtain sel where sel: "vgs_DeviceSelector (vg_Spec vg) = Some sel" by (auto simp: shouldWipe_iff)
  obtain r1 s1 where r1: "run_state (wipePaths env ds (ds_Paths sel) False) s = (r1, s1)" by force
  show ?thesis
  proof (cases r1)
    case (Inl e)
    then show ?thesis using assms True sel r1 by (simp add: wipeDevices_def run_catch)
  next
    case (Inr u)
    obtain u2 s2 where "run_state (wipeOptionalPaths env ds (ds_OptionalPaths sel) u) s1 = (u2, s2)" by force
    then show ?thesis using assms True sel r1 Inr
      by (cases u2) (auto simp: wipeDevices_def run_catch)
  qed
qed (use assms in \<open>simp add: wipeDevices_def\<close>)


section \<open>A concrete run\<close>

definition sda :: BlockDevice where
  "sda = BlockDevice ''/dev/sda'' ''/dev/sda'' ''disk'' [] [] [] [] ''1T'' [] False [] []"

definition wipe_vg :: LVMVolumeGroup where
  "wipe_vg = \<lparr>vg_Name = ''vg1'', vg_Namespace = ''openshift-lvm-storage'', vg_UID = ''u1'',
     vg_Finalizers = [], vg_Annotations = [], vg_OwnerReferences = [], vg_Deleted = False,
     vg_Spec = \<lparr>vgs_DeviceSelector = Some \<lparr>ds_Paths = [''/dev/sda''], ds_OptionalPaths = [],
         ds_ForceWipeDevicesAndDestroyAllData = Some True\<rparr>,
       vgs_NodeSelector = None, vgs_ThinPoolConfig = None, vgs_RAIDConfig = None, vgs_Default = True,
       vgs_DeviceDiscoveryPolicy = None\<rparr>\<rparr>"

definition wiped_vg :: LVMVolumeGroup where
  "wiped_vg = wipe_vg\<lparr>vg_Annotations := [(wipedAnnotation quiet_env, wipedText ''2024-01-01T00:00:00Z'')]\<rparr>"

lemmas wipe_run = wipeDevices_def shouldWipeDevicesOnVolumeGroup_def Unresolved_def Wipe_def
  CombinedOutputCommandAsHost_def WrapCommandWithNSenter_def run_catch run_catch_err


end
