(* ===== verification/Lvmd.thy ===== *)
theory Lvmd
  imports LVM_Host
begin

text \<open>
  The configuration file of lvmd, \<open>vgmanager/lvmd/lvmd.go\<close>: the file configurator and the cached one
  that embeds it.  The file is the state component \<open>lvmd_file\<close>, the cache \<open>lvmd_cache\<close>; opening,
  reading, writing and removing the file may fail, a failed write leaves what the environment says.
  Marshalling is a parameter; where a lemma needs that unmarshalling inverts it, that is the
  hypothesis \<open>yaml_round_trip\<close>.

  The locale \<open>configurator\<close> is what the controllers use of a configurator: what was saved is what is
  loaded.  The cached configurator satisfies it with no assumption on the disk.  The cache is
  coherent with the file while writes succeed and the file is not deleted; \<open>Delete_leaves_cache\<close>
  shows that deleting the file breaks that.
\<close>

definition maxReadLength :: int where
  "maxReadLength = 2 * 2 ^ 20"

definition copyThinPool :: "lvmd_ThinPoolConfig \<Rightarrow> lvmd_ThinPoolConfig" where
  "copyThinPool t = \<lparr>ltp_Name = ltp_Name t, ltp_OverprovisionRatio = ltp_OverprovisionRatio t\<rparr>"

definition copyDeviceClass :: "lvmd_DeviceClass \<Rightarrow> lvmd_DeviceClass" where
  "copyDeviceClass dc = \<lparr>ldc_Name = ldc_Name dc, ldc_VolumeGroup = ldc_VolumeGroup dc,
     ldc_Default = ldc_Default dc, ldc_SpareGB = map_option (\<lambda>n. n) (ldc_SpareGB dc),
     ldc_Stripe = map_option (\<lambda>n. n) (ldc_Stripe dc), ldc_StripeSize = ldc_StripeSize dc,
     ldc_LVCreateOptions = ldc_LVCreateOptions dc, ldc_Type = ldc_Type dc,
     ldc_ThinPoolConfig = map_option copyThinPool (ldc_ThinPoolConfig dc)\<rparr>"

definition DeepCopyConfig :: "lvmd_Config \<Rightarrow> lvmd_Config" where
  "DeepCopyConfig c = \<lparr>cfg_SocketName = cfg_SocketName c,
     cfg_DeviceClasses = map copyDeviceClass (cfg_DeviceClasses c),
     cfg_LvcreateOptionClasses = map (\<lambda>(n, opts). (n, opts)) (cfg_LvcreateOptionClasses c)\<rparr>"

section \<open>FileConfig\<close>

definition FileConfig_Load :: "vgm_env \<Rightarrow> lvmd_Config option res vgm" where
  "FileConfig_Load env =
     do { (openErr, readErr) \<leftarrow> ask (\<lambda>h. (open_error env h, read_error env h)) (OpenFile (lvmd_path env));
          file \<leftarrow> gets lvmd_file;
          ret (case openErr of
              Some err \<Rightarrow> Inl (Errorf ''failed to open config file %s: %w'' [S (lvmd_path env), W err])
            | None \<Rightarrow> (case file of
                None \<Rightarrow> Inr None
              | Some cfgBytes \<Rightarrow>
                  (case readErr of
                     Some err \<Rightarrow> Inl (Errorf ''failed to read config file %s: %w'' [S (lvmd_path env), W err])
                   | None \<Rightarrow>
                       if maxReadLength \<le> int (length cfgBytes)
                       then Inl (Errorf ''the read limit is reached for config file %s'' [S (lvmd_path env)])
                       else (case yaml_Unmarshal env cfgBytes of
                           Inl err \<Rightarrow> Inl (Errorf ''failed to unmarshal config file %s: %w''
                               [S (lvmd_path env), W err])
                         | Inr config \<Rightarrow> Inr (Some config))))) }"

definition FileConfig_Save :: "vgm_env \<Rightarrow> lvmd_Config \<Rightarrow> go_error option vgm" where
  "FileConfig_Save env config = (case yaml_Marshal env config of
     Inl err \<Rightarrow> ret (Some (Errorf ''failed to save config file %s: %w'' [S (lvmd_path env), W err]))
   | Inr out \<Rightarrow>
       do { r \<leftarrow> ask (write_error env) (WriteFile (lvmd_path env) out);
            (case r of
               None \<Rightarrow> do { _ \<leftarrow> modify (\<lambda>s. s\<lparr>lvmd_file := Some out\<rparr>); ret None }
             | Some (err, left) \<Rightarrow>
                 do { _ \<leftarrow> modify (\<lambda>s. s\<lparr>lvmd_file := left\<rparr>);
                      ret (Some (Errorf ''failed to save config file %s: %w'' [S (lvmd_path env), W err])) }) })"

definition ErrNotExist :: go_error where
  "ErrNotExist = ErrorsNew ''file does not exist''"

definition FileConfig_Delete :: "vgm_env \<Rightarrow> go_error option vgm" where
  "FileConfig_Delete env =
     do { oracle \<leftarrow> ask (remove_error env) (RemoveFile (lvmd_path env));
          file \<leftarrow> gets lvmd_file;
          (case (case oracle of Some err \<Rightarrow> Some err | None \<Rightarrow> if file = None then Some ErrNotExist else None) of
             Some err \<Rightarrow> ret (Some (Errorf ''failed to delete config file %s: %w'' [S (lvmd_path env), W err]))
           | None \<Rightarrow> do { _ \<leftarrow> modify (\<lambda>s. s\<lparr>lvmd_file := None\<rparr>); ret None }) }"

section \<open>CachedFileConfig\<close>

definition LVMD_Load :: "vgm_env \<Rightarrow> lvmd_Config option res vgm" where
  "LVMD_Load env =
     do { cached \<leftarrow> gets lvmd_cache;
          (case cached of
             Some c \<Rightarrow> ret (Inr (Some (DeepCopyConfig c)))
           | None \<Rightarrow>
               catch (FileConfig_Load env) (\<lambda>err. ret (Inl err))
                 (\<lambda>conf. do { _ \<leftarrow> modify (\<lambda>s. s\<lparr>lvmd_cache := conf\<rparr>);
                              ret (Inr (map_option DeepCopyConfig conf)) })) }"

definition LVMD_Save :: "vgm_env \<Rightarrow> lvmd_Config \<Rightarrow> go_error option vgm" where
  "LVMD_Save env config =
     do { cached \<leftarrow> gets lvmd_cache;
          (if cached = Some config then ret None
           else do { _ \<leftarrow> modify (\<lambda>s. s\<lparr>lvmd_cache := Some config\<rparr>);
                     FileConfig_Save env config }) }"

text \<open>The cached configurator has the \<open>Delete\<close> of the file configurator it embeds.\<close>

definition LVMD_Delete :: "vgm_env \<Rightarrow> go_error option vgm" where
  "LVMD_Delete env = FileConfig_Delete env"

section \<open>Copies\<close>

lemma copyDeviceClass_id [simp]: "copyDeviceClass dc = dc"
proof -
  have "copyThinPool t = t" for t by (cases t) (simp add: copyThinPool_def)
  then have "map_option copyThinPool x = x" for x by (cases x) simp_all
  moreover have "map_option (\<lambda>n. n) x = x" for x :: "nat option" by (cases x) simp_all
  ultimately show ?thesis by (cases dc) (simp add: copyDeviceClass_def)
qed

lemma DeepCopyConfig_id [simp]: "DeepCopyConfig c = c"
proof -
  have "map copyDeviceClass xs = xs" for xs by (induction xs) simp_all
  moreover have "map (\<lambda>(n, opts). (n, opts)) xs = xs" for xs :: "(string \<times> string list) list"
    by (induction xs) auto
  ultimately show ?thesis by (cases c) (simp add: DeepCopyConfig_def)
qed

section \<open>The contract of a configurator\<close>

locale configurator =
  fixes load :: "('s, 'c option res) state"
    and save :: "'c \<Rightarrow> ('s, go_error option) state"
  assumes load_after_save: "fst (run_state load (snd (run_state (save c) s))) = Inr (Some c)"
    and load_stable: "fst (run_state load s) = Inr (Some c) \<Longrightarrow>
          fst (run_state load (snd (run_state load s))) = Inr (Some c)"
begin

text \<open>Reading twice gives the same, and the last of several saves counts.\<close>

fun save_all :: "'c list \<Rightarrow> 's \<Rightarrow> 's" where
  "save_all [] s = s"
| "save_all (c # cs) s = save_all cs (snd (run_state (save c) s))"

lemma load_after_saves: "fst (run_state load (save_all (cs @ [c]) s)) = Inr (Some c)"
  by (induction cs arbitrary: s) (simp_all add: load_after_save)

text \<open>A read, a change and a write: the next read sees the change.\<close>

lemma read_modify_write:
  "fst (run_state (do { r \<leftarrow> load; case r of Inr (Some c) \<Rightarrow> do { _ \<leftarrow> save (f c); load } | _ \<Rightarrow> ret r }) s) =
     (case fst (run_state load s) of Inr (Some c) \<Rightarrow> Inr (Some (f c)) | r \<Rightarrow> r)"
  by (auto simp: load_after_save case_prod_beta split: sum.split option.split)

end

lemma run_LVMD_Save:
  "run_state (LVMD_Save env c) s = (if lvmd_cache s = Some c then (None, s)
     else run_state (FileConfig_Save env c) (s\<lparr>lvmd_cache := Some c\<rparr>))"
  by (simp add: LVMD_Save_def)

lemma FileConfig_Save_cache: "lvmd_cache (snd (run_state (FileConfig_Save env c) s)) = lvmd_cache s"
  by (auto simp: FileConfig_Save_def split: sum.split option.split prod.split)

lemma LVMD_Save_cache: "lvmd_cache (snd (run_state (LVMD_Save env c) s)) = Some c"
  by (simp add: run_LVMD_Save FileConfig_Save_cache)

lemma run_LVMD_Load_cached: "lvmd_cache s = Some c \<Longrightarrow> run_state (LVMD_Load env) s = (Inr (Some c), s)"
  by (simp add: LVMD_Load_def)

lemma LVMD_Load_caches:
  assumes "fst (run_state (LVMD_Load env) s) = Inr (Some c)"
  shows "lvmd_cache (snd (run_state (LVMD_Load env) s)) = Some c"
  using assms
  by (cases "lvmd_cache s")
    (auto simp: LVMD_Load_def run_catch case_prod_beta split: sum.splits option.splits)

interpretation cached: configurator "LVMD_Load env" "LVMD_Save env" for env
proof
  fix c s
  show "fst (run_state (LVMD_Load env) (snd (run_state (LVMD_Save env c) s))) = Inr (Some c)"
    by (simp add: run_LVMD_Load_cached[OF LVMD_Save_cache])
next
  fix s c
  assume "fst (run_state (LVMD_Load env) s) = Inr (Some c)"
  from LVMD_Load_caches[OF this]
  show "fst (run_state (LVMD_Load env) (snd (run_state (LVMD_Load env) s))) = Inr (Some c)"
    by (simp add: run_LVMD_Load_cached)
qed

section \<open>Cache and file\<close>

definition yaml_round_trip :: "vgm_env \<Rightarrow> bool" where
  "yaml_round_trip env \<longleftrightarrow> (\<forall>c t. yaml_Marshal env c = Inr t \<longrightarrow> yaml_Unmarshal env t = Inr c)"

definition lvmd_coherent :: "vgm_env \<Rightarrow> vgm_state \<Rightarrow> bool" where
  "lvmd_coherent env s \<longleftrightarrow> (\<forall>c. lvmd_cache s = Some c \<longrightarrow>
     (\<exists>t. lvmd_file s = Some t \<and> yaml_Unmarshal env t = Inr c))"

lemma Load_coherent: "lvmd_coherent env s \<Longrightarrow> lvmd_coherent env (snd (run_state (LVMD_Load env) s))"
  by (cases "lvmd_cache s")
    (auto simp: lvmd_coherent_def LVMD_Load_def FileConfig_Load_def run_catch split: option.splits sum.splits if_splits)

lemma Save_coherent:
  assumes "yaml_round_trip env" "lvmd_coherent env s" "fst (run_state (LVMD_Save env c) s) = None"
  shows "lvmd_coherent env (snd (run_state (LVMD_Save env c) s))"
  using assms
  by (auto simp: lvmd_coherent_def run_LVMD_Save FileConfig_Save_def yaml_round_trip_def
      split: option.splits sum.splits if_splits)

text \<open>C34: The lvmd configurator is a store: what was saved last is what is loaded, through the cache
  and whatever happens on the disk.  When unmarshalling inverts marshalling, loading and successful
  saving keep the cache and the file in agreement: the cached configuration is the content of the
  file.\<close>

theorem lvmd_store:
  assumes "yaml_round_trip env" and "lvmd_coherent env s"
  shows "fst (run_state (LVMD_Load env) (cached.save_all env (cs @ [c]) s)) = Inr (Some c)
    \<and> lvmd_coherent env (snd (run_state (LVMD_Load env) s))
    \<and> (if fst (run_state (LVMD_Save env c) s) = None
        then lvmd_coherent env (snd (run_state (LVMD_Save env c) s)) else True)"
  using Load_coherent[OF assms(2)] Save_coherent[OF assms] by (simp add: cached.load_after_saves)

theorem lvmd_store_witness:
  "yaml_round_trip quiet_env \<and> lvmd_coherent quiet_env start_state
   \<and> fst (run_state (LVMD_Load quiet_env) (cached.save_all quiet_env ([] @ [sample_config]) start_state))
       = Inr (Some sample_config)
   \<and> fst (run_state (LVMD_Save quiet_env sample_config) start_state) = None
   \<and> lvmd_coherent quiet_env (snd (run_state (LVMD_Save quiet_env sample_config) start_state))"
proof -
  have y: "yaml_round_trip quiet_env" by (simp add: yaml_round_trip_def quiet_env_def)
  have c: "lvmd_coherent quiet_env start_state" by (simp add: lvmd_coherent_def start_state_def)
  have "fst (run_state (LVMD_Save quiet_env sample_config) start_state) = None"
    by (simp add: run_LVMD_Save FileConfig_Save_def quiet_env_def start_state_def)
  with y c lvmd_store[OF y c, of "[]" sample_config] show ?thesis by simp
qed

text \<open>Deleting the file does not touch the cache: the deleted configuration is still loaded, and
  saving it again writes nothing, so the file stays absent.\<close>

lemma run_LVMD_Delete:
  assumes "fst (run_state (LVMD_Delete env) s) = None"
  shows "snd (run_state (LVMD_Delete env) s) =
    s\<lparr>tr := tr s @ [RemoveFile (lvmd_path env)], lvmd_file := None\<rparr>"
  using assms by (auto simp: LVMD_Delete_def FileConfig_Delete_def split: option.splits if_splits)

lemma Delete_leaves_cache:
  assumes "lvmd_cache s = Some c" and "fst (run_state (LVMD_Delete env) s) = None"
  defines "s' \<equiv> snd (run_state (LVMD_Delete env) s)"
  shows "lvmd_file s' = None \<and> run_state (LVMD_Load env) s' = (Inr (Some c), s')
    \<and> run_state (LVMD_Save env c) s' = (None, s')"
  using run_LVMD_Delete[OF assms(2)] assms(1)
  by (simp add: s'_def run_LVMD_Load_cached run_LVMD_Save)

text \<open>A save that failed is not retried: saving the same configuration again reports success.\<close>

lemma failed_Save_not_retried:
  "run_state (LVMD_Save env c) (snd (run_state (LVMD_Save env c) s)) = (None, snd (run_state (LVMD_Save env c) s))"
  by (simp add: run_LVMD_Save[of env c "snd (run_state (LVMD_Save env c) s)"] LVMD_Save_cache)

section \<open>Actions\<close>

definition lvmd_io :: "action set" where
  "lvmd_io = {a. \<exists>p t. a = OpenFile p \<or> a = WriteFile p t \<or> a = RemoveFile p}"

lemma only_LVMD_Load [only_intros]: "{a. \<exists>p. a = OpenFile p} \<subseteq> A \<Longrightarrow> only A (LVMD_Load env)"
  unfolding LVMD_Load_def FileConfig_Load_def by (auto intro!: only_intros)

lemma only_LVMD_Save [only_intros]: "{a. \<exists>p t. a = WriteFile p t} \<subseteq> A \<Longrightarrow> only A (LVMD_Save env c)"
  unfolding LVMD_Save_def FileConfig_Save_def by (auto intro!: only_intros)

lemma only_LVMD_Delete [only_intros]: "{a. \<exists>p. a = RemoveFile p} \<subseteq> A \<Longrightarrow> only A (LVMD_Delete env)"
  unfolding LVMD_Delete_def FileConfig_Delete_def by (auto intro!: only_intros split: option.splits)

end
