(* ===== verification/VG_Manager.thy ===== *)
theory VG_Manager
  imports Wipe Lvmd
begin

text \<open>
  The reconciler of the volume group manager, \<open>vgmanager/controller.go\<close>, and
  \<open>vgmanager/device_mapping_helper.go\<close>: from the fetch of the \<open>LVMVolumeGroup\<close> over filtering, wiping,
  creating or extending the volume group and its thin pool, validating logical volumes, removing
  devices and writing lvmd's configuration, to the deletion with its finalizer.

  \<open>reconcile\<close> is cut at the places where the source branches to an end: \<open>reconcile_scan\<close> up to the
  check of mandatory paths, \<open>reconcile_discovered\<close> the discovery policy, \<open>reconcile_existing\<close> the
  branch without new devices, \<open>reconcile_new\<close> the one that adds them.  A panic is the error
  \<open>GoPanic\<close>; it ends the run with no further action.
\<close>

section \<open>Constants and results\<close>

definition NodeCleanupFinalizer :: string where
  "NodeCleanupFinalizer = ''cleanup.vgmanager.node.topolvm.io''"

definition metadataWarningPercentage :: rat where
  "metadataWarningPercentage = 95"

record ctrl_Result =
  Requeue :: bool
  RequeueAfter :: int

definition done_result :: ctrl_Result where
  "done_result = \<lparr>Requeue = False, RequeueAfter = 0\<rparr>"

definition reconcileAgain :: ctrl_Result where
  "reconcileAgain = \<lparr>Requeue = True, RequeueAfter = 30\<rparr>"

definition raidResult :: ctrl_Result where
  "raidResult = \<lparr>Requeue = False, RequeueAfter = 60\<rparr>"

type_synonym outcome = "ctrl_Result \<times> go_error option"

abbreviation fails :: "go_error \<Rightarrow> outcome vgm" where
  "fails err \<equiv> ret (done_result, Some err)"

fun is_panic :: "go_error \<Rightarrow> bool" where
  "is_panic (GoPanic m) = True"
| "is_panic e = False"

definition getFinalizer :: "vgm_env \<Rightarrow> string" where
  "getFinalizer env = NodeCleanupFinalizer @ ''/'' @ NodeName env"

section \<open>Thin pools\<close>

definition convertChunkSize :: "ThinPoolConfig \<Rightarrow> int" where
  "convertChunkSize config =
     (if tpc_ChunkSizeCalculationPolicy config = ChunkSizeCalculationPolicyHost then -1
      else (case tpc_ChunkSize config of None \<Rightarrow> Value ChunkSizeDefault | Some q \<Rightarrow> Value q))"

definition convertMetadataSize :: "ThinPoolConfig \<Rightarrow> int" where
  "convertMetadataSize config =
     (if tpc_MetadataSizeCalculationPolicy config = MetadataSizePolicyHost then -1
      else (case tpc_MetadataSize config of None \<Rightarrow> Value ThinPoolMetadataSizeDefault | Some q \<Rightarrow> Value q))"

definition verifyChunkSizeForPolicy :: "ThinPoolConfig \<Rightarrow> LogicalVolume \<Rightarrow> go_error option" where
  "verifyChunkSizeForPolicy config lv =
     (if tpc_ChunkSizeCalculationPolicy config = ChunkSizeCalculationPolicyHost then None
      else (case ParseInt (lv_ChunkSize lv) of
          Inr chunkSizeBytes \<Rightarrow>
            if chunkSizeBytes \<noteq> convertChunkSize config
            then Some (Errorf ''chunk size of logical volume %s does not match the static policy: %w''
                   [S (lv_Name lv), S ''%!w(<nil>)''])
            else None
        | Inl err \<Rightarrow> Some (Errorf (''could not parse chunk size from logical volume %s '' @
              ''to verify against static policy: %w'') [S (lv_Name lv), W err])))"

text \<open>The percentage of the volume group the thin pool takes, as the source computes it.\<close>

definition pool_percent :: "vgm_env \<Rightarrow> float64 \<Rightarrow> float64 \<Rightarrow> int" where
  "pool_percent env thinPoolSize vgSize = float_to_int (float_special env) (fscale (fdiv thinPoolSize vgSize) 100)"

definition extendThinPool :: "vgm_env \<Rightarrow> string \<Rightarrow> string \<Rightarrow> ThinPoolConfig \<Rightarrow> go_error option vgm" where
  "extendThinPool env vgName lvSize config =
     (if lvSize = [] then ret (Some (Errorf ''lvSize is empty and cannot be used for extension'' []))
      else (case ParseFloat lvSize 64 of
        Inl err \<Rightarrow> ret (Some (Errorf ''failed to parse lvSize. %v'' [V err]))
      | Inr thinPoolSize \<Rightarrow>
          catch (GetVG env vgName)
            (\<lambda>err. ret (Some (Errorf ''failed to get volume group. %q, %v'' [S vgName, V err])))
            (\<lambda>vg. if lvg_VgSize vg = []
               then ret (Some (Errorf ''VgSize is empty and cannot be used for extension'' []))
               else (case ParseFloat (lvg_VgSize vg) 64 of
                   Inl err \<Rightarrow> ret (Some (Errorf ''failed to parse vgSize. %v'' [V err]))
                 | Inr vgSize \<Rightarrow>
                     if tpc_SizePercent config \<le> pool_percent env thinPoolSize vgSize then ret None
                     else catch_err (ExtendLV env (tpc_Name config) vgName (tpc_SizePercent config))
                            (\<lambda>err. ret (Some (Errorf ''failed to extend thinpool: %w'' [W err])))
                            (ret None)))))"

definition vgm_verifyMetadataSize :: "vgm_env \<Rightarrow> string \<Rightarrow> string \<Rightarrow> string \<Rightarrow> int \<Rightarrow> go_error option vgm" where
  "vgm_verifyMetadataSize env vgName lvName lvMetadataSize newMetadataSize =
     (if newMetadataSize = -1 then ret None
      else (case ParseInt lvMetadataSize of
        Inl err \<Rightarrow> ret (Some (Errorf ''failed to parse metadata size. %w'' [W err]))
      | Inr currentMetadataSize \<Rightarrow>
          if currentMetadataSize \<ge> newMetadataSize then ret None
          else catch_err (ExtendThinPoolMetadata env lvName vgName newMetadataSize)
                 (\<lambda>err. ret (Some (Errorf ''failed to extend thinpool metadata: %w'' [W err])))
                 (ret None)))"

text \<open>The first volume of the pool's name in the reports decides.\<close>

definition addThinPoolToVG :: "vgm_env \<Rightarrow> string \<Rightarrow> ThinPoolConfig \<Rightarrow> go_error option vgm" where
  "addThinPoolToVG env vgName config =
     catch (ListLVs env vgName)
       (\<lambda>err. ret (Some (Errorf ''failed to list logical volumes in the volume group %q. %v'' [S vgName, V err])))
       (\<lambda>resp. case find (\<lambda>lv. lv_Name lv = tpc_Name config) (concat resp) of
            Some lv \<Rightarrow>
              (case ParsedLvAttr (LvAttr lv) of
                 Inl err \<Rightarrow> ret (Some (Errorf ''could not parse lvattr to determine if thin pool exists: %w'' [W err]))
               | Inr lvAttr \<Rightarrow>
                   if VolumeType lvAttr = VolumeTypeThinPool
                   then catch_err (extendThinPool env vgName (LvSize lv) config)
                          (\<lambda>err. ret (Some (Errorf ''failed to extend the lvm thinpool %s in volume group %s: %w''
                                   [S (tpc_Name config), S vgName, W err])))
                          (ret None)
                   else ret (Some (Errorf (''failed to create thin pool %q, logical volume with same name already '' @
                          ''exists, but cannot be extended as its not a thinpool (%s)'')
                          [S (tpc_Name config), S (LvAttr_String lvAttr)])))
          | None \<Rightarrow>
              catch_err (CreateLV env (tpc_Name config) vgName (tpc_SizePercent config)
                  (convertChunkSize config) (convertMetadataSize config))
                (\<lambda>err. ret (Some (Errorf ''failed to create thinpool: %w'' [W err])))
                (ret None))"

text \<open>The checks of one volume of the pool's name.\<close>

definition validateLV :: "vgm_env \<Rightarrow> string \<Rightarrow> ThinPoolConfig \<Rightarrow> LogicalVolume \<Rightarrow> go_error option vgm" where
  "validateLV env vgName config lv = (case ParsedLvAttr (LvAttr lv) of
     Inl err \<Rightarrow> ret (Some (Errorf ''could not parse lv_attr from logical volume %s: %w'' [S (lv_Name lv), W err]))
   | Inr lvAttr \<Rightarrow>
       if VolumeType lvAttr \<noteq> VolumeTypeThinPool
       then ret (Some (Errorf (''found logical volume in volume group that is not of type Thin-Pool, '' @
              ''even though there is a Thin-Pool configured: %s, lv_attr: %s,'' @
              ''this is most likely a corruption of the thin pool or a setup gone wrong'')
              [S (utf8 (VolumeType lvAttr)), S (LvAttr_String lvAttr)]))
       else catch_err (if State lvAttr \<noteq> StateActive then ActivateLV env (lv_Name lv) vgName else ret None)
         (\<lambda>_. ret (Some (Errorf (''could not activate the inactive logical volume, maybe external repairs are '' @
              ''necessary/already happening or there is another'' @
              ''entity conflicting with vg-manager, cannot proceed until volume is activated again: lv_attr: %s'')
              [S (LvAttr_String lvAttr)])))
         (case ParseFloat (MetadataPercent lv) 32 of
            Inl err \<Rightarrow> ret (Some (Errorf (''could not ensure metadata percentage of LV due to a parsing error: %w'') [W err]))
          | Inr metadataPercentage \<Rightarrow>
              if fgreater metadataPercentage metadataWarningPercentage
              then ret (Some (Errorf (''metadata partition is over %v percent filled and LVM Metadata Overflows cannot '' @
                     ''be recoveredyou should manually extend the metadata_partition or you will risk data loss: '' @
                     ''metadata_percent: %v'') [S (fmt_float env metadataPercentage), S (MetadataPercent lv)]))
              else (case verifyChunkSizeForPolicy config lv of
                  Some err \<Rightarrow> ret (Some err)
                | None \<Rightarrow>
                    catch_err (vgm_verifyMetadataSize env vgName (lv_Name lv) (lv_MetadataSize lv)
                        (convertMetadataSize config))
                      (\<lambda>err. ret (Some (Errorf ''failed to verify metadata size for thinpool %s in volume group %s: %w''
                               [S (tpc_Name config), S vgName, W err])))
                      (ret None))))"

definition validateReport :: "vgm_env \<Rightarrow> string \<Rightarrow> ThinPoolConfig \<Rightarrow> LogicalVolume list \<Rightarrow> go_error option vgm" where
  "validateReport env vgName config lvs =
     (if length lvs < 1
      then ret (Some (Errorf (''no LV was found in the report, meaning that the thin-pool LV is no longer found, '' @
             ''but the volume group might still exist'') []))
      else catch_err (for_each (filter (\<lambda>lv. lv_Name lv = tpc_Name config) lvs) (validateLV env vgName config))
             (\<lambda>err. ret (Some err))
             (if list_ex (\<lambda>lv. lv_Name lv = tpc_Name config) lvs then ret None
              else ret (Some (Errorf ''the thin-pool LV is no longer present, but the volume group might still exist'' []))))"

definition validateLVs :: "vgm_env \<Rightarrow> LVMVolumeGroup \<Rightarrow> go_error option vgm" where
  "validateLVs env vg = (case vgs_ThinPoolConfig (vg_Spec vg) of
     None \<Rightarrow> ret None
   | Some config \<Rightarrow>
       catch (ListLVs env (vg_Name vg))
         (\<lambda>err. ret (Some (Errorf (''could not get logical volumes found inside volume group, '' @
              ''volume group content is degraded or corrupt: %w'') [W err])))
         (\<lambda>resp. if length resp < 1
            then ret (Some (Errorf (''LV report was empty, meaning that the thin-pool LV is no longer found, '' @
                   ''but the volume group might still exist'') []))
            else for_each resp (validateReport env (vg_Name vg) config)))"

section \<open>Removing devices\<close>

fun resolveRequired :: "resolveFn \<Rightarrow> DevicePath list \<Rightarrow> string list res" where
  "resolveRequired res [] = Inr []"
| "resolveRequired res (p # ps) = (case res (Unresolved p) of
     Inl err \<Rightarrow> Inl (Errorf ''failed to resolve path %s, %w'' [S (Unresolved p), W err])
   | Inr r \<Rightarrow> (case resolveRequired res ps of Inl err \<Rightarrow> Inl err | Inr rs \<Rightarrow> Inr (r # rs)))"

definition resolveOptional :: "resolveFn \<Rightarrow> DevicePath list \<Rightarrow> string list" where
  "resolveOptional res ps = concat (map (\<lambda>p. case res (Unresolved p) of Inl _ \<Rightarrow> [] | Inr r \<Rightarrow> [r]) ps)"

definition buildDevicePathMappings :: "resolveFn \<Rightarrow> LVMVolumeGroup \<Rightarrow> string list res" where
  "buildDevicePathMappings res vg = (case vgs_DeviceSelector (vg_Spec vg) of
     None \<Rightarrow> Inr []
   | Some ds \<Rightarrow> (case resolveRequired res (ds_Paths ds) of
        Inl err \<Rightarrow> Inl err
      | Inr rs \<Rightarrow> Inr (rs @ resolveOptional res (ds_OptionalPaths ds))))"

definition pvMatched :: "resolveFn \<Rightarrow> string list \<Rightarrow> PhysicalVolume \<Rightarrow> bool" where
  "pvMatched res mappings pv \<longleftrightarrow> PvName pv \<in> set mappings
     \<or> (case res (PvName pv) of Inl _ \<Rightarrow> False | Inr r \<Rightarrow> r \<in> set mappings)"

definition removeDevice :: "vgm_env \<Rightarrow> LVMVolumeGroup \<Rightarrow> string \<Rightarrow> go_error option vgm" where
  "removeDevice env vg devicePath =
     catch_err (ReduceVG env (vg_Name vg) devicePath)
       (\<lambda>err. do { _ \<leftarrow> WarningEvent env vg ''DeviceRemovalFailed'' err;
                   ret (Some (Errorf ''failed to remove device %s from VG %s: %w''
                     [S devicePath, S (vg_Name vg), W err])) })
       (do { _ \<leftarrow> RemovePV env devicePath; ret None })"

definition deleteRemovedDevices :: "vgm_env \<Rightarrow> VolumeGroup \<Rightarrow> LVMVolumeGroup \<Rightarrow> bool res vgm" where
  "deleteRemovedDevices env currentVG vg =
     (if \<not> hasExplicitDevicePaths vg then ret (Inr False)
      else if IsMissingDevices currentVG
      then ret (Inl (Errorf (''VG %s on node %s is missing one or more devices. Please fix the VG on the node first '' @
             ''and update LVMCluster to reflect current state'') [S (vg_Name vg), S (NodeName env)]))
      else (case buildDevicePathMappings (resolve env) vg of
        Inl err \<Rightarrow> ret (Inl err)
      | Inr mappings \<Rightarrow>
          let devicesToRemove = map PvName (filter (\<lambda>pv. \<not> pvMatched (resolve env) mappings pv) (lvg_PVs currentVG));
              remainingCount = int (length (lvg_PVs currentVG)) - int (length devicesToRemove);
              countError = (case vgs_RAIDConfig (vg_Spec vg) of None \<Rightarrow> None
                | Some rc \<Rightarrow> validateRAIDDeviceCount rc remainingCount)
          in if length devicesToRemove = 0 then ret (Inr False)
             else if remainingCount < 1
             then ret (Inl (Errorf (''devices can't be deleted from VG %s because after deletion there will be '' @
                    ''less than 1 device in VG'') [S (vg_Name vg)]))
             else (case countError of
                 Some err \<Rightarrow> ret (Inl (if is_panic err then err
                   else Errorf ''devices can't be deleted from VG %s: %w'' [S (vg_Name vg), W err]))
               | None \<Rightarrow>
                   catch_err (for_each devicesToRemove (removeDevice env vg))
                     (\<lambda>err. ret (Inl err))
                     (do { _ \<leftarrow> NormalEvent env vg ''DeviceRemoved''
                             (''successfully removed '' @ slice_text devicesToRemove @ '' device(s) from volume group'');
                           ret (Inr True) }))))"

definition checkRAIDVGHealth :: "vgm_env \<Rightarrow> VolumeGroup list \<Rightarrow> LVMVolumeGroup \<Rightarrow> go_error option" where
  "checkRAIDVGHealth env vgs vg =
     (if vgs_RAIDConfig (vg_Spec vg) = None then None
      else if list_ex (\<lambda>g. lvg_Name g = vg_Name vg \<and> IsMissingDevices g) vgs
      then Some (Errorf (''RAID VG %s on node %s has missing physical volumes. '' @
             ''Repair the volume group on the node (replace the failed device, run 'pvcreate' and 'vgextend' '' @
             ''with the new device, then 'lvconvert --repair' for each degraded LV, and 'vgreduce --removemissing' '' @
             ''to clean up), and update the LVMCluster CR with the correct device paths'')
             [S (vg_Name vg), S (NodeName env)])
      else None)"

section \<open>The configuration of lvmd\<close>

definition newDeviceClass :: "LVMVolumeGroup \<Rightarrow> lvmd_DeviceClass" where
  "newDeviceClass vg =
     (let spec = vg_Spec vg;
          dc = \<lparr>ldc_Name = vg_Name vg, ldc_VolumeGroup = vg_Name vg, ldc_Default = vgs_Default spec,
                ldc_SpareGB = None, ldc_Stripe = None, ldc_StripeSize = [], ldc_LVCreateOptions = [],
                ldc_Type = TypeThick, ldc_ThinPoolConfig = None\<rparr>;
          dc = (case vgs_ThinPoolConfig spec of
              Some tpc \<Rightarrow> dc\<lparr>ldc_Type := TypeThin, ldc_ThinPoolConfig := Some
                \<lparr>ltp_Name = tpc_Name tpc, ltp_OverprovisionRatio = tpc_OverprovisionRatio tpc\<rparr>\<rparr>
            | None \<Rightarrow> dc\<lparr>ldc_Type := TypeThick, ldc_SpareGB := Some 0\<rparr>)
      in (case vgs_RAIDConfig spec of None \<Rightarrow> dc
          | Some rc \<Rightarrow> dc\<lparr>ldc_LVCreateOptions := buildRAIDLVCreateOptions rc\<rparr>))"

text \<open>The first class of that name is updated through its pointer; a nil thin pool configuration on
  either side is a panic.\<close>

fun updateClass :: "LVMVolumeGroup \<Rightarrow> lvmd_DeviceClass list \<Rightarrow> lvmd_DeviceClass list res" where
  "updateClass vg [] = Inr [newDeviceClass vg]"
| "updateClass vg (dc # dcs) =
     (if ldc_Name dc = vg_Name vg
      then (if ldc_Type dc = TypeThin
            then (case (ldc_ThinPoolConfig dc, vgs_ThinPoolConfig (vg_Spec vg)) of
                (Some t, Some tpc) \<Rightarrow> Inr (dc\<lparr>ldc_ThinPoolConfig := Some
                    (t\<lparr>ltp_OverprovisionRatio := tpc_OverprovisionRatio tpc\<rparr>)\<rparr> # dcs)
              | _ \<Rightarrow> Inl (GoPanic ''nil pointer dereference''))
            else Inr (dc # dcs))
      else (case updateClass vg dcs of Inl err \<Rightarrow> Inl err | Inr dcs' \<Rightarrow> Inr (dc # dcs')))"

definition updateLVMDConfigAfterReconcile ::
  "vgm_env \<Rightarrow> LVMVolumeGroup \<Rightarrow> lvmd_Config \<Rightarrow> lvmd_Config \<Rightarrow> bool \<Rightarrow> go_error option vgm" where
  "updateLVMDConfigAfterReconcile env vg oldCFG newCFG wasMissing =
     (if \<not> cmp_Equal env oldCFG newCFG
      then do {
        _ \<leftarrow> (if wasMissing then NormalEvent env vg ''LVMDConfigMissing''
                 ''lvmd config file doesn't exist, will attempt to create a fresh config'' else ret ());
        catch_err (LVMD_Save env newCFG)
          (\<lambda>err. ret (Some (Errorf ''failed to update lvmd config file to update volume group %s: %w''
                   [S (vg_Name vg), W err])))
          (do { _ \<leftarrow> NormalEvent env vg ''LVMDConfigUpdated'' ''updated lvmd config with new deviceClasses'';
                ret None }) }
      else ret None)"

definition applyLVMDConfig ::
  "vgm_env \<Rightarrow> LVMVolumeGroup \<Rightarrow> VolumeGroup list \<Rightarrow> FilteredBlockDevices \<Rightarrow> go_error option vgm" where
  "applyLVMDConfig env vg vgs devices =
     catch (LVMD_Load env)
       (\<lambda>err. let err = Errorf ''failed to read the lvmd config file: %w'' [W err] in
          do { _ \<leftarrow> setVolumeGroupFailedStatus env vg vgs devices err; ret (Some err) })
       (\<lambda>loaded.
          let wasMissing = (loaded = None);
              lvmdConfig = (case loaded of Some c \<Rightarrow> c
                | None \<Rightarrow> \<lparr>cfg_SocketName = [], cfg_DeviceClasses = [], cfg_LvcreateOptionClasses = []\<rparr>);
              oldConfig = DeepCopyConfig lvmdConfig
          in (case updateClass vg (cfg_DeviceClasses lvmdConfig) of
                Inl panic \<Rightarrow> ret (Some panic)
              | Inr dcs \<Rightarrow>
                  catch_err (updateLVMDConfigAfterReconcile env vg oldConfig
                      (lvmdConfig\<lparr>cfg_DeviceClasses := dcs\<rparr>) wasMissing)
                    (\<lambda>err. do { _ \<leftarrow> setVolumeGroupFailedStatus env vg vgs devices err; ret (Some err) })
                    (ret None)))"

section \<open>Deletion\<close>

definition isRetainPolicy :: "vgm_env \<Rightarrow> LVMVolumeGroup \<Rightarrow> (bool \<times> go_error option) vgm" where
  "isRetainPolicy env vg =
     (let scName = StorageClassPrefix @ vg_Name vg in
      do { r \<leftarrow> ask (\<lambda>h. api_StorageClass env h scName) (GetStorageClass scName);
           ret (case r of
               NotFound _ \<Rightarrow> (False, None)
             | ApiErr err \<Rightarrow> (True, Some (Errorf ''failed to get StorageClass %s, defaulting to Retain: %w''
                 [S scName, W err]))
             | Found policy \<Rightarrow> (policy = Some PersistentVolumeReclaimRetain, None)) })"

text \<open>The end of the deletion: lvmd's configuration, the status, the finalizer.\<close>

definition finishDelete :: "vgm_env \<Rightarrow> LVMVolumeGroup \<Rightarrow> lvmd_Config option \<Rightarrow> go_error option vgm" where
  "finishDelete env vg lvmdConfig =
     catch_err (case lvmdConfig of
         None \<Rightarrow> ret None
       | Some cfg \<Rightarrow>
           if length (cfg_DeviceClasses cfg) > 0
           then catch_err (LVMD_Save env cfg)
             (\<lambda>err. ret (Some (Errorf ''failed to update lvmd.conf file for volume group %s: %w'' [S (vg_Name vg), W err])))
             (do { _ \<leftarrow> NormalEvent env vg ''LVMDConfigUpdated'' ''updated lvmd config after deviceClass was removed'';
                   ret None })
           else catch_err (LVMD_Delete env)
             (\<lambda>err. ret (Some (Errorf ''failed to delete lvmd.conf file for volume group %s: %w'' [S (vg_Name vg), W err])))
             (do { _ \<leftarrow> NormalEvent env vg ''LVMDConfigDeleted'' ''removed lvmd config after last deviceClass was removed'';
                   ret None }))
       (\<lambda>err. ret (Some err))
     (catch_err (removeVolumeGroupStatus env vg)
       (\<lambda>err. ret (Some (Errorf ''failed to remove status for volume group %s: %w'' [S (vg_Name vg), W err])))
       (case RemoveFinalizer env (vg_Finalizers vg) (getFinalizer env) of (fs, removed) \<Rightarrow>
          if removed
          then ask (\<lambda>h. api_Update env h (vg\<lparr>vg_Finalizers := fs\<rparr>)) (UpdateVolumeGroup (vg\<lparr>vg_Finalizers := fs\<rparr>))
          else ret None))"

text \<open>The volumes of the volume group that are not its thin pool.\<close>

definition userLVs :: "LVMVolumeGroup \<Rightarrow> string list \<Rightarrow> string list" where
  "userLVs vg lvs = filter (\<lambda>lv. case vgs_ThinPoolConfig (vg_Spec vg) of
     None \<Rightarrow> True | Some tpc \<Rightarrow> lv \<noteq> tpc_Name tpc) lvs"

definition checkRetain :: "vgm_env \<Rightarrow> LVMVolumeGroup \<Rightarrow> go_error option vgm" where
  "checkRetain env vg =
     do { (retain, _) \<leftarrow> isRetainPolicy env vg;
          if retain
          then catch (ListLVsByName env (vg_Name vg))
            (\<lambda>err. ret (Some (Errorf ''failed to list LVs in volume group %s: %w'' [S (vg_Name vg), W err])))
            (\<lambda>lvs. if length (userLVs vg lvs) > 0
               then let err = Errorf (''volume group %s has retained logical volumes %v; '' @
                          ''manual cleanup required before deletion can proceed'')
                          [S (vg_Name vg), S (slice_text (userLVs vg lvs))]
                    in do { _ \<leftarrow> WarningEvent env vg ''ManualCleanupRequired'' err; ret (Some err) }
               else ret None)
          else ret None }"

definition deleteThinPool :: "vgm_env \<Rightarrow> LVMVolumeGroup \<Rightarrow> VolumeGroup list \<Rightarrow> go_error option vgm" where
  "deleteThinPool env vg vgs = (case vgs_ThinPoolConfig (vg_Spec vg) of
     None \<Rightarrow> ret None
   | Some tpc \<Rightarrow>
       catch (LVExists env (tpc_Name tpc) (vg_Name vg))
         (\<lambda>err. ret (Some (Errorf ''failed to check existence of thin pool %q in volume group %q. %v''
                  [S (tpc_Name tpc), S (vg_Name vg), V err])))
         (\<lambda>thinPoolExists. if thinPoolExists
            then catch_err (DeleteLV env (tpc_Name tpc) (vg_Name vg))
              (\<lambda>err. let err = Errorf ''failed to delete thin pool %s in volume group %s: %w''
                         [S (tpc_Name tpc), S (vg_Name vg), W err]
                     in do { _ \<leftarrow> setVolumeGroupFailedStatus env vg vgs no_devices err; ret (Some err) })
              (ret None)
            else ret None))"

definition processDelete :: "vgm_env \<Rightarrow> LVMVolumeGroup \<Rightarrow> go_error option vgm" where
  "processDelete env vg =
     catch (LVMD_Load env)
       (\<lambda>err. ret (Some (Errorf ''failed to read the lvmd config file: %w'' [W err])))
       (\<lambda>loaded.
          let lvmdConfig = map_option (\<lambda>c. c\<lparr>cfg_DeviceClasses :=
                remove_first (\<lambda>dc. ldc_Name dc = vg_Name vg) (cfg_DeviceClasses c)\<rparr>) loaded
          in catch (ListVGs env True)
               (\<lambda>err. ret (Some (Errorf ''failed to list volume groups, %w'' [W err])))
               (\<lambda>vgs. case find (\<lambda>g. vg_Name vg = lvg_Name g) vgs of
                    None \<Rightarrow> finishDelete env vg lvmdConfig
                  | Some existingVG \<Rightarrow>
                      catch_err (checkRetain env vg) (\<lambda>err. ret (Some err))
                      (catch_err (deleteThinPool env vg vgs) (\<lambda>err. ret (Some err))
                      (catch_err (DeleteVG env existingVG)
                        (\<lambda>err. let err = Errorf ''failed to delete volume group %s: %w'' [S (vg_Name vg), W err]
                           in do { _ \<leftarrow> setVolumeGroupFailedStatus env vg vgs no_devices err; ret (Some err) })
                        (finishDelete env vg lvmdConfig)))))"

section \<open>Reconciliation\<close>

definition determineFinishedRequeue :: "LVMVolumeGroup \<Rightarrow> DeviceDiscoveryPolicySpec \<Rightarrow> ctrl_Result" where
  "determineFinishedRequeue vg effectivePolicy =
     (if vgs_RAIDConfig (vg_Spec vg) \<noteq> None then raidResult
      else if hasExplicitDevicePaths vg then done_result
      else if effectivePolicy = DeviceDiscoveryPolicyDynamic then reconcileAgain
      else done_result)"

definition effectivePolicy :: "LVMVolumeGroup \<Rightarrow> DeviceDiscoveryPolicySpec" where
  "effectivePolicy vg =
     (if vgs_RAIDConfig (vg_Spec vg) \<noteq> None then DeviceDiscoveryPolicyStatic
      else Deref (vgs_DeviceDiscoveryPolicy (vg_Spec vg)) DeviceDiscoveryPolicyDynamic)"

text \<open>A warning event and the failed status, whose own error is only logged; then the error.\<close>

definition failWith ::
  "vgm_env \<Rightarrow> LVMVolumeGroup \<Rightarrow> VolumeGroup list \<Rightarrow> FilteredBlockDevices \<Rightarrow> string \<Rightarrow> go_error \<Rightarrow> outcome vgm" where
  "failWith env vg vgs devices reason err =
     do { _ \<leftarrow> WarningEvent env vg reason err;
          _ \<leftarrow> setVolumeGroupFailedStatus env vg vgs devices err;
          fails err }"

definition readyMessage :: string where
  "readyMessage = ''all the available devices are attached to the volume group''"

definition finishReady ::
  "vgm_env \<Rightarrow> LVMVolumeGroup \<Rightarrow> VolumeGroup list \<Rightarrow> FilteredBlockDevices \<Rightarrow> ctrl_Result \<Rightarrow> outcome vgm" where
  "finishReady env vg vgs devices result =
     do { (updated, err) \<leftarrow> setVolumeGroupReadyStatus env vg vgs devices;
          (case err of
             Some e \<Rightarrow> fails (Errorf ''failed to set status for volume group %s to ready: %w'' [S (vg_Name vg), W e])
           | None \<Rightarrow> do { _ \<leftarrow> (if updated then NormalEvent env vg ''VolumeGroupReady'' readyMessage else ret ());
                          ret (result, None) }) }"

definition lvsError :: "go_error \<Rightarrow> go_error" where
  "lvsError err = Errorf ''error while validating logical volumes in existing volume group: %w'' [W err]"

text \<open>The branch without new devices.\<close>

definition verifyExisting ::
  "vgm_env \<Rightarrow> LVMVolumeGroup \<Rightarrow> VolumeGroup list \<Rightarrow> FilteredBlockDevices \<Rightarrow> outcome vgm" where
  "verifyExisting env vg vgs devices =
     catch_err (validateLVs env vg)
       (\<lambda>err. failWith env vg vgs devices ''InconsistentLVs'' (lvsError err))
     (catch_err (applyLVMDConfig env vg vgs devices) fails
       (finishReady env vg vgs devices (determineFinishedRequeue vg (effectivePolicy vg))))"

definition reconcile_existing ::
  "vgm_env \<Rightarrow> LVMVolumeGroup \<Rightarrow> VolumeGroup list \<Rightarrow> FilteredBlockDevices \<Rightarrow> outcome vgm" where
  "reconcile_existing env vg vgs devices = (case find (\<lambda>g. vg_Name vg = lvg_Name g) vgs of
     None \<Rightarrow> failWith env vg vgs devices ''NoAvailableDevicesForVG''
         (Errorf (''the volume group %s does not exist (or was not tagged properly with %q), '' @
           ''and there were no available devices to create it'') [S (vg_Name vg), S DefaultTag])
   | Some lvmVG \<Rightarrow>
       catch (deleteRemovedDevices env lvmVG vg)
         (\<lambda>err. if is_panic err then fails err
            else do { _ \<leftarrow> setVolumeGroupFailedStatus env vg vgs devices err;
                      fails (Errorf ''failed to remove devices: %w'' [W err]) })
         (\<lambda>deleted. if deleted
            then catch (ListVGs env True)
              (\<lambda>err. fails (Errorf ''failed to list volume groups: %w'' [W err]))
              (\<lambda>vgs. verifyExisting env vg vgs devices)
            else verifyExisting env vg vgs devices))"

text \<open>The branch with new devices: the RAID device count, the volume group, the thin pool, lvmd.\<close>

definition raidCountError :: "LVMVolumeGroup \<Rightarrow> VolumeGroup list \<Rightarrow> FilteredBlockDevices \<Rightarrow> go_error option" where
  "raidCountError vg vgs devices = (case vgs_RAIDConfig (vg_Spec vg) of
     None \<Rightarrow> None
   | Some rc \<Rightarrow> validateRAIDDeviceCount rc (int (length (Available devices))
       + (case find (\<lambda>g. lvg_Name g = vg_Name vg) vgs of None \<Rightarrow> 0 | Some g \<Rightarrow> int (length (lvg_PVs g)))))"

definition setupThinPool ::
  "vgm_env \<Rightarrow> LVMVolumeGroup \<Rightarrow> VolumeGroup list \<Rightarrow> FilteredBlockDevices \<Rightarrow> outcome vgm \<Rightarrow> outcome vgm" where
  "setupThinPool env vg vgs devices k = (case vgs_ThinPoolConfig (vg_Spec vg) of
     None \<Rightarrow> k
   | Some config \<Rightarrow>
       catch_err (addThinPoolToVG env (vg_Name vg) config)
         (\<lambda>err. failWith env vg vgs devices ''ThinPoolCreateOrExtendFailed''
            (Errorf ''failed to create thin pool %s for volume group %s: %w''
              [S (tpc_Name config), S (vg_Name vg), W err]))
       (catch_err (validateLVs env vg)
         (\<lambda>err. failWith env vg vgs devices ''InconsistentLVs'' (lvsError err)) k))"

definition finishNew :: "vgm_env \<Rightarrow> LVMVolumeGroup \<Rightarrow> FilteredBlockDevices \<Rightarrow> outcome vgm" where
  "finishNew env vg devices =
     catch (ListVGs env True)
       (\<lambda>err. fails (Errorf ''failed to list volume groups: %w'' [W err]))
       (\<lambda>vgs. catch_err (applyLVMDConfig env vg vgs devices) (\<lambda>err. ret (reconcileAgain, Some err))
                (finishReady env vg vgs devices reconcileAgain))"

definition reconcile_new ::
  "vgm_env \<Rightarrow> LVMVolumeGroup \<Rightarrow> VolumeGroup list \<Rightarrow> FilteredBlockDevices \<Rightarrow> outcome vgm" where
  "reconcile_new env vg vgs devices = (case raidCountError vg vgs devices of
     Some err \<Rightarrow> if is_panic err then fails err
       else failWith env vg vgs devices ''NoAvailableDevicesForVG'' err
   | None \<Rightarrow>
       catch_err (addDevicesToVG env vgs (vg_Name vg) (Available devices) (shouldWipeDevicesOnVolumeGroup env vg))
         (\<lambda>err. failWith env vg vgs devices ''VGCreateOrExtendFailed''
            (Errorf ''failed to create/extend volume group %s: %w'' [S (vg_Name vg), W err]))
         (setupThinPool env vg vgs devices (finishNew env vg devices)))"

text \<open>Under the static policy the devices discovered later are excluded.\<close>

definition applyPolicy :: "LVMVolumeGroup \<Rightarrow> VolumeGroup list \<Rightarrow> FilteredBlockDevices \<Rightarrow> FilteredBlockDevices" where
  "applyPolicy vg vgs devices =
     (let vgExists = list_ex (\<lambda>g. vg_Name vg = lvg_Name g) vgs in
      if \<not> hasExplicitDevicePaths vg \<and> effectivePolicy vg = DeviceDiscoveryPolicyStatic
         \<and> vgExists \<and> length (Available devices) > 0
      then \<lparr>Available = [], Excluded = Excluded devices @ map (\<lambda>dev. \<lparr>fbd_Device = dev,
             fbd_FilterErrors = [Errorf ''%s was not part of %s at creation (static device discovery enabled)''
               [S (bd_KName dev), S (vg_Name vg)]]\<rparr>) (Available devices)\<rparr>
      else devices)"

definition reconcile_discovered ::
  "vgm_env \<Rightarrow> LVMVolumeGroup \<Rightarrow> VolumeGroup list \<Rightarrow> FilteredBlockDevices \<Rightarrow> outcome vgm" where
  "reconcile_discovered env vg vgs devices0 =
     (let devices = applyPolicy vg vgs devices0 in
      if length (Available devices) = 0 then reconcile_existing env vg vgs devices
      else do { (updated, err) \<leftarrow> setVolumeGroupProgressingStatus env vg vgs devices;
                if err = None \<and> updated then ret (\<lparr>Requeue = True, RequeueAfter = 0\<rparr>, None)
                else reconcile_new env vg vgs devices })"

definition vgm_filters :: "vgm_env \<Rightarrow> LVMVolumeGroup \<Rightarrow> BlockDeviceInfos \<Rightarrow> PhysicalVolume list \<Rightarrow> Filters" where
  "vgm_filters env vg bdi pvs = DefaultFilters (resolve env) \<lparr>opt_VG = vg, opt_BDI = bdi, opt_PVs = pvs\<rparr>"

definition reconcile_filter ::
  "vgm_env \<Rightarrow> LVMVolumeGroup \<Rightarrow> VolumeGroup list \<Rightarrow> BlockDevice list \<Rightarrow> outcome vgm" where
  "reconcile_filter env vg vgs blockDevices =
     catch (ListPVs env [])
       (\<lambda>err. fails (Errorf ''physical volumes could not be fetched: %w'' [W err]))
     (\<lambda>pvs. catch (BlockDeviceInfos env blockDevices)
       (\<lambda>err. fails (Errorf ''failed to get block device infos: %w'' [W err]))
     (\<lambda>bdi. let devices = filterDevices blockDevices (vgm_filters env vg bdi pvs) in
        (case (case vgs_DeviceSelector (vg_Spec vg) of None \<Rightarrow> None
               | Some ds \<Rightarrow> VerifyMandatoryDevicePaths devices (resolve env) (ds_Paths ds)) of
           Some err \<Rightarrow> failWith env vg vgs devices ''DevicePathCheckFailed'' err
         | None \<Rightarrow> reconcile_discovered env vg vgs devices)))"

definition reconcile_scan :: "vgm_env \<Rightarrow> LVMVolumeGroup \<Rightarrow> outcome vgm" where
  "reconcile_scan env vg =
     catch (ListBlockDevices env)
       (\<lambda>err. fails (Errorf ''failed to list block devices: %w'' [W err]))
     (\<lambda>blockDevices. catch (ListVGs env True)
       (\<lambda>err. fails (Errorf ''failed to list volume groups: %w'' [W err]))
     (\<lambda>vgs. case checkRAIDVGHealth env vgs vg of
         Some err \<Rightarrow> do { _ \<leftarrow> WarningEvent env vg ''RAIDHealthCheckFailed'' err;
                          _ \<leftarrow> setVolumeGroupFailedStatus env vg vgs no_devices err;
                          ret (raidResult, None) }
       | None \<Rightarrow>
           catch (wipeDevices env vg blockDevices)
             (\<lambda>err. fails (Errorf ''failed to wipe devices: %w'' [W err]))
             (\<lambda>(vg, updated). if updated
                then do { err \<leftarrow> ask (\<lambda>h. api_Update env h vg) (UpdateVolumeGroup vg); ret (done_result, err) }
                else reconcile_filter env vg vgs blockDevices)))"

definition reconcile :: "vgm_env \<Rightarrow> LVMVolumeGroup \<Rightarrow> outcome vgm" where
  "reconcile env vg =
     (if vg_Deleted vg then do { err \<leftarrow> processDelete env vg; ret (done_result, err) }
      else (case AddFinalizer env (vg_Finalizers vg) (getFinalizer env) of (fs, added) \<Rightarrow>
        if added
        then let vg = vg\<lparr>vg_Finalizers := fs\<rparr> in
             do { err \<leftarrow> ask (\<lambda>h. api_Update env h vg) (UpdateVolumeGroup vg); ret (done_result, err) }
        else reconcile_scan env vg))"

definition matchesThisNode :: "vgm_env \<Rightarrow> NodeSelector option \<Rightarrow> bool res vgm" where
  "matchesThisNode env selector =
     do { r \<leftarrow> ask (\<lambda>h. api_Node env h (NodeName env)) (GetNode (NodeName env));
          ret (case r of
              NotFound err \<Rightarrow> Inl err
            | ApiErr err \<Rightarrow> Inl err
            | Found node \<Rightarrow> (case selector of None \<Rightarrow> Inr True | Some sel \<Rightarrow> MatchNodeSelectorTerms env node sel)) }"

definition Reconcile :: "vgm_env \<Rightarrow> string \<Rightarrow> string \<Rightarrow> outcome vgm" where
  "Reconcile env ns name =
     do { r \<leftarrow> ask (\<lambda>h. api_VolumeGroup env h ns name) (GetVolumeGroup ns name);
          (case r of
             NotFound _ \<Rightarrow> ret (done_result, None)
           | ApiErr err \<Rightarrow> fails err
           | Found vg \<Rightarrow>
               catch (matchesThisNode env (vgs_NodeSelector (vg_Spec vg)))
                 (\<lambda>err. fails (Errorf ''failed to match nodeSelector to node labels: %w'' [W err]))
                 (\<lambda>nodeMatches. if \<not> nodeMatches then ret (done_result, None)
                    else do { st \<leftarrow> ask (\<lambda>h. api_NodeStatus env h (Namespace env) (NodeName env))
                                (GetNodeStatus (Namespace env) (NodeName env));
                              (case st of
                                 NotFound err \<Rightarrow> fails (Errorf ''could not get LVMVolumeGroupNodeStatus: %w'' [W err])
                               | ApiErr err \<Rightarrow> fails (Errorf ''could not get LVMVolumeGroupNodeStatus: %w'' [W err])
                               | Found _ \<Rightarrow> reconcile env vg) })) }"

end
