(* ===== verification/VGM_Config.thy ===== *)
theory VGM_Config
  imports VG_Manager
begin

text \<open>
  What reconciliation does to the configuration of lvmd (\<open>applyLVMDConfig\<close> of
  \<open>vgmanager/controller.go\<close>): the class of the volume group is there afterwards, the others are left
  alone.
\<close>

section \<open>Events leave the configuration alone\<close>

lemma for_do_emit_cache:
  "lvmd_cache (snd (run_state (for_do xs (\<lambda>x. emit (f x))) s)) = lvmd_cache s"
  "lvmd_file (snd (run_state (for_do xs (\<lambda>x. emit (f x))) s)) = lvmd_file s"
  by (induction xs arbitrary: s) (simp_all add: case_prod_beta)

lemma sendEvents_cache:
  "lvmd_cache (snd (run_state (sendEvents env vg w r m om vm) s)) = lvmd_cache s"
  "lvmd_file (snd (run_state (sendEvents env vg w r m om vm) s)) = lvmd_file s"
  by (simp_all add: sendEvents_def case_prod_beta for_do_emit_cache split: api.split)

lemma NormalEvent_cache [simp]:
  "lvmd_cache (snd (run_state (NormalEvent env vg r m) s)) = lvmd_cache s"
  "lvmd_file (snd (run_state (NormalEvent env vg r m) s)) = lvmd_file s"
  by (simp_all add: NormalEvent_def sendEvents_cache)

section \<open>The classes\<close>

text \<open>The class of the volume group after reconciliation: a new one, or the existing one with the
  overprovision ratio of the specification.\<close>

definition reconciled_class :: "LVMVolumeGroup \<Rightarrow> lvmd_DeviceClass option \<Rightarrow> lvmd_DeviceClass" where
  "reconciled_class vg prev = (case prev of
     None \<Rightarrow> newDeviceClass vg
   | Some dc \<Rightarrow> (case (ldc_Type dc, ldc_ThinPoolConfig dc, vgs_ThinPoolConfig (vg_Spec vg)) of
        (TypeThin, Some t, Some tpc) \<Rightarrow> dc\<lparr>ldc_ThinPoolConfig := Some (t\<lparr>ltp_OverprovisionRatio := tpc_OverprovisionRatio tpc\<rparr>)\<rparr>
      | _ \<Rightarrow> dc))"

definition class_of :: "lvmd_DeviceClass list \<Rightarrow> string \<Rightarrow> lvmd_DeviceClass option" where
  "class_of dcs n = find (\<lambda>dc. ldc_Name dc = n) dcs"

lemma class_of_simps [simp]:
  "class_of [] n = None"
  "class_of (dc # dcs) n = (if ldc_Name dc = n then Some dc else class_of dcs n)"
  by (simp_all add: class_of_def)

lemma newDeviceClass_Name [simp]: "ldc_Name (newDeviceClass vg) = vg_Name vg"
  by (simp add: newDeviceClass_def Let_def split: option.split)

lemma updateClass_class_of:
  "updateClass vg dcs = Inr dcs' \<Longrightarrow>
   class_of dcs' = (class_of dcs)(vg_Name vg \<mapsto> reconciled_class vg (class_of dcs (vg_Name vg)))"
proof (induction dcs arbitrary: dcs')
  case Nil
  then show ?case by (auto simp: reconciled_class_def fun_eq_iff)
next
  case (Cons dc dcs)
  show ?case
  proof (cases "ldc_Name dc = vg_Name vg")
    case True
    with Cons.prems show ?thesis
      by (auto simp: reconciled_class_def fun_eq_iff split: if_splits option.splits lvmd_type.splits)
  next
    case False
    with Cons.prems obtain ds where "updateClass vg dcs = Inr ds" "dcs' = dc # ds"
      by (auto split: sum.splits)
    with Cons.IH[of ds] False show ?thesis by (auto simp: fun_eq_iff)
  qed
qed

section \<open>Saving\<close>

lemma update_after_reconcile:
  assumes "cmp_Equal env = (=)"
    and "fst (run_state (updateLVMDConfigAfterReconcile env vg c c' wasMissing) s) = None"
    and "c = c' \<Longrightarrow> lvmd_cache s = Some c"
  shows "lvmd_cache (snd (run_state (updateLVMDConfigAfterReconcile env vg c c' wasMissing) s)) = Some c'"
proof (cases "c = c'")
  case True
  with assms(1,3) show ?thesis by (simp add: updateLVMDConfigAfterReconcile_def)
next
  case False
  define s1 where "s1 = snd (run_state (if wasMissing then NormalEvent env vg ''LVMDConfigMissing''
                 ''lvmd config file doesn't exist, will attempt to create a fresh config'' else ret ()) s)"
  obtain r s2 where sv: "run_state (LVMD_Save env c') s1 = (r, s2)" by force
  have "lvmd_cache s2 = Some c'" using LVMD_Save_cache[of env c' s1] by (simp add: sv)
  with False assms(1,2) sv show ?thesis
    by (cases r) (auto simp: updateLVMDConfigAfterReconcile_def run_catch_err case_prod_beta simp flip: s1_def)
qed

definition loaded_config :: "lvmd_Config option \<Rightarrow> lvmd_Config" where
  "loaded_config loaded = (case loaded of Some c \<Rightarrow> c | None \<Rightarrow> sample_config)"

lemma updateClass_not_Nil: "updateClass vg dcs \<noteq> Inr []"
  by (cases dcs) (auto split: sum.split option.split)


definition writing_env :: vgm_env where
  "writing_env = quiet_env\<lparr>yaml_Marshal := (\<lambda>_. Inr ''config'')\<rparr>"

definition plain_vg :: LVMVolumeGroup where
  "plain_vg = \<lparr>vg_Name = ''vg1'', vg_Namespace = ''openshift-lvm-storage'', vg_UID = ''u1'',
     vg_Finalizers = [], vg_Annotations = [], vg_OwnerReferences = [], vg_Deleted = False,
     vg_Spec = \<lparr>vgs_DeviceSelector = None, vgs_NodeSelector = None, vgs_ThinPoolConfig = None,
       vgs_RAIDConfig = None, vgs_Default = True, vgs_DeviceDiscoveryPolicy = None\<rparr>\<rparr>"


section \<open>After the last class\<close>

text \<open>Deleting the last class removes the file but not the cached configuration, so that a later
  reconciliation of the same volume group reports success and leaves the file absent.\<close>

lemma stale_config_not_rewritten:
  assumes "cmp_Equal env = (=)" and "lvmd_cache s = Some c" and "ldc_Type dc = TypeThick"
    and "class_of (cfg_DeviceClasses c) (vg_Name vg) = Some dc"
    and "fst (run_state (LVMD_Delete env) s) = None"
  defines "s' \<equiv> snd (run_state (LVMD_Delete env) s)"
  shows "lvmd_file s' = None \<and> run_state (applyLVMDConfig env vg vgs ds) s' = (None, s')"
proof -
  have "updateClass vg dcs = Inr dcs" if "class_of dcs (vg_Name vg) = Some dc" for dcs
    using that assms(3) by (induction dcs) (auto split: if_splits sum.split)
  from this[OF assms(4)] have up: "updateClass vg (cfg_DeviceClasses c) = Inr (cfg_DeviceClasses c)" .
  from Delete_leaves_cache[OF assms(2,5)] have d: "lvmd_file s' = None" "run_state (LVMD_Load env) s' = (Inr (Some c), s')"
    by (simp_all add: s'_def)
  then show ?thesis
    using up assms(1) by (simp add: applyLVMDConfig_def run_catch run_catch_err Let_def updateLVMDConfigAfterReconcile_def)
qed

end
