(* ===== verification/VGM_Invariant.thy ===== *)
theory VGM_Invariant
  imports VGM_Config
begin

text \<open>
  An invariant of the volume group manager's process: the configuration of lvmd that it works with is well
  formed after any sequence of reconciliations, whatever fails in them.
\<close>

section \<open>Well-formed configurations\<close>

text \<open>The classes have distinct names, and exactly the thin ones have a thin pool.\<close>

definition class_wf :: "lvmd_DeviceClass \<Rightarrow> bool" where
  "class_wf dc \<longleftrightarrow> (ldc_Type dc = TypeThin \<longleftrightarrow> ldc_ThinPoolConfig dc \<noteq> None)"

definition config_wf :: "lvmd_Config \<Rightarrow> bool" where
  "config_wf c \<longleftrightarrow> distinct (map ldc_Name (cfg_DeviceClasses c)) \<and> (\<forall>dc \<in> set (cfg_DeviceClasses c). class_wf dc)"

text \<open>What the next load can return is well formed: the cached configuration, or the file that has not been
  read yet.\<close>

definition config_inv :: "(string \<Rightarrow> lvmd_Config res) \<Rightarrow> vgm_state \<Rightarrow> bool" where
  "config_inv u s \<longleftrightarrow> (case lvmd_cache s of
     Some c \<Rightarrow> config_wf c
   | None \<Rightarrow> (\<forall>b c. lvmd_file s = Some b \<longrightarrow> u b = Inr c \<longrightarrow> config_wf c))"

definition keeps :: "(string \<Rightarrow> lvmd_Config res) \<Rightarrow> 'a vgm \<Rightarrow> bool" where
  "keeps u m \<longleftrightarrow> (\<forall>s. config_inv u s \<longrightarrow> config_inv u (snd (run_state m s)))"

named_theorems keeps_intros \<open>programs that keep the invariant\<close>

lemma config_inv_tr [simp]: "config_inv u (s\<lparr>tr := x\<rparr>) = config_inv u s"
  by (simp add: config_inv_def split: option.split)

lemma keeps_basic [keeps_intros]: "keeps u (ret x)" "keeps u (ask q a)" "keeps u (emit a)" "keeps u (gets f)"
  by (simp_all add: keeps_def)

lemma keeps_bind [keeps_intros]: "keeps u m \<Longrightarrow> (\<And>x. keeps u (f x)) \<Longrightarrow> keeps u (State_Monad.bind m f)"
  by (simp add: keeps_def split: prod.split) (metis snd_conv)

lemma keeps_catch [keeps_intros]:
  "keeps u m \<Longrightarrow> (\<And>e. keeps u (h e)) \<Longrightarrow> (\<And>v. keeps u (k v)) \<Longrightarrow> keeps u (catch m h k)"
  unfolding catch_def by (intro keeps_bind) (auto split: sum.split)

lemma keeps_catch_err [keeps_intros]:
  "keeps u m \<Longrightarrow> (\<And>e. keeps u (h e)) \<Longrightarrow> keeps u k \<Longrightarrow> keeps u (catch_err m h k)"
  unfolding catch_err_def by (intro keeps_bind) (auto split: option.split)

lemma keeps_cases [keeps_intros]:
  "keeps u m \<Longrightarrow> keeps u n \<Longrightarrow> keeps u (if b then m else n)"
  "keeps u m \<Longrightarrow> (\<And>v. keeps u (f v)) \<Longrightarrow> keeps u (case x of None \<Rightarrow> m | Some v \<Rightarrow> f v)"
  "(\<And>a b. keeps u (g a b)) \<Longrightarrow> keeps u (case p of (a, b) \<Rightarrow> g a b)"
  "(\<And>e. keeps u (h e)) \<Longrightarrow> (\<And>v. keeps u (k v)) \<Longrightarrow> keeps u (case r of Inl e \<Rightarrow> h e | Inr v \<Rightarrow> k v)"
  "(\<And>v. keeps u (k v)) \<Longrightarrow> (\<And>e. keeps u (h e)) \<Longrightarrow> (\<And>e. keeps u (h' e)) \<Longrightarrow>
     keeps u (case y of Found v \<Rightarrow> k v | NotFound e \<Rightarrow> h e | ApiErr e \<Rightarrow> h' e)"
  by (auto split: option.split prod.split sum.split api.split)

lemma keeps_loops [keeps_intros]:
  "(\<And>x. keeps u (f x)) \<Longrightarrow> keeps u (for_each xs f)" "(\<And>x. keeps u (g x)) \<Longrightarrow> keeps u (for_do xs g)"
  by (induction xs) (auto intro!: keeps_intros)

section \<open>The configurator\<close>

lemma FileConfig_Load_state: "run_state (FileConfig_Load env) s = (r, s') \<Longrightarrow> lvmd_cache s' = lvmd_cache s \<and> lvmd_file s' = lvmd_file s"
  by (auto simp: FileConfig_Load_def split: prod.splits)

lemma FileConfig_Load_wf:
  assumes "config_inv (yaml_Unmarshal env) s" "lvmd_cache s = None" "fst (run_state (FileConfig_Load env) s) = Inr (Some c)"
  shows "config_wf c"
  using assms by (auto simp: FileConfig_Load_def config_inv_def Let_def split: prod.splits option.splits if_splits sum.splits)

lemma LVMD_Load_keeps [keeps_intros]: "yaml_Unmarshal env = u \<Longrightarrow> keeps u (LVMD_Load env)"
  unfolding keeps_def
proof (intro allI impI)
  fix s assume u: "yaml_Unmarshal env = u" and inv: "config_inv u s"
  show "config_inv u (snd (run_state (LVMD_Load env) s))"
  proof (cases "lvmd_cache s")
    case None
    obtain r s' where r: "run_state (FileConfig_Load env) s = (r, s')" by force
    have "config_wf c" if "r = Inr (Some c)" for c
      using FileConfig_Load_wf[of env s c] u inv None r that by simp
    with None r inv FileConfig_Load_state[OF r] show ?thesis
      by (auto simp: LVMD_Load_def run_catch config_inv_def split: sum.split option.split)
  qed (use inv in \<open>simp add: run_LVMD_Load_cached\<close>)
qed

lemma LVMD_Load_wf:
  assumes "config_inv (yaml_Unmarshal env) s" "fst (run_state (LVMD_Load env) s) = Inr (Some c)"
  shows "config_wf c"
  using LVMD_Load_keeps[OF refl, unfolded keeps_def, rule_format, OF assms(1)] LVMD_Load_caches[OF assms(2)]
  by (simp add: config_inv_def)

lemma LVMD_Save_keeps [keeps_intros]: "config_wf c \<Longrightarrow> keeps u (LVMD_Save env c)"
  by (simp add: keeps_def config_inv_def LVMD_Save_cache)

lemma LVMD_Delete_keeps [keeps_intros]: "keeps u (LVMD_Delete env)"
  by (auto simp: keeps_def LVMD_Delete_def FileConfig_Delete_def config_inv_def split: option.splits prod.splits)

text \<open>Loading first: what follows may rely on the loaded configuration.\<close>

lemma keeps_after_load:
  assumes "yaml_Unmarshal env = u" and "\<And>e. keeps u (h e)"
    and "\<And>loaded. (\<And>c. loaded = Some c \<Longrightarrow> config_wf c) \<Longrightarrow> keeps u (k loaded)"
  shows "keeps u (catch (LVMD_Load env) h k)"
  unfolding keeps_def
proof (intro allI impI)
  fix s assume inv: "config_inv u s"
  obtain r s' where r: "run_state (LVMD_Load env) s = (r, s')" by force
  have inv': "config_inv u s'" using LVMD_Load_keeps[OF assms(1)] inv r unfolding keeps_def by (metis snd_conv)
  show "config_inv u (snd (run_state (catch (LVMD_Load env) h k) s))"
  proof (cases r)
    case (Inl e)
    with assms(2)[of e] inv' r show ?thesis by (simp add: run_catch keeps_def)
  next
    case (Inr loaded)
    have "config_wf c" if "loaded = Some c" for c
      using LVMD_Load_wf[of env s c] inv assms(1) r Inr that by simp
    with assms(3)[of loaded] inv' r Inr show ?thesis by (simp add: run_catch keeps_def)
  qed
qed

section \<open>The steps that do not touch the configuration\<close>

lemma keeps_host [keeps_intros]:
  "keeps u (runCommandWithOutput env n ss)" "keeps u (StartCommandWithOutputAsHost env n ss)"
  "keeps u (RunCommandAsHostInto env f n ss)" "keeps u (RunCommandAsHost env n ss)"
  "keeps u (CombinedOutputCommandAsHost env n ss)" "keeps u (Wipe env n)" "keeps u (Remove env n)"
  by (auto simp: Let_def runCommandWithOutput_def StartCommandWithOutputAsHost_def RunCommandAsHostInto_def
      RunCommandAsHost_def CombinedOutputCommandAsHost_def Wipe_def Remove_def
      intro!: keeps_intros)

lemma keeps_lvm [keeps_intros]:
  "keeps u (CreateVG env g b)" "keeps u (ExtendVG env g ss)" "keeps u (AddTagToVG env n)"
  "keeps u (forgetPV env g pv)" "keeps u (DeleteVG env g)" "keeps u (ListPVs env n)" "keeps u (GetVG env n)"
  "keeps u (ListVGs env b)" "keeps u (ReduceVG env n n2)" "keeps u (RemovePV env n)" "keeps u (ListLVs env n)"
  "keeps u (ListLVsByName env n)" "keeps u (LVExists env n n2)" "keeps u (DeleteLV env n n2)"
  "keeps u (CreateLV env n n2 i i2 i3)" "keeps u (ExtendLV env n n2 i)"
  "keeps u (ExtendThinPoolMetadata env n n2 i)" "keeps u (ActivateLV env n n2)"
  by (auto simp: Let_def CreateVG_def ExtendVG_def AddTagToVG_def forgetPV_def DeleteVG_def ListPVs_def
      GetVG_def ListVGs_def ReduceVG_def RemovePV_def ListLVs_def ListLVsByName_def LVExists_def DeleteLV_def
      CreateLV_def ExtendLV_def ExtendThinPoolMetadata_def ActivateLV_def
      intro!: keeps_intros)

lemma keeps_lsblk [keeps_intros]:
  "keeps u (ListBlockDevices env)" "keeps u (IsUsableLoopDev env bd)"
  by (auto simp: Let_def ListBlockDevices_def IsUsableLoopDev_def
      intro!: keeps_intros)

lemma keeps_BlockDeviceInfos_loop [keeps_intros]: "keeps u (BlockDeviceInfos_loop env x bdi)"
  by (induction env x bdi rule: BlockDeviceInfos_loop.induct) (auto simp: Let_def intro!: keeps_intros)

lemma keeps_lsblk2 [keeps_intros]:
  "keeps u (BlockDeviceInfos env bds)"
  by (auto simp: Let_def BlockDeviceInfos_def
      intro!: keeps_intros)

lemma keeps_metrics [keeps_intros]:
  "keeps u (updateRAIDMetrics n n2 rs)" "keeps u (deleteRAIDMetrics n n2)"
  by (auto simp: Let_def updateRAIDMetrics_def deleteRAIDMetrics_def
      intro!: keeps_intros)

lemma keeps_status [keeps_intros]:
  "keeps u (applyRAIDStatus env vg rc vgs st)" "keeps u (CreateOrUpdateNodeStatus env f)"
  "keeps u (setVolumeGroupStatus env vg st)" "keeps u (finishStatus env vg vgs st)"
  "keeps u (setVolumeGroupProgressingStatus env vg vgs ds)" "keeps u (setVolumeGroupReadyStatus env vg vgs ds)"
  "keeps u (setVolumeGroupFailedStatus env vg vgs ds e)" "keeps u (removeVolumeGroupStatus env vg)"
  "keeps u (sendEvents env vg b n n2 n3 n4)" "keeps u (WarningEvent env vg n e)"
  "keeps u (NormalEvent env vg n n2)"
  by (auto simp: Let_def applyRAIDStatus_def CreateOrUpdateNodeStatus_def setVolumeGroupStatus_def
      finishStatus_def setVolumeGroupProgressingStatus_def setVolumeGroupReadyStatus_def
      setVolumeGroupFailedStatus_def removeVolumeGroupStatus_def sendEvents_def WarningEvent_def NormalEvent_def
      intro!: keeps_intros)

lemma keeps_removeMapperReferences [keeps_intros]: "keeps u (removeMapperReferences env bds)"
  by (induction env bds rule: removeMapperReferences.induct) (auto simp: Let_def intro!: keeps_intros)

lemma keeps_wipeDevice [keeps_intros]: "keeps u (wipeDevice env n bds b)"
  by (induction env n bds b rule: wipeDevice.induct) (auto simp: Let_def intro!: keeps_intros)

lemma keeps_wipePaths [keeps_intros]: "keeps u (wipePaths env bds ps b)"
  by (induction env bds ps b rule: wipePaths.induct) (auto simp: Let_def intro!: keeps_intros split: sum.split)

lemma keeps_wipeOptionalPaths [keeps_intros]: "keeps u (wipeOptionalPaths env bds ps b)"
  by (induction env bds ps b rule: wipeOptionalPaths.induct) (auto simp: Let_def intro!: keeps_intros)

lemma keeps_wipe [keeps_intros]:
  "keeps u (wipeDevices env vg bds)"
  by (auto simp: Let_def wipeDevices_def
      intro!: keeps_intros)

lemma keeps_manager [keeps_intros]:
  "keeps u (extendThinPool env n n2 tpc)" "keeps u (vgm_verifyMetadataSize env n n2 n3 i)"
  "keeps u (addThinPoolToVG env n tpc)" "keeps u (validateLV env n tpc lv)"
  "keeps u (validateReport env n tpc lvs)" "keeps u (validateLVs env vg)" "keeps u (removeDevice env vg n)"
  "keeps u (deleteRemovedDevices env g vg)" "keeps u (isRetainPolicy env vg)" "keeps u (checkRetain env vg)"
  "keeps u (deleteThinPool env vg vgs)" "keeps u (failWith env vg vgs ds n e)"
  "keeps u (finishReady env vg vgs ds res)" "keeps u (matchesThisNode env sel)"
  by (auto simp: Let_def extendThinPool_def vgm_verifyMetadataSize_def addThinPoolToVG_def validateLV_def
      validateReport_def validateLVs_def removeDevice_def deleteRemovedDevices_def isRetainPolicy_def
      checkRetain_def deleteThinPool_def failWith_def finishReady_def matchesThisNode_def
      intro!: keeps_intros)

section \<open>Changing the configuration\<close>

lemma newDeviceClass_wf [simp]: "class_wf (newDeviceClass vg)"
  by (simp add: newDeviceClass_def class_wf_def Let_def split: option.split)

lemma updateClass_wf:
  assumes "updateClass vg dcs = Inr dcs'" and "distinct (map ldc_Name dcs)" and "\<forall>dc \<in> set dcs. class_wf dc"
  shows "distinct (map ldc_Name dcs') \<and> ldc_Name ` set dcs' = insert (vg_Name vg) (ldc_Name ` set dcs)
    \<and> (\<forall>dc \<in> set dcs'. class_wf dc)"
  using assms
proof (induction dcs arbitrary: dcs')
  case (Cons dc dcs)
  show ?case
  proof (cases "ldc_Name dc = vg_Name vg")
    case True
    with Cons.prems show ?thesis by (auto simp: class_wf_def split: if_splits option.splits)
  next
    case False
    with Cons.prems(1) obtain ds where ds: "updateClass vg dcs = Inr ds" "dcs' = dc # ds" by (auto split: sum.splits)
    with Cons.IH[OF ds(1)] Cons.prems False show ?thesis by auto
  qed
qed auto

lemma updateClass_config_wf:
  "config_wf c \<Longrightarrow> updateClass vg (cfg_DeviceClasses c) = Inr dcs \<Longrightarrow> config_wf (c\<lparr>cfg_DeviceClasses := dcs\<rparr>)"
  using updateClass_wf[of vg "cfg_DeviceClasses c" dcs] by (simp add: config_wf_def)

lemma remove_first_subset: "set (remove_first p xs) \<subseteq> set xs"
  by (induction xs) auto

lemma remove_first_wf:
  "config_wf c \<Longrightarrow> config_wf (c\<lparr>cfg_DeviceClasses := remove_first p (cfg_DeviceClasses c)\<rparr>)"
proof -
  have "distinct (map f xs) \<Longrightarrow> distinct (map f (remove_first p xs))" for f :: "lvmd_DeviceClass \<Rightarrow> string" and xs
    by (induction xs) (auto dest: subsetD[OF remove_first_subset])
  then show "config_wf c \<Longrightarrow> ?thesis" using remove_first_subset[of p "cfg_DeviceClasses c"] by (auto simp: config_wf_def)
qed

lemma keeps_addDevicesToVG [keeps_intros]: "keeps u (addDevicesToVG env vgs n bds b)"
  by (auto simp: addDevicesToVG_def Let_def intro!: keeps_intros)

lemma keeps_updateLVMDConfig [keeps_intros]:
  "config_wf new \<Longrightarrow> keeps u (updateLVMDConfigAfterReconcile env vg old new missing)"
  by (auto simp: updateLVMDConfigAfterReconcile_def intro!: keeps_intros)

lemma keeps_applyLVMDConfig [keeps_intros]:
  assumes "yaml_Unmarshal env = u"
  shows "keeps u (applyLVMDConfig env vg vgs ds)"
  unfolding applyLVMDConfig_def Let_def
proof (rule keeps_after_load[OF assms])
  fix loaded
  assume wf: "\<And>c. loaded = Some c \<Longrightarrow> config_wf c"
  let ?c = "case loaded of Some c \<Rightarrow> c
    | None \<Rightarrow> \<lparr>cfg_SocketName = [], cfg_DeviceClasses = [], cfg_LvcreateOptionClasses = []\<rparr>"
  have "config_wf ?c" using wf by (cases loaded) (simp_all add: config_wf_def)
  from updateClass_config_wf[OF this] show "keeps u (case updateClass vg (cfg_DeviceClasses ?c) of
      Inl panic \<Rightarrow> ret (Some panic)
    | Inr dcs \<Rightarrow> catch_err (updateLVMDConfigAfterReconcile env vg (DeepCopyConfig ?c)
          (?c\<lparr>cfg_DeviceClasses := dcs\<rparr>) (loaded = None))
        (\<lambda>err. do { _ \<leftarrow> setVolumeGroupFailedStatus env vg vgs ds err; ret (Some err) }) (ret None))"
    by (auto intro!: keeps_intros split: sum.split)
qed (auto intro!: keeps_intros)

lemma keeps_finishDelete [keeps_intros]:
  "(\<And>c. cfg = Some c \<Longrightarrow> config_wf c) \<Longrightarrow> keeps u (finishDelete env vg cfg)"
  by (cases cfg) (auto simp: finishDelete_def intro!: keeps_intros)

lemma keeps_processDelete [keeps_intros]: "yaml_Unmarshal env = u \<Longrightarrow> keeps u (processDelete env vg)"
  unfolding processDelete_def Let_def
  by (rule keeps_after_load) (auto intro!: keeps_intros remove_first_wf)

section \<open>Runs\<close>

lemma keeps_branches [keeps_intros]:
  "yaml_Unmarshal env = u \<Longrightarrow> keeps u (verifyExisting env vg vgs ds)"
  "yaml_Unmarshal env = u \<Longrightarrow> keeps u (finishNew env vg ds)"
  by (auto simp: verifyExisting_def finishNew_def intro!: keeps_intros)

lemma keeps_setupThinPool [keeps_intros]: "keeps u k \<Longrightarrow> keeps u (setupThinPool env vg vgs ds k)"
  by (auto simp: setupThinPool_def Let_def intro!: keeps_intros)

lemma keeps_discovered [keeps_intros]:
  "yaml_Unmarshal env = u \<Longrightarrow> keeps u (reconcile_discovered env vg vgs ds)"
  by (auto simp: reconcile_discovered_def reconcile_existing_def reconcile_new_def Let_def intro!: keeps_intros)

lemma keeps_Reconcile: "yaml_Unmarshal env = u \<Longrightarrow> keeps u (Reconcile env ns n)"
  by (auto simp: Reconcile_def reconcile_def reconcile_scan_def reconcile_filter_def Let_def intro!: keeps_intros)

text \<open>Sequences of reconciliations of one process; the outside world may be another one in every step.\<close>

inductive runs :: "(string \<Rightarrow> lvmd_Config res) \<Rightarrow> vgm_state \<Rightarrow> vgm_state \<Rightarrow> bool" for u where
  runs_refl: "runs u s s"
| runs_step: "runs u s s' \<Longrightarrow> yaml_Unmarshal env = u \<Longrightarrow> runs u s (snd (run_state (Reconcile env ns n) s'))"

lemma runs_config_inv: "runs u s s' \<Longrightarrow> config_inv u s \<Longrightarrow> config_inv u s'"
  by (induction rule: runs.induct) (use keeps_Reconcile in \<open>auto simp: keeps_def\<close>)

text \<open>C14: The configuration of lvmd stays well formed.  Started with a cached or stored configuration in
  which the names of the classes are distinct and exactly the thin classes have a thin pool, the process
  keeps it so over any sequence of reconciliations of any volume groups, whatever the host and the API
  server answer and whichever writes fail: every configuration loaded afterwards is well formed.\<close>

theorem lvmd_config_well_formed:
  assumes "runs (yaml_Unmarshal env) s s'" and "config_inv (yaml_Unmarshal env) s"
    and "fst (run_state (LVMD_Load env) s') = Inr (Some c)"
  shows "config_wf c"
  using LVMD_Load_wf runs_config_inv assms by blast

definition one_class :: lvmd_Config where
  "one_class = sample_config\<lparr>cfg_DeviceClasses := [newDeviceClass plain_vg]\<rparr>"

theorem lvmd_config_well_formed_witness: "config_wf one_class"
proof -
  let ?s = "start_state\<lparr>lvmd_cache := Some one_class\<rparr>"
  let ?s' = "snd (run_state (Reconcile quiet_env ''ns'' ''vg1'') ?s)"
  have r: "runs (yaml_Unmarshal quiet_env) ?s ?s'" by (intro runs_step runs_refl) simp
  have i: "config_inv (yaml_Unmarshal quiet_env) ?s"
    by (simp add: config_inv_def config_wf_def one_class_def)
  have "lvmd_cache ?s' = Some one_class" by (simp add: Reconcile_def quiet_env_def)
  then have l: "fst (run_state (LVMD_Load quiet_env) ?s') = Inr (Some one_class)" by (simp add: run_LVMD_Load_cached)
  show ?thesis by (rule lvmd_config_well_formed[OF r i l])
qed

end
