(* ===== verification/VGM_Logic.thy ===== *)
theory VGM_Logic
  imports VG_Manager
begin

text \<open>
  What each step of the volume group manager may do to the outside world: for every operation a lemma
  of the form \<open>only A m\<close>, from which the properties of whole runs are assembled, and the rule for the
  commands whose report is decoded.
\<close>

section \<open>Reports\<close>

text \<open>The command ran at some point of the history, and its output decoded to this value.\<close>

definition reported :: "vgm_env \<Rightarrow> (string \<Rightarrow> 'a res) \<Rightarrow> string \<Rightarrow> string list \<Rightarrow> 'a \<Rightarrow> history \<Rightarrow> bool" where
  "reported env dec command arg v h \<longleftrightarrow> (\<exists>pre post. h = pre @ HostCmd command arg # post
     \<and> dec (ps_stdout (run_process env pre nsEnterPath (nsEnterFlags @ command # arg))) = Inr v)"

lemma stable_reported [simp, intro]: "stable (reported env dec command arg v)"
  unfolding stable_def reported_def by fastforce

lemma run_RunCommandAsHostInto:
  "\<exists>r. run_state (RunCommandAsHostInto env dec command arg) s = (r, s\<lparr>tr := tr s @ [HostCmd command arg]\<rparr>)
     \<and> (\<forall>v. r = Inr v \<longrightarrow> dec (ps_stdout (run_process env (tr s) nsEnterPath (nsEnterFlags @ command # arg))) = Inr v)"
proof -
  let ?p = "run_process env (tr s) nsEnterPath (nsEnterFlags @ command # arg)"
  show ?thesis
    by (cases "ps_start ?p"; cases "dec (ps_stdout ?p)"; cases "errors_Join [Close ?p, None]")
      (simp_all add: RunCommandAsHostInto_def StartCommandWithOutputAsHost_def WrapCommandWithNSenter_def
        runCommandWithOutput_def run_catch del: errors_Join_None)
qed

lemma guarded_RunCommandAsHostInto:
  assumes "\<And>h. P h \<Longrightarrow> G h (HostCmd command arg)"
    and "\<And>h r. P h \<Longrightarrow> (\<And>v. r = Inr v \<Longrightarrow> reported env dec command arg v (h @ [HostCmd command arg])) \<Longrightarrow>
           Q r (h @ [HostCmd command arg])"
  shows "guarded G P (RunCommandAsHostInto env dec command arg) Q"
  unfolding guarded_def
proof (intro allI impI)
  fix s :: vgm_state
  assume P: "P (tr s)"
  obtain r where r: "run_state (RunCommandAsHostInto env dec command arg) s = (r, s\<lparr>tr := tr s @ [HostCmd command arg]\<rparr>)"
      "\<And>v. r = Inr v \<Longrightarrow> dec (ps_stdout (run_process env (tr s) nsEnterPath (nsEnterFlags @ command # arg))) = Inr v"
    using run_RunCommandAsHostInto[of env dec command arg s] by blast
  have "Q r (tr s @ [HostCmd command arg])"
  proof (rule assms(2)[OF P])
    fix v assume "r = Inr v"
    from r(2)[OF this] show "reported env dec command arg v (tr s @ [HostCmd command arg])"
      unfolding reported_def by blast
  qed
  with assms(1)[OF P] show "\<exists>es. tr (snd (run_state (RunCommandAsHostInto env dec command arg) s)) = tr s @ es
      \<and> (\<forall>pre a post. es = pre @ a # post \<longrightarrow> G (tr s @ pre) a)
      \<and> Q (fst (run_state (RunCommandAsHostInto env dec command arg) s))
          (tr (snd (run_state (RunCommandAsHostInto env dec command arg) s)))"
    by (intro exI[of _ "[HostCmd command arg]"]) (auto simp: r(1) Cons_eq_append_conv)
qed

lemma cmds_mem [intro]: "a \<in> cmds {x} \<Longrightarrow> x \<in> C \<Longrightarrow> a \<in> cmds C"
  by (auto simp: cmds_def)

lemma guarded_report:
  assumes "stable P" and "\<And>h. P h \<Longrightarrow> G h (HostCmd command arg)"
  shows "guarded G P (RunCommandAsHostInto env dec command arg)
    (\<lambda>r h. P h \<and> (\<forall>v. r = Inr v \<longrightarrow> reported env dec command arg v h))"
  using assms by (intro guarded_RunCommandAsHostInto) (auto simp: stable_def)

text \<open>The reports that list volume groups and logical volumes.\<close>

definition vgs_args :: "string list" where
  "vgs_args = [''-o'', ''vg_name,vg_size,vg_tags'', ''--units'', ''b'', ''--nosuffix'', ''--reportformat'', ''json'', DefaultTag]"

definition pvs_args :: "string list" where
  "pvs_args = [''--units'', ''b'', ''--nosuffix'', ''-v'', ''--reportformat'', ''json'', ''-o'', ''+pv_missing'']"

definition lvs_args :: "string \<Rightarrow> string list" where
  "lvs_args vgName = [''-S'', ''vgname='' @ vgName, ''--units'', ''b'', ''--nosuffix'', ''--reportformat'', ''json'',
     ''-o'', JoinStrings DefaultListLVColumns '','']"

definition listed_vgs :: "vgm_env \<Rightarrow> VolumeGroup list \<Rightarrow> history \<Rightarrow> bool" where
  "listed_vgs env vgs h \<longleftrightarrow> (\<exists>report pvs. vgs = joinPVs (concat pvs) report
     \<and> reported env (decode_vgs env) vgsCmd vgs_args report h
     \<and> reported env (decode_pvs env) pvsCmd pvs_args pvs h)"

definition listed_lvs :: "vgm_env \<Rightarrow> string \<Rightarrow> string list \<Rightarrow> history \<Rightarrow> bool" where
  "listed_lvs env vgName lvs h \<longleftrightarrow> (\<exists>report. lvs = map lv_Name (concat report)
     \<and> reported env (decode_lvs env) lvsCmd (lvs_args vgName) report h)"

lemma reported_mono: "reported env dec c arg v h \<Longrightarrow> reported env dec c arg v (h @ es)"
  by (rule stable_reported[unfolded stable_def, rule_format])

lemma stable_listed_vgs [simp, intro]: "stable (listed_vgs env vgs)"
  unfolding stable_def listed_vgs_def by (blast intro: reported_mono)

lemma stable_listed_lvs [simp, intro]: "stable (listed_lvs env n lvs)"
  unfolding stable_def listed_lvs_def by (blast intro: reported_mono)

lemma guarded_ListVGs:
  assumes "stable P" and "\<And>h. P h \<Longrightarrow> G h (HostCmd vgsCmd vgs_args)" "\<And>h. P h \<Longrightarrow> G h (HostCmd pvsCmd pvs_args)"
  shows "guarded G P (ListVGs env True) (\<lambda>r h. P h \<and> (\<forall>vgs. r = Inr vgs \<longrightarrow> listed_vgs env vgs h))"
proof -
  let ?R = "\<lambda>report h. P h \<and> reported env (decode_vgs env) vgsCmd vgs_args report h"
  have st: "stable (?R report)" for report using assms(1) by auto
  have pv: "guarded G (?R report) (ListPVs env []) (\<lambda>r h. ?R report h
      \<and> (\<forall>pvs. r = Inr pvs \<longrightarrow> (\<exists>ps. pvs = concat ps \<and> reported env (decode_pvs env) pvsCmd pvs_args ps h)))" for report
    unfolding ListPVs_def Let_def append_Nil2 append.append_Nil
    apply (rule guarded_catch)
      apply (simp only: not_True_eq_False if_False append_Nil2 simp_thms flip: pvs_args_def)
      apply (rule guarded_report)
       apply (rule st)
      apply (use assms(3) in blast)
     apply (rule guarded_return, simp)
    apply (rule guarded_return, auto)
    done
  show ?thesis
    unfolding ListVGs_def Let_def
    apply (rule guarded_catch)
      apply (simp only: if_True append_Cons append_Nil flip: vgs_args_def)
      apply (rule guarded_report)
       apply (rule assms(1))
      apply (erule assms(2))
     apply (rule guarded_return, simp)
    apply (rule guarded_catch)
      apply (rule guarded_conseq[OF pv])
        prefer 3 apply assumption
       apply auto[1]
      apply assumption
     apply (rule guarded_return, simp)
    apply (rule guarded_return)
    apply (auto simp: listed_vgs_def)
    done
qed

lemma guarded_ListLVsByName:
  assumes "stable P" and "\<And>h. P h \<Longrightarrow> G h (HostCmd lvsCmd (lvs_args n))"
  shows "guarded G P (ListLVsByName env n) (\<lambda>r h. P h \<and> (\<forall>lvs. r = Inr lvs \<longrightarrow> listed_lvs env n lvs h))"
proof -
  have l: "guarded G P (ListLVs env n) (\<lambda>r h. P h
      \<and> (\<forall>v. r = Inr v \<longrightarrow> reported env (decode_lvs env) lvsCmd (lvs_args n) v h))"
    unfolding ListLVs_def by (fold lvs_args_def, rule guarded_report; fact assms)
  show ?thesis
    unfolding ListLVsByName_def
    apply (cases "n = []")
     apply (simp add: guarded_return)
    apply simp
    apply (rule guarded_catch[OF l])
     apply (rule guarded_return, simp)
    apply (rule guarded_return, auto simp: listed_lvs_def)
    done
qed

section \<open>The actions of each step\<close>

lemma only_extendThinPool [only_intros]:
  "cmds {vgsCmd, pvsCmd, lvExtendCmd} \<subseteq> A \<Longrightarrow> only A (extendThinPool env n s c)"
  unfolding extendThinPool_def by (auto intro!: only_intros)

lemma only_vgm_verifyMetadataSize [only_intros]:
  "cmds {lvExtendCmd} \<subseteq> A \<Longrightarrow> only A (vgm_verifyMetadataSize env n l m k)"
  unfolding vgm_verifyMetadataSize_def by (auto intro!: only_intros)

lemma only_addThinPoolToVG [only_intros]:
  "cmds {lvsCmd, vgsCmd, pvsCmd, lvExtendCmd, lvCreateCmd} \<subseteq> A \<Longrightarrow> only A (addThinPoolToVG env n c)"
  unfolding addThinPoolToVG_def by (auto intro!: only_intros)

lemma only_validateLVs [only_intros]:
  "cmds {lvsCmd, lvChangeCmd, lvExtendCmd} \<subseteq> A \<Longrightarrow> only A (validateLVs env vg)"
  unfolding validateLVs_def validateReport_def validateLV_def by (auto intro!: only_intros)

lemma only_removeDevice [only_intros]:
  "HostCmd vgReduceCmd [vg_Name vg, d] \<in> A \<Longrightarrow> HostCmd pvRemoveCmd [d] \<in> A \<Longrightarrow> events \<subseteq> A \<Longrightarrow>
   only A (removeDevice env vg d)"
  unfolding removeDevice_def ReduceVG_def RemovePV_def by (auto intro!: only_intros)

lemma only_isRetainPolicy [only_intros]:
  "GetStorageClass (StorageClassPrefix @ vg_Name vg) \<in> A \<Longrightarrow> only A (isRetainPolicy env vg)"
  unfolding isRetainPolicy_def by (auto simp: Let_def intro!: only_intros)

lemma only_applyLVMDConfig [only_intros]:
  assumes "lvmd_io \<subseteq> A" "status_writes \<subseteq> A" "events \<subseteq> A"
  shows "only A (applyLVMDConfig env vg vgs ds)"
proof -
  have "{a. \<exists>p. a = OpenFile p} \<subseteq> A" "{a. \<exists>p t. a = WriteFile p t} \<subseteq> A"
    using assms(1) by (auto simp: lvmd_io_def)
  with assms(2,3) show ?thesis
    unfolding applyLVMDConfig_def updateLVMDConfigAfterReconcile_def Let_def
    by (auto intro!: only_intros)
qed

lemma only_failWith [only_intros]:
  "events \<subseteq> A \<Longrightarrow> status_writes \<subseteq> A \<Longrightarrow> only A (failWith env vg vgs ds r e)"
  unfolding failWith_def by (auto intro!: only_intros)

lemma only_finishReady [only_intros]:
  "events \<subseteq> A \<Longrightarrow> status_writes \<subseteq> A \<Longrightarrow> only A (finishReady env vg vgs ds r)"
  unfolding finishReady_def by (auto intro!: only_intros)

lemma only_verifyExisting [only_intros]:
  "cmds {lvsCmd, lvChangeCmd, lvExtendCmd} \<subseteq> A \<Longrightarrow> events \<subseteq> A \<Longrightarrow> status_writes \<subseteq> A \<Longrightarrow> lvmd_io \<subseteq> A \<Longrightarrow>
   only A (verifyExisting env vg vgs ds)"
  unfolding verifyExisting_def by (auto intro!: only_intros)

lemma only_finishNew [only_intros]:
  "cmds {vgsCmd, pvsCmd} \<subseteq> A \<Longrightarrow> events \<subseteq> A \<Longrightarrow> status_writes \<subseteq> A \<Longrightarrow> lvmd_io \<subseteq> A \<Longrightarrow>
   only A (finishNew env vg ds)"
  unfolding finishNew_def by (auto intro!: only_intros)

lemma only_setupThinPool [only_intros]:
  "cmds {lvsCmd, vgsCmd, pvsCmd, lvExtendCmd, lvCreateCmd, lvChangeCmd} \<subseteq> A \<Longrightarrow> events \<subseteq> A \<Longrightarrow>
   status_writes \<subseteq> A \<Longrightarrow> only A k \<Longrightarrow> only A (setupThinPool env vg vgs ds k)"
  unfolding setupThinPool_def by (auto intro!: only_intros)

text \<open>The object the end of a deletion writes: without the finalizer of this node, if it was set.\<close>

definition released :: "vgm_env \<Rightarrow> LVMVolumeGroup \<Rightarrow> LVMVolumeGroup set" where
  "released env vg = (case RemoveFinalizer env (vg_Finalizers vg) (getFinalizer env) of (fs, removed) \<Rightarrow>
     if removed then {vg\<lparr>vg_Finalizers := fs\<rparr>} else {})"

lemma only_finishDelete [only_intros]:
  assumes "lvmd_io \<subseteq> A" "status_writes \<subseteq> A" "events \<subseteq> A" "UpdateVolumeGroup ` released env vg \<subseteq> A"
  shows "only A (finishDelete env vg cfg)"
proof -
  have "{a. \<exists>p. a = RemoveFile p} \<subseteq> A" "{a. \<exists>p t. a = WriteFile p t} \<subseteq> A"
    using assms(1) by (auto simp: lvmd_io_def)
  with assms(2-) show ?thesis
    unfolding finishDelete_def released_def
    by (cases "RemoveFinalizer env (vg_Finalizers vg) (getFinalizer env)") (auto intro!: only_intros split: if_splits)
qed

lemma only_checkRetain [only_intros]:
  "GetStorageClass (StorageClassPrefix @ vg_Name vg) \<in> A \<Longrightarrow> cmds {lvsCmd} \<subseteq> A \<Longrightarrow> events \<subseteq> A \<Longrightarrow>
   only A (checkRetain env vg)"
  unfolding checkRetain_def by (auto simp: Let_def intro!: only_intros)

lemma only_deleteThinPool [only_intros]:
  "cmds {lvsCmd, lvChangeCmd, lvRemoveCmd} \<subseteq> A \<Longrightarrow> status_writes \<subseteq> A \<Longrightarrow> only A (deleteThinPool env vg vgs)"
  unfolding deleteThinPool_def by (auto simp: Let_def intro!: only_intros)

section \<open>Removing devices\<close>

text \<open>The physical volumes that no path of the selector accounts for.\<close>

definition unselected :: "vgm_env \<Rightarrow> LVMVolumeGroup \<Rightarrow> VolumeGroup \<Rightarrow> PhysicalVolume list" where
  "unselected env vg g = (case buildDevicePathMappings (resolve env) vg of
     Inl _ \<Rightarrow> [] | Inr m \<Rightarrow> filter (\<lambda>pv. \<not> pvMatched (resolve env) m pv) (lvg_PVs g))"

definition may_reduce :: "vgm_env \<Rightarrow> LVMVolumeGroup \<Rightarrow> VolumeGroup \<Rightarrow> bool" where
  "may_reduce env vg g \<longleftrightarrow> hasExplicitDevicePaths vg \<and> \<not> IsMissingDevices g
     \<and> length (unselected env vg g) < length (lvg_PVs g)
     \<and> (\<forall>rc. vgs_RAIDConfig (vg_Spec vg) = Some rc \<longrightarrow>
          validateRAIDDeviceCount rc (int (length (lvg_PVs g)) - int (length (unselected env vg g))) = None)"

definition reductions :: "vgm_env \<Rightarrow> LVMVolumeGroup \<Rightarrow> VolumeGroup \<Rightarrow> action set" where
  "reductions env vg g = (if may_reduce env vg g
     then (\<Union>pv \<in> set (unselected env vg g). {HostCmd vgReduceCmd [vg_Name vg, PvName pv], HostCmd pvRemoveCmd [PvName pv]})
     else {})"

lemma only_deleteRemovedDevices [only_intros]:
  assumes "reductions env vg g \<subseteq> A" "events \<subseteq> A"
  shows "only A (deleteRemovedDevices env g vg)"
proof (cases "buildDevicePathMappings (resolve env) vg")
  case (Inl e)
  then show ?thesis unfolding deleteRemovedDevices_def by (auto intro!: only_intros)
next
  case (Inr m)
  define rm where "rm = map PvName (unselected env vg g)"
  have rm: "map PvName (filter (\<lambda>pv. \<not> pvMatched (resolve env) m pv) (lvg_PVs g)) = rm"
    by (simp add: rm_def unselected_def Inr)
  have len: "length rm = length (unselected env vg g)" by (simp add: rm_def)
  have act: "only A (for_each rm (removeDevice env vg))" if "may_reduce env vg g"
  proof (rule only_for_each)
    fix d assume "d \<in> set rm"
    with that have "HostCmd vgReduceCmd [vg_Name vg, d] \<in> reductions env vg g"
        "HostCmd pvRemoveCmd [d] \<in> reductions env vg g"
      by (auto simp: reductions_def rm_def)
    with assms show "only A (removeDevice env vg d)" by (intro only_removeDevice) auto
  qed
  show ?thesis
    unfolding deleteRemovedDevices_def Inr sum.case Let_def rm
    using assms(2) act
    by (auto intro!: only_intros act simp: may_reduce_def len split: option.split)
qed

end
