(* ===== verification/VGM_Thin.thy ===== *)
theory VGM_Thin
  imports VGM_Logic
begin

text \<open>
  What the volume group manager knows about a thin pool after it validated or set it up
  (\<open>validateLVs\<close>, \<open>addThinPoolToVG\<close>, \<open>extendThinPool\<close> of \<open>vgmanager/controller.go\<close>).
\<close>

section \<open>Validation\<close>

definition pool_lv_valid :: "vgm_env \<Rightarrow> string \<Rightarrow> ThinPoolConfig \<Rightarrow> LogicalVolume \<Rightarrow> history \<Rightarrow> bool" where
  "pool_lv_valid env vgName config lv h \<longleftrightarrow> (\<exists>attr m. ParsedLvAttr (LvAttr lv) = Inr attr
     \<and> VolumeType attr = VolumeTypeThinPool
     \<and> (State attr = StateActive \<or> ran_ok env lvChangeCmd [''-ay'', vgName @ ''/'' @ lv_Name lv] h)
     \<and> ParseFloat (MetadataPercent lv) 32 = Inr m \<and> \<not> fgreater m metadataWarningPercentage
     \<and> (tpc_ChunkSizeCalculationPolicy config = ChunkSizeCalculationPolicyHost
        \<or> ParseInt (lv_ChunkSize lv) = Inr (convertChunkSize config))
     \<and> (convertMetadataSize config = -1
        \<or> (\<exists>cur. ParseInt (lv_MetadataSize lv) = Inr cur \<and> (convertMetadataSize config \<le> cur
            \<or> ran_ok env lvExtendCmd [''--poolmetadatasize'', Itoa (convertMetadataSize config) @ ''b'', vgName @ ''/'' @ lv_Name lv] h))))"

lemma ran_ok_mono: "ran_ok env c arg h \<Longrightarrow> ran_ok env c arg (h @ es)"
  using stable_ran_ok[of env c arg] by (simp add: stable_def)

lemma stable_pool_lv_valid [simp, intro]: "stable (pool_lv_valid env n c lv)"
  unfolding pool_lv_valid_def by (rule stable_all_const) (blast intro: ran_ok_mono)

lemma ActivateLV_guarded:
  assumes "\<And>h. G h (HostCmd lvChangeCmd [''-ay'', vgName @ ''/'' @ lvName])"
  shows "guarded G (\<lambda>_. True) (ActivateLV env lvName vgName)
    (\<lambda>r h. r = None \<longrightarrow> ran_ok env lvChangeCmd [''-ay'', vgName @ ''/'' @ lvName] h)"
  unfolding ActivateLV_def using assms
  by (auto intro!: guarded_return guarded_if guarded_let guarded_catch_err[OF guarded_RunCommandAsHost[where P = "\<lambda>_. True"
      and Q = "\<lambda>r h. r = None \<longrightarrow> ran_ok env lvChangeCmd [''-ay'', vgName @ ''/'' @ lvName] h"]])

lemma ExtendThinPoolMetadata_guarded:
  assumes "\<And>h. G h (HostCmd lvExtendCmd [''--poolmetadatasize'', Itoa n @ ''b'', vgName @ ''/'' @ lvName])"
  shows "guarded G (\<lambda>_. True) (ExtendThinPoolMetadata env lvName vgName n)
    (\<lambda>r h. r = None \<longrightarrow> ran_ok env lvExtendCmd [''--poolmetadatasize'', Itoa n @ ''b'', vgName @ ''/'' @ lvName] h)"
  unfolding ExtendThinPoolMetadata_def Let_def using assms
  by (auto intro!: guarded_return guarded_if guarded_catch_err[OF guarded_RunCommandAsHost[where P = "\<lambda>_. True"
      and Q = "\<lambda>r h. r = None \<longrightarrow> ran_ok env lvExtendCmd [''--poolmetadatasize'', Itoa n @ ''b'', vgName @ ''/'' @ lvName] h"]])

lemma verifyMetadataSize_guarded:
  assumes "\<And>h a. a \<in> cmds {lvExtendCmd} \<Longrightarrow> G h a"
  shows "guarded G (\<lambda>_. True) (vgm_verifyMetadataSize env vgName lvName msize n)
    (\<lambda>r h. r = None \<longrightarrow> n = -1 \<or> (\<exists>cur. ParseInt msize = Inr cur \<and> (n \<le> cur
       \<or> ran_ok env lvExtendCmd [''--poolmetadatasize'', Itoa n @ ''b'', vgName @ ''/'' @ lvName] h)))"
  unfolding vgm_verifyMetadataSize_def
  apply (rule guarded_if)
   apply (rule guarded_return, simp)
  apply (cases "ParseInt msize")
   apply (simp add: guarded_return)
  apply (simp only: sum.case)
  apply (rule guarded_if)
   apply (rule guarded_return, simp)
  apply (rule guarded_catch_err[OF ExtendThinPoolMetadata_guarded])
    apply (rule assms, simp)
   apply (rule guarded_return, simp)
  apply (rule guarded_return, simp)
  done

lemma verifyChunkSize_None:
  "verifyChunkSizeForPolicy config lv = None \<longleftrightarrow>
     tpc_ChunkSizeCalculationPolicy config = ChunkSizeCalculationPolicyHost
     \<or> ParseInt (lv_ChunkSize lv) = Inr (convertChunkSize config)"
  by (auto simp: verifyChunkSizeForPolicy_def split: sum.split)

lemma validateLV_guarded:
  assumes "\<And>h a. a \<in> cmds {lvExtendCmd, lvChangeCmd} \<Longrightarrow> G h a"
  shows "guarded G (\<lambda>_. True) (validateLV env vgName config lv)
    (\<lambda>r h. True \<and> (r = None \<longrightarrow> pool_lv_valid env vgName config lv h))"
proof (cases "ParsedLvAttr (LvAttr lv)")
  case (Inl e)
  then show ?thesis by (simp add: validateLV_def guarded_return)
next
  case (Inr attr)
  let ?act = "\<lambda>h. State attr = StateActive \<or> ran_ok env lvChangeCmd [''-ay'', vgName @ ''/'' @ lv_Name lv] h"
  have st: "stable ?act" by (intro stable_disj) simp_all
  have act: "guarded G (\<lambda>_. True) (if State attr \<noteq> StateActive then ActivateLV env (lv_Name lv) vgName else ret None)
      (\<lambda>r h. r = None \<longrightarrow> ?act h)"
    by (rule guarded_if, rule guarded_conseq[OF ActivateLV_guarded]) (auto intro!: assms guarded_return)
  have meta: "guarded G ?act (vgm_verifyMetadataSize env vgName (lv_Name lv) (lv_MetadataSize lv) (convertMetadataSize config))
      (\<lambda>r h. (r = None \<longrightarrow> convertMetadataSize config = -1
          \<or> (\<exists>cur. ParseInt (lv_MetadataSize lv) = Inr cur \<and> (convertMetadataSize config \<le> cur
             \<or> ran_ok env lvExtendCmd [''--poolmetadatasize'', Itoa (convertMetadataSize config) @ ''b'', vgName @ ''/'' @ lv_Name lv] h)))
        \<and> ?act h)"
    by (rule guarded_weaken[OF guarded_frame[OF verifyMetadataSize_guarded st]]) (auto intro!: assms)
  show ?thesis
    unfolding validateLV_def Inr sum.case
    apply (rule guarded_if)
     apply (rule guarded_return, simp)
    apply (rule guarded_catch_err[OF act])
     apply (rule guarded_return, simp)
    apply (cases "ParseFloat (MetadataPercent lv) 32")
     apply (simp add: guarded_return)
    apply (simp only: sum.case)
    apply (rule guarded_if)
     apply (rule guarded_return, simp)
    apply (rule guarded_option)
     apply (rule guarded_catch_err[OF guarded_weaken[OF meta]])
       apply simp
      apply (rule guarded_return, simp)
     apply (rule guarded_return)
     apply (simp add: pool_lv_valid_def Inr verifyChunkSize_None)
    apply (rule guarded_return, simp)
    done
qed

definition pool_report_valid :: "vgm_env \<Rightarrow> string \<Rightarrow> ThinPoolConfig \<Rightarrow> LogicalVolume list \<Rightarrow> history \<Rightarrow> bool" where
  "pool_report_valid env vgName config lvs h \<longleftrightarrow> tpc_Name config \<in> lv_Name ` set lvs
     \<and> (\<forall>lv \<in> set lvs. lv_Name lv = tpc_Name config \<longrightarrow> pool_lv_valid env vgName config lv h)"

lemma pool_lv_valid_mono: "pool_lv_valid env n c lv h \<Longrightarrow> pool_lv_valid env n c lv (h @ es)"
  using stable_pool_lv_valid unfolding stable_def by blast

lemma stable_pool_report_valid [simp, intro]: "stable (pool_report_valid env n c lvs)"
  unfolding pool_report_valid_def by (rule stable_all_const) (blast intro: pool_lv_valid_mono)

lemma validateReport_guarded:
  assumes "\<And>h a. a \<in> cmds {lvExtendCmd, lvChangeCmd} \<Longrightarrow> G h a"
  shows "guarded G (\<lambda>_. True) (validateReport env vgName config lvs)
    (\<lambda>r h. True \<and> (r = None \<longrightarrow> pool_report_valid env vgName config lvs h))"
proof -
  have each: "guarded G (\<lambda>_. True) (for_each (filter (\<lambda>lv. lv_Name lv = tpc_Name config) lvs) (validateLV env vgName config))
      (\<lambda>r h. True \<and> (r = None \<longrightarrow> (\<forall>lv \<in> set (filter (\<lambda>lv. lv_Name lv = tpc_Name config) lvs). pool_lv_valid env vgName config lv h)))"
    by (rule guarded_for_each) (auto intro!: validateLV_guarded[simplified] assms)
  have names: "list_ex (\<lambda>lv. lv_Name lv = tpc_Name config) lvs \<longleftrightarrow> tpc_Name config \<in> lv_Name ` set lvs"
    by (induction lvs) auto
  show ?thesis
    unfolding validateReport_def
    apply (rule guarded_if)
     apply (rule guarded_return, simp)
    apply (rule guarded_catch_err[OF each])
     apply (rule guarded_return, simp)
    apply (rule guarded_if)
     apply (rule guarded_return, simp add: pool_report_valid_def names)
    apply (rule guarded_return, simp)
    done
qed

definition pool_valid :: "vgm_env \<Rightarrow> LVMVolumeGroup \<Rightarrow> go_error option \<Rightarrow> history \<Rightarrow> bool" where
  "pool_valid env vg r h \<longleftrightarrow> (\<forall>config. vgs_ThinPoolConfig (vg_Spec vg) = Some config \<longrightarrow> r = None \<longrightarrow>
     (\<exists>resp. reported env (decode_lvs env) lvsCmd (lvs_args (vg_Name vg)) resp h \<and> resp \<noteq> []
        \<and> (\<forall>lvs \<in> set resp. pool_report_valid env (vg_Name vg) config lvs h)))"

text \<open>C27: Validation accepts a thin pool only in good state.  In every run of \<open>validateLVs\<close> for a
  volume group with a thin pool that ends without an error, the logical volumes were reported, every
  report has the pool, and every volume of its name is of type thin pool, was active or has just been
  activated, has at most 95 percent of its metadata used, has the chunk size of the static policy, and
  has at least the wanted metadata size or was extended to it.  The only commands are \<open>lvs\<close>,
  \<open>lvchange\<close> and \<open>lvextend\<close>.\<close>

theorem validateLVs_sound:
  "guarded (\<lambda>_ a. a \<in> cmds {lvsCmd, lvChangeCmd, lvExtendCmd}) (\<lambda>_. True) (validateLVs env vg) (pool_valid env vg)"
proof (cases "vgs_ThinPoolConfig (vg_Spec vg)")
  case None
  then show ?thesis by (simp add: validateLVs_def guarded_return pool_valid_def)
next
  case (Some config)
  let ?G = "\<lambda>_ a. a \<in> cmds {lvsCmd, lvChangeCmd, lvExtendCmd}"
  let ?R = "\<lambda>resp h. reported env (decode_lvs env) lvsCmd (lvs_args (vg_Name vg)) resp h"
  have each: "guarded ?G (\<lambda>_. True) (for_each resp (validateReport env (vg_Name vg) config))
      (\<lambda>r h. True \<and> (r = None \<longrightarrow> (\<forall>lvs \<in> set resp. pool_report_valid env (vg_Name vg) config lvs h)))" for resp
    by (rule guarded_for_each) (auto intro!: validateReport_guarded[simplified])
  have all: "guarded ?G (?R resp) (for_each resp (validateReport env (vg_Name vg) config))
      (\<lambda>r h. (True \<and> (r = None \<longrightarrow> (\<forall>lvs \<in> set resp. pool_report_valid env (vg_Name vg) config lvs h))) \<and> ?R resp h)" for resp
    by (rule guarded_weaken[OF guarded_frame[OF each stable_reported]]) simp
  have list: "guarded ?G (\<lambda>_. True) (ListLVs env (vg_Name vg)) (\<lambda>r h. True \<and> (\<forall>v. r = Inr v \<longrightarrow> ?R v h))"
    unfolding ListLVs_def by (fold lvs_args_def, rule guarded_report) simp_all
  show ?thesis
    unfolding validateLVs_def Some option.case
    apply (rule guarded_catch[OF list])
     apply (rule guarded_return, simp add: pool_valid_def)
    subgoal for resp
      apply (rule guarded_if)
       apply (rule guarded_return, simp add: pool_valid_def)
      apply (rule guarded_conseq[OF all[of resp]])
        apply (auto simp: pool_valid_def Some)
      done
    done
qed

section \<open>Creating and extending the pool\<close>

definition pool_setup_ok :: "vgm_env \<Rightarrow> string \<Rightarrow> ThinPoolConfig \<Rightarrow> history \<Rightarrow> action \<Rightarrow> bool" where
  "pool_setup_ok env vgName config h a \<longleftrightarrow>
     (a \<in> cmds {lvsCmd, vgsCmd, pvsCmd}
      \<or> (\<exists>resp. reported env (decode_lvs env) lvsCmd (lvs_args vgName) resp h
          \<and> (case find (\<lambda>lv. lv_Name lv = tpc_Name config) (concat resp) of
               None \<Rightarrow> a \<in> cmds {lvCreateCmd}
             | Some lv \<Rightarrow> (\<exists>attr sz vgsz. ParsedLvAttr (LvAttr lv) = Inr attr \<and> VolumeType attr = VolumeTypeThinPool
                 \<and> ParseFloat (LvSize lv) 64 = Inr sz \<and> pool_percent env sz vgsz < tpc_SizePercent config
                 \<and> a = HostCmd lvExtendCmd [''-l'', Itoa (tpc_SizePercent config) @ ''%Vg'', vgName @ ''/'' @ tpc_Name config]))))"

lemma setup_create:
  "reported env (decode_lvs env) lvsCmd (lvs_args vgName) resp h \<Longrightarrow>
   find (\<lambda>lv. lv_Name lv = tpc_Name config) (concat resp) = None \<Longrightarrow> a \<in> cmds {lvCreateCmd} \<Longrightarrow>
   pool_setup_ok env vgName config h a"
  unfolding pool_setup_ok_def by (intro disjI2 exI[of _ resp]) simp

lemma setup_extend:
  "reported env (decode_lvs env) lvsCmd (lvs_args vgName) resp h \<Longrightarrow>
   find (\<lambda>lv. lv_Name lv = tpc_Name config) (concat resp) = Some lv \<Longrightarrow> ParsedLvAttr (LvAttr lv) = Inr attr \<Longrightarrow>
   VolumeType attr = VolumeTypeThinPool \<Longrightarrow> ParseFloat (LvSize lv) 64 = Inr sz \<Longrightarrow>
   pool_percent env sz vgsz < tpc_SizePercent config \<Longrightarrow>
   pool_setup_ok env vgName config h
     (HostCmd lvExtendCmd [''-l'', Itoa (tpc_SizePercent config) @ ''%Vg'', vgName @ ''/'' @ tpc_Name config])"
  unfolding pool_setup_ok_def by (intro disjI2 exI[of _ resp]) auto

lemma only_ExtendLV_exact:
  "HostCmd lvExtendCmd [''-l'', Itoa p @ ''%Vg'', n @ ''/'' @ l] \<in> A \<Longrightarrow> only A (ExtendLV env l n p)"
  unfolding ExtendLV_def Let_def
  by (intro only_if only_return only_catch_err only_RunCommandAsHost)

lemma only_extendThinPool_exact:
  assumes "cmds {vgsCmd, pvsCmd} \<subseteq> A"
    and "\<And>sz vgsz. ParseFloat lvSize 64 = Inr sz \<Longrightarrow> pool_percent env sz vgsz < tpc_SizePercent config \<Longrightarrow>
      HostCmd lvExtendCmd [''-l'', Itoa (tpc_SizePercent config) @ ''%Vg'', n @ ''/'' @ tpc_Name config] \<in> A"
  shows "only A (extendThinPool env n lvSize config)"
  unfolding extendThinPool_def
  by (intro only_if only_return only_sum only_catch only_catch_err only_GetVG only_ExtendLV_exact assms)
    (simp_all add: not_le)


text \<open>The percentage is the truncation of a floating-point quotient, so that a pool that already has its
  29 percent counts as having 28 and is extended again.\<close>

lemma pool_percent_truncates: "pool_percent quiet_env (Fin 29) (Fin 100) = 28"
  by code_simp

end
