(* ===== verification/VGM_Delete.thy ===== *)
theory VGM_Delete
  imports VGM_Logic
begin

text \<open>
  What the deletion of a volume group (\<open>processDelete\<close> of \<open>vgmanager/controller.go\<close>) guarantees:
  user data is not touched under the Retain policy, the commands come in order, and the finalizer is
  the last thing to go.
\<close>

section \<open>The retain policy\<close>

text \<open>What the answer to the query for the storage class says about retaining volumes; an error counts
  as Retain.\<close>

fun must_retain :: "ReclaimPolicy option api \<Rightarrow> bool" where
  "must_retain (Found policy) \<longleftrightarrow> policy = Some PersistentVolumeReclaimRetain"
| "must_retain (NotFound _) \<longleftrightarrow> False"
| "must_retain (ApiErr _) \<longleftrightarrow> True"

text \<open>The history shows that nothing has to be retained: the storage class was looked up and does not
  retain, or the volumes of the volume group were listed and none but the thin pool was among them.\<close>

definition nothing_retained :: "vgm_env \<Rightarrow> LVMVolumeGroup \<Rightarrow> history \<Rightarrow> bool" where
  "nothing_retained env vg h \<longleftrightarrow>
     (\<exists>pre post. h = pre @ GetStorageClass (StorageClassPrefix @ vg_Name vg) # post
        \<and> \<not> must_retain (api_StorageClass env pre (StorageClassPrefix @ vg_Name vg)))
     \<or> (\<exists>lvs. listed_lvs env (vg_Name vg) lvs h \<and> userLVs vg lvs = [])"

lemma stable_nothing_retained [simp, intro]: "stable (nothing_retained env vg)"
proof -
  have "stable (\<lambda>h. \<exists>pre post. h = pre @ GetStorageClass n # post \<and> \<not> must_retain (api_StorageClass env pre n))" for n
    unfolding stable_def by fastforce
  moreover have "stable (\<lambda>h. \<exists>lvs. listed_lvs env (vg_Name vg) lvs h \<and> userLVs vg lvs = [])"
    by (intro stable_ex stable_conj) simp_all
  ultimately show ?thesis
    unfolding nothing_retained_def by (rule stable_disj)
qed

text \<open>The commands of a deletion that destroy something on the host.\<close>

definition destructive :: "action set" where
  "destructive = cmds {vgChangeCmd, vgRemoveCmd, pvRemoveCmd, lvmDevicesCmd, lvChangeCmd, lvRemoveCmd}"

definition retain_respected :: "vgm_env \<Rightarrow> LVMVolumeGroup \<Rightarrow> history \<Rightarrow> action \<Rightarrow> bool" where
  "retain_respected env vg h a \<longleftrightarrow> (a \<in> destructive \<longrightarrow> nothing_retained env vg h)"

lemma retain_other:
  assumes "a \<in> cmds {vgsCmd, pvsCmd, lvsCmd} \<union> events \<union> status_writes \<union> lvmd_io \<union> {a. \<exists>n. a = GetStorageClass n}
      \<union> {a. \<exists>vg. a = UpdateVolumeGroup vg}"
  shows "retain_respected env vg h a"
  using assms
  by (auto simp: retain_respected_def destructive_def cmds_def cmd_defs events_def status_writes_def lvmd_io_def gauges_def)

lemma isRetainPolicy_guarded:
  "guarded (retain_respected env vg) (\<lambda>_. True) (isRetainPolicy env vg)
     (\<lambda>r h. \<not> fst r \<longrightarrow> nothing_retained env vg h)"
  unfolding isRetainPolicy_def Let_def
  apply (rule guarded_bind[where R = "\<lambda>r h. \<not> must_retain r \<longrightarrow> nothing_retained env vg h"])
   apply (rule guarded_ask)
    apply (rule retain_other, simp)
   apply (auto simp: nothing_retained_def)[1]
  apply (rule guarded_return)
  apply (auto split: api.splits)
  done

lemma checkRetain_guarded:
  "guarded (retain_respected env vg) (\<lambda>_. True) (checkRetain env vg)
     (\<lambda>r h. r = None \<longrightarrow> nothing_retained env vg h)"
proof -
  have list: "guarded (retain_respected env vg) (\<lambda>_. True) (ListLVsByName env (vg_Name vg))
      (\<lambda>r h. True \<and> (\<forall>lvs. r = Inr lvs \<longrightarrow> listed_lvs env (vg_Name vg) lvs h))"
    by (rule guarded_ListLVsByName) (auto intro!: retain_other)
  have warn: "guarded (retain_respected env vg) P (do { _ \<leftarrow> WarningEvent env vg r e; ret (Some e') })
      (\<lambda>r h. r = None \<longrightarrow> nothing_retained env vg h)" for P r e e'
    apply (rule guarded_bind)
     apply (rule guarded_any[where A = events])
      apply (auto intro!: only_intros retain_other)[2]
    apply (rule guarded_return, simp)
    done
  show ?thesis
    unfolding checkRetain_def
    apply (rule guarded_bind[OF isRetainPolicy_guarded])
    apply (simp only: split_beta)
    apply (rule guarded_if)
     apply (rule guarded_catch[OF guarded_conseq[OF list, where Q = "\<lambda>r h. \<forall>lvs. r = Inr lvs \<longrightarrow> listed_lvs env (vg_Name vg) lvs h"]])
         apply simp_all[3]
      apply (rule guarded_return, simp)
     apply (rule guarded_if)
      apply (simp only: Let_def, rule warn)
     apply (rule guarded_return)
     apply (auto simp: nothing_retained_def)[1]
    apply (rule guarded_return, simp)
    done
qed

text \<open>The parts of a deletion that destroy nothing.\<close>

lemma finishDelete_harmless:
  "only (events \<union> status_writes \<union> lvmd_io \<union> {a. \<exists>vg. a = UpdateVolumeGroup vg}) (finishDelete env vg cfg)"
  by (rule only_finishDelete) auto

lemma LVMD_Load_harmless: "only lvmd_io (LVMD_Load env)"
  by (rule only_LVMD_Load) (auto simp: lvmd_io_def)

lemma processDelete_retain_guarded:
  "guarded (retain_respected env vg) (\<lambda>_. True) (processDelete env vg) (\<lambda>_ _. True)"
proof -
  let ?G = "retain_respected env vg" and ?N = "nothing_retained env vg"
  have allowed: "?G h a" if "?N h" for h a
    using that by (simp add: retain_respected_def)
  have finish: "guarded ?G P (finishDelete env vg cfg) (\<lambda>_ _. True)" for P cfg
    by (rule guarded_any[OF finishDelete_harmless]) (auto intro!: retain_other)
  have pool: "guarded ?G ?N (deleteThinPool env vg vgs) (\<lambda>_ h. ?N h)" for vgs
    by (rule guarded_only[where A = UNIV]) (auto intro!: only_intros allowed)
  have del: "guarded ?G ?N (DeleteVG env g) (\<lambda>_ h. ?N h)" for g
    by (rule guarded_only[where A = UNIV]) (auto intro!: only_intros allowed)
  have status: "guarded ?G P (setVolumeGroupFailedStatus env vg vgs ds e) (\<lambda>_ _. True)" for P vgs ds e
    by (rule guarded_any[where A = status_writes]) (auto intro!: only_intros retain_other)
  have list: "guarded ?G (\<lambda>_. True) (ListVGs env True) (\<lambda>_ _. True)"
    by (rule guarded_conseq[OF guarded_ListVGs]) (auto intro!: retain_other)
  show "guarded ?G (\<lambda>_. True) (processDelete env vg) (\<lambda>_ _. True)"
    unfolding processDelete_def Let_def
    apply (rule guarded_catch[OF guarded_any[OF LVMD_Load_harmless]])
      apply (rule retain_other, simp)
     apply (rule guarded_return, simp)
    apply (rule guarded_catch[OF list])
     apply (rule guarded_return, simp)
    apply (rule guarded_option)
     apply (rule finish)
    apply (rule guarded_catch_err[OF checkRetain_guarded])
     apply (rule guarded_return, simp)
    apply (rule guarded_catch_err[OF guarded_weaken[OF pool]])
      apply simp
     apply (rule guarded_return, simp)
    apply (rule guarded_catch_err[OF del])
     apply (rule guarded_bind[OF status])
     apply (rule guarded_return, simp)
    apply (rule finish)
    done
qed

text \<open>C1: The deletion of a volume group respects the Retain policy.  In every run of
  \<open>processDelete\<close>, each command that deactivates or removes a logical volume, the volume group or a
  physical volume comes after a query that showed that nothing has to be retained: the storage class of
  the volume group was found without the policy Retain or was not found, or the logical volumes of the
  volume group were listed and there was none besides the thin pool.  A failed query for the storage
  class counts as Retain.\<close>

theorem processDelete_respects_retain: "always (retain_respected env vg) (processDelete env vg)"
  by (rule alwaysI[OF processDelete_retain_guarded])

section \<open>Order and completion\<close>

text \<open>The history shows that the volume group is no longer on the node: it was not among the listed
  ones, or its removal succeeded.\<close>

definition gone :: "vgm_env \<Rightarrow> LVMVolumeGroup \<Rightarrow> history \<Rightarrow> bool" where
  "gone env vg h \<longleftrightarrow> (\<exists>vgs. listed_vgs env vgs h \<and> vg_Name vg \<notin> lvg_Name ` set vgs)
     \<or> ran_ok env vgRemoveCmd [vg_Name vg] h"

lemma stable_gone [simp, intro]: "stable (gone env vg)"
  unfolding gone_def by (intro stable_disj stable_ex stable_conj) simp_all

text \<open>The entry of the volume group was taken out of the node's status.\<close>

definition status_dropped :: "LVMVolumeGroup \<Rightarrow> history \<Rightarrow> bool" where
  "status_dropped vg h \<longleftrightarrow> (\<exists>obj. WriteNodeStatus (dropStatusIn vg obj) \<in> set h)"

lemma stable_status_dropped [simp, intro]: "stable (status_dropped vg)"
  unfolding status_dropped_def by (intro stable_ex) simp

definition without_finalizer :: "vgm_env \<Rightarrow> LVMVolumeGroup \<Rightarrow> LVMVolumeGroup" where
  "without_finalizer env vg = vg\<lparr>vg_Finalizers := fst (RemoveFinalizer env (vg_Finalizers vg) (getFinalizer env))\<rparr>"

text \<open>The volume group, its physical volumes and their entries in the devices file go in that order,
  and the object is released last.\<close>

definition deletion_ordered :: "vgm_env \<Rightarrow> LVMVolumeGroup \<Rightarrow> history \<Rightarrow> action \<Rightarrow> bool" where
  "deletion_ordered env vg h a \<longleftrightarrow>
     (a \<in> cmds {vgRemoveCmd, pvRemoveCmd, lvmDevicesCmd} \<longrightarrow>
        (\<exists>vgs g. listed_vgs env vgs h \<and> g \<in> set vgs \<and> lvg_Name g = vg_Name vg \<and> deletion_order env g h a))
     \<and> (\<forall>vg'. a = UpdateVolumeGroup vg' \<longrightarrow>
          vg' = without_finalizer env vg \<and> gone env vg h \<and> status_dropped vg h)"

text \<open>A deletion that reports no error is complete.\<close>

definition deletion_complete :: "vgm_env \<Rightarrow> LVMVolumeGroup \<Rightarrow> go_error option \<Rightarrow> history \<Rightarrow> bool" where
  "deletion_complete env vg r h \<longleftrightarrow> (r = None \<longrightarrow> gone env vg h \<and> status_dropped vg h
     \<and> (snd (RemoveFinalizer env (vg_Finalizers vg) (getFinalizer env)) \<longrightarrow>
          UpdateVolumeGroup (without_finalizer env vg) \<in> set h))"

lemma ordered_other:
  assumes "a \<in> cmds {vgsCmd, pvsCmd, lvsCmd, lvChangeCmd, lvRemoveCmd} \<union> events \<union> status_writes \<union> lvmd_io
      \<union> {a. \<exists>n. a = GetStorageClass n}"
  shows "deletion_ordered env vg h a"
  using assms
  by (auto simp: deletion_ordered_def cmds_def cmd_defs events_def status_writes_def lvmd_io_def gauges_def)

lemma removeVolumeGroupStatus_guarded:
  "guarded (deletion_ordered env vg) (gone env vg) (removeVolumeGroupStatus env vg)
     (\<lambda>r h. gone env vg h \<and> (r = None \<longrightarrow> status_dropped vg h))"
proof -
  let ?G = "deletion_ordered env vg"
  have metrics: "guarded ?G (gone env vg)
      (if vgs_RAIDConfig (vg_Spec vg) \<noteq> None then deleteRAIDMetrics (NodeName env) (vg_Name vg) else ret ())
      (\<lambda>_ h. gone env vg h)"
    by (rule guarded_only[where A = gauges])
      (auto intro!: only_intros ordered_other simp: status_writes_def)
  have cou: "guarded ?G (gone env vg) (CreateOrUpdateNodeStatus env (dropStatusIn vg))
      (\<lambda>r h. gone env vg h \<and> (snd r = None \<longrightarrow> status_dropped vg h))"
    unfolding CreateOrUpdateNodeStatus_def
    apply (rule guarded_catch[where R = "\<lambda>_ h. gone env vg h"])
      apply (rule guarded_ask)
       apply (rule ordered_other, simp add: status_writes_def)
      apply (use stable_gone in \<open>auto simp: stable_def\<close>)[1]
     apply (rule guarded_return, simp)
    apply (rule guarded_ask)
     apply (rule ordered_other, simp add: status_writes_def)
    apply (use stable_gone in \<open>auto simp: stable_def status_dropped_def\<close>)
    done
  show ?thesis
    unfolding removeVolumeGroupStatus_def
    apply (rule guarded_bind[OF metrics])
    apply (rule guarded_bind[OF cou])
    apply (rule guarded_prod)
    apply (rule guarded_return)
    apply auto
    done
qed

lemma finishDelete_guarded:
  "guarded (deletion_ordered env vg) (gone env vg) (finishDelete env vg cfg) (deletion_complete env vg)"
proof -
  let ?G = "deletion_ordered env vg"
  let ?m = "case cfg of
         None \<Rightarrow> ret None
       | Some cfg \<Rightarrow>
           if length (cfg_DeviceClasses cfg) > 0
           then catch_err (LVMD_Save env cfg)
             (\<lambda>err. ret (Some (Errorf ''failed to update lvmd.conf file for volume group %s: %w'' [S (vg_Name vg), W err])))
             (do { _ \<leftarrow> NormalEvent env vg ''LVMDConfigUpdated'' ''updated lvmd config after deviceClass was removed'';
                   ret None })
           else catch_err (LVMD_Delete env)
             (\<lambda>err. ret (Some (Errorf ''failed to delete lvmd.conf file for volume group %s: %w'' [S (vg_Name vg), W err])))
             (do { _ \<leftarrow> NormalEvent env vg ''LVMDConfigDeleted'' ''removed lvmd config after last deviceClass was removed'';
                   ret None })"
  have files: "guarded ?G (gone env vg) ?m (\<lambda>_ h. gone env vg h)"
  proof (rule guarded_only[where A = "lvmd_io \<union> events"])
    have "{a. \<exists>p. a = RemoveFile p} \<subseteq> lvmd_io" "{a. \<exists>p t. a = WriteFile p t} \<subseteq> lvmd_io"
      by (auto simp: lvmd_io_def)
    then show "only (lvmd_io \<union> events) ?m" by (auto intro!: only_intros)
  qed (auto intro!: ordered_other)
  show ?thesis
    unfolding finishDelete_def
    apply (rule guarded_catch_err[OF files])
     apply (rule guarded_return, simp add: deletion_complete_def)
    apply (rule guarded_catch_err[OF removeVolumeGroupStatus_guarded])
     apply (rule guarded_return, simp add: deletion_complete_def)
    apply (rule guarded_prod)
    apply (rule guarded_if)
     apply (rule guarded_ask)
      apply (simp add: deletion_ordered_def without_finalizer_def cmds_def)
     apply (use stable_gone stable_status_dropped in \<open>auto simp: stable_def deletion_complete_def without_finalizer_def\<close>)[1]
    apply (rule guarded_return, simp add: deletion_complete_def)
    done
qed

lemma DeleteVG_ordered:
  assumes "g \<in> set vgs" and "lvg_Name g = vg_Name vg"
  shows "guarded (deletion_ordered env vg) (listed_vgs env vgs) (DeleteVG env g)
     (\<lambda>r h. r = None \<longrightarrow> gone env vg h)"
proof -
  let ?A = "cmds {vgChangeCmd, vgRemoveCmd, pvRemoveCmd, lvmDevicesCmd}"
  have listed: "guarded (\<lambda>h a. listed_vgs env vgs h \<and> a \<in> ?A) (listed_vgs env vgs) (DeleteVG env g)
      (\<lambda>_ h. listed_vgs env vgs h)"
    by (rule guarded_only[where A = ?A]) (auto intro!: only_DeleteVG)
  show ?thesis
    apply (rule guarded_conseq[OF guarded_both[OF DeleteVG_guarded[of env g] listed]])
      apply simp
     apply (use assms in \<open>auto simp: deletion_ordered_def cmds_def\<close>)[1]
    apply (use assms in \<open>simp add: gone_def\<close>)
    done
qed


end
