(* ===== verification/VGM_Reconcile.thy ===== *)
theory VGM_Reconcile
  imports VGM_Delete
begin

text \<open>
  What the reconciliation of a volume group (\<open>reconcile\<close> of \<open>vgmanager/controller.go\<close>) may do to the
  node: which devices it wipes, which it adds, which it takes out, and what it never does.  One lemma
  follows the code through all its branches with a guard on every action; the properties are its
  consequences.
\<close>

section \<open>What each action needs\<close>

definition listed_devices :: "vgm_env \<Rightarrow> BlockDevice list \<Rightarrow> history \<Rightarrow> bool" where
  "listed_devices env ds h \<longleftrightarrow>
     reported env (decode_lsblk env) DefaultLsblk [''--json'', ''--paths'', ''-o'', LSBLK_COLUMNS] ds h"

definition listed_pvs :: "vgm_env \<Rightarrow> PhysicalVolume list \<Rightarrow> history \<Rightarrow> bool" where
  "listed_pvs env pvs h \<longleftrightarrow> (\<exists>r. pvs = concat r \<and> reported env (decode_pvs env) pvsCmd pvs_args r h)"

lemma stable_listed_devices [simp, intro]: "stable (listed_devices env ds)"
  unfolding stable_def listed_devices_def by (blast intro: reported_mono)

lemma stable_listed_pvs [simp, intro]: "stable (listed_pvs env pvs)"
  unfolding stable_def listed_pvs_def by (blast intro: reported_mono)

text \<open>The commands that create or extend the volume group with a list of kernel names: the names are
  those of usable devices, each once; a RAID class gets enough devices; and an existing volume group
  is extended only when its devices are named explicitly or discovery is not static.\<close>

definition existing_pvs :: "LVMVolumeGroup \<Rightarrow> VolumeGroup list \<Rightarrow> int" where
  "existing_pvs vg vgs = (case find (\<lambda>g. lvg_Name g = vg_Name vg) vgs of None \<Rightarrow> 0 | Some g \<Rightarrow> int (length (lvg_PVs g)))"

definition usable_names :: "vgm_env \<Rightarrow> LVMVolumeGroup \<Rightarrow> BlockDevice list \<Rightarrow> PhysicalVolume list \<Rightarrow> string list \<Rightarrow> bool" where
  "usable_names env vg ds pvs ks \<longleftrightarrow> ks \<noteq> [] \<and> distinct ks
     \<and> (\<exists>bdi. set ks \<subseteq> bd_KName ` {d \<in> set (tree ds).
          usable_device (resolve env) \<lparr>opt_VG = vg, opt_BDI = bdi, opt_PVs = pvs\<rparr> d})"

definition growth :: "vgm_env \<Rightarrow> LVMVolumeGroup \<Rightarrow> BlockDevice list \<Rightarrow> PhysicalVolume list \<Rightarrow> VolumeGroup list \<Rightarrow> action \<Rightarrow> bool" where
  "growth env vg ds pvs vgs a \<longleftrightarrow> (\<exists>ks. usable_names env vg ds pvs ks
     \<and> (\<forall>rc. vgs_RAIDConfig (vg_Spec vg) = Some rc \<longrightarrow>
          validateRAIDDeviceCount rc (int (length ks) + existing_pvs vg vgs) = None)
     \<and> (if vg_Name vg \<in> lvg_Name ` set vgs
        then a = HostCmd vgExtendCmd (vg_Name vg # ks)
          \<and> (hasExplicitDevicePaths vg \<or> effectivePolicy vg \<noteq> DeviceDiscoveryPolicyStatic)
        else a = HostCmd vgCreateCmd ([vg_Name vg, ''--addtag'', DefaultTag] @ ks)
          \<or> a = HostCmd vgCreateCmd ([vg_Name vg, ''--addtag'', DefaultTag] @ ''-y'' # ks)))"

text \<open>The objects that the run writes: with the finalizer of this node, if it was missing, or with
  the mark that the devices of this node were wiped.\<close>

definition advanced :: "vgm_env \<Rightarrow> LVMVolumeGroup \<Rightarrow> LVMVolumeGroup set" where
  "advanced env vg = (case AddFinalizer env (vg_Finalizers vg) (getFinalizer env) of (fs, added) \<Rightarrow>
     if added then {vg\<lparr>vg_Finalizers := fs\<rparr>}
     else if shouldWipeDevicesOnVolumeGroup env vg
     then {vg\<lparr>vg_Annotations := AList.update (wipedAnnotation env) (wipedText t) (vg_Annotations vg)\<rparr> | t. True}
     else {})"

definition reconcile_guard :: "vgm_env \<Rightarrow> LVMVolumeGroup \<Rightarrow> history \<Rightarrow> action \<Rightarrow> bool" where
  "reconcile_guard env vg h a \<longleftrightarrow>
     a \<in> cmds {vgsCmd, pvsCmd, lvsCmd, DefaultLsblk, DefaultLosetup} \<union> events \<union> status_writes \<union> lvmd_io
     \<or> a \<in> UpdateVolumeGroup ` advanced env vg
     \<or> (\<exists>d ds. a = WipeCmd d \<and> listed_devices env ds h \<and> d \<in> may_wipe env vg ds)
     \<or> (a \<in> mapper_removals \<and> shouldWipeDevicesOnVolumeGroup env vg)
     \<or> (\<exists>ds pvs vgs. listed_devices env ds h \<and> listed_pvs env pvs h \<and> listed_vgs env vgs h
          \<and> growth env vg ds pvs vgs a)
     \<or> (\<exists>vgs g. listed_vgs env vgs h \<and> find (\<lambda>g. vg_Name vg = lvg_Name g) vgs = Some g \<and> a \<in> reductions env vg g)
     \<or> (a \<in> cmds {lvCreateCmd, lvExtendCmd, lvChangeCmd} \<and> vgs_ThinPoolConfig (vg_Spec vg) \<noteq> None)"

lemma guard_basic:
  "a \<in> cmds {vgsCmd, pvsCmd, lvsCmd, DefaultLsblk, DefaultLosetup} \<union> events \<union> status_writes \<union> lvmd_io \<Longrightarrow>
   reconcile_guard env vg h a"
  unfolding reconcile_guard_def by blast

lemma guard_pool:
  "a \<in> cmds {lvCreateCmd, lvExtendCmd, lvChangeCmd} \<Longrightarrow> vgs_ThinPoolConfig (vg_Spec vg) \<noteq> None \<Longrightarrow>
   reconcile_guard env vg h a"
  unfolding reconcile_guard_def by blast

section \<open>Adding devices\<close>

lemma find_SomeD: "find P xs = Some x \<Longrightarrow> P x \<and> x \<in> set xs"
  by (induction xs) (auto split: if_splits)

lemma only_addDevicesToVG_exact:
  assumes "\<And>a. devices \<noteq> [] \<Longrightarrow>
      (if vgName \<in> lvg_Name ` set vgs then a = HostCmd vgExtendCmd (vgName # map bd_KName devices)
       else a = HostCmd vgCreateCmd ([vgName, ''--addtag'', DefaultTag] @ (if isWiped then [''-y''] else []) @ map bd_KName devices))
      \<Longrightarrow> a \<in> A"
  shows "only A (addDevicesToVG env vgs vgName devices isWiped)"
proof (cases "devices = []")
  case False
  have pv: "map PvName (map pv_named ks) = ks" for ks
    by (simp add: pv_named_def comp_def)
  show ?thesis
  proof (cases "find (\<lambda>vg. lvg_Name vg = vgName) (rev vgs)")
    case None
    then have "vgName \<notin> lvg_Name ` set vgs" by (auto simp: find_None_iff)
    with assms False have "HostCmd vgCreateCmd ([vgName, ''--addtag'', DefaultTag]
        @ (if isWiped then [''-y''] else []) @ map bd_KName devices) \<in> A" by simp
    with False None show ?thesis
      unfolding addDevicesToVG_def CreateVG_def Let_def VolumeGroup.simps pv
      by (auto intro!: only_intros)
  next
    case (Some g)
    then have g: "lvg_Name g = vgName" "vgName \<in> lvg_Name ` set vgs" by (auto dest!: find_SomeD)
    with assms False have "HostCmd vgExtendCmd (vgName # map bd_KName devices) \<in> A" by simp
    with False Some g show ?thesis
      unfolding addDevicesToVG_def ExtendVG_def Let_def
      by (auto intro!: only_intros)
  qed
qed (simp add: addDevicesToVG_def only_return)

lemma applyPolicy_available:
  assumes "Available (applyPolicy vg vgs f) \<noteq> []"
  shows "applyPolicy vg vgs f = f"
    and "vg_Name vg \<in> lvg_Name ` set vgs \<Longrightarrow> hasExplicitDevicePaths vg \<or> effectivePolicy vg \<noteq> DeviceDiscoveryPolicyStatic"
proof -
  have ex: "list_ex (\<lambda>g. vg_Name vg = lvg_Name g) vgs \<longleftrightarrow> vg_Name vg \<in> lvg_Name ` set vgs"
    by (auto simp: list_ex_iff)
  show "applyPolicy vg vgs f = f"
    using assms by (auto simp: applyPolicy_def Let_def split: if_splits)
  show "hasExplicitDevicePaths vg \<or> effectivePolicy vg \<noteq> DeviceDiscoveryPolicyStatic"
    if "vg_Name vg \<in> lvg_Name ` set vgs"
    using assms that by (auto simp: applyPolicy_def Let_def ex split: if_splits)
qed

lemma growth_of_filtered:
  assumes f: "f = filterDevices ds (vgm_filters env vg bdi pvs)"
    and av: "Available (applyPolicy vg vgs f) \<noteq> []"
    and rc: "raidCountError vg vgs (applyPolicy vg vgs f) = None"
    and a: "if vg_Name vg \<in> lvg_Name ` set vgs
      then a = HostCmd vgExtendCmd (vg_Name vg # map bd_KName (Available (applyPolicy vg vgs f)))
      else a = HostCmd vgCreateCmd ([vg_Name vg, ''--addtag'', DefaultTag] @ (if w then [''-y''] else [])
        @ map bd_KName (Available (applyPolicy vg vgs f)))"
  shows "growth env vg ds pvs vgs a"
proof -
  let ?ks = "map bd_KName (Available f)"
  let ?opts = "\<lparr>opt_VG = vg, opt_BDI = bdi, opt_PVs = pvs\<rparr>"
  note eq = applyPolicy_available(1)[OF av]
  have "set (Available f) \<subseteq> {d \<in> set (tree ds). usable_device (resolve env) ?opts d}" "distinct ?ks"
    using filterDevices_spec[of ds "DefaultFilters (resolve env) ?opts"]
    by (simp_all add: f vgm_filters_def passes_DefaultFilters)
  then have "usable_names env vg ds pvs ?ks"
    using av unfolding usable_names_def eq by (auto intro!: exI[of _ bdi])
  moreover have "\<forall>rc. vgs_RAIDConfig (vg_Spec vg) = Some rc \<longrightarrow>
      validateRAIDDeviceCount rc (int (length ?ks) + existing_pvs vg vgs) = None"
    using rc unfolding eq raidCountError_def existing_pvs_def by auto
  ultimately show ?thesis
    unfolding growth_def using a applyPolicy_available(2)[OF av]
    by (intro exI[of _ ?ks]) (auto simp: eq split: if_splits)
qed

section \<open>The steps\<close>

definition pool_cmds :: "LVMVolumeGroup \<Rightarrow> action set" where
  "pool_cmds vg = (if vgs_ThinPoolConfig (vg_Spec vg) \<noteq> None then cmds {lvCreateCmd, lvExtendCmd, lvChangeCmd} else {})"

definition quiet :: "LVMVolumeGroup \<Rightarrow> action set" where
  "quiet vg = cmds {vgsCmd, pvsCmd, lvsCmd, DefaultLsblk, DefaultLosetup} \<union> events \<union> status_writes \<union> lvmd_io \<union> pool_cmds vg"

lemma quiet_into:
  assumes "quiet vg \<subseteq> A"
  shows "events \<subseteq> A" "status_writes \<subseteq> A" "lvmd_io \<subseteq> A" "cmds {vgsCmd} \<subseteq> A"
    "cmds {pvsCmd} \<subseteq> A" "cmds {lvsCmd} \<subseteq> A" "cmds {DefaultLsblk} \<subseteq> A" "cmds {DefaultLosetup} \<subseteq> A"
  using assms by (auto simp: quiet_def)

lemma quiet_pool:
  assumes "vgs_ThinPoolConfig (vg_Spec vg) = Some c" "quiet vg \<subseteq> A"
  shows "cmds {lvCreateCmd} \<subseteq> A" "cmds {lvExtendCmd} \<subseteq> A" "cmds {lvChangeCmd} \<subseteq> A"
  using assms by (auto simp: quiet_def pool_cmds_def)

lemma guard_quiet: "a \<in> quiet vg \<Longrightarrow> reconcile_guard env vg h a"
  by (auto simp: quiet_def pool_cmds_def intro: guard_basic guard_pool split: if_splits)

lemma quiet_validateLVs: "only (quiet vg) (validateLVs env vg)"
proof (cases "vgs_ThinPoolConfig (vg_Spec vg)")
  case None
  then show ?thesis by (simp add: validateLVs_def only_return)
next
  case (Some c)
  from quiet_pool[OF Some order_refl] quiet_into[OF order_refl, of vg] show ?thesis by (intro only_validateLVs) simp
qed

lemma quiet_verifyExisting: "only (quiet vg) (verifyExisting env vg vgs ds)"
  unfolding verifyExisting_def
  by (intro only_catch_err only_failWith only_applyLVMDConfig only_finishReady quiet_validateLVs only_return
      quiet_into[OF order_refl])

lemma quiet_setupThinPool:
  assumes "only A k" and "quiet vg \<subseteq> A"
  shows "only A (setupThinPool env vg vgs ds k)"
proof (cases "vgs_ThinPoolConfig (vg_Spec vg)")
  case None
  with assms show ?thesis by (simp add: setupThinPool_def)
next
  case (Some c)
  from quiet_into[OF assms(2)] quiet_pool[OF Some assms(2)] assms(1) show ?thesis
    by (intro only_setupThinPool) simp_all
qed

lemma only_reconcile_existing:
  assumes "quiet vg \<subseteq> A"
    and "\<And>g. find (\<lambda>g. vg_Name vg = lvg_Name g) vgs = Some g \<Longrightarrow> reductions env vg g \<subseteq> A"
  shows "only A (reconcile_existing env vg vgs ds)"
proof -
  note sub = quiet_into[OF assms(1)]
  have v: "only A (verifyExisting env vg vgs' ds)" for vgs'
    by (rule only_mono[OF quiet_verifyExisting assms(1)])
  show ?thesis
    unfolding reconcile_existing_def using sub
    by (auto intro!: only_intros v assms(2))
qed

lemma only_reconcile_new:
  assumes "quiet vg \<subseteq> A"
    and "\<And>a. Available ds \<noteq> [] \<Longrightarrow> raidCountError vg vgs ds = None \<Longrightarrow>
      (if vg_Name vg \<in> lvg_Name ` set vgs then a = HostCmd vgExtendCmd (vg_Name vg # map bd_KName (Available ds))
       else a = HostCmd vgCreateCmd ([vg_Name vg, ''--addtag'', DefaultTag]
          @ (if shouldWipeDevicesOnVolumeGroup env vg then [''-y''] else []) @ map bd_KName (Available ds))) \<Longrightarrow> a \<in> A"
  shows "only A (reconcile_new env vg vgs ds)"
proof -
  note sub = quiet_into[OF assms(1)]
  have n: "only A (finishNew env vg ds)"
    by (rule only_finishNew) (use sub in simp_all)
  show ?thesis
    unfolding reconcile_new_def
    by (auto intro!: only_option only_catch_err only_if only_return only_failWith only_addDevicesToVG_exact
        quiet_setupThinPool n sub assms)
qed

lemma only_reconcile_discovered:
  assumes "quiet vg \<subseteq> A"
    and "\<And>g. find (\<lambda>g. vg_Name vg = lvg_Name g) vgs = Some g \<Longrightarrow> reductions env vg g \<subseteq> A"
    and "\<And>a. growth env vg ds pvs vgs a \<Longrightarrow> a \<in> A"
  shows "only A (reconcile_discovered env vg vgs (filterDevices ds (vgm_filters env vg bdi pvs)))"
  unfolding reconcile_discovered_def Let_def
  by (intro only_if only_reconcile_existing only_bind only_prod only_return only_reconcile_new assms(1,2)
      only_setStatus quiet_into[OF assms(1)] assms(3); assumption?)
    (rule growth_of_filtered[OF refl]; assumption)

lemma wipeDevices_unchanged:
  "fst (run_state (wipeDevices env vg ds) s) = Inr (vg', False) \<Longrightarrow> vg' = vg"
proof (cases "shouldWipeDevicesOnVolumeGroup env vg")
  case True
  assume w: "fst (run_state (wipeDevices env vg ds) s) = Inr (vg', False)"
  from True obtain sel where sel: "vgs_DeviceSelector (vg_Spec vg) = Some sel" by (auto simp: shouldWipe_iff)
  obtain r1 s1 where r1: "run_state (wipePaths env ds (ds_Paths sel) False) s = (r1, s1)" by force
  show ?thesis
  proof (cases r1)
    case (Inl e)
    then show ?thesis using w True sel r1 by (simp add: wipeDevices_def run_catch)
  next
    case (Inr u)
    obtain u2 s2 where "run_state (wipeOptionalPaths env ds (ds_OptionalPaths sel) u) s1 = (u2, s2)" by force
    then show ?thesis using w True sel r1 Inr
      by (cases u2) (auto simp: wipeDevices_def run_catch)
  qed
qed (simp add: wipeDevices_def)

lemma guard_growth:
  "listed_devices env ds h \<Longrightarrow> listed_pvs env pvs h \<Longrightarrow> listed_vgs env vgs h \<Longrightarrow> growth env vg ds pvs vgs a \<Longrightarrow>
   reconcile_guard env vg h a"
  unfolding reconcile_guard_def by blast

lemma guard_reduction:
  "listed_vgs env vgs h \<Longrightarrow> find (\<lambda>g. vg_Name vg = lvg_Name g) vgs = Some g \<Longrightarrow> a \<in> reductions env vg g \<Longrightarrow>
   reconcile_guard env vg h a"
  unfolding reconcile_guard_def by blast

lemma guard_wipe:
  "listed_devices env ds h \<Longrightarrow> d \<in> may_wipe env vg ds \<Longrightarrow> reconcile_guard env vg h (WipeCmd d)"
  unfolding reconcile_guard_def by blast

lemma guard_mapper:
  "a \<in> mapper_removals \<Longrightarrow> shouldWipeDevicesOnVolumeGroup env vg \<Longrightarrow> reconcile_guard env vg h a"
  unfolding reconcile_guard_def by blast

lemma guard_update: "vg' \<in> advanced env vg \<Longrightarrow> reconcile_guard env vg h (UpdateVolumeGroup vg')"
  unfolding reconcile_guard_def by blast

definition scanned :: "vgm_env \<Rightarrow> BlockDevice list \<Rightarrow> VolumeGroup list \<Rightarrow> history \<Rightarrow> bool" where
  "scanned env ds vgs h \<longleftrightarrow> listed_devices env ds h \<and> listed_vgs env vgs h"

lemma stable_scanned [simp, intro]: "stable (scanned env ds vgs)"
  unfolding scanned_def by (intro stable_conj) simp_all

lemma guarded_ListPVs:
  assumes "stable P" and "\<And>h. P h \<Longrightarrow> G h (HostCmd pvsCmd pvs_args)"
  shows "guarded G P (ListPVs env []) (\<lambda>r h. P h \<and> (\<forall>pvs. r = Inr pvs \<longrightarrow> listed_pvs env pvs h))"
proof -
  have args: "[''--units'', ''b'', ''--nosuffix'', ''-v'', ''--reportformat'', ''json'', ''-o'', ''+pv_missing'']
      @ (if [] \<noteq> [] then [''-S'', ''vgname='' @ []] else []) = pvs_args"
    by (simp add: pvs_args_def)
  show ?thesis
    unfolding ListPVs_def Let_def args
    apply (rule guarded_catch)
      apply (rule guarded_report; fact assms)
     apply (rule guarded_return, simp)
    apply (rule guarded_return, auto simp: listed_pvs_def)
    done
qed

section \<open>The whole run\<close>

lemma reconcile_filter_guarded:
  "guarded (reconcile_guard env vg) (scanned env ds vgs) (reconcile_filter env vg vgs ds) (\<lambda>_ _. True)"
proof -
  let ?G = "reconcile_guard env vg" and ?P = "scanned env ds vgs"
  let ?R = "\<lambda>pvs h. ?P h \<and> listed_pvs env pvs h"
  have quiet: "guarded ?G P m (\<lambda>_ _. True)" if "only (quiet vg) m" for P and m :: "outcome vgm"
    by (rule guarded_any[OF that]) (rule guard_quiet)
  have infos: "guarded ?G (?R pvs) (BlockDeviceInfos env ds) (\<lambda>_. ?R pvs)" for pvs
    by (rule guarded_only[where A = "quiet vg"])
      (auto intro!: only_BlockDeviceInfos quiet_into[OF order_refl] guard_quiet)
  have rest: "guarded ?G (?R pvs) (reconcile_discovered env vg vgs (filterDevices ds (vgm_filters env vg bdi pvs)))
      (\<lambda>_ _. True)" for pvs bdi
  proof (rule guarded_conseq[OF guarded_only])
    let ?A = "quiet vg \<union> {a. growth env vg ds pvs vgs a}
      \<union> {a. \<exists>g. find (\<lambda>g. vg_Name vg = lvg_Name g) vgs = Some g \<and> a \<in> reductions env vg g}"
    show "only ?A (reconcile_discovered env vg vgs (filterDevices ds (vgm_filters env vg bdi pvs)))"
      by (rule only_reconcile_discovered) auto
    show "stable (?R pvs)" by auto
    show "?G h a" if "?R pvs h" "a \<in> ?A" for h a
      using that by (auto simp: scanned_def intro: guard_quiet guard_growth guard_reduction)
  qed auto
  show ?thesis
    unfolding reconcile_filter_def Let_def
    apply (rule guarded_catch[OF guarded_ListPVs])
        apply simp
       apply (rule guard_basic, simp)
     apply (rule guarded_return, simp)
    subgoal for pvs
      apply (rule guarded_catch[OF guarded_weaken[OF infos[of pvs]]])
        apply simp
       apply (rule guarded_return, simp)
      apply (rule guarded_option)
       apply (rule rest)
      apply (rule quiet)
      apply (intro only_failWith quiet_into[OF order_refl])
      done
    done
qed

lemma wipeDevices_advances:
  assumes "fst (run_state (wipeDevices env vg ds) s) = Inr (vg', True)"
    and "AddFinalizer env (vg_Finalizers vg) (getFinalizer env) = (fs, False)"
  shows "vg' \<in> advanced env vg"
proof -
  have "shouldWipeDevicesOnVolumeGroup env vg"
    using assms(1) by (rule contrapos_pp) (simp add: wipeDevices_def)
  with assms(2) wipeDevices_marks [OF assms(1)] show ?thesis by (auto simp: advanced_def)
qed

lemma reconcile_scan_guarded:
  assumes "AddFinalizer env (vg_Finalizers vg) (getFinalizer env) = (fs, False)"
  shows "guarded (reconcile_guard env vg) (\<lambda>_. True) (reconcile_scan env vg) (\<lambda>_ _. True)"
proof -
  let ?G = "reconcile_guard env vg"
  have devs: "guarded ?G (\<lambda>_. True) (ListBlockDevices env)
      (\<lambda>r h. True \<and> (\<forall>ds. r = Inr ds \<longrightarrow> listed_devices env ds h))"
    unfolding ListBlockDevices_def listed_devices_def by (rule guarded_report) (auto intro!: guard_basic)
  have wipe: "guarded ?G (scanned env ds vgs) (wipeDevices env vg ds)
      (\<lambda>r h. scanned env ds vgs h
        \<and> (case r of Inl e \<Rightarrow> True | Inr (vg', u) \<Rightarrow> if u then vg' \<in> advanced env vg else vg' = vg))"
    for ds vgs
  proof (rule guarded_result)
    show "guarded ?G (scanned env ds vgs) (wipeDevices env vg ds) (\<lambda>_. scanned env ds vgs)"
      by (rule guarded_only[where A = "WipeCmd ` may_wipe env vg ds
            \<union> {a \<in> mapper_removals. shouldWipeDevicesOnVolumeGroup env vg}"])
        (auto intro!: only_wipeDevices intro: guard_wipe guard_mapper simp: scanned_def)
    show "case fst (run_state (wipeDevices env vg ds) s) of Inl e \<Rightarrow> True
        | Inr (vg', u) \<Rightarrow> if u then vg' \<in> advanced env vg else vg' = vg" for s
      using wipeDevices_unchanged [of env vg ds s] wipeDevices_advances [OF _ assms, of ds s]
      by (auto split: sum.splits)
  qed
  have status: "guarded ?G P (do { _ \<leftarrow> WarningEvent env vg r e; _ \<leftarrow> setVolumeGroupFailedStatus env vg vgs ds e;
      ret x }) (\<lambda>_ _. True)" for P r e vgs ds and x :: outcome
    by (rule guarded_any[where A = "quiet vg"])
      (auto intro!: only_bind only_WarningEvent only_setStatus only_return quiet_into[OF order_refl] guard_quiet)
  have update: "guarded ?G P (do { err \<leftarrow> ask (\<lambda>h. api_Update env h vg') (UpdateVolumeGroup vg'); ret (f err) }) (\<lambda>_ _. True)"
    if "vg' \<in> advanced env vg" for P vg' and f :: "go_error option \<Rightarrow> outcome"
    by (rule guarded_any[where A = "{UpdateVolumeGroup vg'}"]) (auto intro!: only_intros guard_update that)
  have list: "guarded ?G (listed_devices env ds) (ListVGs env True)
      (\<lambda>r h. listed_devices env ds h \<and> (\<forall>vgs. r = Inr vgs \<longrightarrow> listed_vgs env vgs h))" for ds
    by (rule guarded_ListVGs) (auto intro!: guard_basic)
  show ?thesis
    unfolding reconcile_scan_def
    apply (rule guarded_catch[OF devs])
     apply (rule guarded_return, simp)
    apply (rule guarded_catch[OF guarded_weaken[OF list]])
      apply simp
     apply (rule guarded_return, simp)
    apply (rule guarded_option)
    subgoal for ds vgs
      apply (rule guarded_catch[OF guarded_weaken[OF wipe[of ds vgs]]])
        apply (simp add: scanned_def)
       apply (rule guarded_return, simp)
      apply (rule guarded_prod)
      apply (rule guarded_fact)
      apply (rule guarded_if)
       apply (rule update, simp)
      apply (simp add: reconcile_filter_guarded)
      done
    apply (rule status)
    done
qed

text \<open>All of a deletion.\<close>

definition deletion_actions :: "action set" where
  "deletion_actions = destructive \<union> cmds {vgsCmd, pvsCmd, lvsCmd} \<union> events \<union> status_writes \<union> lvmd_io
     \<union> {a. \<exists>n. a = GetStorageClass n}"

lemma only_processDelete: "only (deletion_actions \<union> UpdateVolumeGroup ` released env vg) (processDelete env vg)"
proof -
  let ?A = "deletion_actions \<union> UpdateVolumeGroup ` released env vg"
  have f: "only ?A (finishDelete env vg cfg)" for cfg
    by (rule only_finishDelete) (auto simp: deletion_actions_def)
  have sub: "cmds {vgsCmd} \<subseteq> ?A" "cmds {pvsCmd} \<subseteq> ?A" "cmds {lvsCmd} \<subseteq> ?A"
    "cmds {vgChangeCmd} \<subseteq> ?A" "cmds {vgRemoveCmd} \<subseteq> ?A" "cmds {pvRemoveCmd} \<subseteq> ?A"
    "cmds {lvmDevicesCmd} \<subseteq> ?A" "cmds {lvChangeCmd} \<subseteq> ?A" "cmds {lvRemoveCmd} \<subseteq> ?A"
    "events \<subseteq> ?A" "status_writes \<subseteq> ?A" "{a. \<exists>p. a = OpenFile p} \<subseteq> ?A"
    "\<And>n. GetStorageClass n \<in> deletion_actions"
    by (auto simp: deletion_actions_def destructive_def lvmd_io_def)
  show ?thesis
    unfolding processDelete_def Let_def
    by (intro only_catch only_catch_err only_option only_return only_bind f only_LVMD_Load only_ListVGs
        only_checkRetain only_deleteThinPool only_DeleteVG only_setStatus) (simp_all add: sub)
qed

lemma reconcile_always:
  assumes "\<And>h a. vg_Deleted vg \<Longrightarrow> a \<in> deletion_actions \<union> UpdateVolumeGroup ` released env vg \<Longrightarrow> G h a"
    and "\<And>h a. \<not> vg_Deleted vg \<Longrightarrow> reconcile_guard env vg h a \<Longrightarrow> G h a"
  shows "always G (reconcile env vg)"
proof (cases "vg_Deleted vg")
  case True
  have "only (deletion_actions \<union> UpdateVolumeGroup ` released env vg) (reconcile env vg)"
    unfolding reconcile_def by (simp add: True only_processDelete only_bind only_return)
  then show ?thesis by (rule always_only) (rule assms(1)[OF True])
next
  case False
  obtain fs added where add: "AddFinalizer env (vg_Finalizers vg) (getFinalizer env) = (fs, added)" by force
  have upd: "guarded G (\<lambda>_. True) (do { err \<leftarrow> ask (\<lambda>h. api_Update env h vg') (UpdateVolumeGroup vg'); ret (f err) })
      (\<lambda>_ _. True)" if "vg' \<in> advanced env vg" for vg' and f :: "go_error option \<Rightarrow> outcome"
    by (rule guarded_any[where A = "{UpdateVolumeGroup vg'}"])
      (auto intro!: only_intros assms(2)[OF False] guard_update that)
  have scan: "guarded G (\<lambda>_. True) (reconcile_scan env vg) (\<lambda>_ _. True)" if "\<not> added"
    by (rule guarded_conseq[OF reconcile_scan_guarded]) (use add that in \<open>simp_all add: assms(2)[OF False]\<close>)
  show ?thesis
    unfolding reconcile_def always_def Let_def
    using False by (auto intro!: upd scan simp: add advanced_def)
qed

section \<open>Properties\<close>

lemmas action_sets = deletion_actions_def destructive_def cmds_def cmd_defs events_def status_writes_def lvmd_io_def
  gauges_def mapper_removals_def DefaultLsblk_def DefaultLosetup_def reductions_def

definition wipes_selected :: "vgm_env \<Rightarrow> LVMVolumeGroup \<Rightarrow> history \<Rightarrow> action \<Rightarrow> bool" where
  "wipes_selected env vg h a \<longleftrightarrow>
     (\<forall>d. a = WipeCmd d \<longrightarrow> (\<exists>ds. listed_devices env ds h \<and> d \<in> may_wipe env vg ds))"

text \<open>C2: Reconciliation wipes no device that was not named for it.  In every run of \<open>reconcile\<close>,
  \<open>wipefs\<close> is called only on a device that \<open>lsblk\<close> reported earlier in the run and that a path of the
  device selector resolves to, when the selector sets \<open>forceWipeDevicesAndDestroyAllData\<close> and the
  annotation that this node's devices were wiped is absent.\<close>

theorem reconcile_wipes_selected: "always (wipes_selected env vg) (reconcile env vg)"
proof (rule reconcile_always)
  show "wipes_selected env vg h a" if "a \<in> deletion_actions \<union> UpdateVolumeGroup ` released env vg" for h a
    using that by (auto simp: wipes_selected_def action_sets)
  show "wipes_selected env vg h a" if g: "reconcile_guard env vg h a" for h a
  proof -
    have "\<exists>ds. listed_devices env ds h \<and> d \<in> may_wipe env vg ds" if a: "a = WipeCmd d" for d
      using g unfolding a reconcile_guard_def by (auto simp: action_sets growth_def split: if_splits)
    then show ?thesis by (simp add: wipes_selected_def)
  qed
qed

definition grows_usable :: "vgm_env \<Rightarrow> LVMVolumeGroup \<Rightarrow> history \<Rightarrow> action \<Rightarrow> bool" where
  "grows_usable env vg h a \<longleftrightarrow> (a \<in> cmds {vgCreateCmd, vgExtendCmd} \<longrightarrow>
     (\<exists>ds pvs vgs. listed_devices env ds h \<and> listed_pvs env pvs h \<and> listed_vgs env vgs h
        \<and> growth env vg ds pvs vgs a))"

text \<open>C6: Reconciliation builds volume groups only from usable devices.  In every run of
  \<open>reconcile\<close>, \<open>vgcreate\<close> and \<open>vgextend\<close> get kernel names, each once, of devices of an earlier
  \<open>lsblk\<close> report that pass every filter against an earlier report of physical volumes; \<open>vgextend\<close> is
  called only when an earlier report lists a volume group of this name, \<open>vgcreate\<close> only when it lists
  none, and \<open>vgextend\<close> never under the static
  discovery policy (which RAID implies) unless device paths are given explicitly; for a RAID class the
  devices, with those already in the volume group, satisfy the minimum and the mirror multiple.\<close>

theorem reconcile_grows_usable: "always (grows_usable env vg) (reconcile env vg)"
proof (rule reconcile_always)
  show "grows_usable env vg h a" if "a \<in> deletion_actions \<union> UpdateVolumeGroup ` released env vg" for h a
    using that by (auto simp: grows_usable_def action_sets)
  show "grows_usable env vg h a" if "reconcile_guard env vg h a" for h a
    using that unfolding grows_usable_def reconcile_guard_def
    by (elim disjE) (auto simp: action_sets split: if_splits)
qed

definition removes_unselected :: "vgm_env \<Rightarrow> LVMVolumeGroup \<Rightarrow> history \<Rightarrow> action \<Rightarrow> bool" where
  "removes_unselected env vg h a \<longleftrightarrow> (\<not> vg_Deleted vg \<longrightarrow>
     a \<notin> cmds {vgRemoveCmd, vgChangeCmd, lvRemoveCmd, lvmDevicesCmd}
     \<and> (a \<in> cmds {vgReduceCmd, pvRemoveCmd} \<longrightarrow> (\<exists>vgs g. listed_vgs env vgs h
          \<and> find (\<lambda>g. vg_Name vg = lvg_Name g) vgs = Some g \<and> a \<in> reductions env vg g)))"

text \<open>C8: Reconciliation of a volume group that is not being deleted takes out only what the user took
  out.  It never removes a logical volume or a volume group, and \<open>vgreduce\<close> and \<open>pvremove\<close> are called
  only for a physical volume of the listed volume group that no path of the selector resolves to, when
  the selector has paths, no physical volume is missing, at least one remains, and for a RAID class the
  remaining ones still satisfy its device count.\<close>

theorem reconcile_removes_unselected: "always (removes_unselected env vg) (reconcile env vg)"
proof (rule reconcile_always)
  show "removes_unselected env vg h a" if "vg_Deleted vg" for h a
    using that by (simp add: removes_unselected_def)
  show "removes_unselected env vg h a" if g: "reconcile_guard env vg h a" for h a
  proof -
    have "a \<notin> cmds {vgRemoveCmd, vgChangeCmd, lvRemoveCmd, lvmDevicesCmd}"
      using g unfolding reconcile_guard_def
      by (elim disjE) (auto simp: action_sets growth_def split: if_splits)
    moreover have "\<exists>vgs g. listed_vgs env vgs h \<and> find (\<lambda>g. vg_Name vg = lvg_Name g) vgs = Some g
        \<and> a \<in> reductions env vg g" if "a \<in> cmds {vgReduceCmd, pvRemoveCmd}"
      using g that unfolding reconcile_guard_def
      by (elim disjE) (auto simp: action_sets growth_def split: if_splits)
    ultimately show ?thesis by (simp add: removes_unselected_def)
  qed
qed

section \<open>Gates\<close>

text \<open>Commands on the host other than the ones that list.\<close>

definition host_mutations :: "action set" where
  "host_mutations = {a. \<exists>c arg. a = Exec c arg \<or> a = ExecCombined c arg}
     - cmds {vgsCmd, pvsCmd, lvsCmd, DefaultLsblk, DefaultLosetup}"

definition healthy :: "vgm_env \<Rightarrow> LVMVolumeGroup \<Rightarrow> history \<Rightarrow> bool" where
  "healthy env vg h \<longleftrightarrow> (\<exists>vgs. listed_vgs env vgs h \<and> checkRAIDVGHealth env vgs vg = None)"

lemma stable_healthy [simp, intro]: "stable (healthy env vg)"
  unfolding healthy_def by (intro stable_ex stable_conj) simp_all

definition gated :: "vgm_env \<Rightarrow> LVMVolumeGroup \<Rightarrow> history \<Rightarrow> action \<Rightarrow> bool" where
  "gated env vg h a \<longleftrightarrow> (a \<in> host_mutations \<longrightarrow>
     (if vg_Deleted vg then nothing_retained env vg h
      else \<not> snd (AddFinalizer env (vg_Finalizers vg) (getFinalizer env)) \<and> healthy env vg h))"

lemma quiet_not_mutation:
  "a \<in> cmds {vgsCmd, pvsCmd, lvsCmd, DefaultLsblk, DefaultLosetup} \<union> events \<union> status_writes \<union> lvmd_io \<Longrightarrow> gated env vg h a"
  by (auto simp: gated_def host_mutations_def events_def status_writes_def lvmd_io_def gauges_def)

lemma only_UNIV_filter: "only UNIV (reconcile_filter env vg vgs ds)"
  unfolding reconcile_filter_def Let_def
  by (auto intro!: only_catch only_ListPVs only_BlockDeviceInfos only_return only_option only_failWith
      only_reconcile_discovered)

lemma only_UNIV_wipe: "only UNIV (wipeDevices env vg ds)"
  by (rule only_wipeDevices) simp_all

lemma scan_gated:
  assumes "\<not> vg_Deleted vg" and "\<not> snd (AddFinalizer env (vg_Finalizers vg) (getFinalizer env))"
  shows "guarded (gated env vg) (\<lambda>_. True) (reconcile_scan env vg) (\<lambda>_ _. True)"
proof -
  let ?G = "gated env vg"
  have all: "guarded ?G (healthy env vg) m (\<lambda>_ _. True)" if "only UNIV m" for m :: "outcome vgm"
    by (rule guarded_conseq[OF guarded_only[OF that, of "healthy env vg" ?G]])
      (use assms in \<open>auto simp: gated_def\<close>)
  have "guarded ?G (\<lambda>_. True) (ListBlockDevices env) (\<lambda>_ _. True)"
    by (rule guarded_any[where A = "cmds {DefaultLsblk}"]) (auto intro!: only_ListBlockDevices quiet_not_mutation)
  moreover have "guarded ?G (\<lambda>_. True) (ListVGs env True) (\<lambda>r h. True \<and> (\<forall>vgs. r = Inr vgs \<longrightarrow> listed_vgs env vgs h))"
    by (rule guarded_ListVGs) (auto intro!: quiet_not_mutation)
  moreover have "guarded ?G P (do { _ \<leftarrow> WarningEvent env vg r e; _ \<leftarrow> setVolumeGroupFailedStatus env vg vgs ds e;
      ret x }) (\<lambda>_ _. True)" for P r e vgs ds and x :: outcome
    by (rule guarded_any[where A = "events \<union> status_writes"])
      (auto intro!: only_bind only_WarningEvent only_setStatus only_return quiet_not_mutation)
  ultimately show ?thesis
    unfolding reconcile_scan_def
    apply -
    apply (rule guarded_catch, assumption)
     apply (rule guarded_return, simp)
    apply (rule guarded_catch, assumption)
     apply (rule guarded_return, simp)
    apply (rule guarded_option)
     apply (rule guarded_weaken[OF all])
      apply (auto intro!: only_catch only_UNIV_wipe only_return only_UNIV_filter only_if only_bind only_ask split: prod.split)[1]
     apply (auto simp: healthy_def)[1]
    apply assumption
    done
qed

text \<open>C21: The host is changed only behind the gates.  In every run of \<open>reconcile\<close>, a command other
  than the listing ones runs on the host only if the finalizer of this node is on the object already, and
  only after a listing that, for a RAID class, shows no missing physical volume in this volume group; for
  an object being deleted, only after nothing was found to be retained.  That the finalizer is there is
  what \<open>AddFinalizer\<close> says.\<close>

theorem reconcile_gated: "always (gated env vg) (reconcile env vg)"
proof (cases "vg_Deleted vg")
  case True
  have eq: "gated env vg h a = (a \<in> host_mutations \<longrightarrow> nothing_retained env vg h)" for h a
    by (simp add: gated_def True)
  have "guarded (\<lambda>h a. retain_respected env vg h a \<and> a \<in> deletion_actions \<union> UpdateVolumeGroup ` released env vg) (\<lambda>h. True \<and> True) (processDelete env vg)
      (\<lambda>_ _. True \<and> True)"
    by (rule guarded_both[OF processDelete_retain_guarded only_processDelete[unfolded only_def]])
  then have "guarded (gated env vg) (\<lambda>_. True) (processDelete env vg) (\<lambda>_ _. True)"
    by (rule guarded_conseq)
      (auto simp: eq retain_respected_def deletion_actions_def host_mutations_def events_def status_writes_def
        lvmd_io_def gauges_def)
  then show ?thesis
    unfolding reconcile_def always_def by (simp add: True guarded_bind guarded_return)
next
  case False
  obtain fs added where add: "AddFinalizer env (vg_Finalizers vg) (getFinalizer env) = (fs, added)" by force
  show ?thesis
  proof (cases added)
    case True
    then show ?thesis
      unfolding reconcile_def Let_def using False add
      by (intro always_only[where A = "{UpdateVolumeGroup (vg\<lparr>vg_Finalizers := fs\<rparr>)}"])
        (auto intro!: only_bind only_ask only_return simp: gated_def host_mutations_def)
  next
    case nadd: False
    with add scan_gated[OF False] False show ?thesis
      unfolding reconcile_def always_def by simp
  qed
qed

section \<open>The node\<close>

text \<open>The history shows the object that was fetched, that the node was fetched and is selected by it,
  and that the status object of the node exists.\<close>

definition node_selected :: "vgm_env \<Rightarrow> LVMVolumeGroup \<Rightarrow> history \<Rightarrow> bool" where
  "node_selected env vg h \<longleftrightarrow> (\<exists>pre post node. h = pre @ GetNode (NodeName env) # post
     \<and> api_Node env pre (NodeName env) = Found node
     \<and> (case vgs_NodeSelector (vg_Spec vg) of None \<Rightarrow> True | Some sel \<Rightarrow> MatchNodeSelectorTerms env node sel = Inr True))"

definition fetched :: "vgm_env \<Rightarrow> string \<Rightarrow> string \<Rightarrow> LVMVolumeGroup \<Rightarrow> history \<Rightarrow> bool" where
  "fetched env ns name vg h \<longleftrightarrow> (\<exists>pre post. h = pre @ GetVolumeGroup ns name # post
     \<and> api_VolumeGroup env pre ns name = Found vg)"

lemma stable_node_selected [simp, intro]: "stable (node_selected env vg)"
  unfolding stable_def node_selected_def by fastforce

lemma stable_fetched [simp, intro]: "stable (fetched env ns name vg)"
  unfolding stable_def fetched_def by fastforce

definition on_selected_node :: "vgm_env \<Rightarrow> string \<Rightarrow> string \<Rightarrow> history \<Rightarrow> action \<Rightarrow> bool" where
  "on_selected_node env ns name h a \<longleftrightarrow> a = GetVolumeGroup ns name \<or> a = GetNode (NodeName env)
     \<or> (\<exists>vg. fetched env ns name vg h \<and> node_selected env vg h)"

lemma only_UNIV_reconcile: "only UNIV (reconcile env vg)"
  using reconcile_always[of vg env "\<lambda>_ _. True"] by (simp add: only_def always_def)

text \<open>C22: A node leaves volume groups of other nodes alone.  In every run of \<open>Reconcile\<close>, the only
  actions before the node is known to match are fetching the object and fetching the node; everything
  else, also every status and event, comes after the object was fetched and its node selector was found
  to match this node.\<close>

theorem Reconcile_on_selected_node: "always (on_selected_node env ns name) (Reconcile env ns name)"
proof (rule alwaysI)
  let ?G = "on_selected_node env ns name"
  let ?M = "\<lambda>vg h. fetched env ns name vg h \<and> node_selected env vg h"
  have all: "guarded ?G (?M vg) m (\<lambda>_ _. True)" if "only UNIV m" for vg and m :: "outcome vgm"
    by (rule guarded_conseq[OF guarded_only[OF that, of "?M vg" ?G]]) (auto simp: on_selected_node_def)
  have get: "guarded ?G (\<lambda>_. True) (ask (\<lambda>h. api_VolumeGroup env h ns name) (GetVolumeGroup ns name))
      (\<lambda>r h. \<forall>vg. r = Found vg \<longrightarrow> fetched env ns name vg h)"
    by (rule guarded_ask) (auto simp: on_selected_node_def fetched_def)
  have match: "guarded ?G (fetched env ns name vg) (matchesThisNode env (vgs_NodeSelector (vg_Spec vg)))
      (\<lambda>r h. r = Inr True \<longrightarrow> ?M vg h)" for vg
    unfolding matchesThisNode_def
    apply (rule guarded_bind[where R = "\<lambda>r h. fetched env ns name vg h \<and> (\<forall>node. r = Found node \<longrightarrow>
        (case vgs_NodeSelector (vg_Spec vg) of None \<Rightarrow> True | Some sel \<Rightarrow> MatchNodeSelectorTerms env node sel = Inr True)
        \<longrightarrow> node_selected env vg h)"])
     apply (rule guarded_ask)
      apply (simp add: on_selected_node_def)
     apply (use stable_fetched in \<open>auto simp: stable_def node_selected_def\<close>)[1]
    apply (rule guarded_return)
    apply (auto split: api.splits option.splits)
    done
  have rest: "only UNIV (do { st \<leftarrow> ask q (GetNodeStatus (Namespace env) (NodeName env));
      (case st of Found _ \<Rightarrow> reconcile env vg | NotFound err \<Rightarrow> fails (f err) | ApiErr err \<Rightarrow> fails (f err)) })" for vg q f
    by (intro only_bind only_ask only_api only_return only_UNIV_reconcile UNIV_I)
  show "guarded ?G (\<lambda>_. True) (Reconcile env ns name) (\<lambda>_ _. True)"
    unfolding Reconcile_def
    apply (rule guarded_bind[OF get])
    subgoal for r
      apply (cases r)
        apply (simp only: api.case)
        apply (rule guarded_catch[OF guarded_weaken[OF match]])
          apply simp
         apply (rule guarded_return, simp)
        apply (rule guarded_if)
         apply (rule guarded_return, simp)
        apply (rule guarded_weaken[OF all[OF rest]])
        apply simp
       apply (simp_all add: guarded_return)
      done
    done
qed

end
