(* ===== verification/VGM_Settle.thy ===== *)
theory VGM_Settle
  imports VGM_Reconcile
begin

text \<open>
  The runs that a run causes.  The volume group controller watches the objects it writes: when
  \<open>reconcile\<close> adds the finalizer of the node, marks the devices of the node as wiped or releases the
  object, it returns at once, and the written object brings the next run.  The theory shows that this
  comes to an end: every object a run writes is strictly closer to one that needs no write, with a
  measure of at most two.

  Of \<open>controllerutil\<close> it uses what \<open>AddFinalizer\<close> and \<open>RemoveFinalizer\<close> document: they change the list
  exactly if the finalizer is absent, respectively present, and report whether they did.
\<close>

definition finalizer_laws :: "vgm_env \<Rightarrow> bool" where
  "finalizer_laws env \<longleftrightarrow>
     (\<forall>fs f. AddFinalizer env fs f = (if f \<in> set fs then (fs, False) else (fs @ [f], True))
        \<and> RemoveFinalizer env fs f = (removeAll f fs, f \<in> set fs))"

text \<open>What is still to be written to the object for this node.\<close>

definition pending :: "vgm_env \<Rightarrow> LVMVolumeGroup \<Rightarrow> nat" where
  "pending env vg =
     (if vg_Deleted vg then of_bool (getFinalizer env \<in> set (vg_Finalizers vg))
      else of_bool (getFinalizer env \<notin> set (vg_Finalizers vg)) + of_bool (shouldWipeDevicesOnVolumeGroup env vg))"

text \<open>Some run on the object writes another one.\<close>

definition self_update :: "vgm_env \<Rightarrow> LVMVolumeGroup \<Rightarrow> LVMVolumeGroup \<Rightarrow> bool" where
  "self_update env vg vg' \<longleftrightarrow>
     (\<exists>s es. tr (snd (run_state (reconcile env vg) s)) = tr s @ es \<and> UpdateVolumeGroup vg' \<in> set es)"

section \<open>Every write makes progress\<close>

lemma pending_le: "pending env vg \<le> 2"
  by (simp add: pending_def)

lemma shouldWipe_finalizers [simp]:
  "shouldWipeDevicesOnVolumeGroup env (vg\<lparr>vg_Finalizers := fs\<rparr>) = shouldWipeDevicesOnVolumeGroup env vg"
  by (simp add: shouldWipe_iff)

lemma shouldWipe_marked [simp]:
  "\<not> shouldWipeDevicesOnVolumeGroup env
     (vg\<lparr>vg_Annotations := AList.update (wipedAnnotation env) t (vg_Annotations vg)\<rparr>)"
  by (simp add: shouldWipe_iff update_conv')

lemma released_less:
  "finalizer_laws env \<Longrightarrow> vg_Deleted vg \<Longrightarrow> vg' \<in> released env vg \<Longrightarrow> pending env vg' < pending env vg"
  by (auto simp: released_def finalizer_laws_def pending_def split: if_splits)

lemma advanced_less:
  "finalizer_laws env \<Longrightarrow> \<not> vg_Deleted vg \<Longrightarrow> vg' \<in> advanced env vg \<Longrightarrow> pending env vg' < pending env vg"
  by (auto simp: advanced_def finalizer_laws_def pending_def split: if_splits)

lemma reconcile_progress:
  assumes "finalizer_laws env"
  shows "always (\<lambda>h a. \<forall>vg'. a = UpdateVolumeGroup vg' \<longrightarrow> pending env vg' < pending env vg) (reconcile env vg)"
proof (rule reconcile_always)
  show "\<forall>vg'. a = UpdateVolumeGroup vg' \<longrightarrow> pending env vg' < pending env vg"
    if "vg_Deleted vg" "a \<in> deletion_actions \<union> UpdateVolumeGroup ` released env vg" for a
    using that released_less [OF assms] by (auto simp: action_sets)
  show "\<forall>vg'. a = UpdateVolumeGroup vg' \<longrightarrow> pending env vg' < pending env vg"
    if "\<not> vg_Deleted vg" "reconcile_guard env vg h a" for h a
    using that(2) unfolding reconcile_guard_def
    by (elim disjE) (auto simp: action_sets growth_def that(1) advanced_less [OF assms] split: if_splits)
qed

lemma self_update_less:
  assumes "finalizer_laws env" "self_update env vg vg'"
  shows "pending env vg' < pending env vg"
proof -
  obtain s es where es: "tr (snd (run_state (reconcile env vg) s)) = tr s @ es" "UpdateVolumeGroup vg' \<in> set es"
    using assms(2) by (auto simp: self_update_def)
  then obtain pre post where "es = pre @ UpdateVolumeGroup vg' # post" by (auto dest: split_list)
  with es(1) reconcile_progress [OF assms(1), of vg] show ?thesis
    unfolding always_iff by (metis (no_types, lifting) append_same_eq same_append_eq)
qed

lemma self_updates_less:
  assumes "finalizer_laws env"
  shows "(self_update env ^^ n) vg vg' \<Longrightarrow> n + pending env vg' \<le> pending env vg"
proof (induction n arbitrary: vg')
  case (Suc n)
  then obtain vg1 where "(self_update env ^^ n) vg vg1" and u: "self_update env vg1 vg'" by auto
  thus ?case using Suc.IH [of vg1] self_update_less [OF assms u] by simp
qed simp

section \<open>Settling\<close>

text \<open>C16: The runs that the volume group controller causes by its own writes come to an end.  Call an
  object the successor of another if some run of \<open>reconcile\<close> on the latter writes the former.  With the
  documented behaviour of \<open>AddFinalizer\<close> and \<open>RemoveFinalizer\<close> there is no infinite chain of
  successors, whatever the host and the API server answer; a chain is no longer than what is pending
  for this node on the first object, which is at most two writes: the finalizer and the mark of wiped
  devices, or for an object being deleted the release.  An object with nothing pending is never
  written.\<close>

theorem self_updates_terminate:
  assumes "finalizer_laws env"
  shows "wfp (\<lambda>vg' vg. self_update env vg vg')
    \<and> (\<forall>n vg vg'. (self_update env ^^ n) vg vg' \<longrightarrow> n \<le> pending env vg \<and> pending env vg \<le> 2)
    \<and> (\<forall>vg vg'. pending env vg = 0 \<longrightarrow> \<not> self_update env vg vg')"
proof (intro conjI allI impI)
  show "wfp (\<lambda>vg' vg. self_update env vg vg')"
    by (rule wfp_if_convertible_to_nat [where f = "pending env"]) (rule self_update_less [OF assms])
  show "n \<le> pending env vg" if "(self_update env ^^ n) vg vg'" for n vg vg'
    using self_updates_less [OF assms that] by simp
  show "\<not> self_update env vg vg'" if "pending env vg = 0" for vg vg'
    using self_update_less [OF assms, of vg vg'] that by auto
qed (rule pending_le)

lemma quiet_finalizer_laws: "finalizer_laws quiet_env"
  by (simp add: finalizer_laws_def quiet_env_def)

text \<open>A volume group that asks for wiping and has no finalizer: the finalizer is written first, and
  two writes are the most.\<close>

lemma first_update:
  "self_update quiet_env wipe_vg (wipe_vg\<lparr>vg_Finalizers := [getFinalizer quiet_env]\<rparr>)"
  unfolding self_update_def
  by (rule exI [of _ start_state])
    (simp add: reconcile_def wipe_vg_def quiet_env_def start_state_def)

theorem self_updates_terminate_witness:
  "finalizer_laws quiet_env \<and> pending quiet_env wipe_vg = 2
    \<and> (self_update quiet_env ^^ 1) wipe_vg (wipe_vg\<lparr>vg_Finalizers := [getFinalizer quiet_env]\<rparr>)
    \<and> (1::nat) \<le> pending quiet_env wipe_vg
    \<and> wfp (\<lambda>vg' vg. self_update quiet_env vg vg')"
proof -
  have "(self_update quiet_env ^^ 1) wipe_vg (wipe_vg\<lparr>vg_Finalizers := [getFinalizer quiet_env]\<rparr>)"
    using first_update by auto
  moreover have "pending quiet_env wipe_vg = 2"
    by (simp add: pending_def wipe_vg_def shouldWipeDevicesOnVolumeGroup_def)
  ultimately show ?thesis
    using self_updates_terminate [OF quiet_finalizer_laws] quiet_finalizer_laws by blast
qed

end
