(* ===== verification/Op_World.thy ===== *)
theory Op_World
  imports VG_Manager
begin

text \<open>
  The world of the operator process: the Kubernetes objects the cluster controller and the other
  controllers of the operator create and read, the actions on the API server, and the environment that
  answers them.

  As for the volume group manager every action is recorded in the trace \<open>tr\<close>, and the field of
  \<open>op_env\<close> that answers it gets the trace so far.  The fields stand for the API server and for the
  functions of \<open>controllerutil\<close>, \<open>metav1\<close>, \<open>meta\<close>, \<open>corev1helper\<close> and \<open>resource\<close> the sources call.
  \<open>controllerutil.CreateOrUpdate\<close> is a fetch, which yields the object the mutate function runs on
  (the stored one, or the given one if there is none), followed by the write of the result.  Of an
  object that is only fetched to be deleted the code reads nothing but whether it is marked for
  deletion, so the answer of \<open>get_deleted\<close> is just that.  Labels and annotations are association
  lists; a nil map and an empty one are the same, as they are for every use in the sources.
\<close>

section \<open>Objects\<close>

datatype cluster_Type = TypeOCP | TypeOther | TypeMicroShift

record StorageClass =
  sc_Name :: string
  sc_Labels :: labels
  sc_Annotations :: labels
  sc_Provisioner :: string
  sc_ReclaimPolicy :: "ReclaimPolicy option"
  sc_VolumeBindingMode :: "VolumeBindingMode option"
  sc_AllowVolumeExpansion :: "bool option"
  sc_Parameters :: labels

record VolumeSnapshotClass =
  vsc_Name :: string
  vsc_Labels :: labels
  vsc_Driver :: string
  vsc_DeletionPolicy :: string

record CSIDriverObject =
  cd_Name :: string
  cd_Labels :: labels
  cd_AttachRequired :: bool
  cd_PodInfoOnMount :: bool
  cd_StorageCapacity :: bool
  cd_VolumeLifecycleModes :: "string list"

record CSINodeObject =
  cn_Name :: string
  cn_Drivers :: "string list"

record SecurityContextConstraints =
  scc_Name :: string
  scc_Created :: bool
  scc_Labels :: labels
  scc_AllowPrivilegedContainer :: bool
  scc_AllowHostNetwork :: bool
  scc_AllowHostDirVolumePlugin :: bool
  scc_AllowHostPorts :: bool
  scc_AllowHostPID :: bool
  scc_AllowHostIPC :: bool
  scc_ReadOnlyRootFilesystem :: bool
  scc_RequiredDropCapabilities :: "string list"
  scc_RunAsUser :: string
  scc_SELinuxContext :: string
  scc_FSGroup :: string
  scc_SupplementalGroups :: string
  scc_Volumes :: "string list"
  scc_Users :: "string list"

record Endpoint =
  ep_Path :: string
  ep_Port :: string
  ep_Scheme :: string
  ep_BearerTokenFile :: string
  ep_ServerName :: string
  ep_CAFile :: string

record ServiceMonitorObject =
  sm_Name :: string
  sm_Namespace :: string
  sm_Labels :: labels
  sm_Endpoints :: "Endpoint list"
  sm_MatchLabels :: labels

datatype PolicyType = PolicyTypeIngress | PolicyTypeEgress

record NetworkPolicyPeer =
  npp_NamespaceSelector :: labels
  npp_PodSelector :: labels

record NetworkPolicyRule =
  npr_Peers :: "NetworkPolicyPeer list"
  npr_Ports :: "(string \<times> int) list"

record NetworkPolicySpec =
  nps_PodSelector :: labels
  nps_PolicyTypes :: "PolicyType list"
  nps_Ingress :: "NetworkPolicyRule list"
  nps_Egress :: "NetworkPolicyRule list"

record NetworkPolicy =
  np_Name :: string
  np_Namespace :: string
  np_Labels :: labels
  np_OwnerReferences :: "OwnerReference list"
  np_Spec :: NetworkPolicySpec

text \<open>The volumes and containers of the daemon set of the volume group manager.  An environment
  variable has a value or the path of a field; a volume is a host path, with its type if one is given,
  or a secret.\<close>

datatype VolumeSource = HostPath string "string option" | Secret string int

record Volume =
  vol_Name :: string
  vol_Source :: VolumeSource

record VolumeMount =
  vm_Name :: string
  vm_MountPath :: string
  vm_MountPropagation :: "string option"
  vm_ReadOnly :: bool

record Probe =
  pr_Path :: string
  pr_Port :: string
  pr_FailureThreshold :: int
  pr_InitialDelaySeconds :: int
  pr_TimeoutSeconds :: int
  pr_PeriodSeconds :: int

datatype EnvVar = EnvValue string string | EnvFieldRef string string

record Container =
  ct_Name :: string
  ct_Image :: string
  ct_Command :: "string list"
  ct_Privileged :: bool
  ct_RunAsUser :: int
  ct_Ports :: "(string \<times> int \<times> string) list"
  ct_StartupProbe :: Probe
  ct_LivenessProbe :: Probe
  ct_ReadinessProbe :: Probe
  ct_VolumeMounts :: "VolumeMount list"
  ct_Requests :: labels
  ct_Env :: "EnvVar list"
  ct_TerminationMessagePolicy :: string

record PodTemplate =
  pt_Labels :: labels
  pt_Annotations :: labels
  pt_Containers :: "Container list"
  pt_Volumes :: "Volume list"
  pt_ServiceAccountName :: string
  pt_PriorityClassName :: string
  pt_Tolerations :: "Toleration list"
  pt_Affinity :: "NodeSelector option"
  pt_TerminationGracePeriodSeconds :: int
  pt_HostPID :: bool

datatype IntOrString = IntVal int | StrVal string

datatype UpdateStrategyType = RollingUpdateDaemonSetStrategyType | OtherStrategyType string

record DaemonSet =
  dmn_Name :: string
  dmn_Namespace :: string
  dmn_Created :: bool
  dmn_Labels :: labels
  dmn_Annotations :: labels
  dmn_OwnerReferences :: "OwnerReference list"
  dmn_MatchLabels :: labels
  dmn_Template :: PodTemplate
  dmn_UpdateStrategy :: UpdateStrategyType
  dmn_MaxUnavailable :: "IntOrString option"
  dmn_UpdatedNumberScheduled :: int
  dmn_DesiredNumberScheduled :: int
  dmn_NumberReady :: int

record LogicalVolumeObject =
  lvo_Name :: string
  lvo_NodeName :: string
  lvo_Finalizers :: "string list"

record MatchExpression =
  me_Key :: string
  me_Operator :: string
  me_Values :: "string list"

record PersistentVolume =
  kpv_Name :: string
  kpv_Labels :: labels
  kpv_Deleted :: bool
  kpv_StorageClassName :: string
  kpv_ClaimRef :: "string option"
  kpv_Required :: "MatchExpression list list option"

record PersistentVolumeClaim =
  pvc_Name :: string
  pvc_Namespace :: string
  pvc_Deleted :: bool
  pvc_StorageClassName :: "string option"
  pvc_Phase :: string
  pvc_RequestedStorage :: Quantity

section \<open>Actions\<close>

datatype kind = KLVMCluster | KLVMVolumeGroup | KLVMVolumeGroupNodeStatus | KNode | KPod
  | KStorageClass | KVolumeSnapshotClass | KCSIDriver | KCSINode | KDaemonSet | KDeployment | KLease
  | KSecurityContextConstraints | KServiceMonitor | KCustomResourceDefinition | KNetworkPolicy
  | KLogicalVolume | KPersistentVolumeClaim | KPersistentVolume | KInfrastructure | KConfigMap

datatype kobject = OCluster LVMCluster | OVolumeGroup LVMVolumeGroup | ONodeStatus LVMVolumeGroupNodeStatus
  | OStorageClass StorageClass | OSnapshotClass VolumeSnapshotClass | OCSIDriver CSIDriverObject
  | ODaemonSet DaemonSet | OSCC SecurityContextConstraints | OServiceMonitor ServiceMonitorObject
  | ONetworkPolicy NetworkPolicy | OLogicalVolume LogicalVolumeObject | OPersistentVolume PersistentVolume

datatype list_option = InNamespace string | MatchingField string string | MatchingLabels labels | Limit int

text \<open>Calls of library code that set something up when a process starts, with what the program passes
  to them.\<close>

datatype lib_call =
    NewClient | FetchAPIServerTLSProfile | NewManager string bool string | SetupTLSWatcher
  | AddGRPCRunner string | AddHealthzCheck | AddReadyzCheck | StartManager
  | SetupClusterController cluster_Type bool string "string list" | SetupNodeRemoval string | SetupWebhook
  | SetupPVController | SetupPVCController | SetupTopoLVMNode | SetupTopoLVMPVC
  | NewControllerServer "(string \<times> string) list" string
  | AddProvisioner string string | AddSnapshotter string string | AddResizer string string
  | SetupLogicalVolumeReconciler string | AddMetricsExporter string | NewNodeServer string
  | SetupVGManager string string | NewWatcher
  | CSIConnect string | CSIClose | GetDriverCapabilities | NewClientset | NewSnapClientset | SetFeatureGate
  | OwnerLookup string string | StartInformers | WaitForCacheSync | RunProvisioner string
  | RunSnapshotter string | NewCSIClient string | NewResizerFromClient string | RunResizer string

datatype op_action =
    ApiGet kind string string
  | ApiList kind "list_option list"
  | ApiDelete kind string string
  | ApiUpdate kobject
  | ApiUpdateStatus LVMCluster
  | ApiApply StorageClass
  | CouFetch kobject
  | CouWrite kobject
  | OpEvent kind string bool string string
  | Boot lib_call

type_synonym op_history = "op_action list"

section \<open>The environment and the state\<close>

record op_env =
  oe_Namespace :: string
  oe_ClusterType :: cluster_Type
  oe_EnableSnapshotting :: bool
  oe_VGManagerCommand :: "string list"
  oe_VGManagerArgs :: "string list"
  oe_V1Enabled :: bool
  Getenv :: "string \<Rightarrow> string"
  schedule :: "op_history \<Rightarrow> nat list"
  cluster_gvk :: "gvk res"
  get_cluster :: "op_history \<Rightarrow> string \<Rightarrow> string \<Rightarrow> LVMCluster api"
  get_vg :: "op_history \<Rightarrow> string \<Rightarrow> string \<Rightarrow> LVMVolumeGroup api"
  get_nodestatus :: "op_history \<Rightarrow> string \<Rightarrow> string \<Rightarrow> LVMVolumeGroupNodeStatus api"
  get_node :: "op_history \<Rightarrow> string \<Rightarrow> string \<Rightarrow> Node api"
  get_pod :: "op_history \<Rightarrow> string \<Rightarrow> string \<Rightarrow> (string \<times> string) list api"
  get_sc :: "op_history \<Rightarrow> string \<Rightarrow> StorageClass api"
  get_csinode :: "op_history \<Rightarrow> string \<Rightarrow> CSINodeObject api"
  get_pv :: "op_history \<Rightarrow> string \<Rightarrow> string \<Rightarrow> PersistentVolume api"
  get_pvc :: "op_history \<Rightarrow> string \<Rightarrow> string \<Rightarrow> PersistentVolumeClaim api"
  get_deleted :: "op_history \<Rightarrow> kind \<Rightarrow> string \<Rightarrow> string \<Rightarrow> bool api"
  list_clusters :: "op_history \<Rightarrow> list_option list \<Rightarrow> LVMCluster list res"
  list_vgs :: "op_history \<Rightarrow> list_option list \<Rightarrow> LVMVolumeGroup list api"
  list_nodestatus :: "op_history \<Rightarrow> list_option list \<Rightarrow> LVMVolumeGroupNodeStatus list res"
  list_nodes :: "op_history \<Rightarrow> list_option list \<Rightarrow> Node list res"
  list_scs :: "op_history \<Rightarrow> list_option list \<Rightarrow> StorageClass list res"
  list_lvs :: "op_history \<Rightarrow> list_option list \<Rightarrow> LogicalVolumeObject list res"
  list_count :: "op_history \<Rightarrow> kind \<Rightarrow> list_option list \<Rightarrow> nat res"
  delete :: "op_history \<Rightarrow> kind \<Rightarrow> string \<Rightarrow> string \<Rightarrow> unit api"
  update :: "op_history \<Rightarrow> kobject \<Rightarrow> go_error option"
  update_cluster :: "op_history \<Rightarrow> LVMCluster \<Rightarrow> LVMCluster res"
  update_status :: "op_history \<Rightarrow> LVMCluster \<Rightarrow> go_error option"
  apply_sc :: "op_history \<Rightarrow> StorageClass \<Rightarrow> go_error option"
  fetch_vg :: "op_history \<Rightarrow> LVMVolumeGroup \<Rightarrow> LVMVolumeGroup res"
  fetch_nodestatus :: "op_history \<Rightarrow> LVMVolumeGroupNodeStatus \<Rightarrow> LVMVolumeGroupNodeStatus res"
  fetch_snapshotclass :: "op_history \<Rightarrow> VolumeSnapshotClass \<Rightarrow> VolumeSnapshotClass res"
  fetch_csidriver :: "op_history \<Rightarrow> CSIDriverObject \<Rightarrow> CSIDriverObject res"
  fetch_daemonset :: "op_history \<Rightarrow> DaemonSet \<Rightarrow> DaemonSet res"
  fetch_scc :: "op_history \<Rightarrow> SecurityContextConstraints \<Rightarrow> SecurityContextConstraints res"
  fetch_monitor :: "op_history \<Rightarrow> ServiceMonitorObject \<Rightarrow> ServiceMonitorObject res"
  fetch_policy :: "op_history \<Rightarrow> NetworkPolicy \<Rightarrow> NetworkPolicy res"
  write_object :: "op_history \<Rightarrow> kobject \<Rightarrow> go_error option"
  written_daemonset :: "op_history \<Rightarrow> DaemonSet \<Rightarrow> DaemonSet"
  SetStatusCondition :: "Condition list \<Rightarrow> Condition \<Rightarrow> Condition list"
  TolerationsTolerateTaint :: "Toleration list \<Rightarrow> Taint \<Rightarrow> bool"
  NodeMatches :: "Node \<Rightarrow> NodeSelector \<Rightarrow> bool res"
  SetControllerReference :: "LVMCluster \<Rightarrow> OwnerReference list \<Rightarrow> OwnerReference list res"
  IsControlledBy :: "OwnerReference list \<Rightarrow> LVMCluster \<Rightarrow> bool"
  oe_AddFinalizer :: "string list \<Rightarrow> string \<Rightarrow> string list \<times> bool"
  oe_RemoveFinalizer :: "string list \<Rightarrow> string \<Rightarrow> string list \<times> bool"
  range_array :: "op_history \<Rightarrow> string list \<Rightarrow> string list"
  ScaledValue :: "IntOrString option \<Rightarrow> int \<Rightarrow> int res"
  ParseQuantity :: "string \<Rightarrow> Quantity res"
  Quantity_String :: "Quantity \<Rightarrow> string"
  fmt_1f :: "float64 \<Rightarrow> string"
  IsNoMatchError :: "go_error \<Rightarrow> bool"
  DefaultDeviceClassAnnotationName :: string
  oe_now :: "op_history \<Rightarrow> string"
  oe_boot :: "op_history \<Rightarrow> lib_call \<Rightarrow> go_error option"
  oe_LookupEnv :: "string \<Rightarrow> string option"

text \<open>The state of the process beside the trace: the image of the running operator, empty until it is
  known, and the cached cluster type.\<close>

record op_state = "op_action traced" +
  ImageName :: string
  cached_type :: "cluster_Type option"

type_synonym 'a op = "(op_state, 'a) state"

text \<open>Calls of the API server.  \<open>IgnoreNotFound\<close> turns the absence of an object into success.\<close>

definition IgnoreNotFound :: "'a api \<Rightarrow> go_error option" where
  "IgnoreNotFound x = (case x of ApiErr e \<Rightarrow> Some e | _ \<Rightarrow> None)"

definition api_error :: "'a api \<Rightarrow> 'a res" where
  "api_error x = (case x of Found v \<Rightarrow> Inr v | NotFound e \<Rightarrow> Inl e | ApiErr e \<Rightarrow> Inl e)"

definition Get_deleted :: "op_env \<Rightarrow> kind \<Rightarrow> string \<Rightarrow> string \<Rightarrow> bool api op" where
  "Get_deleted env k ns n = ask (\<lambda>h. get_deleted env h k ns n) (ApiGet k ns n)"

definition Delete :: "op_env \<Rightarrow> kind \<Rightarrow> string \<Rightarrow> string \<Rightarrow> unit api op" where
  "Delete env k ns n = ask (\<lambda>h. delete env h k ns n) (ApiDelete k ns n)"

definition Update :: "op_env \<Rightarrow> kobject \<Rightarrow> go_error option op" where
  "Update env x = ask (\<lambda>h. update env h x) (ApiUpdate x)"

definition List_nodes :: "op_env \<Rightarrow> Node list res op" where
  "List_nodes env = ask (\<lambda>h. list_nodes env h []) (ApiList KNode [])"

definition List_nodestatus :: "op_env \<Rightarrow> list_option list \<Rightarrow> LVMVolumeGroupNodeStatus list res op" where
  "List_nodestatus env opts = ask (\<lambda>h. list_nodestatus env h opts) (ApiList KLVMVolumeGroupNodeStatus opts)"

definition List_vgs :: "op_env \<Rightarrow> list_option list \<Rightarrow> LVMVolumeGroup list api op" where
  "List_vgs env opts = ask (\<lambda>h. list_vgs env h opts) (ApiList KLVMVolumeGroup opts)"

text \<open>\<open>CreateOrUpdate\<close>: the fetch function of the kind, the constructor of its objects, the given object
  and the mutate function.\<close>

definition CreateOrUpdate :: "op_env \<Rightarrow> (op_history \<Rightarrow> 'o \<Rightarrow> 'o res) \<Rightarrow> ('o \<Rightarrow> kobject) \<Rightarrow> 'o \<Rightarrow>
    ('o \<Rightarrow> 'o res) \<Rightarrow> 'o res op" where
  "CreateOrUpdate env fetch wrap obj mutate =
     catch (ask (\<lambda>h. fetch h obj) (CouFetch (wrap obj)))
       (\<lambda>err. ret (Inl err))
       (\<lambda>cur. case mutate cur of Inl err \<Rightarrow> ret (Inl err)
          | Inr new \<Rightarrow> catch_err (ask (\<lambda>h. write_object env h (wrap new)) (CouWrite (wrap new)))
              (\<lambda>err. ret (Inl err)) (ret (Inr new)))"

section \<open>A concrete environment\<close>

text \<open>An API server that has nothing and accepts every request, and the library functions on the simplest
  values; instances for concrete runs update it.\<close>

definition quiet_op :: op_env where
  "quiet_op = \<lparr>oe_Namespace = ''openshift-lvm-storage'', oe_ClusterType = TypeOCP, oe_EnableSnapshotting = True,
     oe_VGManagerCommand = [], oe_VGManagerArgs = [], oe_V1Enabled = False, Getenv = (\<lambda>_. ''pod''),
     schedule = (\<lambda>_. []), cluster_gvk = Inr \<lparr>gvk_Group = ''lvm.topolvm.io'', gvk_Version = ''v1alpha1'', gvk_Kind = ''LVMCluster''\<rparr>,
     get_cluster = (\<lambda>h ns n. NotFound absent), get_vg = (\<lambda>h ns n. NotFound absent),
     get_nodestatus = (\<lambda>h ns n. NotFound absent), get_node = (\<lambda>h ns n. NotFound absent),
     get_pod = (\<lambda>h ns n. Found [(''manager'', ''image'')]), get_sc = (\<lambda>h n. NotFound absent),
     get_csinode = (\<lambda>h n. NotFound absent), get_pv = (\<lambda>h ns n. NotFound absent),
     get_pvc = (\<lambda>h ns n. NotFound absent), get_deleted = (\<lambda>h k ns n. NotFound absent),
     list_clusters = (\<lambda>h opts. Inr []), list_vgs = (\<lambda>h opts. Found []), list_nodestatus = (\<lambda>h opts. Inr []),
     list_nodes = (\<lambda>h opts. Inr []), list_scs = (\<lambda>h opts. Inr []), list_lvs = (\<lambda>h opts. Inr []),
     list_count = (\<lambda>h k opts. Inr 0), delete = (\<lambda>h k ns n. Found ()), update = (\<lambda>h x. None),
     update_cluster = (\<lambda>h c. Inr c), update_status = (\<lambda>h c. None), apply_sc = (\<lambda>h sc. None),
     fetch_vg = (\<lambda>h x. Inr x), fetch_nodestatus = (\<lambda>h x. Inr x), fetch_snapshotclass = (\<lambda>h x. Inr x),
     fetch_csidriver = (\<lambda>h x. Inr x), fetch_daemonset = (\<lambda>h x. Inr x), fetch_scc = (\<lambda>h x. Inr x),
     fetch_monitor = (\<lambda>h x. Inr x), fetch_policy = (\<lambda>h x. Inr x), write_object = (\<lambda>h x. None),
     written_daemonset = (\<lambda>h ds. ds),
     SetStatusCondition = (\<lambda>cs cd. filter (\<lambda>d. cond_Type d \<noteq> cond_Type cd) cs @ [cd]),
     TolerationsTolerateTaint = (\<lambda>tols t. False), NodeMatches = (\<lambda>n sel. Inr True),
     SetControllerReference = (\<lambda>c refs. Inr refs), IsControlledBy = (\<lambda>refs c. \<exists>r \<in> set refs. or_Controller r \<and> or_UID r = lc_UID c),
     oe_AddFinalizer = (\<lambda>fs f. if f \<in> set fs then (fs, False) else (fs @ [f], True)),
     oe_RemoveFinalizer = (\<lambda>fs f. (removeAll f fs, f \<in> set fs)), range_array = (\<lambda>h arr. arr),
     ScaledValue = (\<lambda>v n. Inl absent), ParseQuantity = (\<lambda>s. Inl absent), Quantity_String = q_repr,
     fmt_1f = (\<lambda>_. []), IsNoMatchError = (\<lambda>_. False), DefaultDeviceClassAnnotationName = ''00default'',
     oe_now = (\<lambda>_. ''2024-01-01T00:00:00Z''), oe_boot = (\<lambda>h c. None),
     oe_LookupEnv = (\<lambda>n. Some n)\<rparr>"

definition idle_op :: op_state where
  "idle_op = \<lparr>tr = [], ImageName = [], cached_type = None\<rparr>"

definition sample_cluster :: LVMCluster where
  "sample_cluster = \<lparr>lc_Name = ''cluster'', lc_Namespace = ''openshift-lvm-storage'', lc_UID = ''u'',
     lc_Finalizers = [''lvmcluster.topolvm.io''], lc_Deleted = False, lc_Tolerations = [],
     lc_DeviceClasses = [\<lparr>dc_Name = ''vg1'', dc_DeviceSelector = None, dc_NodeSelector = None, dc_ThinPoolConfig = None,
       dc_RAIDConfig = None, dc_Default = True, dc_FilesystemType = FilesystemTypeXFS,
       dc_DeviceDiscoveryPolicy = None, dc_StorageClassOptions = None\<rparr>],
     lc_Status = \<lparr>lcs_Ready = False, lcs_State = LVMStatusUnknown, lcs_Conditions = [], lcs_DeviceClassStatuses = []\<rparr>\<rparr>"

end
