(* ===== verification/Cluster_Status.thy ===== *)
theory Cluster_Status
  imports Op_World
begin

text \<open>
  The status of an \<open>LVMCluster\<close> (\<open>internal/controllers/lvmcluster/status.go\<close>) and the selection of
  nodes (\<open>lvmcluster/selector/selector.go\<close>).

  The iteration over the Go map in \<open>computeDeviceClassStatuses\<close> has no fixed order; the model uses the
  order in which the names were inserted, and what is proved of the result does not depend on it.
\<close>

section \<open>Node selection\<close>

definition TaintNodeNotReady :: string where
  "TaintNodeNotReady = ''node.kubernetes.io/not-ready''"

definition ErrNotReadyTaintExists :: go_error where
  "ErrNotReadyTaintExists = Errorf ''node has a %s taint'' [S TaintNodeNotReady]"

fun selectorTerms :: "DeviceClass list \<Rightarrow> NodeSelectorTerm list \<Rightarrow> NodeSelectorTerm list option" where
  "selectorTerms [] terms = Some terms"
| "selectorTerms (dc # dcs) terms = (case dc_NodeSelector dc of None \<Rightarrow> None
     | Some sel \<Rightarrow> selectorTerms dcs (terms @ NodeSelectorTerms sel))"

definition ExtractNodeSelectorAndTolerations :: "LVMCluster \<Rightarrow> NodeSelector option \<times> Toleration list" where
  "ExtractNodeSelectorAndTolerations c = (case selectorTerms (lc_DeviceClasses c) [] of
     None \<Rightarrow> (None, lc_Tolerations c)
   | Some terms \<Rightarrow> (if length terms > 0 then Some \<lparr>NodeSelectorTerms = terms\<rparr> else None, lc_Tolerations c))"

fun ToleratesAllTaints :: "op_env \<Rightarrow> Taint list \<Rightarrow> Toleration list \<Rightarrow> bool \<times> go_error option" where
  "ToleratesAllTaints env [] tols = (True, None)"
| "ToleratesAllTaints env (t # ts) tols =
     (if \<not> TolerationsTolerateTaint env tols t
      then (if taint_Key t = TaintNodeNotReady then (False, Some ErrNotReadyTaintExists) else (False, None))
      else ToleratesAllTaints env ts tols)"

text \<open>The loop of \<open>ValidNodes\<close> with the nodes and errors collected so far; \<open>Inl\<close> is the early return.\<close>

fun validNodes_loop :: "op_env \<Rightarrow> NodeSelector option \<Rightarrow> Toleration list \<Rightarrow> Node list \<Rightarrow>
    Node list \<Rightarrow> go_error option list \<Rightarrow> go_error + (Node list \<times> go_error option list)" where
  "validNodes_loop env sel tols [] valid errs = Inr (valid, errs)"
| "validNodes_loop env sel tols (n # ns) valid errs =
     (let (ok, err) = ToleratesAllTaints env (node_Taints n) tols;
          errs' = (case err of None \<Rightarrow> errs | Some e \<Rightarrow> errs @ [Some e])
      in if \<not> ok then validNodes_loop env sel tols ns valid errs'
         else (case sel of
             None \<Rightarrow> validNodes_loop env sel tols ns (valid @ [n]) errs'
           | Some s \<Rightarrow> (case NodeMatches env n s of
               Inl e \<Rightarrow> Inl e
             | Inr matches \<Rightarrow> validNodes_loop env sel tols ns (if matches then valid @ [n] else valid) errs')))"

definition ValidNodes :: "op_env \<Rightarrow> LVMCluster \<Rightarrow> Node list \<Rightarrow> Node list \<times> go_error option" where
  "ValidNodes env c nodes = (let (sel, tols) = ExtractNodeSelectorAndTolerations c
     in case validNodes_loop env sel tols nodes [] [] of
          Inl e \<Rightarrow> ([], Some e)
        | Inr (valid, errs) \<Rightarrow> (valid, errors_Join errs))"

section \<open>Conditions\<close>

definition ReasonReconciliationInProgress :: string where
  "ReasonReconciliationInProgress = ''ReconciliationInProgress''"
definition MessageReconciliationInProgress :: string where
  "MessageReconciliationInProgress = ''Reconciliation is still in progress''"
definition ReasonResourcesAvailable :: string where
  "ReasonResourcesAvailable = ''ResourcesAvailable''"
definition MessageResourcesAvailable :: string where
  "MessageResourcesAvailable = ''Reconciliation is complete and all the resources are available''"
definition ReasonResourcesIncomplete :: string where
  "ReasonResourcesIncomplete = ''ResourcesSyncIncomplete''"
definition MessageReasonResourcesSyncIncomplete :: string where
  "MessageReasonResourcesSyncIncomplete = ''Resources have not yet been fully synced to the cluster: %v''"
definition ReasonVGReadinessInProgress :: string where
  "ReasonVGReadinessInProgress = ''VGReadinessInProgress''"
definition MessageVGReadinessInProgress :: string where
  "MessageVGReadinessInProgress = ''VG readiness check is still in progress''"
definition ReasonVGsFailed :: string where "ReasonVGsFailed = ''VGsFailed''"
definition MessageVGsFailed :: string where "MessageVGsFailed = ''One or more VGs are failed''"
definition ReasonVGsDegraded :: string where "ReasonVGsDegraded = ''VGsDegraded''"
definition MessageVGsDegraded :: string where "MessageVGsDegraded = ''One or more VGs are degraded''"
definition ReasonVGsReady :: string where "ReasonVGsReady = ''VGsReady''"
definition MessageVGsReady :: string where "MessageVGsReady = ''All the VGs are ready''"
definition ReasonVGsUnmanaged :: string where "ReasonVGsUnmanaged = ''VGsUnmanaged''"
definition MessageVGsUnmanaged :: string where
  "MessageVGsUnmanaged = ''VGs are unmanaged and not part of the LVMCluster, but the manager is running''"

lemmas reason_defs = ReasonReconciliationInProgress_def ReasonResourcesAvailable_def
  ReasonResourcesIncomplete_def ReasonVGReadinessInProgress_def ReasonVGsFailed_def
  ReasonVGsDegraded_def ReasonVGsReady_def ReasonVGsUnmanaged_def

definition ResourcesAvailable :: string where "ResourcesAvailable = ''ResourcesAvailable''"
definition VolumeGroupsReady :: string where "VolumeGroupsReady = ''VolumeGroupsReady''"

definition setCondition :: "op_env \<Rightarrow> Condition \<Rightarrow> LVMCluster \<Rightarrow> LVMCluster" where
  "setCondition env c i = i\<lparr>lc_Status := (lc_Status i)
     \<lparr>lcs_Conditions := SetStatusCondition env (lcs_Conditions (lc_Status i)) c\<rparr>\<rparr>"

definition setResourcesAvailableConditionTrue :: "op_env \<Rightarrow> LVMCluster \<Rightarrow> LVMCluster" where
  "setResourcesAvailableConditionTrue env = setCondition env \<lparr>cond_Type = ResourcesAvailable,
     cond_Status = ConditionTrue, cond_Reason = ReasonResourcesAvailable, cond_Message = MessageResourcesAvailable\<rparr>"

definition setResourcesAvailableConditionFalse :: "op_env \<Rightarrow> go_error \<Rightarrow> LVMCluster \<Rightarrow> LVMCluster" where
  "setResourcesAvailableConditionFalse env err = setCondition env \<lparr>cond_Type = ResourcesAvailable,
     cond_Status = ConditionFalse, cond_Reason = ReasonResourcesIncomplete,
     cond_Message = sprintf MessageReasonResourcesSyncIncomplete [Error err]\<rparr>"

definition setResourcesAvailableConditionInProgress :: "op_env \<Rightarrow> LVMCluster \<Rightarrow> LVMCluster" where
  "setResourcesAvailableConditionInProgress env = setCondition env \<lparr>cond_Type = ResourcesAvailable,
     cond_Status = ConditionFalse, cond_Reason = ReasonReconciliationInProgress,
     cond_Message = MessageReconciliationInProgress\<rparr>"

definition setVolumeGroupsReadyConditionTrue :: "op_env \<Rightarrow> LVMCluster \<Rightarrow> LVMCluster" where
  "setVolumeGroupsReadyConditionTrue env = setCondition env \<lparr>cond_Type = VolumeGroupsReady,
     cond_Status = ConditionTrue, cond_Reason = ReasonVGsReady, cond_Message = MessageVGsReady\<rparr>"

definition setVolumeGroupsReadyConditionFailed :: "op_env \<Rightarrow> LVMCluster \<Rightarrow> LVMCluster" where
  "setVolumeGroupsReadyConditionFailed env = setCondition env \<lparr>cond_Type = VolumeGroupsReady,
     cond_Status = ConditionFalse, cond_Reason = ReasonVGsFailed, cond_Message = MessageVGsFailed\<rparr>"

definition setVolumeGroupsReadyConditionDegraded :: "op_env \<Rightarrow> LVMCluster \<Rightarrow> LVMCluster" where
  "setVolumeGroupsReadyConditionDegraded env = setCondition env \<lparr>cond_Type = VolumeGroupsReady,
     cond_Status = ConditionFalse, cond_Reason = ReasonVGsDegraded, cond_Message = MessageVGsDegraded\<rparr>"

definition setVolumeGroupsReadyConditionInProgress :: "op_env \<Rightarrow> LVMCluster \<Rightarrow> LVMCluster" where
  "setVolumeGroupsReadyConditionInProgress env = setCondition env \<lparr>cond_Type = VolumeGroupsReady,
     cond_Status = ConditionFalse, cond_Reason = ReasonVGReadinessInProgress,
     cond_Message = MessageVGReadinessInProgress\<rparr>"

definition setVolumeGroupsReadyConditionUnmanaged :: "op_env \<Rightarrow> LVMCluster \<Rightarrow> LVMCluster" where
  "setVolumeGroupsReadyConditionUnmanaged env = setCondition env \<lparr>cond_Type = VolumeGroupsReady,
     cond_Status = ConditionTrue, cond_Reason = ReasonVGsUnmanaged, cond_Message = MessageVGsUnmanaged\<rparr>"

section \<open>Readiness\<close>

definition vgNodeMap :: "LVMVolumeGroupNodeStatus list \<Rightarrow> (string \<times> NodeStatus list) list" where
  "vgNodeMap items = fold (\<lambda>nodeItem m. fold (\<lambda>item m. AList.update (vs_Name item)
       (Deref (map_of m (vs_Name item)) [] @ [\<lparr>nst_Node = ns_Name nodeItem, nst_VGStatus = item\<rparr>]) m)
     (ns_LVMVGStatus nodeItem) m) items []"

definition computeDeviceClassStatuses :: "LVMVolumeGroupNodeStatus list \<Rightarrow> DeviceClassStatus list" where
  "computeDeviceClassStatuses items =
     map (\<lambda>(key, val). \<lparr>dcs_Name = key, dcs_NodeStatus = val\<rparr>) (vgNodeMap items)"

definition translateReasonToState :: "string \<Rightarrow> LVMStateType \<Rightarrow> LVMStateType" where
  "translateReasonToState reason currentState =
     (if reason = ReasonVGsFailed then LVMStatusFailed
      else if reason = ReasonVGsDegraded then
        (if currentState \<noteq> LVMStatusFailed then LVMStatusDegraded else currentState)
      else if reason \<in> {ReasonReconciliationInProgress, ReasonVGReadinessInProgress, ReasonResourcesIncomplete} then
        (if currentState \<noteq> LVMStatusFailed \<and> currentState \<noteq> LVMStatusDegraded then LVMStatusProgressing
         else currentState)
      else if reason \<in> {ReasonResourcesAvailable, ReasonVGsReady, ReasonVGsUnmanaged} then
        (if currentState \<notin> {LVMStatusFailed, LVMStatusDegraded, LVMStatusProgressing} then LVMStatusReady
         else currentState)
      else LVMStatusUnknown)"

definition computeLVMClusterReadiness :: "Condition list \<Rightarrow> LVMStateType \<times> bool" where
  "computeLVMClusterReadiness conditions =
     (let state = fold (\<lambda>c st. translateReasonToState (cond_Reason c) st) conditions LVMStatusUnknown
      in if state = LVMStatusReady then (state, True) else (state, False))"

definition isNodeValid :: "op_env \<Rightarrow> Node \<Rightarrow> LVMCluster \<Rightarrow> DeviceClass \<Rightarrow> bool res" where
  "isNodeValid env node cluster dc = (case ToleratesAllTaints env (node_Taints node) (lc_Tolerations cluster) of
     (ok, Some err) \<Rightarrow> Inl err
   | (ok, None) \<Rightarrow> if \<not> ok then Inr False
       else (case dc_NodeSelector dc of None \<Rightarrow> Inr True
         | Some sel \<Rightarrow> (case NodeMatches env node sel of
             Inl err \<Rightarrow> Inl (Errorf ''error matching node selector terms: %v'' [V err])
           | Inr matches \<Rightarrow> Inr matches)))"

fun VGStatusType_string :: "VGStatusType \<Rightarrow> string" where
  "VGStatusType_string VGStatusProgressing = ''Progressing''"
| "VGStatusType_string VGStatusReady = ''Ready''"
| "VGStatusType_string VGStatusFailed = ''Failed''"
| "VGStatusType_string VGStatusDegraded = ''Degraded''"
| "VGStatusType_string (VGStatusOther s) = s"

text \<open>The check of one valid node: \<open>None\<close> when its entry for the class is ready.\<close>

definition nodeSetupError :: "DeviceClass \<Rightarrow> Node \<Rightarrow> LVMVolumeGroupNodeStatus list \<Rightarrow> go_error option" where
  "nodeSetupError dc node statuses = (case find (\<lambda>st. node_Name node = ns_Name st) statuses of
     None \<Rightarrow> Some (Errorf (''no node status found for node %s,'' @
         ''that is part of the expected nodes for device class %s'') [S (node_Name node), S (dc_Name dc)])
   | Some st \<Rightarrow> (case find (\<lambda>v. vs_Name v = dc_Name dc) (ns_LVMVGStatus st) of
       None \<Rightarrow> Some (Errorf (''no VGStatus found for VG %s on node %s,'' @
         ''that is part of the expected nodes for device class %s'') [S (dc_Name dc), S (node_Name node), S (dc_Name dc)])
     | Some v \<Rightarrow> if vs_Status v \<noteq> VGStatusReady
         then Some (Errorf (''VG %s on node %s is not in ready state (%s),'' @
           ''that is part of the expected nodes for device class %s'')
           [S (dc_Name dc), S (VGStatusType_string (vs_Status v)), S (node_Name node), S (dc_Name dc)])
         else None))"

fun setup_nodes :: "op_env \<Rightarrow> LVMCluster \<Rightarrow> DeviceClass \<Rightarrow> LVMVolumeGroupNodeStatus list \<Rightarrow> bool \<Rightarrow>
    Node list \<Rightarrow> go_error option" where
  "setup_nodes env cluster dc statuses validNodeExists [] =
     (if \<not> validNodeExists then Some (Errorf ''no valid node found for device class %s'' [S (dc_Name dc)]) else None)"
| "setup_nodes env cluster dc statuses validNodeExists (node # nodes) = (case isNodeValid env node cluster dc of
     Inl err \<Rightarrow> Some err
   | Inr valid \<Rightarrow> if \<not> valid then setup_nodes env cluster dc statuses validNodeExists nodes
       else (case nodeSetupError dc node statuses of Some err \<Rightarrow> Some err
         | None \<Rightarrow> setup_nodes env cluster dc statuses True nodes))"

definition validateDeviceClassSetup :: "op_env \<Rightarrow> LVMCluster \<Rightarrow> Node list \<Rightarrow> LVMVolumeGroupNodeStatus list \<Rightarrow>
    go_error option" where
  "validateDeviceClassSetup env cluster nodes statuses =
     first_some (\<lambda>dc. setup_nodes env cluster dc statuses False nodes) (lc_DeviceClasses cluster)"

definition setVolumeGroupsReadyCondition :: "op_env \<Rightarrow> Node list \<Rightarrow> LVMVolumeGroupNodeStatus list \<Rightarrow>
    LVMCluster \<Rightarrow> LVMCluster" where
  "setVolumeGroupsReadyCondition env nodes statuses i =
     (let all = concat (map ns_LVMVGStatus statuses)
      in case validateDeviceClassSetup env i nodes statuses of
           None \<Rightarrow> setVolumeGroupsReadyConditionTrue env i
         | Some err \<Rightarrow>
             if \<exists>v \<in> set all. vs_Status v = VGStatusFailed then setVolumeGroupsReadyConditionFailed env i
             else if \<exists>v \<in> set all. vs_Status v = VGStatusDegraded then setVolumeGroupsReadyConditionDegraded env i
             else i)"

section \<open>Validation of the set-up\<close>

text \<open>What the status check demands: for every device class the validity of every node can be
  decided, some node is valid, and every valid node reports the class as ready.\<close>

definition entry_ready :: "DeviceClass \<Rightarrow> Node \<Rightarrow> LVMVolumeGroupNodeStatus list \<Rightarrow> bool" where
  "entry_ready dc n statuses \<longleftrightarrow> (\<exists>st v. find (\<lambda>st. node_Name n = ns_Name st) statuses = Some st
     \<and> find (\<lambda>v. vs_Name v = dc_Name dc) (ns_LVMVGStatus st) = Some v \<and> vs_Status v = VGStatusReady)"

definition all_classes_ready :: "op_env \<Rightarrow> LVMCluster \<Rightarrow> Node list \<Rightarrow> LVMVolumeGroupNodeStatus list \<Rightarrow> bool" where
  "all_classes_ready env c nodes statuses \<longleftrightarrow> (\<forall>dc \<in> set (lc_DeviceClasses c).
     (\<exists>n \<in> set nodes. isNodeValid env n c dc = Inr True)
     \<and> (\<forall>n \<in> set nodes. isNodeValid env n c dc = Inr False
          \<or> isNodeValid env n c dc = Inr True \<and> entry_ready dc n statuses))"

lemma nodeSetupError_None: "nodeSetupError dc n statuses = None \<longleftrightarrow> entry_ready dc n statuses"
  by (auto simp: nodeSetupError_def entry_ready_def split: option.splits)

lemma setup_nodes_None: "setup_nodes env c dc statuses e nodes = None \<longleftrightarrow>
    (e \<or> (\<exists>n \<in> set nodes. isNodeValid env n c dc = Inr True))
    \<and> (\<forall>n \<in> set nodes. isNodeValid env n c dc = Inr False
          \<or> isNodeValid env n c dc = Inr True \<and> entry_ready dc n statuses)"
proof (induction nodes arbitrary: e)
  case (Cons n nodes)
  show ?case
  proof (cases "isNodeValid env n c dc")
    case (Inr b)
    with Cons show ?thesis
      by (cases b; cases "nodeSetupError dc n statuses") (auto simp: nodeSetupError_None[symmetric])
  qed simp
qed simp

lemma first_some_None [simp]: "first_some f xs = None \<longleftrightarrow> (\<forall>x \<in> set xs. f x = None)"
  by (induction xs) (auto split: option.split)

lemma setup_valid: "validateDeviceClassSetup env c nodes statuses = None \<longleftrightarrow> all_classes_ready env c nodes statuses"
  by (simp add: validateDeviceClassSetup_def all_classes_ready_def setup_nodes_None)

text \<open>The cluster's volume groups count as ready exactly when they are.  \<open>validateDeviceClassSetup\<close>
  returns no error if and only if for every device class some node of the list is valid, and every valid
  node has a status object whose entry for the class is in state ready; a node whose validity cannot be
  decided is an error.\<close>

lemma validateDeviceClassSetup_ok_iff:
  "validateDeviceClassSetup env c nodes statuses = None \<longleftrightarrow> all_classes_ready env c nodes statuses"
  by (rule setup_valid)

section \<open>The state of the cluster\<close>

text \<open>The severity of a reason, and the worst one of a list; the initial state has none.\<close>

definition known_reasons :: "string set" where
  "known_reasons = {ReasonVGsFailed, ReasonVGsDegraded, ReasonReconciliationInProgress,
     ReasonVGReadinessInProgress, ReasonResourcesIncomplete, ReasonResourcesAvailable, ReasonVGsReady,
     ReasonVGsUnmanaged}"

definition worst :: "string set \<Rightarrow> LVMStateType" where
  "worst rs = (if ReasonVGsFailed \<in> rs then LVMStatusFailed
     else if ReasonVGsDegraded \<in> rs then LVMStatusDegraded
     else if rs \<inter> {ReasonReconciliationInProgress, ReasonVGReadinessInProgress, ReasonResourcesIncomplete} \<noteq> {}
       then LVMStatusProgressing
     else if rs \<inter> {ReasonResourcesAvailable, ReasonVGsReady, ReasonVGsUnmanaged} \<noteq> {} then LVMStatusReady
     else LVMStatusUnknown)"

text \<open>The conditions after the last one whose reason the controller does not know.\<close>

definition relevant :: "Condition list \<Rightarrow> Condition list" where
  "relevant cs = rev (takeWhile (\<lambda>c. cond_Reason c \<in> known_reasons) (rev cs))"

lemma relevant_snoc: "relevant (cs @ [c]) = (if cond_Reason c \<in> known_reasons then relevant cs @ [c] else [])"
  by (simp add: relevant_def)

lemma translate_known:
  assumes "r \<in> known_reasons"
  shows "translateReasonToState r (worst rs) = worst (insert r rs)"
  using assms
  by (elim known_reasons_def[THEN equalityD1, THEN subsetD, THEN insertE] insertE emptyE; hypsubst)
    (simp_all add: translateReasonToState_def worst_def reason_defs)

lemma translate_unknown: "r \<notin> known_reasons \<Longrightarrow> translateReasonToState r st = LVMStatusUnknown"
  by (simp add: translateReasonToState_def known_reasons_def)

lemma readiness_fold:
  "fold (\<lambda>c st. translateReasonToState (cond_Reason c) st) cs LVMStatusUnknown = worst (cond_Reason ` set (relevant cs))"
proof (induction cs rule: rev_induct)
  case Nil
  show ?case by (simp add: relevant_def worst_def)
next
  case (snoc c cs)
  show ?case
  proof (cases "cond_Reason c \<in> known_reasons")
    case True
    with snoc show ?thesis by (simp add: relevant_snoc translate_known)
  next
    case False
    then show ?thesis by (simp add: relevant_snoc translate_unknown worst_def)
  qed
qed

text \<open>The state of the cluster is that of its worst condition, whatever the order of the
  conditions: failed before degraded before progressing before ready, and the cluster is ready exactly
  in the last case.  A condition with a reason the controller does not know hides the ones before it.\<close>

lemma computeLVMClusterReadiness_worst:
  "computeLVMClusterReadiness cs =
     (worst (cond_Reason ` set (relevant cs)), worst (cond_Reason ` set (relevant cs)) = LVMStatusReady)"
  by (simp add: computeLVMClusterReadiness_def readiness_fold Let_def)

section \<open>Status per device class\<close>

definition node_entries_of :: "string \<Rightarrow> LVMVolumeGroupNodeStatus list \<Rightarrow> NodeStatus list" where
  "node_entries_of k items = concat (map (\<lambda>n. map (\<lambda>v. \<lparr>nst_Node = ns_Name n, nst_VGStatus = v\<rparr>)
     (filter (\<lambda>v. vs_Name v = k) (ns_LVMVGStatus n))) items)"

definition collected :: "(string \<Rightarrow> NodeStatus list) \<Rightarrow> (string \<times> NodeStatus list) list \<Rightarrow> bool" where
  "collected f m \<longleftrightarrow> distinct (map fst m) \<and> (\<forall>k. map_of m k = (if f k = [] then None else Some (f k)))"

lemma collected_step:
  assumes "collected f m"
  shows "collected (\<lambda>k. f k @ (if k = n then [x] else [])) (AList.update n (Deref (map_of m n) [] @ [x]) m)"
  using assms by (auto simp: collected_def update_conv' distinct_update)

lemma collected_items:
  assumes "collected f m"
  shows "collected (\<lambda>k. f k @ map g (filter (\<lambda>v. vs_Name v = k) vs))
    (fold (\<lambda>item m. AList.update (vs_Name item) (Deref (map_of m (vs_Name item)) [] @ [g item]) m) vs m)"
  using assms
proof (induction vs arbitrary: f m)
  case (Cons v vs)
  from Cons.IH[OF collected_step[OF Cons.prems, of "vs_Name v" "g v"]]
  show ?case by (auto simp: collected_def)
qed simp

lemma vgNodeMap_collected: "collected (\<lambda>k. node_entries_of k items) (vgNodeMap items)"
proof -
  have "collected (\<lambda>k. f k @ node_entries_of k items)
      (fold (\<lambda>nodeItem m. fold (\<lambda>item m. AList.update (vs_Name item)
        (Deref (map_of m (vs_Name item)) [] @ [\<lparr>nst_Node = ns_Name nodeItem, nst_VGStatus = item\<rparr>]) m)
        (ns_LVMVGStatus nodeItem) m) items m)" if "collected f m" for f m
    using that
  proof (induction items arbitrary: f m)
    case Nil
    then show ?case by (simp add: node_entries_of_def)
  next
    case (Cons n items)
    from Cons.IH[OF collected_items[OF Cons.prems]] show ?case by (simp add: node_entries_of_def)
  qed
  from this[of "\<lambda>_. []" "[]"] show ?thesis by (simp add: vgNodeMap_def collected_def)
qed

text \<open>The status of the cluster shows every entry every node reports and nothing else.
  \<open>computeDeviceClassStatuses\<close> lists each reported device class once, with the entries of that name of
  all nodes in the order they were listed.\<close>

lemma computeDeviceClassStatuses_exact:
  "distinct (map dcs_Name (computeDeviceClassStatuses items))
   \<and> (x \<in> set (computeDeviceClassStatuses items) \<longleftrightarrow>
        dcs_NodeStatus x = node_entries_of (dcs_Name x) items \<and> dcs_NodeStatus x \<noteq> [])"
proof
  have c: "collected (\<lambda>k. node_entries_of k items) (vgNodeMap items)" by (rule vgNodeMap_collected)
  then show "distinct (map dcs_Name (computeDeviceClassStatuses items))"
    by (simp add: computeDeviceClassStatuses_def collected_def comp_def case_prod_beta)
  have "x \<in> set (computeDeviceClassStatuses items) \<longleftrightarrow> (dcs_Name x, dcs_NodeStatus x) \<in> set (vgNodeMap items)"
    by (cases x) (force simp: computeDeviceClassStatuses_def image_iff)
  also have "\<dots> \<longleftrightarrow> map_of (vgNodeMap items) (dcs_Name x) = Some (dcs_NodeStatus x)"
    using c unfolding collected_def by (metis map_of_eq_Some_iff)
  also have "map_of (vgNodeMap items) (dcs_Name x) =
      (if node_entries_of (dcs_Name x) items = [] then None else Some (node_entries_of (dcs_Name x) items))"
    using c unfolding collected_def by blast
  also have "\<dots> = Some (dcs_NodeStatus x) \<longleftrightarrow>
      dcs_NodeStatus x = node_entries_of (dcs_Name x) items \<and> dcs_NodeStatus x \<noteq> []"
    by auto
  finally show "x \<in> set (computeDeviceClassStatuses items) \<longleftrightarrow>
      dcs_NodeStatus x = node_entries_of (dcs_Name x) items \<and> dcs_NodeStatus x \<noteq> []" .
qed

section \<open>Nodes considered\<close>

definition tolerated :: "op_env \<Rightarrow> LVMCluster \<Rightarrow> Node \<Rightarrow> bool" where
  "tolerated env c n \<longleftrightarrow> (\<forall>t \<in> set (node_Taints n). TolerationsTolerateTaint env (lc_Tolerations c) t)"

definition not_ready :: "op_env \<Rightarrow> LVMCluster \<Rightarrow> Node \<Rightarrow> bool" where
  "not_ready env c n \<longleftrightarrow> (case find (\<lambda>t. \<not> TolerationsTolerateTaint env (lc_Tolerations c) t) (node_Taints n) of
     None \<Rightarrow> False | Some t \<Rightarrow> taint_Key t = TaintNodeNotReady)"

lemma ToleratesAllTaints_find: "ToleratesAllTaints env ts tols =
    (\<forall>t \<in> set ts. TolerationsTolerateTaint env tols t,
     case find (\<lambda>t. \<not> TolerationsTolerateTaint env tols t) ts of None \<Rightarrow> None
     | Some t \<Rightarrow> if taint_Key t = TaintNodeNotReady then Some ErrNotReadyTaintExists else None)"
  by (induction ts) simp_all

lemma ToleratesAllTaints_eq: "ToleratesAllTaints env (node_Taints n) (lc_Tolerations c) =
    (tolerated env c n, if not_ready env c n then Some ErrNotReadyTaintExists else None)"
  by (simp add: ToleratesAllTaints_find tolerated_def not_ready_def split: option.split)

lemma selectorTerms_iff: "selectorTerms dcs ts =
    (if \<exists>dc \<in> set dcs. dc_NodeSelector dc = None then None
     else Some (ts @ concat (map (\<lambda>dc. NodeSelectorTerms (the (dc_NodeSelector dc))) dcs)))"
  by (induction dcs arbitrary: ts) (auto split: option.splits)

lemma Extract_tolerations: "snd (ExtractNodeSelectorAndTolerations c) = lc_Tolerations c"
  by (simp add: ExtractNodeSelectorAndTolerations_def split: option.split)

text \<open>The nodes of the result, when the selector can be decided for every tolerated node.\<close>

definition considered :: "op_env \<Rightarrow> LVMCluster \<Rightarrow> Node \<Rightarrow> bool" where
  "considered env c n \<longleftrightarrow> tolerated env c n \<and> (case fst (ExtractNodeSelectorAndTolerations c) of
     None \<Rightarrow> True | Some s \<Rightarrow> NodeMatches env n s = Inr True)"

definition selector_error :: "op_env \<Rightarrow> LVMCluster \<Rightarrow> Node \<Rightarrow> go_error option" where
  "selector_error env c n = (if \<not> tolerated env c n then None
     else case fst (ExtractNodeSelectorAndTolerations c) of None \<Rightarrow> None
       | Some s \<Rightarrow> (case NodeMatches env n s of Inl e \<Rightarrow> Some e | Inr _ \<Rightarrow> None))"

lemma validNodes_loop_eq:
  assumes "ExtractNodeSelectorAndTolerations c = (sel, tols)"
  shows "validNodes_loop env sel tols nodes valid errs = (case first_some (selector_error env c) nodes of
      Some e \<Rightarrow> Inl e
    | None \<Rightarrow> Inr (valid @ filter (considered env c) nodes,
        errs @ map (\<lambda>_. Some ErrNotReadyTaintExists) (filter (not_ready env c) nodes)))"
proof (induction nodes arbitrary: valid errs)
  case (Cons n nodes)
  have t: "tols = lc_Tolerations c" "fst (ExtractNodeSelectorAndTolerations c) = sel"
    using assms Extract_tolerations[of c] by simp_all
  have "validNodes_loop env sel tols (n # nodes) valid errs = (case selector_error env c n of Some e \<Rightarrow> Inl e
      | None \<Rightarrow> validNodes_loop env sel tols nodes (if considered env c n then valid @ [n] else valid)
          (if not_ready env c n then errs @ [Some ErrNotReadyTaintExists] else errs))"
    by (cases sel; cases "NodeMatches env n (the sel)")
      (simp_all add: t ToleratesAllTaints_eq selector_error_def considered_def)
  then show ?case
    by (cases "selector_error env c n"; cases "first_some (selector_error env c) nodes")
      (simp_all del: first_some_None add: Cons.IH)
qed simp

lemma valid_nodes:
  "ValidNodes env c nodes = (case first_some (selector_error env c) nodes of
     Some e \<Rightarrow> ([], Some e)
   | None \<Rightarrow> (filter (considered env c) nodes,
       if filter (not_ready env c) nodes = [] then None
       else Some (ErrorsJoin (map (\<lambda>_. ErrNotReadyTaintExists) (filter (not_ready env c) nodes)))))"
proof -
  obtain sel tols where e: "ExtractNodeSelectorAndTolerations c = (sel, tols)" by force
  have j: "errors_Join (map (\<lambda>_. Some x) xs) = (if xs = [] then None else Some (ErrorsJoin (map (\<lambda>_. x) xs)))" for x :: go_error and xs :: "Node list"
    by (induction xs) (simp_all add: errors_Join_def comp_def)
  show ?thesis
    by (cases "first_some (selector_error env c) nodes") (simp_all del: first_some_None add: ValidNodes_def e validNodes_loop_eq[OF e] j)
qed

text \<open>C35: The nodes of a cluster are exactly the tolerated ones its selector matches.  If the selector
  of the cluster cannot be decided for some tolerated node, \<open>ValidNodes\<close> fails with no nodes and the
  error of the first such node; otherwise it returns those nodes of the list, in order, whose taints are
  all tolerated and that the joined selector matches, and reports one error for every node whose first
  untolerated taint is the not-ready taint.\<close>

theorem ValidNodes_exact:
  "ValidNodes env c nodes = (case first_some (selector_error env c) nodes of
     Some e \<Rightarrow> ([], Some e)
   | None \<Rightarrow> (filter (considered env c) nodes,
       if filter (not_ready env c) nodes = [] then None
       else Some (ErrorsJoin (map (\<lambda>_. ErrNotReadyTaintExists) (filter (not_ready env c) nodes)))))"
  by (rule valid_nodes)

end
