(* ===== verification/Resource_Managers.thy ===== *)
theory Resource_Managers
  imports Cluster_Status
begin

text \<open>
  The resource managers of the cluster controller (\<open>lvmcluster/resource\<close>) except the one for the daemon
  set: volume groups, node statuses, storage classes, snapshot classes, the CSI driver and its node
  registrations, the security context constraints, the service monitor and the network policies.
  \<open>EnsureCreated\<close> and \<open>EnsureDeleted\<close> of a manager are functions of the cluster that return the error,
  \<open>None\<close> when it is nil.
\<close>

section \<open>Helpers\<close>

definition VolumeSnapshotClassPrefix :: string where "VolumeSnapshotClassPrefix = ''lvms-''"
definition SCCPrefix :: string where "SCCPrefix = ''lvms-''"
definition VGManagerServiceAccount :: string where "VGManagerServiceAccount = ''vg-manager''"
definition VGManagerLabelVal :: string where "VGManagerLabelVal = ''vg-manager''"
definition ManagedByLabelVal :: string where "ManagedByLabelVal = ''lvms-operator''"
definition PartOfLabelVal :: string where "PartOfLabelVal = ''lvms-provisioner''"

definition GetStorageClassName :: "string \<Rightarrow> string" where
  "GetStorageClassName deviceName = StorageClassPrefix @ deviceName"

definition GetVolumeSnapshotClassName :: "string \<Rightarrow> string" where
  "GetVolumeSnapshotClassName deviceName = VolumeSnapshotClassPrefix @ deviceName"

definition cluster_owner :: "LVMCluster \<Rightarrow> owner" where
  "cluster_owner c = \<lparr>ow_Name = lc_Name c, ow_Namespace = lc_Namespace c, ow_UID = lc_UID c\<rparr>"

definition ManagedLabels :: "op_env \<Rightarrow> LVMCluster \<Rightarrow> labels \<Rightarrow> labels" where
  "ManagedLabels env c ls = SetManagedLabels (cluster_gvk env) ls (cluster_owner c)"

definition delete_error :: "unit api \<Rightarrow> go_error option" where
  "delete_error x = (case x of Found _ \<Rightarrow> None | NotFound e \<Rightarrow> Some e | ApiErr e \<Rightarrow> Some e)"

text \<open>\<open>client.ObjectKey\<close> as text.\<close>

definition key_string :: "string \<Rightarrow> string \<Rightarrow> string" where
  "key_string ns n = ns @ ''/'' @ n"

definition reconcile_failed :: "string \<Rightarrow> go_error \<Rightarrow> go_error" where
  "reconcile_failed name err = Errorf ''%s failed to reconcile: %w'' [S name, W err]"

text \<open>The deletion of one object, which several managers share: nothing to do if it is absent, an error
  while its deletion is pending, and otherwise the request to delete it.  The arguments are the errors
  of the three steps.\<close>

definition deleteIfPresent :: "op_env \<Rightarrow> kind \<Rightarrow> string \<Rightarrow> string \<Rightarrow> (go_error \<Rightarrow> go_error) \<Rightarrow> go_error \<Rightarrow>
    (go_error \<Rightarrow> go_error) \<Rightarrow> go_error option op" where
  "deleteIfPresent env k ns n getErr pending delErr = do {
     r \<leftarrow> Get_deleted env k ns n;
     case r of
       NotFound _ \<Rightarrow> ret None
     | ApiErr err \<Rightarrow> ret (Some (getErr err))
     | Found deleted \<Rightarrow>
         if deleted then ret (Some pending)
         else do { d \<leftarrow> Delete env k ns n; ret (map_option delErr (delete_error d)) } }"

section \<open>Volume groups\<close>

definition lvmVGName :: string where "lvmVGName = ''lvmvg-manager''"
definition legacyVGFinalizer :: string where "legacyVGFinalizer = ''lvm.openshift.io/lvmvolumegroup''"

definition new_vg :: "string \<Rightarrow> string \<Rightarrow> LVMVolumeGroupSpec \<Rightarrow> LVMVolumeGroup" where
  "new_vg ns n spec = \<lparr>vg_Name = n, vg_Namespace = ns, vg_UID = [], vg_Finalizers = [], vg_Annotations = [],
     vg_OwnerReferences = [], vg_Deleted = False, vg_Spec = spec\<rparr>"

definition empty_spec :: LVMVolumeGroupSpec where
  "empty_spec = \<lparr>vgs_DeviceSelector = None, vgs_NodeSelector = None, vgs_ThinPoolConfig = None,
     vgs_RAIDConfig = None, vgs_Default = False, vgs_DeviceDiscoveryPolicy = None\<rparr>"

definition lvmVolumeGroups :: "string \<Rightarrow> DeviceClass list \<Rightarrow> LVMVolumeGroup list" where
  "lvmVolumeGroups namespace dcs = map (\<lambda>dc. new_vg namespace (dc_Name dc)
     \<lparr>vgs_DeviceSelector = dc_DeviceSelector dc, vgs_NodeSelector = dc_NodeSelector dc,
      vgs_ThinPoolConfig = dc_ThinPoolConfig dc, vgs_RAIDConfig = dc_RAIDConfig dc,
      vgs_Default = (length dcs = 1 \<or> dc_Default dc),
      vgs_DeviceDiscoveryPolicy = dc_DeviceDiscoveryPolicy dc\<rparr>) dcs"

definition lvmVG_mutate :: "op_env \<Rightarrow> LVMVolumeGroup \<Rightarrow> LVMVolumeGroup \<Rightarrow> LVMVolumeGroup res" where
  "lvmVG_mutate env vg cur = Inr (cur\<lparr>vg_Finalizers := fst (oe_RemoveFinalizer env (vg_Finalizers cur) legacyVGFinalizer),
     vg_Spec := vg_Spec vg\<rparr>)"

definition lvmVG_EnsureCreated :: "op_env \<Rightarrow> LVMCluster \<Rightarrow> go_error option op" where
  "lvmVG_EnsureCreated env c = for_each (lvmVolumeGroups (oe_Namespace env) (lc_DeviceClasses c)) (\<lambda>vg.
     case SetControllerReference env c [] of
       Inl err \<Rightarrow> ret (Some (Errorf ''failed to set controller reference to LVMVolumeGroup: %w'' [W err]))
     | Inr refs \<Rightarrow>
         catch (CreateOrUpdate env (fetch_vg env) OVolumeGroup
             ((new_vg (vg_Namespace vg) (vg_Name vg) empty_spec)\<lparr>vg_OwnerReferences := refs\<rparr>) (lvmVG_mutate env vg))
           (\<lambda>err. ret (Some (reconcile_failed lvmVGName err)))
           (\<lambda>_. ret None))"

text \<open>The loop of \<open>EnsureDeleted\<close> with the keys of the volume groups whose deletion is pending.\<close>

fun lvmVG_delete_loop :: "op_env \<Rightarrow> string list \<Rightarrow> LVMVolumeGroup list \<Rightarrow> string list res op" where
  "lvmVG_delete_loop env pending [] = ret (Inr pending)"
| "lvmVG_delete_loop env pending (vg # vgs) = do {
     r \<leftarrow> ask (\<lambda>h. get_vg env h (vg_Namespace vg) (vg_Name vg)) (ApiGet KLVMVolumeGroup (vg_Namespace vg) (vg_Name vg));
     case r of
       NotFound _ \<Rightarrow> lvmVG_delete_loop env pending vgs
     | ApiErr err \<Rightarrow> ret (Inl err)
     | Found cur \<Rightarrow>
         let next = lvmVG_delete_loop env (pending @ [key_string (vg_Namespace vg) (vg_Name vg)]) vgs
         in if vg_Deleted cur then next
            else do {
              d \<leftarrow> Delete env KLVMVolumeGroup (vg_Namespace cur) (vg_Name cur);
              case delete_error d of
                Some err \<Rightarrow> ret (Inl (Errorf ''failed to delete LVMVolumeGroup %s: %w'' [S (vg_Name cur), W err]))
              | None \<Rightarrow> next } }"

definition lvmVG_EnsureDeleted :: "op_env \<Rightarrow> LVMCluster \<Rightarrow> go_error option op" where
  "lvmVG_EnsureDeleted env c =
     catch (lvmVG_delete_loop env [] (lvmVolumeGroups (oe_Namespace env) (lc_DeviceClasses c)))
       (\<lambda>err. ret (Some err))
       (\<lambda>pending. if length pending > 0
          then ret (Some (Errorf (''waiting for LVMVolumeGroup'' @ [CHR 0x27] @ ''s to be removed of %s: %v'')
                 [S (key_string (lc_Namespace c) (lc_Name c)), S (slice_text pending)]))
          else ret None)"

section \<open>Node statuses\<close>

definition lvmVGNodeStatusName :: string where "lvmVGNodeStatusName = ''lvmvgnodestatus''"

definition hasDeleteProtectionFinalizer :: "string list \<Rightarrow> bool" where
  "hasDeleteProtectionFinalizer fs \<longleftrightarrow> DeleteProtectionFinalizer \<in> set fs"

text \<open>The first occurrence is cut out of the slice.\<close>

fun cut_first :: "string \<Rightarrow> string list \<Rightarrow> string list option" where
  "cut_first f [] = None"
| "cut_first f (x # xs) = (if x = f then Some xs else map_option ((#) x) (cut_first f xs))"

definition removeDeleteProtectionFinalizer :: "LVMVolumeGroupNodeStatus \<Rightarrow> LVMVolumeGroupNodeStatus \<times> bool" where
  "removeDeleteProtectionFinalizer st = (case cut_first DeleteProtectionFinalizer (ns_Finalizers st) of
     None \<Rightarrow> (st, False) | Some fs \<Rightarrow> (st\<lparr>ns_Finalizers := fs\<rparr>, True))"

definition isValidNode :: "string \<Rightarrow> Node list \<Rightarrow> bool" where
  "isValidNode statusName nodes \<longleftrightarrow> (\<exists>n \<in> set nodes. statusName = node_Name n)"

definition nodeStatus_mutate :: "op_env \<Rightarrow> LVMCluster \<Rightarrow> LVMVolumeGroupNodeStatus \<Rightarrow> LVMVolumeGroupNodeStatus res" where
  "nodeStatus_mutate env c cur = (case SetControllerReference env c (ns_OwnerReferences cur) of
     Inl err \<Rightarrow> Inl (Errorf ''failed to set controller reference: %w'' [W err])
   | Inr refs \<Rightarrow> Inr (cur\<lparr>ns_OwnerReferences := refs,
       ns_Finalizers := (if \<not> hasDeleteProtectionFinalizer (ns_Finalizers cur)
         then ns_Finalizers cur @ [DeleteProtectionFinalizer] else ns_Finalizers cur)\<rparr>))"

definition nodeStatus_EnsureCreated :: "op_env \<Rightarrow> LVMCluster \<Rightarrow> go_error option op" where
  "nodeStatus_EnsureCreated env c = catch (List_nodes env)
     (\<lambda>err. ret (Some (Errorf ''failed to list nodes: %w'' [W err])))
     (\<lambda>nodes. let (validNodes, err) = ValidNodes env c nodes in
        catch_err (for_each validNodes (\<lambda>node.
            catch (CreateOrUpdate env (fetch_nodestatus env) ONodeStatus
                \<lparr>ns_Name = node_Name node, ns_Namespace = oe_Namespace env, ns_OwnerReferences = [],
                 ns_Finalizers = [], ns_Deleted = False, ns_LVMVGStatus = []\<rparr> (nodeStatus_mutate env c))
              (\<lambda>err. ret (Some (reconcile_failed lvmVGNodeStatusName err)))
              (\<lambda>_. ret None)))
          (\<lambda>e. ret (Some e)) (ret err))"

definition deleteNodeStatus :: "op_env \<Rightarrow> LVMVolumeGroupNodeStatus \<Rightarrow> go_error option op" where
  "deleteNodeStatus env st = do {
     d \<leftarrow> (if ns_Deleted st then ret None
       else do { d \<leftarrow> Delete env KLVMVolumeGroupNodeStatus (ns_Namespace st) (ns_Name st); ret (delete_error d) });
     case d of
       Some err \<Rightarrow> ret (Some (Errorf ''failed to delete LVMVolumeGroupNodeStatus %s: %w'' [S (ns_Name st), W err]))
     | None \<Rightarrow>
         let (st', removed) = removeDeleteProtectionFinalizer st in
         if removed then do {
           u \<leftarrow> Update env (ONodeStatus st');
           ret (map_option (\<lambda>err. Errorf ''failed to remove finalizer from LVMVolumeGroupNodeStatus: %w'' [W err]) u) }
         else ret None }"

definition nodeStatus_EnsureDeleted :: "op_env \<Rightarrow> LVMCluster \<Rightarrow> go_error option op" where
  "nodeStatus_EnsureDeleted env c = catch (List_nodestatus env [InNamespace (oe_Namespace env)])
     (\<lambda>err. ret (Some (Errorf ''failed to list LVMVolumeGroupNodeStatus: %w'' [W err])))
     (\<lambda>statuses. catch (List_nodes env)
        (\<lambda>err. ret (Some (Errorf ''failed to list nodes: %w'' [W err])))
        (\<lambda>nodes. let (validNodes, err) = ValidNodes env c nodes in
           catch_err (for_each statuses (\<lambda>st. if isValidNode (ns_Name st) validNodes then deleteNodeStatus env st else ret None))
             (\<lambda>e. ret (Some e)) (ret err)))"

section \<open>Storage classes\<close>

definition scName :: string where "scName = ''topolvm-storageclass''"
definition defaultSCAnnotation :: string where
  "defaultSCAnnotation = ''storageclass.kubernetes.io/is-default-class''"

fun FilesystemType_string :: "DeviceFilesystemType \<Rightarrow> string" where
  "FilesystemType_string FilesystemTypeExt4 = ''ext4''"
| "FilesystemType_string FilesystemTypeXFS = ''xfs''"
| "FilesystemType_string (FilesystemTypeOther s) = s"

definition maps_Copy :: "labels \<Rightarrow> labels \<Rightarrow> labels" where
  "maps_Copy dst src = fold (\<lambda>(k, v) m. AList.update k v m) src dst"

definition reclaimPolicyOf :: "DeviceClass \<Rightarrow> ReclaimPolicy" where
  "reclaimPolicyOf dc = (case dc_StorageClassOptions dc of None \<Rightarrow> PersistentVolumeReclaimDelete
     | Some opts \<Rightarrow> Deref (sco_ReclaimPolicy opts) PersistentVolumeReclaimDelete)"

definition volumeBindingModeOf :: "DeviceClass \<Rightarrow> VolumeBindingMode" where
  "volumeBindingModeOf dc = (case dc_StorageClassOptions dc of None \<Rightarrow> VolumeBindingWaitForFirstConsumer
     | Some opts \<Rightarrow> Deref (sco_VolumeBindingMode opts) VolumeBindingWaitForFirstConsumer)"

definition storageClassFor :: "op_env \<Rightarrow> LVMCluster \<Rightarrow> DeviceClass \<Rightarrow> bool \<Rightarrow> StorageClass" where
  "storageClassFor env c dc isDefault =
     \<lparr>sc_Name = GetStorageClassName (dc_Name dc),
      sc_Labels = ManagedLabels env c (maps_Copy []
        (case dc_StorageClassOptions dc of None \<Rightarrow> [] | Some opts \<Rightarrow> sco_AdditionalLabels opts)),
      sc_Annotations = [(''description'', ''Provides RWO and RWOP Filesystem & Block volumes''),
        (defaultSCAnnotation, if isDefault then ''true'' else ''false'')],
      sc_Provisioner = TopolvmCSIDriverName,
      sc_ReclaimPolicy = Some (reclaimPolicyOf dc),
      sc_VolumeBindingMode = Some (volumeBindingModeOf dc),
      sc_AllowVolumeExpansion = Some True,
      sc_Parameters = AList.update FsTypeKey (FilesystemType_string (dc_FilesystemType dc))
        (AList.update DeviceClassKey (dc_Name dc) (maps_Copy []
          (case dc_StorageClassOptions dc of None \<Rightarrow> [] | Some opts \<Rightarrow> sco_AdditionalParameters opts)))\<rparr>"

text \<open>The loop over the device classes with the name of the default storage class, empty if there is
  none yet.\<close>

fun storageClasses :: "op_env \<Rightarrow> LVMCluster \<Rightarrow> bool \<Rightarrow> string \<Rightarrow> DeviceClass list \<Rightarrow> StorageClass list" where
  "storageClasses env c setDefault defaultName [] = []"
| "storageClasses env c setDefault defaultName (dc # dcs) =
     (let n = GetStorageClassName (dc_Name dc);
          isDefault = (dc_Default dc \<and> setDefault \<and> (defaultName = [] \<or> defaultName = n))
      in storageClassFor env c dc isDefault
           # storageClasses env c setDefault (if isDefault then n else defaultName) dcs)"

definition existingDefault :: "StorageClass list \<Rightarrow> string" where
  "existingDefault scs = (case find (\<lambda>sc. go_index (sc_Annotations sc) defaultSCAnnotation = ''true'') scs of
     None \<Rightarrow> [] | Some sc \<Rightarrow> sc_Name sc)"

definition getTopolvmStorageClasses :: "op_env \<Rightarrow> LVMCluster \<Rightarrow> StorageClass list op" where
  "getTopolvmStorageClasses env c = do {
     r \<leftarrow> ask (\<lambda>h. list_scs env h []) (ApiList KStorageClass []);
     ret (case r of Inl err \<Rightarrow> storageClasses env c False [] (lc_DeviceClasses c)
       | Inr scs \<Rightarrow> storageClasses env c True (existingDefault scs) (lc_DeviceClasses c)) }"

definition storageClass_EnsureCreated :: "op_env \<Rightarrow> LVMCluster \<Rightarrow> go_error option op" where
  "storageClass_EnsureCreated env c = do {
     scs \<leftarrow> getTopolvmStorageClasses env c;
     for_each scs (\<lambda>sc. do {
       r \<leftarrow> ask (\<lambda>h. apply_sc env h sc) (ApiApply sc);
       ret (map_option (\<lambda>err. Errorf ''%s failed to reconcile StorageClass %s: %w'' [S scName, S (sc_Name sc), W err]) r) }) }"

definition storageClass_EnsureDeleted :: "op_env \<Rightarrow> LVMCluster \<Rightarrow> go_error option op" where
  "storageClass_EnsureDeleted env c = for_each (lc_DeviceClasses c) (\<lambda>dc.
     let n = GetStorageClassName (dc_Name dc) in
     deleteIfPresent env KStorageClass [] n (\<lambda>err. err)
       (Errorf ''the StorageClass %s is still present, waiting for deletion'' [S n])
       (\<lambda>err. Errorf ''failed to delete StorageClass %s: %w'' [S n, W err]))"

section \<open>Snapshot classes\<close>

definition vscName :: string where "vscName = ''topolvm-volumeSnapshotClass''"

definition getTopolvmSnapshotClasses :: "LVMCluster \<Rightarrow> VolumeSnapshotClass list" where
  "getTopolvmSnapshotClasses c = map (\<lambda>dc. \<lparr>vsc_Name = GetVolumeSnapshotClassName (dc_Name dc), vsc_Labels = [],
       vsc_Driver = TopolvmCSIDriverName, vsc_DeletionPolicy = ''Delete''\<rparr>)
     (filter (\<lambda>dc. dc_ThinPoolConfig dc \<noteq> None) (lc_DeviceClasses c))"

definition snapshotClass_EnsureCreated :: "op_env \<Rightarrow> LVMCluster \<Rightarrow> go_error option op" where
  "snapshotClass_EnsureCreated env c = for_each (getTopolvmSnapshotClasses c) (\<lambda>vsc.
     catch (CreateOrUpdate env (fetch_snapshotclass env) OSnapshotClass vsc
         (\<lambda>cur. Inr (cur\<lparr>vsc_Labels := ManagedLabels env c (vsc_Labels cur)\<rparr>)))
       (\<lambda>err. ret (Some (reconcile_failed vscName err))) (\<lambda>_. ret None))"

definition snapshotClass_EnsureDeleted :: "op_env \<Rightarrow> LVMCluster \<Rightarrow> go_error option op" where
  "snapshotClass_EnsureDeleted env c = for_each (lc_DeviceClasses c) (\<lambda>dc.
     let n = GetVolumeSnapshotClassName (dc_Name dc) in
     deleteIfPresent env KVolumeSnapshotClass [] n (\<lambda>err. err)
       (Errorf ''the VolumeSnapshotClass %s is still present, waiting for deletion'' [S n])
       (\<lambda>err. Errorf ''failed to delete topolvm VolumeSnapshotClass %s: %w'' [S n, W err]))"

section \<open>The CSI driver and its registrations\<close>

definition driverName :: string where "driverName = ''topolvm-csi-driver''"

definition getCSIDriverResource :: CSIDriverObject where
  "getCSIDriverResource = \<lparr>cd_Name = TopolvmCSIDriverName, cd_Labels = [], cd_AttachRequired = False,
     cd_PodInfoOnMount = True, cd_StorageCapacity = True, cd_VolumeLifecycleModes = [''Persistent'']\<rparr>"

definition csiDriver_EnsureCreated :: "op_env \<Rightarrow> LVMCluster \<Rightarrow> go_error option op" where
  "csiDriver_EnsureCreated env c =
     catch (CreateOrUpdate env (fetch_csidriver env) OCSIDriver getCSIDriverResource
         (\<lambda>cur. Inr (cur\<lparr>cd_Labels := ManagedLabels env c (cd_Labels cur)\<rparr>)))
       (\<lambda>err. ret (Some (reconcile_failed driverName err))) (\<lambda>_. ret None)"

definition csiDriver_EnsureDeleted :: "op_env \<Rightarrow> LVMCluster \<Rightarrow> go_error option op" where
  "csiDriver_EnsureDeleted env c = do {
     r \<leftarrow> Get_deleted env KCSIDriver [] TopolvmCSIDriverName;
     case r of
       NotFound _ \<Rightarrow> ret None
     | ApiErr err \<Rightarrow> ret (Some err)
     | Found deleted \<Rightarrow>
         if deleted then ret (Some (Errorf ''the CSIDriver %s is still present, waiting for deletion'' [S TopolvmCSIDriverName]))
         else do {
           d \<leftarrow> Delete env KCSIDriver [] TopolvmCSIDriverName;
           case d of
             NotFound _ \<Rightarrow> ret None
           | ApiErr err \<Rightarrow> ret (Some (Errorf ''failed to delete topolvm csi driver %s: %w'' [S TopolvmCSIDriverName, W err]))
           | Found _ \<Rightarrow> do {
               g \<leftarrow> Get_deleted env KCSIDriver [] TopolvmCSIDriverName;
               case g of
                 NotFound _ \<Rightarrow> ret None
               | ApiErr err \<Rightarrow> ret (Some (Errorf ''failed to verify deletion of topolvm csi driver %s: %w'' [S TopolvmCSIDriverName, W err]))
               | Found _ \<Rightarrow> ret (Some (Errorf ''topolvm csi driver %s still has to be removed'' [S TopolvmCSIDriverName])) } } }"

definition csiNodeName :: string where "csiNodeName = ''topolvm-csi-node-registrations''"

fun getCSINodes :: "op_env \<Rightarrow> CSINodeObject list \<Rightarrow> Node list \<Rightarrow> CSINodeObject list res op" where
  "getCSINodes env acc [] = ret (Inr acc)"
| "getCSINodes env acc (n # ns) = do {
     r \<leftarrow> ask (\<lambda>h. get_csinode env h (node_Name n)) (ApiGet KCSINode [] (node_Name n));
     case api_error r of Inl err \<Rightarrow> ret (Inl err) | Inr cn \<Rightarrow> getCSINodes env (acc @ [cn]) ns }"

definition GetAllCSINodeCandidates :: "op_env \<Rightarrow> LVMCluster \<Rightarrow> (CSINodeObject list \<times> go_error option) op" where
  "GetAllCSINodeCandidates env c = catch (List_nodes env)
     (\<lambda>err. ret ([], Some err))
     (\<lambda>nodes. let (valid, err) = ValidNodes env c nodes in
        catch (getCSINodes env [] valid) (\<lambda>e. ret ([], Some e)) (\<lambda>csiNodes. ret (csiNodes, err)))"

definition csiNode_EnsureCreated :: "op_env \<Rightarrow> LVMCluster \<Rightarrow> go_error option op" where
  "csiNode_EnsureCreated env c = do {
     (csiNodes, err) \<leftarrow> GetAllCSINodeCandidates env c;
     ret (case find (\<lambda>cn. TopolvmCSIDriverName \<notin> set (cn_Drivers cn)) csiNodes of
         Some cn \<Rightarrow> Some (Errorf ''csi node %s does not have driver %s'' [S (cn_Name cn), S TopolvmCSIDriverName])
       | None \<Rightarrow> err) }"

definition csiNode_EnsureDeleted :: "op_env \<Rightarrow> LVMCluster \<Rightarrow> go_error option op" where
  "csiNode_EnsureDeleted env c = do {
     (csiNodes, err) \<leftarrow> GetAllCSINodeCandidates env c;
     ret (case find (\<lambda>cn. TopolvmCSIDriverName \<in> set (cn_Drivers cn)) csiNodes of
         Some cn \<Rightarrow> Some (Errorf (''csi node %s still has driver %s, if you think this is by mistake, '' @
             ''manually login to the node and remove the driver from the kubelets plugin directory'')
             [S (cn_Name cn), S TopolvmCSIDriverName])
       | None \<Rightarrow> err) }"

end
