(* ===== verification/Cluster_Resources.thy ===== *)
theory Cluster_Resources
  imports Resource_Managers
begin

text \<open>
  The remaining resource managers (\<open>lvmcluster/resource\<close>): security context constraints
  (\<open>scc.go\<close>), service monitor (\<open>servicemonitor.go\<close>), network policies (\<open>networkpolicy.go\<close>) and the daemon
  set of the volume group manager (\<open>vgmanager.go\<close>, \<open>vgmanager_daemonset.go\<close>, \<open>utils.go\<close>,
  \<open>logpassthrough/options.go\<close>).

  On MicroShift \<open>templateVGManagerDaemonset\<close> writes the path of the configuration volume through a
  shared pointer; a process has one cluster type, so the result is a function of that type.  The API
  server fills in the rolling update parameters of a daemon set with the rolling update strategy, so
  they are present in an object it returned.
\<close>

section \<open>Security context constraints\<close>

definition sccName :: string where "sccName = ''topolvm-scc''"

definition newVGManagerScc :: "string \<Rightarrow> SecurityContextConstraints" where
  "newVGManagerScc namespace = \<lparr>scc_Name = SCCPrefix @ ''vgmanager'', scc_Created = False, scc_Labels = [],
     scc_AllowPrivilegedContainer = True, scc_AllowHostNetwork = False, scc_AllowHostDirVolumePlugin = True,
     scc_AllowHostPorts = False, scc_AllowHostPID = True, scc_AllowHostIPC = True,
     scc_ReadOnlyRootFilesystem = False, scc_RequiredDropCapabilities = [], scc_RunAsUser = ''RunAsAny'',
     scc_SELinuxContext = ''MustRunAs'', scc_FSGroup = ''MustRunAs'', scc_SupplementalGroups = ''RunAsAny'',
     scc_Volumes = [''configMap'', ''emptyDir'', ''hostPath'', ''secret''],
     scc_Users = [''system:serviceaccount:'' @ namespace @ '':'' @ VGManagerServiceAccount]\<rparr>"

definition getAllSCCs :: "string \<Rightarrow> SecurityContextConstraints list" where
  "getAllSCCs namespace = [newVGManagerScc namespace]"

definition scc_mutate :: "op_env \<Rightarrow> LVMCluster \<Rightarrow> SecurityContextConstraints \<Rightarrow> SecurityContextConstraints \<Rightarrow>
    SecurityContextConstraints res" where
  "scc_mutate env c tmpl cur = (let scc = (if scc_Created cur then cur else tmpl)
     in Inr (scc\<lparr>scc_Labels := ManagedLabels env c (scc_Labels scc), scc_Users := scc_Users tmpl\<rparr>))"

definition scc_named :: "SecurityContextConstraints \<Rightarrow> SecurityContextConstraints" where
  "scc_named tmpl = \<lparr>scc_Name = scc_Name tmpl, scc_Created = False, scc_Labels = [],
     scc_AllowPrivilegedContainer = False, scc_AllowHostNetwork = False, scc_AllowHostDirVolumePlugin = False,
     scc_AllowHostPorts = False, scc_AllowHostPID = False, scc_AllowHostIPC = False,
     scc_ReadOnlyRootFilesystem = False, scc_RequiredDropCapabilities = [], scc_RunAsUser = [],
     scc_SELinuxContext = [], scc_FSGroup = [], scc_SupplementalGroups = [], scc_Volumes = [], scc_Users = []\<rparr>"

definition scc_EnsureCreated :: "op_env \<Rightarrow> LVMCluster \<Rightarrow> go_error option op" where
  "scc_EnsureCreated env c = for_each (getAllSCCs (oe_Namespace env)) (\<lambda>tmpl.
     catch (CreateOrUpdate env (fetch_scc env) OSCC (scc_named tmpl) (scc_mutate env c tmpl))
       (\<lambda>err. ret (Some (reconcile_failed sccName err))) (\<lambda>_. ret None))"

text \<open>The object is looked up by \<open>scName\<close>, the name of the storage class manager.\<close>

definition scc_EnsureDeleted :: "op_env \<Rightarrow> LVMCluster \<Rightarrow> go_error option op" where
  "scc_EnsureDeleted env c = for_each (getAllSCCs (oe_Namespace env)) (\<lambda>scc.
     deleteIfPresent env KSecurityContextConstraints [] scName (\<lambda>err. err)
       (Errorf ''the SecurityContextConstraint %s is still present, waiting for deletion'' [S scName])
       (\<lambda>err. Errorf ''failed to delete SecurityContextConstraint %s: %w'' [S scName, W err]))"

section \<open>Service monitor\<close>

definition monitorName :: string where "monitorName = ''lvms-operator-metrics-monitor''"

definition monitorEndpoint :: "string \<Rightarrow> string \<Rightarrow> Endpoint" where
  "monitorEndpoint port serverName = \<lparr>ep_Path = ''/metrics'', ep_Port = port, ep_Scheme = ''HTTPS'',
     ep_BearerTokenFile = ''/var/run/secrets/kubernetes.io/serviceaccount/token'', ep_ServerName = serverName,
     ep_CAFile = ''/etc/prometheus/configmaps/serving-certs-ca-bundle/service-ca.crt''\<rparr>"

definition serviceMonitorFor :: "string \<Rightarrow> ServiceMonitorObject" where
  "serviceMonitorFor namespace = \<lparr>sm_Name = monitorName, sm_Namespace = namespace,
     sm_Labels = [(''app.kubernetes.io/name'', ''lvms-operator''), (''app.kubernetes.io/compose'', ''metrics''),
       (''app.kubernetes.io/part-of'', ''lvms-provisioner'')],
     sm_Endpoints = [monitorEndpoint ''https'' (''lvms-operator-metrics-service.'' @ namespace @ ''.svc''),
       monitorEndpoint ''vg-manager-https'' (''vg-manager-metrics-service.'' @ namespace @ ''.svc'')],
     sm_MatchLabels = [(''app.kubernetes.io/compose'', ''metrics'')]\<rparr>"

definition IsPrometheusAvailable :: "op_env \<Rightarrow> bool res op" where
  "IsPrometheusAvailable env = do {
     r \<leftarrow> Get_deleted env KCustomResourceDefinition [] ''servicemonitors.monitoring.coreos.com'';
     ret (case r of
         Found _ \<Rightarrow> Inr True
       | NotFound _ \<Rightarrow> Inr False
       | ApiErr err \<Rightarrow> Inl (Errorf ''failed to get ServiceMonitor CRD: %w'' [W err])) }"

definition serviceMonitor_EnsureCreated :: "op_env \<Rightarrow> LVMCluster \<Rightarrow> go_error option op" where
  "serviceMonitor_EnsureCreated env c = catch (IsPrometheusAvailable env)
     (\<lambda>err. ret (Some (Errorf ''failed to check if Prometheus is available: %w'' [W err])))
     (\<lambda>available. if \<not> available then ret None
        else catch (CreateOrUpdate env (fetch_monitor env) OServiceMonitor (serviceMonitorFor (oe_Namespace env))
            (\<lambda>cur. Inr (cur\<lparr>sm_Labels := ManagedLabels env c (sm_Labels cur)\<rparr>)))
          (\<lambda>err. ret (Some (reconcile_failed monitorName err))) (\<lambda>_. ret None))"

definition serviceMonitor_EnsureDeleted :: "op_env \<Rightarrow> LVMCluster \<Rightarrow> go_error option op" where
  "serviceMonitor_EnsureDeleted env c = catch (IsPrometheusAvailable env)
     (\<lambda>err. ret (Some (Errorf ''failed to check if Prometheus is available: %w'' [W err])))
     (\<lambda>available. if \<not> available then ret None
        else deleteIfPresent env KServiceMonitor (oe_Namespace env) monitorName
          (\<lambda>err. Errorf ''failed to get ServiceMonitor: %w'' [W err])
          (Errorf ''ServiceMonitor %s is still present, waiting for deletion'' [S monitorName])
          (\<lambda>err. Errorf ''failed to delete ServiceMonitor %s: %w'' [S monitorName, W err]))"

section \<open>Network policies\<close>

definition networkPolicyManagerName :: string where "networkPolicyManagerName = ''networkPolicies''"

definition networkPolicyPort :: "string \<Rightarrow> int \<Rightarrow> string \<times> int" where
  "networkPolicyPort protocol port = (protocol, port)"

definition commonEgressRules :: "NetworkPolicyRule list" where
  "commonEgressRules =
     [\<lparr>npr_Peers = [], npr_Ports = [networkPolicyPort ''TCP'' 6443]\<rparr>,
      \<lparr>npr_Peers = [\<lparr>npp_NamespaceSelector = [(''kubernetes.io/metadata.name'', ''openshift-dns'')],
         npp_PodSelector = [(''dns.operator.openshift.io/daemonset-dns'', ''default'')]\<rparr>],
       npr_Ports = [networkPolicyPort ''TCP'' 5353, networkPolicyPort ''UDP'' 5353]\<rparr>]"

definition policy_object :: "string \<Rightarrow> string \<Rightarrow> NetworkPolicySpec \<Rightarrow> NetworkPolicy" where
  "policy_object n ns spec = \<lparr>np_Name = n, np_Namespace = ns, np_Labels = [], np_OwnerReferences = [], np_Spec = spec\<rparr>"

definition empty_policy_spec :: NetworkPolicySpec where
  "empty_policy_spec = \<lparr>nps_PodSelector = [], nps_PolicyTypes = [], nps_Ingress = [], nps_Egress = []\<rparr>"

definition vgManagerAllowPolicy :: "string \<Rightarrow> NetworkPolicy" where
  "vgManagerAllowPolicy namespace = policy_object ''lvms-vg-manager-allow'' namespace
     \<lparr>nps_PodSelector = [(AppKubernetesNameLabel, VGManagerLabelVal)],
      nps_PolicyTypes = [PolicyTypeIngress, PolicyTypeEgress],
      nps_Ingress = [\<lparr>npr_Peers = [], npr_Ports = [networkPolicyPort ''TCP'' 8443]\<rparr>],
      nps_Egress = commonEgressRules\<rparr>"

definition operatorAllowPolicy :: "string \<Rightarrow> NetworkPolicy" where
  "operatorAllowPolicy namespace = policy_object ''lvms-operator-allow'' namespace
     \<lparr>nps_PodSelector = [(AppKubernetesNameLabel, ManagedByLabelVal)],
      nps_PolicyTypes = [PolicyTypeIngress, PolicyTypeEgress],
      nps_Ingress = [\<lparr>npr_Peers = [], npr_Ports = [networkPolicyPort ''TCP'' 9443]\<rparr>,
        \<lparr>npr_Peers = [], npr_Ports = [networkPolicyPort ''TCP'' 8443]\<rparr>],
      nps_Egress = commonEgressRules\<rparr>"

definition defaultDenyPolicy :: "string \<Rightarrow> NetworkPolicy" where
  "defaultDenyPolicy namespace = policy_object ''lvms-default-deny'' namespace
     (empty_policy_spec\<lparr>nps_PolicyTypes := [PolicyTypeIngress, PolicyTypeEgress]\<rparr>)"

definition allNetworkPolicies :: "string \<Rightarrow> NetworkPolicy list" where
  "allNetworkPolicies namespace =
     [operatorAllowPolicy namespace, vgManagerAllowPolicy namespace, defaultDenyPolicy namespace]"

definition policy_mutate :: "op_env \<Rightarrow> LVMCluster \<Rightarrow> NetworkPolicy \<Rightarrow> NetworkPolicy \<Rightarrow> NetworkPolicy res" where
  "policy_mutate env c tmpl cur = (case SetControllerReference env c (np_OwnerReferences cur) of
     Inl err \<Rightarrow> Inl err
   | Inr refs \<Rightarrow> Inr (cur\<lparr>np_Spec := np_Spec tmpl, np_Labels := ManagedLabels env c (np_Labels cur),
       np_OwnerReferences := refs\<rparr>))"

definition networkPolicy_EnsureCreated :: "op_env \<Rightarrow> LVMCluster \<Rightarrow> go_error option op" where
  "networkPolicy_EnsureCreated env c = for_each (allNetworkPolicies (oe_Namespace env)) (\<lambda>tmpl.
     catch (CreateOrUpdate env (fetch_policy env) ONetworkPolicy
         (policy_object (np_Name tmpl) (np_Namespace tmpl) empty_policy_spec) (policy_mutate env c tmpl))
       (\<lambda>err. ret (Some (Errorf ''%s failed to reconcile NetworkPolicy %s: %w''
          [S networkPolicyManagerName, S (np_Name tmpl), W err])))
       (\<lambda>_. ret None))"

definition networkPolicy_EnsureDeleted :: "op_env \<Rightarrow> LVMCluster \<Rightarrow> go_error option op" where
  "networkPolicy_EnsureDeleted env c = for_each (rev (allNetworkPolicies (oe_Namespace env))) (\<lambda>tmpl.
     deleteIfPresent env KNetworkPolicy (np_Namespace tmpl) (np_Name tmpl)
       (\<lambda>err. Errorf ''failed to get NetworkPolicy %s: %w'' [S (np_Name tmpl), W err])
       (Errorf ''NetworkPolicy %s is still present, waiting for deletion'' [S (np_Name tmpl)])
       (\<lambda>err. Errorf ''failed to delete NetworkPolicy %s: %w'' [S (np_Name tmpl), W err]))"

end
