(* ===== verification/VGM_DaemonSet.thy ===== *)
theory VGM_DaemonSet
  imports Cluster_Resources
begin

text \<open>
  The daemon set of the volume group manager (\<open>lvmcluster/resource/vgmanager.go\<close>,
  \<open>vgmanager_daemonset.go\<close>, \<open>utils.go\<close>) and the log options handed to it
  (\<open>lvmcluster/logpassthrough/options.go\<close>).
\<close>

section \<open>Log options\<close>

record KlogOptions =
  klog_V :: string
  klog_VModule :: string

record ZapOptions =
  ZapLogLevel :: string

record VGmanagerOptions =
  vgo_Klog :: KlogOptions
  vgo_Zap :: ZapOptions

definition Zap_AsArgs :: "ZapOptions \<Rightarrow> string list" where
  "Zap_AsArgs opts = (if length (ZapLogLevel opts) > 0 then [''--zap-log-level='' @ ZapLogLevel opts] else [])"

definition Klog_AsArgs :: "KlogOptions \<Rightarrow> string list" where
  "Klog_AsArgs opts = (if length (klog_V opts) > 0 then [''--v='' @ klog_V opts] else []) @
     (if length (klog_VModule opts) > 0 then [''--vmodule='' @ klog_VModule opts] else [])"

definition VGmanager_AsArgs :: "VGmanagerOptions \<Rightarrow> string list" where
  "VGmanager_AsArgs opts = Zap_AsArgs (vgo_Zap opts) @ Klog_AsArgs (vgo_Klog opts)"

section \<open>Volumes\<close>

definition HasSuffix :: "string \<Rightarrow> string \<Rightarrow> bool" where
  "HasSuffix s suf \<longleftrightarrow> length suf \<le> length s \<and> drop (length s - length suf) s = suf"

text \<open>\<open>filepath.Dir\<close> of a clean path.\<close>

definition filepath_Dir :: "string \<Rightarrow> string" where
  "filepath_Dir p = (let d = rev (drop 1 (dropWhile (\<lambda>c. c \<noteq> CHR ''/'') (rev p)))
     in if CHR ''/'' \<notin> set p then ''.'' else if d = [] then ''/'' else d)"

definition GetAbsoluteKubeletPath :: "string \<Rightarrow> string" where
  "GetAbsoluteKubeletPath name = (if HasSuffix name ''/'' then name else name @ ''/'')"

definition CSIKubeletRootDir :: string where "CSIKubeletRootDir = ''/var/lib/kubelet/''"
definition DefaultCSISocket :: string where "DefaultCSISocket = ''/run/topolvm/csi-topolvm.sock''"
definition DefaultPluginRegistrationPath :: string where "DefaultPluginRegistrationPath = ''/registration''"
definition FileLockDir :: string where "FileLockDir = ''/var/lock/vgmanager''"
definition DefaultFileConfigPath :: string where "DefaultFileConfigPath = ''/etc/topolvm'' @ ''/lvmd.yaml''"
definition MicroShiftFileConfigPath :: string where
  "MicroShiftFileConfigPath = ''/var/lib/microshift/lvms'' @ ''/lvmd.yaml''"
definition devDirPath :: string where "devDirPath = ''/dev''"
definition udevPath :: string where "udevPath = ''/run/udev''"
definition sysPath :: string where "sysPath = ''/sys''"
definition metricsCertsDirPath :: string where "metricsCertsDirPath = ''/tmp/k8s-metrics-server/serving-certs''"

definition HostPathDirectoryOrCreate :: string where "HostPathDirectoryOrCreate = ''DirectoryOrCreate''"
definition directoryHostPath :: string where "directoryHostPath = ''Directory''"
definition hostContainerPropagation :: string where "hostContainerPropagation = ''HostToContainer''"
definition mountPropagationBidirectional :: string where "mountPropagationBidirectional = ''Bidirectional''"

definition host_vol :: "string \<Rightarrow> string \<Rightarrow> Volume" where
  "host_vol n p = \<lparr>vol_Name = n, vol_Source = HostPath p (Some HostPathDirectoryOrCreate)\<rparr>"

definition CSIPluginVol :: Volume where
  "CSIPluginVol = host_vol ''csi-plugin-dir'' (GetAbsoluteKubeletPath CSIKubeletRootDir @ ''plugins/kubernetes.io/csi'')"
definition CSIPluginVolMount :: VolumeMount where
  "CSIPluginVolMount = \<lparr>vm_Name = ''csi-plugin-dir'',
     vm_MountPath = GetAbsoluteKubeletPath CSIKubeletRootDir @ ''plugins/kubernetes.io/csi'',
     vm_MountPropagation = Some mountPropagationBidirectional, vm_ReadOnly = False\<rparr>"

definition NodePluginVol :: Volume where
  "NodePluginVol = host_vol ''node-plugin-dir'' (GetAbsoluteKubeletPath CSIKubeletRootDir @ ''plugins/topolvm.io/node'')"
definition NodePluginVolMount :: VolumeMount where
  "NodePluginVolMount = \<lparr>vm_Name = ''node-plugin-dir'', vm_MountPath = filepath_Dir DefaultCSISocket,
     vm_MountPropagation = None, vm_ReadOnly = False\<rparr>"

definition FileLockVol :: Volume where
  "FileLockVol = host_vol ''file-lock-dir'' (filepath_Dir FileLockDir)"
definition FileLockVolMount :: VolumeMount where
  "FileLockVolMount = \<lparr>vm_Name = ''file-lock-dir'', vm_MountPath = filepath_Dir FileLockDir,
     vm_MountPropagation = None, vm_ReadOnly = False\<rparr>"

definition RegistrationVol :: Volume where
  "RegistrationVol = host_vol ''registration-dir'' (GetAbsoluteKubeletPath CSIKubeletRootDir @ ''plugins_registry/'')"
definition RegistrationVolMount :: VolumeMount where
  "RegistrationVolMount = \<lparr>vm_Name = ''registration-dir'', vm_MountPath = DefaultPluginRegistrationPath,
     vm_MountPropagation = None, vm_ReadOnly = False\<rparr>"

definition PodVol :: Volume where
  "PodVol = host_vol ''pod-volumes-dir'' (GetAbsoluteKubeletPath CSIKubeletRootDir @ ''pods/'')"
definition PodVolMount :: VolumeMount where
  "PodVolMount = \<lparr>vm_Name = ''pod-volumes-dir'', vm_MountPath = GetAbsoluteKubeletPath CSIKubeletRootDir @ ''pods'',
     vm_MountPropagation = Some mountPropagationBidirectional, vm_ReadOnly = False\<rparr>"

definition LVMDConfMapVol :: Volume where
  "LVMDConfMapVol = host_vol ''lvmd-config'' (filepath_Dir DefaultFileConfigPath)"
definition LVMDConfMapVolMount :: VolumeMount where
  "LVMDConfMapVolMount = \<lparr>vm_Name = ''lvmd-config'', vm_MountPath = filepath_Dir DefaultFileConfigPath,
     vm_MountPropagation = Some hostContainerPropagation, vm_ReadOnly = False\<rparr>"

definition DevHostDirVol :: Volume where
  "DevHostDirVol = \<lparr>vol_Name = ''device-dir'', vol_Source = HostPath devDirPath (Some directoryHostPath)\<rparr>"
definition DevHostDirVolMount :: VolumeMount where
  "DevHostDirVolMount = \<lparr>vm_Name = ''device-dir'', vm_MountPath = devDirPath,
     vm_MountPropagation = Some hostContainerPropagation, vm_ReadOnly = False\<rparr>"

definition UDevHostDirVol :: Volume where
  "UDevHostDirVol = \<lparr>vol_Name = ''run-udev'', vol_Source = HostPath udevPath None\<rparr>"
definition UDevHostDirVolMount :: VolumeMount where
  "UDevHostDirVolMount = \<lparr>vm_Name = ''run-udev'', vm_MountPath = udevPath,
     vm_MountPropagation = Some hostContainerPropagation, vm_ReadOnly = False\<rparr>"

definition SysHostDirVol :: Volume where
  "SysHostDirVol = \<lparr>vol_Name = ''sys'', vol_Source = HostPath sysPath None\<rparr>"
definition SysHostDirVolMount :: VolumeMount where
  "SysHostDirVolMount = \<lparr>vm_Name = ''sys'', vm_MountPath = sysPath,
     vm_MountPropagation = Some hostContainerPropagation, vm_ReadOnly = False\<rparr>"

definition MetricsCertsDirVol :: Volume where
  "MetricsCertsDirVol = \<lparr>vol_Name = ''metrics-cert'', vol_Source = Secret ''vg-manager-metrics-cert'' 420\<rparr>"
definition MetricsCertsDirVolMount :: VolumeMount where
  "MetricsCertsDirVolMount = \<lparr>vm_Name = ''metrics-cert'', vm_MountPath = metricsCertsDirPath,
     vm_MountPropagation = None, vm_ReadOnly = True\<rparr>"

section \<open>The template\<close>

definition VGManagerUnit :: string where "VGManagerUnit = ''vg-manager''"
definition TopolvmNodeContainerHealthzName :: string where "TopolvmNodeContainerHealthzName = ''healthz''"
definition VgManagerMemRequest :: string where "VgManagerMemRequest = ''45Mi''"
definition VgManagerCPURequest :: string where "VgManagerCPURequest = ''5m''"
definition PriorityClassNameUserCritical :: string where "PriorityClassNameUserCritical = ''openshift-user-critical''"
definition WorkloadPartitioningManagementAnnotation :: string where
  "WorkloadPartitioningManagementAnnotation = ''target.workload.openshift.io/management''"
definition ManagementAnnotationVal :: string where
  "ManagementAnnotationVal = ''{'' @ [CHR 0x22] @ ''effect'' @ [CHR 0x22] @ '': '' @ [CHR 0x22] @
     ''PreferredDuringScheduling'' @ [CHR 0x22] @ ''}''"

definition probe :: "string \<Rightarrow> int \<Rightarrow> int \<Rightarrow> int \<Rightarrow> int \<Rightarrow> Probe" where
  "probe path failures delay timeout period = \<lparr>pr_Path = path, pr_Port = TopolvmNodeContainerHealthzName,
     pr_FailureThreshold = failures, pr_InitialDelaySeconds = delay, pr_TimeoutSeconds = timeout,
     pr_PeriodSeconds = period\<rparr>"

definition vgm_mounts :: "VolumeMount list" where
  "vgm_mounts = [RegistrationVolMount, NodePluginVolMount, FileLockVolMount, CSIPluginVolMount, PodVolMount,
     LVMDConfMapVolMount, DevHostDirVolMount, UDevHostDirVolMount, SysHostDirVolMount, MetricsCertsDirVolMount]"

definition vgm_volumes :: "cluster_Type \<Rightarrow> Volume list" where
  "vgm_volumes clusterType = [RegistrationVol, NodePluginVol, FileLockVol, CSIPluginVol, PodVol,
     (if clusterType = TypeMicroShift then host_vol (vol_Name LVMDConfMapVol) (filepath_Dir MicroShiftFileConfigPath)
      else LVMDConfMapVol),
     DevHostDirVol, UDevHostDirVol, SysHostDirVol, MetricsCertsDirVol]"

definition vgm_container :: "string \<Rightarrow> string list \<Rightarrow> Container" where
  "vgm_container img command = \<lparr>ct_Name = VGManagerUnit, ct_Image = img, ct_Command = command,
     ct_Privileged = True, ct_RunAsUser = 0, ct_Ports = [(TopolvmNodeContainerHealthzName, 8081, ''TCP'')],
     ct_StartupProbe = probe ''/healthz'' 60 2 2 10, ct_LivenessProbe = probe ''/healthz'' 3 1 1 30,
     ct_ReadinessProbe = probe ''/readyz'' 3 1 1 60, ct_VolumeMounts = vgm_mounts,
     ct_Requests = [(''cpu'', VgManagerCPURequest), (''memory'', VgManagerMemRequest)],
     ct_Env = [EnvValue ''GOMEMLIMIT'' (VgManagerMemRequest @ ''B''), EnvValue ''GOGC'' ''120'',
       EnvValue ''GOMAXPROCS'' ''2'', EnvFieldRef ''NODE_NAME'' ''spec.nodeName'',
       EnvFieldRef ''NAMESPACE'' ''metadata.namespace'', EnvFieldRef ''NAME'' ''metadata.name''],
     ct_TerminationMessagePolicy = ''FallbackToLogsOnError''\<rparr>"

definition vgm_labels :: labels where
  "vgm_labels = [(AppKubernetesNameLabel, VGManagerLabelVal), (AppKubernetesManagedByLabel, ManagedByLabelVal),
     (AppKubernetesPartOfLabel, PartOfLabelVal), (AppKubernetesComponentLabel, VGManagerLabelVal)]"

definition setDaemonsetNodeSelector :: "NodeSelector option \<Rightarrow> DaemonSet \<Rightarrow> DaemonSet" where
  "setDaemonsetNodeSelector sel ds = (case sel of
     Some s \<Rightarrow> ds\<lparr>dmn_Template := (dmn_Template ds)\<lparr>pt_Affinity := Some s\<rparr>\<rparr>
   | None \<Rightarrow> ds\<lparr>dmn_Template := (dmn_Template ds)\<lparr>pt_Affinity := None\<rparr>\<rparr>)"

definition templateVGManagerDaemonset :: "LVMCluster \<Rightarrow> cluster_Type \<Rightarrow> string \<Rightarrow> string \<Rightarrow> string list \<Rightarrow>
    string list \<Rightarrow> DaemonSet" where
  "templateVGManagerDaemonset c clusterType namespace vgImage command args =
     (let (nodeSelector, tolerations) = ExtractNodeSelectorAndTolerations c;
          command' = (if length command = 0 then [''/lvms'', ''vgmanager''] else command) @ args
      in setDaemonsetNodeSelector nodeSelector
        \<lparr>dmn_Name = VGManagerUnit, dmn_Namespace = namespace, dmn_Created = False, dmn_Labels = vgm_labels,
         dmn_Annotations = [], dmn_OwnerReferences = [], dmn_MatchLabels = vgm_labels,
         dmn_Template = \<lparr>pt_Labels = vgm_labels,
           pt_Annotations = [(WorkloadPartitioningManagementAnnotation, ManagementAnnotationVal)],
           pt_Containers = [vgm_container vgImage command'], pt_Volumes = vgm_volumes clusterType,
           pt_ServiceAccountName = VGManagerServiceAccount, pt_PriorityClassName = PriorityClassNameUserCritical,
           pt_Tolerations = tolerations, pt_Affinity = None, pt_TerminationGracePeriodSeconds = 30, pt_HostPID = True\<rparr>,
         dmn_UpdateStrategy = OtherStrategyType [], dmn_MaxUnavailable = None,
         dmn_UpdatedNumberScheduled = 0, dmn_DesiredNumberScheduled = 0, dmn_NumberReady = 0\<rparr>)"

section \<open>The manager\<close>

text \<open>The map is emptied unless it has more than one entry.\<close>

definition initMapIfNil :: "labels \<Rightarrow> labels" where
  "initMapIfNil m = (if length m > 1 then m else [])"

definition ds_mutate :: "op_env \<Rightarrow> LVMCluster \<Rightarrow> DaemonSet \<Rightarrow> DaemonSet \<Rightarrow> DaemonSet res" where
  "ds_mutate env c tmpl ds = (if \<not> dmn_Created ds then Inr tmpl
     else (case SetControllerReference env c (dmn_OwnerReferences ds) of
         Inl err \<Rightarrow> Inl (Errorf ''failed to set controller reference on vgManager daemonset %q. %v'' [S (dmn_Name tmpl), V err])
       | Inr refs \<Rightarrow>
           let t = dmn_Template ds; tt = dmn_Template tmpl;
               ds' = ds\<lparr>dmn_OwnerReferences := refs,
                 dmn_Labels := maps_Copy (initMapIfNil (dmn_Labels ds)) (dmn_Labels tmpl),
                 dmn_Annotations := maps_Copy (initMapIfNil (dmn_Annotations ds)) (dmn_Annotations tmpl),
                 dmn_Template := t\<lparr>pt_Labels := maps_Copy (initMapIfNil (pt_Labels t)) (dmn_Labels tmpl),
                   pt_Annotations := maps_Copy (initMapIfNil (pt_Annotations t)) (pt_Annotations tt),
                   pt_Containers := pt_Containers tt, pt_Volumes := pt_Volumes tt,
                   pt_ServiceAccountName := pt_ServiceAccountName tt,
                   pt_PriorityClassName := pt_PriorityClassName tt, pt_Tolerations := pt_Tolerations tt\<rparr>\<rparr>
           in Inr (case pt_Affinity tt of None \<Rightarrow> ds' | Some sel \<Rightarrow> setDaemonsetNodeSelector (Some sel) ds')))"

definition VerifyDaemonSetReadiness :: "op_env \<Rightarrow> DaemonSet \<Rightarrow> go_error option" where
  "VerifyDaemonSetReadiness env ds =
     (if dmn_UpdateStrategy ds \<noteq> RollingUpdateDaemonSetStrategyType then None
      else if dmn_UpdatedNumberScheduled ds \<noteq> dmn_DesiredNumberScheduled ds
      then Some (Errorf ''the DaemonSet is not ready: %s/%s. %d out of %d expected pods have been scheduled''
             [S (dmn_Namespace ds), S (dmn_Name ds), D (dmn_UpdatedNumberScheduled ds), D (dmn_DesiredNumberScheduled ds)])
      else (let maxUnavailable = (case ScaledValue env (dmn_MaxUnavailable ds) (dmn_DesiredNumberScheduled ds) of
                Inl _ \<Rightarrow> dmn_DesiredNumberScheduled ds | Inr v \<Rightarrow> v);
              expectedReady = wrap64 (dmn_DesiredNumberScheduled ds - maxUnavailable)
            in if dmn_NumberReady ds < expectedReady
               then Some (Errorf ''the DaemonSet is not ready: %s/%s. %d out of %d expected pods are ready''
                      [S (dmn_Namespace ds), S (dmn_Name ds), D (dmn_NumberReady ds), D expectedReady])
               else None))"

definition ds_template :: "op_env \<Rightarrow> LVMCluster \<Rightarrow> string \<Rightarrow> DaemonSet" where
  "ds_template env c img = templateVGManagerDaemonset c (oe_ClusterType env) (oe_Namespace env) img
     (oe_VGManagerCommand env) (oe_VGManagerArgs env)"

definition ds_named :: "DaemonSet \<Rightarrow> DaemonSet" where
  "ds_named tmpl = \<lparr>dmn_Name = dmn_Name tmpl, dmn_Namespace = dmn_Namespace tmpl, dmn_Created = False,
     dmn_Labels = [], dmn_Annotations = [], dmn_OwnerReferences = [], dmn_MatchLabels = [],
     dmn_Template = \<lparr>pt_Labels = [], pt_Annotations = [], pt_Containers = [], pt_Volumes = [],
       pt_ServiceAccountName = [], pt_PriorityClassName = [], pt_Tolerations = [], pt_Affinity = None,
       pt_TerminationGracePeriodSeconds = 0, pt_HostPID = False\<rparr>,
     dmn_UpdateStrategy = OtherStrategyType [], dmn_MaxUnavailable = None,
     dmn_UpdatedNumberScheduled = 0, dmn_DesiredNumberScheduled = 0, dmn_NumberReady = 0\<rparr>"

definition vgManager_EnsureCreated :: "op_env \<Rightarrow> LVMCluster \<Rightarrow> go_error option op" where
  "vgManager_EnsureCreated env c = do {
     img \<leftarrow> gets ImageName;
     let tmpl = ds_template env c img;
     case SetControllerReference env c (dmn_OwnerReferences tmpl) of
       Inl err \<Rightarrow> ret (Some (Errorf ''failed to set controller reference on vgManager daemonset %q. %v'' [S (dmn_Name tmpl), V err]))
     | Inr refs \<Rightarrow>
         catch (CreateOrUpdate env (fetch_daemonset env) ODaemonSet (ds_named tmpl)
             (ds_mutate env c (tmpl\<lparr>dmn_OwnerReferences := refs\<rparr>)))
           (\<lambda>err. ret (Some (reconcile_failed VGManagerUnit err)))
           (\<lambda>ds. do {
              h \<leftarrow> gets tr;
              ret (map_option (\<lambda>err. Errorf ''DaemonSet is not considered ready: %w'' [W err])
                     (VerifyDaemonSetReadiness env (written_daemonset env h ds))) }) }"

definition vgManager_EnsureDeleted :: "op_env \<Rightarrow> LVMCluster \<Rightarrow> go_error option op" where
  "vgManager_EnsureDeleted env c = do {
     img \<leftarrow> gets ImageName;
     let ds = ds_template env c img;
     d \<leftarrow> Delete env KDaemonSet (dmn_Namespace ds) (dmn_Name ds);
     case d of
       ApiErr err \<Rightarrow> ret (Some (Errorf ''failed to delete %s daemonset %q: %w'' [S VGManagerUnit, S (dmn_Name ds), W err]))
     | _ \<Rightarrow> do {
         g \<leftarrow> Get_deleted env KDaemonSet (dmn_Namespace ds) (dmn_Name ds);
         case g of
           Found _ \<Rightarrow> ret (Some (Errorf ''%s daemonset %q still has to be removed'' [S VGManagerUnit, S (dmn_Name ds)]))
         | ApiErr err \<Rightarrow> ret (Some (Errorf ''failed to verify deletion of %s daemonset %q: %w''
               [S VGManagerUnit, S (dmn_Name ds), W err]))
         | NotFound _ \<Rightarrow>
             let opts = [InNamespace (oe_Namespace env), MatchingLabels (dmn_MatchLabels ds)] in
             catch (ask (\<lambda>h. list_count env h KPod opts) (ApiList KPod opts))
               (\<lambda>err. ret (Some (Errorf ''failed to list pods for DaemonSet %q: %w'' [S (dmn_Name ds), W err])))
               (\<lambda>n. if n > 0 then ret (Some (Errorf ''DaemonSet %q still has %d pods running'' [S (dmn_Name ds), D (int n)]))
                    else ret None) } }"

end
