(* ===== verification/Cluster_Controller.thy ===== *)
theory Cluster_Controller
  imports VGM_DaemonSet
begin

text \<open>
  The cluster controller (\<open>lvmcluster/controller.go\<close>) and the handlers that map watched objects to
  requests (\<open>controller_watches.go\<close>).

  \<open>reconcile\<close> runs the managers in goroutines and collects their errors in the order they end.  The model
  runs them one after the other in an order the environment picks (\<open>schedule\<close>); a finer interleaving
  would only change what the API server answers, which is arbitrary in any case.  The loop of
  \<open>checkStaleNodeFinalizers\<close> ranges over a slice whose array the calls in its body may write to; what it
  holds after such a call is up to the environment (\<open>range_array\<close>).
\<close>

section \<open>The managers\<close>

datatype manager = NetworkPolicies | CSIDriver | VGManager | LVMVGs | LVMVGNodeStatus | TopoLVMStorageClass
  | CSINode | ServiceMonitor | OpenShiftSCCs | TopoLVMVolumeSnapshotClass

fun manager_GetName :: "manager \<Rightarrow> string" where
  "manager_GetName NetworkPolicies = networkPolicyManagerName"
| "manager_GetName CSIDriver = driverName"
| "manager_GetName VGManager = VGManagerUnit"
| "manager_GetName LVMVGs = lvmVGName"
| "manager_GetName LVMVGNodeStatus = lvmVGNodeStatusName"
| "manager_GetName TopoLVMStorageClass = scName"
| "manager_GetName CSINode = csiNodeName"
| "manager_GetName ServiceMonitor = monitorName"
| "manager_GetName OpenShiftSCCs = sccName"
| "manager_GetName TopoLVMVolumeSnapshotClass = vscName"

fun EnsureCreated :: "op_env \<Rightarrow> LVMCluster \<Rightarrow> manager \<Rightarrow> go_error option op" where
  "EnsureCreated env c NetworkPolicies = networkPolicy_EnsureCreated env c"
| "EnsureCreated env c CSIDriver = csiDriver_EnsureCreated env c"
| "EnsureCreated env c VGManager = vgManager_EnsureCreated env c"
| "EnsureCreated env c LVMVGs = lvmVG_EnsureCreated env c"
| "EnsureCreated env c LVMVGNodeStatus = nodeStatus_EnsureCreated env c"
| "EnsureCreated env c TopoLVMStorageClass = storageClass_EnsureCreated env c"
| "EnsureCreated env c CSINode = csiNode_EnsureCreated env c"
| "EnsureCreated env c ServiceMonitor = serviceMonitor_EnsureCreated env c"
| "EnsureCreated env c OpenShiftSCCs = scc_EnsureCreated env c"
| "EnsureCreated env c TopoLVMVolumeSnapshotClass = snapshotClass_EnsureCreated env c"

fun EnsureDeleted :: "op_env \<Rightarrow> LVMCluster \<Rightarrow> manager \<Rightarrow> go_error option op" where
  "EnsureDeleted env c NetworkPolicies = networkPolicy_EnsureDeleted env c"
| "EnsureDeleted env c CSIDriver = csiDriver_EnsureDeleted env c"
| "EnsureDeleted env c VGManager = vgManager_EnsureDeleted env c"
| "EnsureDeleted env c LVMVGs = lvmVG_EnsureDeleted env c"
| "EnsureDeleted env c LVMVGNodeStatus = nodeStatus_EnsureDeleted env c"
| "EnsureDeleted env c TopoLVMStorageClass = storageClass_EnsureDeleted env c"
| "EnsureDeleted env c CSINode = csiNode_EnsureDeleted env c"
| "EnsureDeleted env c ServiceMonitor = serviceMonitor_EnsureDeleted env c"
| "EnsureDeleted env c OpenShiftSCCs = scc_EnsureDeleted env c"
| "EnsureDeleted env c TopoLVMVolumeSnapshotClass = snapshotClass_EnsureDeleted env c"

section \<open>Events and the running image\<close>

definition lvmClusterFinalizer :: string where "lvmClusterFinalizer = ''lvmcluster.topolvm.io''"
definition podNameEnv :: string where "podNameEnv = ''NAME''"
definition LVMOperatorContainerName :: string where "LVMOperatorContainerName = ''manager''"
definition EventReasonErrorDeletionPending :: string where "EventReasonErrorDeletionPending = ''DeletionPending''"
definition EventReasonErrorResourceReconciliationIncomplete :: string where
  "EventReasonErrorResourceReconciliationIncomplete = ''ResourceReconciliationIncomplete''"
definition EventReasonResourceReconciliationSuccess :: string where
  "EventReasonResourceReconciliationSuccess = ''ResourceReconciliationSuccess''"

definition LVMCluster_WarningEvent :: "op_env \<Rightarrow> LVMCluster \<Rightarrow> string \<Rightarrow> go_error \<Rightarrow> unit op" where
  "LVMCluster_WarningEvent env c reason err = emit (OpEvent KLVMCluster (lc_Name c) True reason (Error err))"

definition LVMCluster_NormalEvent :: "op_env \<Rightarrow> LVMCluster \<Rightarrow> string \<Rightarrow> string \<Rightarrow> unit op" where
  "LVMCluster_NormalEvent env c reason msg =
     (if \<not> oe_V1Enabled env then ret () else emit (OpEvent KLVMCluster (lc_Name c) False reason msg))"

definition setRunningPodImage :: "op_env \<Rightarrow> go_error option op" where
  "setRunningPodImage env = do {
     img \<leftarrow> gets ImageName;
     if img \<noteq> [] then ret None
     else let podName = Getenv env podNameEnv in
       if podName = [] then ret (Some (Errorf ''failed to get pod name env variable, %s env variable is not set'' [S podNameEnv]))
       else do {
         r \<leftarrow> ask (\<lambda>h. get_pod env h (oe_Namespace env) podName) (ApiGet KPod (oe_Namespace env) podName);
         case api_error r of
           Inl err \<Rightarrow> ret (Some (Errorf ''failed to get pod %s: %w'' [S podName, W err]))
         | Inr containers \<Rightarrow> (case map_of containers LVMOperatorContainerName of
               Some i \<Rightarrow> do { _ \<leftarrow> modify (\<lambda>s. s\<lparr>ImageName := i\<rparr>); ret None }
             | None \<Rightarrow> ret (Some (Errorf ''failed to get container image for %s in pod %s''
                   [S LVMOperatorContainerName, S podName]))) } }"

section \<open>Status\<close>

definition status_instance :: "op_env \<Rightarrow> LVMCluster \<Rightarrow> LVMCluster" where
  "status_instance env i = (let (st, ready) = computeLVMClusterReadiness (lcs_Conditions (lc_Status i))
     in i\<lparr>lc_Status := (lc_Status i)\<lparr>lcs_State := st, lcs_Ready := ready\<rparr>\<rparr>)"

definition applyStatus :: "op_env \<Rightarrow> LVMCluster \<Rightarrow> go_error option op" where
  "applyStatus env i = (let i' = status_instance env i in do {
     r \<leftarrow> ask (\<lambda>h. update_status env h i') (ApiUpdateStatus i');
     ret (map_option (\<lambda>err. Errorf ''failed to update LVMCluster status: %w'' [W err]) r) })"

definition updateLVMClusterStatus :: "op_env \<Rightarrow> LVMCluster \<Rightarrow> go_error option op" where
  "updateLVMClusterStatus env i =
     (if length (lc_DeviceClasses i) = 0 then applyStatus env (setVolumeGroupsReadyConditionUnmanaged env i)
      else catch (List_nodestatus env [InNamespace (oe_Namespace env)])
        (\<lambda>err. ret (Some (Errorf ''failed to list LVMVolumeGroupNodeStatus: %w'' [W err])))
        (\<lambda>statuses. catch (List_nodes env)
          (\<lambda>err. ret (Some (Errorf ''failed to list Nodes: %w'' [W err])))
          (\<lambda>nodes. let i' = setVolumeGroupsReadyCondition env nodes statuses i in
             applyStatus env (i'\<lparr>lc_Status := (lc_Status i')
               \<lparr>lcs_DeviceClassStatuses := computeDeviceClassStatuses statuses\<rparr>\<rparr>))))"

section \<open>Removed device classes\<close>

text \<open>Deletion of a cluster-scoped object that may be absent or already marked.\<close>

definition deleteUnmarked :: "op_env \<Rightarrow> kind \<Rightarrow> string \<Rightarrow> (go_error \<Rightarrow> go_error) \<Rightarrow> (go_error \<Rightarrow> go_error) \<Rightarrow>
    go_error option op" where
  "deleteUnmarked env k n getErr delErr = do {
     r \<leftarrow> Get_deleted env k [] n;
     case r of
       ApiErr err \<Rightarrow> ret (Some (getErr err))
     | NotFound _ \<Rightarrow> ret None
     | Found deleted \<Rightarrow> if deleted then ret None
         else do { d \<leftarrow> Delete env k [] n; ret (map_option delErr (delete_error d)) } }"

definition deleteOrphanedVG :: "op_env \<Rightarrow> LVMVolumeGroup \<Rightarrow> go_error option op" where
  "deleteOrphanedVG env vg =
     (let sc = GetStorageClassName (vg_Name vg); vsc = GetVolumeSnapshotClassName (vg_Name vg) in
      catch_err (deleteUnmarked env KStorageClass sc
          (\<lambda>err. Errorf ''failed to get storage class, %w'' [W err])
          (\<lambda>err. Errorf ''failed to delete StorageClass %s: %w'' [S sc, W err]))
        (\<lambda>e. ret (Some e))
        (catch_err (if oe_EnableSnapshotting env then deleteUnmarked env KVolumeSnapshotClass vsc
              (\<lambda>err. Errorf ''failed to get volume snapshot class: %w'' [W err])
              (\<lambda>err. Errorf ''failed to delete VolumeSnapshotClass %s: %w'' [S vsc, W err]) else ret None)
          (\<lambda>e. ret (Some e))
          (if vg_Deleted vg then ret None
           else do {
             d \<leftarrow> Delete env KLVMVolumeGroup (vg_Namespace vg) (vg_Name vg);
             ret (map_option (\<lambda>err. Errorf ''failed to delete orphaned LVMVolumeGroup %s: %w'' [S (vg_Name vg), W err])
               (delete_error d)) })))"

definition checkForDeletedDeviceClasses :: "op_env \<Rightarrow> LVMCluster \<Rightarrow> go_error option op" where
  "checkForDeletedDeviceClasses env c = do {
     r \<leftarrow> List_vgs env [InNamespace (oe_Namespace env)];
     case api_error r of
       Inl err \<Rightarrow> ret (Some (Errorf ''failed to list existing LVMVolumeGroups: %w'' [W err]))
     | Inr vgs \<Rightarrow> for_each vgs (\<lambda>vg.
         if \<not> IsControlledBy env (vg_OwnerReferences vg) c then ret None
         else if vg_Name vg \<in> dc_Name ` set (lc_DeviceClasses c) then ret None
         else deleteOrphanedVG env vg) }"

section \<open>Checks before deletion\<close>

fun stale_lvs_loop :: "op_env \<Rightarrow> string list \<Rightarrow> LogicalVolumeObject list \<Rightarrow> bool res op" where
  "stale_lvs_loop env nodes [] = ret (Inr False)"
| "stale_lvs_loop env nodes (lv # lvs) =
     (if lvo_NodeName lv \<notin> set nodes then do {
        u \<leftarrow> Update env (OLogicalVolume (lv\<lparr>lvo_Finalizers :=
               fst (oe_RemoveFinalizer env (lvo_Finalizers lv) ''topolvm.io/logicalvolume'')\<rparr>));
        case u of
          Some err \<Rightarrow> ret (Inl (Errorf ''failed to delete finalizer from logicalvolume %s, error: %w'' [S (lvo_Name lv), W err]))
        | None \<Rightarrow> stale_lvs_loop env nodes lvs }
      else ret (Inr True))"

definition logicalVolumesExist :: "op_env \<Rightarrow> string list \<Rightarrow> bool res op" where
  "logicalVolumesExist env nodes = catch (ask (\<lambda>h. list_lvs env h []) (ApiList KLogicalVolume []))
     (\<lambda>err. ret (Inl (Errorf ''failed to get TopoLVM LogicalVolume list: %w'' [W err])))
     (\<lambda>lvs. if length lvs = 0 then ret (Inr False) else stale_lvs_loop env nodes lvs)"

definition by_class :: "string \<Rightarrow> list_option list" where
  "by_class sc = [MatchingField ''spec.storageClassName'' sc, Limit 1]"

fun pvcs_loop :: "op_env \<Rightarrow> DeviceClass list \<Rightarrow> bool res op" where
  "pvcs_loop env [] = ret (Inr False)"
| "pvcs_loop env (dc # dcs) = (let sc = GetStorageClassName (dc_Name dc) in
     catch (ask (\<lambda>h. list_count env h KPersistentVolumeClaim (by_class sc)) (ApiList KPersistentVolumeClaim (by_class sc)))
       (\<lambda>err. ret (Inl (Errorf ''failed to list PVCs for StorageClass %s: %w'' [S sc, W err])))
       (\<lambda>n. if n > 0 then ret (Inr True) else pvcs_loop env dcs))"

definition activePVCsExistForClusterStorageClasses :: "op_env \<Rightarrow> LVMCluster \<Rightarrow> bool res op" where
  "activePVCsExistForClusterStorageClasses env c = pvcs_loop env (lc_DeviceClasses c)"

definition retains :: "DeviceClass \<Rightarrow> bool" where
  "retains dc \<longleftrightarrow> \<not> (case dc_StorageClassOptions dc of None \<Rightarrow> True
     | Some opts \<Rightarrow> (case sco_ReclaimPolicy opts of None \<Rightarrow> True | Some p \<Rightarrow> p \<noteq> PersistentVolumeReclaimRetain))"

fun retain_loop :: "op_env \<Rightarrow> DeviceClass list \<Rightarrow> bool res op" where
  "retain_loop env [] = ret (Inr False)"
| "retain_loop env (dc # dcs) = (if \<not> retains dc then retain_loop env dcs
     else let sc = GetStorageClassName (dc_Name dc) in
       catch (ask (\<lambda>h. list_count env h KPersistentVolume (by_class sc)) (ApiList KPersistentVolume (by_class sc)))
         (\<lambda>err. ret (Inl (Errorf ''failed to list PVs for StorageClass %s: %w'' [S sc, W err])))
         (\<lambda>n. if n > 0 then ret (Inr True) else retain_loop env dcs))"

definition retainPVsExistForCluster :: "op_env \<Rightarrow> LVMCluster \<Rightarrow> bool res op" where
  "retainPVsExistForCluster env c = retain_loop env (lc_DeviceClasses c)"

text \<open>The inner loop of \<open>checkStaleNodeFinalizers\<close>: the indices still to come and the array the slice
  refers to.\<close>

fun stale_loop :: "op_env \<Rightarrow> string list \<Rightarrow> nat list \<Rightarrow> string list \<Rightarrow> LVMVolumeGroup \<Rightarrow> go_error option op" where
  "stale_loop env nodes [] arr vg = ret None"
| "stale_loop env nodes (i # is) arr vg =
     (if \<not> (i < length arr \<and> HasPrefix (arr ! i) NodeCleanupFinalizer) then stale_loop env nodes is arr vg
      else if TrimPrefix (arr ! i) (NodeCleanupFinalizer @ ''/'') \<in> set nodes then stale_loop env nodes is arr vg
      else let vg' = vg\<lparr>vg_Finalizers := fst (oe_RemoveFinalizer env (vg_Finalizers vg) (arr ! i))\<rparr> in do {
        u \<leftarrow> Update env (OVolumeGroup vg');
        case u of
          Some err \<Rightarrow> ret (Some (Errorf ''failed to delete finalizer from volumegroup %s, error: %w'' [S (vg_Name vg'), W err]))
        | None \<Rightarrow> do { h \<leftarrow> gets tr; stale_loop env nodes is (range_array env h arr) vg' } })"

definition checkStaleNodeFinalizers :: "op_env \<Rightarrow> string list \<Rightarrow> go_error option op" where
  "checkStaleNodeFinalizers env nodes = do {
     r \<leftarrow> List_vgs env [InNamespace (oe_Namespace env)];
     case r of
       NotFound _ \<Rightarrow> ret None
     | ApiErr err \<Rightarrow> ret (Some (Errorf ''failed to list volume groups: %w'' [W err]))
     | Found vgs \<Rightarrow> for_each vgs (\<lambda>vg. stale_loop env nodes [0..<length (vg_Finalizers vg)] (vg_Finalizers vg) vg) }"

definition clusterNodes :: "op_env \<Rightarrow> string list res op" where
  "clusterNodes env = catch (List_nodes env)
     (\<lambda>err. ret (Inl (Errorf ''failed to get node list: %w'' [W err])))
     (\<lambda>nodes. ret (Inr (map node_Name nodes)))"

section \<open>Deletion\<close>

definition deletion_list :: "op_env \<Rightarrow> manager list" where
  "deletion_list env = [LVMVGs, VGManager, LVMVGNodeStatus, TopoLVMStorageClass, CSIDriver, CSINode,
       ServiceMonitor, NetworkPolicies] @
     (if oe_ClusterType env = TypeOCP then [OpenShiftSCCs] else []) @
     (if oe_EnableSnapshotting env then [TopoLVMVolumeSnapshotClass] else [])"

definition delete_unit :: "op_env \<Rightarrow> LVMCluster \<Rightarrow> manager \<Rightarrow> go_error option op" where
  "delete_unit env c m = do {
     r \<leftarrow> EnsureDeleted env c m;
     case r of None \<Rightarrow> ret None
     | Some e \<Rightarrow> (let err = Errorf ''failed cleaning up %s: %w'' [S (manager_GetName m), W e] in do {
         _ \<leftarrow> LVMCluster_WarningEvent env c EventReasonErrorDeletionPending err;
         ret (Some err) }) }"

definition removeClusterFinalizer :: "op_env \<Rightarrow> LVMCluster \<Rightarrow> go_error option op" where
  "removeClusterFinalizer env c = (let (fs, updated) = oe_RemoveFinalizer env (lc_Finalizers c) lvmClusterFinalizer in
     if updated then do {
       r \<leftarrow> ask (\<lambda>h. update_cluster env h (c\<lparr>lc_Finalizers := fs\<rparr>)) (ApiUpdate (OCluster (c\<lparr>lc_Finalizers := fs\<rparr>)));
       ret (case r of Inl err \<Rightarrow> Some (Errorf ''failed to remove finalizer from LVMCluster %s: %w'' [S (lc_Name c), W err])
         | Inr _ \<Rightarrow> None) }
     else ret None)"

definition LVMCluster_processDelete :: "op_env \<Rightarrow> LVMCluster \<Rightarrow> go_error option op" where
  "LVMCluster_processDelete env c =
     catch_err (if lvmClusterFinalizer \<in> set (lc_Finalizers c) then for_each (deletion_list env) (delete_unit env c) else ret None)
       (\<lambda>e. ret (Some e)) (removeClusterFinalizer env c)"

section \<open>Reconciliation\<close>

fun permute :: "nat list \<Rightarrow> 'a list \<Rightarrow> 'a list" where
  "permute [] xs = xs"
| "permute (i # is) [] = []"
| "permute (i # is) (x # xs) = (let ys = x # xs; j = i mod length ys in
     ys ! j # permute is (take j ys @ drop (Suc j) ys))"

fun sync_all :: "op_env \<Rightarrow> LVMCluster \<Rightarrow> manager list \<Rightarrow> go_error list op" where
  "sync_all env c [] = ret []"
| "sync_all env c (m # ms) = do {
     r \<leftarrow> EnsureCreated env c m;
     errs \<leftarrow> sync_all env c ms;
     ret (case r of None \<Rightarrow> errs | Some e \<Rightarrow> e # errs) }"

definition creation_list :: "op_env \<Rightarrow> manager list" where
  "creation_list env = [NetworkPolicies, CSIDriver, VGManager, LVMVGs, LVMVGNodeStatus, TopoLVMStorageClass,
       CSINode, ServiceMonitor] @
     (if oe_ClusterType env = TypeOCP then [OpenShiftSCCs] else []) @
     (if oe_EnableSnapshotting env then [TopoLVMVolumeSnapshotClass] else [])"

abbreviation op_fails :: "go_error \<Rightarrow> outcome op" where
  "op_fails err \<equiv> ret (done_result, Some err)"

definition reconcile_resources :: "op_env \<Rightarrow> LVMCluster \<Rightarrow> outcome op" where
  "reconcile_resources env i = do {
     h \<leftarrow> gets tr;
     errs \<leftarrow> sync_all env i (permute (schedule env h) (creation_list env));
     if length errs > 0 then
       (let err = Errorf (''LVMCluster'' @ [CHR 0x27] @ ''s resources are not yet fully synchronized: %w'') [W (ErrorsJoin errs)] in do {
          _ \<leftarrow> LVMCluster_WarningEvent env i EventReasonErrorResourceReconciliationIncomplete err;
          _ \<leftarrow> updateLVMClusterStatus env (setResourcesAvailableConditionFalse env err i);
          op_fails err })
     else
       catch_err (checkForDeletedDeviceClasses env i)
         (\<lambda>err. op_fails (Errorf ''failed to check for deleted device classes, %w'' [W err]))
         (do {
            _ \<leftarrow> LVMCluster_NormalEvent env i EventReasonResourceReconciliationSuccess ''successfully reconciled LVMCluster'';
            catch_err (updateLVMClusterStatus env (setResourcesAvailableConditionTrue env i))
              (\<lambda>statusErr. op_fails statusErr)
              (ret (\<lparr>Requeue = True, RequeueAfter = 60\<rparr>, None)) }) }"

definition LVMCluster_reconcile :: "op_env \<Rightarrow> LVMCluster \<Rightarrow> outcome op" where
  "LVMCluster_reconcile env c =
     (let i = setVolumeGroupsReadyConditionInProgress env (setResourcesAvailableConditionInProgress env c);
          (fs, updated) = oe_AddFinalizer env (lc_Finalizers i) lvmClusterFinalizer;
          i' = i\<lparr>lc_Finalizers := fs\<rparr>
      in if updated then
           catch (ask (\<lambda>h. update_cluster env h i') (ApiUpdate (OCluster i')))
             (\<lambda>err. op_fails (Errorf ''failed to update LvmCluster with finalizer: %w'' [W err]))
             (reconcile_resources env)
         else reconcile_resources env i')"

definition wait_result :: ctrl_Result where
  "wait_result = \<lparr>Requeue = False, RequeueAfter = 10\<rparr>"

definition deletion_gates :: "op_env \<Rightarrow> LVMCluster \<Rightarrow> outcome op" where
  "deletion_gates env c =
     catch (activePVCsExistForClusterStorageClasses env c)
       (\<lambda>err. op_fails (Errorf ''failed to check for active PVCs: %w'' [W err]))
       (\<lambda>pvcsExist. if pvcsExist then do {
            _ \<leftarrow> LVMCluster_WarningEvent env c EventReasonErrorDeletionPending
                   (Errorf ''found PVCs provisioned by LVMS, waiting %s for their deletion'' [S ''10s'']);
            ret (wait_result, None) }
          else catch (retainPVsExistForCluster env c)
            (\<lambda>err. op_fails (Errorf ''failed to check for Retain PVs: %w'' [W err]))
            (\<lambda>retainPVsExist. if retainPVsExist then do {
                 _ \<leftarrow> LVMCluster_WarningEvent env c EventReasonErrorDeletionPending
                        (Errorf ''found PVs with Retain policy from LVMS, waiting %s for manual cleanup'' [S ''10s'']);
                 ret (wait_result, None) }
               else catch_err (LVMCluster_processDelete env c)
                 (\<lambda>err. ret (wait_result, None))
                 (ret (done_result, None))))"

definition reconcile_deletion :: "op_env \<Rightarrow> LVMCluster \<Rightarrow> outcome op" where
  "reconcile_deletion env c = catch (clusterNodes env)
     (\<lambda>err. op_fails (Errorf ''failed to get unhealthy nodes: %w'' [W err]))
     (\<lambda>nodes. catch_err (checkStaleNodeFinalizers env nodes)
        (\<lambda>err. op_fails (Errorf ''failed to check for deleted nodes: %w'' [W err]))
        (catch (logicalVolumesExist env nodes)
          (\<lambda>err. op_fails (Errorf ''failed to check LogicalVolumes: %w'' [W err]))
          (\<lambda>_. deletion_gates env c)))"

definition LVMCluster_Reconcile :: "op_env \<Rightarrow> string \<Rightarrow> string \<Rightarrow> outcome op" where
  "LVMCluster_Reconcile env ns n = catch (ask (\<lambda>h. list_clusters env h []) (ApiList KLVMCluster []))
     (\<lambda>err. op_fails (Errorf ''failed to list LVMCluster instances: %w'' [W err]))
     (\<lambda>items. if length items > 1
        then op_fails (Errorf ''there should be a single LVMCluster but multiple were found, %d clusters found'' [D (int (length items))])
        else do {
          r \<leftarrow> ask (\<lambda>h. get_cluster env h ns n) (ApiGet KLVMCluster ns n);
          case r of
            NotFound _ \<Rightarrow> ret (done_result, None)
          | ApiErr err \<Rightarrow> op_fails err
          | Found c \<Rightarrow> catch_err (setRunningPodImage env)
              (\<lambda>err. op_fails (Errorf ''failed to introspect running pod image: %w'' [W err]))
              (if lc_Deleted c then reconcile_deletion env c else LVMCluster_reconcile env c) })"

section \<open>Watches\<close>

definition getManagedLabelObjsForReconcile :: "op_env \<Rightarrow> string \<Rightarrow> labels option \<Rightarrow> (string \<times> string) list op" where
  "getManagedLabelObjsForReconcile env objNamespace objLabels = do {
     r \<leftarrow> ask (\<lambda>h. list_clusters env h [InNamespace objNamespace]) (ApiList KLVMCluster [InNamespace objNamespace]);
     ret (case r of Inl _ \<Rightarrow> []
       | Inr cs \<Rightarrow> map (\<lambda>c. (lc_Name c, lc_Namespace c))
           (filter (\<lambda>c. MatchesManagedLabels (cluster_gvk env) objLabels (cluster_owner c)) cs)) }"

fun fitting_clusters :: "op_env \<Rightarrow> Node \<Rightarrow> (string \<times> string) list \<Rightarrow> LVMCluster list \<Rightarrow> (string \<times> string) list" where
  "fitting_clusters env node requests [] = requests"
| "fitting_clusters env node requests (c # cs) = (case fst (ExtractNodeSelectorAndTolerations c) of
     None \<Rightarrow> fitting_clusters env node (requests @ [(lc_Name c, lc_Namespace c)]) cs
   | Some sel \<Rightarrow> (case NodeMatches env node sel of
       Inl _ \<Rightarrow> []
     | Inr match \<Rightarrow> fitting_clusters env node (if match then requests @ [(lc_Name c, lc_Namespace c)] else requests) cs))"

definition getLVMClusterObjsByNameFittingNodeSelector :: "op_env \<Rightarrow> string \<Rightarrow> string \<Rightarrow> (string \<times> string) list op" where
  "getLVMClusterObjsByNameFittingNodeSelector env objNamespace objName = do {
     r \<leftarrow> ask (\<lambda>h. list_clusters env h [InNamespace objNamespace]) (ApiList KLVMCluster [InNamespace objNamespace]);
     case r of Inl _ \<Rightarrow> ret []
     | Inr cs \<Rightarrow> do {
         n \<leftarrow> ask (\<lambda>h. get_node env h objNamespace objName) (ApiGet KNode objNamespace objName);
         ret (case api_error n of Inl _ \<Rightarrow> [] | Inr node \<Rightarrow> fitting_clusters env node [] cs) } }"

end
