(* ===== verification/Cluster_Deletion.thy ===== *)
theory Cluster_Deletion
  imports Cluster_Controller
begin

text \<open>
  Deletion of a cluster: in which order the managers tear down what they manage, and what has to be
  known before anything is torn down.
\<close>

section \<open>What a manager may do and when it is done\<close>

definition reads :: "op_action set" where
  "reads = {a. case a of ApiGet _ _ _ \<Rightarrow> True | ApiList _ _ \<Rightarrow> True | OpEvent _ _ _ _ _ \<Rightarrow> True | _ \<Rightarrow> False}"

fun unit_kind :: "manager \<Rightarrow> kind option" where
  "unit_kind LVMVGs = Some KLVMVolumeGroup"
| "unit_kind VGManager = Some KDaemonSet"
| "unit_kind LVMVGNodeStatus = Some KLVMVolumeGroupNodeStatus"
| "unit_kind TopoLVMStorageClass = Some KStorageClass"
| "unit_kind CSIDriver = Some KCSIDriver"
| "unit_kind CSINode = None"
| "unit_kind ServiceMonitor = Some KServiceMonitor"
| "unit_kind NetworkPolicies = Some KNetworkPolicy"
| "unit_kind OpenShiftSCCs = Some KSecurityContextConstraints"
| "unit_kind TopoLVMVolumeSnapshotClass = Some KVolumeSnapshotClass"

definition unit_may :: "manager \<Rightarrow> op_action set" where
  "unit_may m = reads \<union> {a. case a of ApiDelete k ns n \<Rightarrow> unit_kind m = Some k
     | ApiUpdate (ONodeStatus st) \<Rightarrow> m = LVMVGNodeStatus | _ \<Rightarrow> False}"

text \<open>Evidence that an object is absent, and that it is absent or its deletion was accepted.\<close>

definition absent_seen :: "op_env \<Rightarrow> kind \<Rightarrow> string \<Rightarrow> string \<Rightarrow> op_history \<Rightarrow> bool" where
  "absent_seen env k ns n = seen (\<lambda>pre. \<exists>e. get_deleted env pre k ns n = NotFound e) (ApiGet k ns n)"

definition dropped :: "op_env \<Rightarrow> kind \<Rightarrow> string \<Rightarrow> string \<Rightarrow> op_history \<Rightarrow> bool" where
  "dropped env k ns n h \<longleftrightarrow> absent_seen env k ns n h
     \<or> seen (\<lambda>pre. delete env pre k ns n = Found ()) (ApiDelete k ns n) h"

definition vg_absent :: "op_env \<Rightarrow> string \<Rightarrow> op_history \<Rightarrow> bool" where
  "vg_absent env n = seen (\<lambda>pre. \<exists>e. get_vg env pre (oe_Namespace env) n = NotFound e)
     (ApiGet KLVMVolumeGroup (oe_Namespace env) n)"

definition pods_gone :: "op_env \<Rightarrow> op_history \<Rightarrow> bool" where
  "pods_gone env = (let opts = [InNamespace (oe_Namespace env), MatchingLabels vgm_labels] in
     seen (\<lambda>pre. list_count env pre KPod opts = Inr 0) (ApiList KPod opts))"

definition statuses_dropped :: "op_env \<Rightarrow> LVMCluster \<Rightarrow> op_history \<Rightarrow> bool" where
  "statuses_dropped env c h \<longleftrightarrow> (\<exists>statuses nodes.
     seen (\<lambda>pre. list_nodestatus env pre [InNamespace (oe_Namespace env)] = Inr statuses)
       (ApiList KLVMVolumeGroupNodeStatus [InNamespace (oe_Namespace env)]) h
     \<and> seen (\<lambda>pre. list_nodes env pre [] = Inr nodes) (ApiList KNode []) h
     \<and> (\<forall>st \<in> set statuses. isValidNode (ns_Name st) (fst (ValidNodes env c nodes)) \<longrightarrow> ns_Deleted st
          \<or> seen (\<lambda>pre. delete env pre KLVMVolumeGroupNodeStatus (ns_Namespace st) (ns_Name st) = Found ())
              (ApiDelete KLVMVolumeGroupNodeStatus (ns_Namespace st) (ns_Name st)) h))"

definition driver_gone :: "op_env \<Rightarrow> op_history \<Rightarrow> bool" where
  "driver_gone env h \<longleftrightarrow> absent_seen env KCSIDriver [] TopolvmCSIDriverName h
     \<or> seen (\<lambda>pre. \<exists>e. delete env pre KCSIDriver [] TopolvmCSIDriverName = NotFound e)
         (ApiDelete KCSIDriver [] TopolvmCSIDriverName) h"

definition registrations_gone :: "op_env \<Rightarrow> LVMCluster \<Rightarrow> op_history \<Rightarrow> bool" where
  "registrations_gone env c h \<longleftrightarrow> (\<exists>nodes.
     seen (\<lambda>pre. list_nodes env pre [] = Inr nodes) (ApiList KNode []) h
     \<and> snd (ValidNodes env c nodes) = None
     \<and> (\<forall>n \<in> set (fst (ValidNodes env c nodes)). seen (\<lambda>pre. \<exists>cn. get_csinode env pre (node_Name n) = Found cn
          \<and> TopolvmCSIDriverName \<notin> set (cn_Drivers cn)) (ApiGet KCSINode [] (node_Name n)) h))"

fun unit_gone :: "op_env \<Rightarrow> LVMCluster \<Rightarrow> manager \<Rightarrow> op_history \<Rightarrow> bool" where
  "unit_gone env c LVMVGs h = (\<forall>dc \<in> set (lc_DeviceClasses c). vg_absent env (dc_Name dc) h)"
| "unit_gone env c VGManager h = (absent_seen env KDaemonSet (oe_Namespace env) VGManagerUnit h \<and> pods_gone env h)"
| "unit_gone env c LVMVGNodeStatus h = statuses_dropped env c h"
| "unit_gone env c TopoLVMStorageClass h =
     (\<forall>dc \<in> set (lc_DeviceClasses c). dropped env KStorageClass [] (GetStorageClassName (dc_Name dc)) h)"
| "unit_gone env c CSIDriver h = driver_gone env h"
| "unit_gone env c CSINode h = registrations_gone env c h"
| "unit_gone env c ServiceMonitor h = (absent_seen env KCustomResourceDefinition [] ''servicemonitors.monitoring.coreos.com'' h
     \<or> dropped env KServiceMonitor (oe_Namespace env) monitorName h)"
| "unit_gone env c NetworkPolicies h =
     (\<forall>p \<in> set (allNetworkPolicies (oe_Namespace env)). dropped env KNetworkPolicy (oe_Namespace env) (np_Name p) h)"
| "unit_gone env c OpenShiftSCCs h = dropped env KSecurityContextConstraints [] scName h"
| "unit_gone env c TopoLVMVolumeSnapshotClass h =
     (\<forall>dc \<in> set (lc_DeviceClasses c). dropped env KVolumeSnapshotClass [] (GetVolumeSnapshotClassName (dc_Name dc)) h)"

section \<open>The managers meet the contract\<close>

lemma reads_simps [simp]: "ApiGet k ns n \<in> reads" "ApiList k opts \<in> reads" "OpEvent k n w r m \<in> reads"
  "ApiDelete k ns n \<notin> reads" "ApiUpdate x \<notin> reads"
  by (simp_all add: reads_def)

lemma may_simps [simp]: "ApiGet k ns n \<in> unit_may m" "ApiList k opts \<in> unit_may m" "OpEvent k n w r t \<in> unit_may m"
  "ApiDelete k ns n \<in> unit_may m \<longleftrightarrow> unit_kind m = Some k"
  "ApiUpdate (ONodeStatus st) \<in> unit_may m \<longleftrightarrow> m = LVMVGNodeStatus"
  by (auto simp: unit_may_def)

lemma stable_absent_seen [simp, intro]: "stable (absent_seen env k ns n)"
  by (simp add: absent_seen_def)

lemma stable_dropped [simp, intro]: "stable (dropped env k ns n)"
proof -
  have "stable (\<lambda>h. absent_seen env k ns n h \<or> seen (\<lambda>pre. delete env pre k ns n = Found ()) (ApiDelete k ns n) h)"
    by (intro stable_disj) simp_all
  then show ?thesis by (simp add: dropped_def[abs_def])
qed

lemma stable_driver_gone [simp, intro]: "stable (driver_gone env)"
proof -
  have "stable (\<lambda>h. absent_seen env KCSIDriver [] TopolvmCSIDriverName h
     \<or> seen (\<lambda>pre. \<exists>e. delete env pre KCSIDriver [] TopolvmCSIDriverName = NotFound e)
         (ApiDelete KCSIDriver [] TopolvmCSIDriverName) h)"
    by (intro stable_disj) simp_all
  then show ?thesis by (simp add: driver_gone_def[abs_def])
qed

lemma deleteIfPresent_guarded:
  assumes "unit_kind m = Some k"
  shows "guarded (\<lambda>_ a. a \<in> unit_may m) (\<lambda>_. True) (deleteIfPresent env k ns n ge pe de) (\<lambda>r h. r = None \<longrightarrow> dropped env k ns n h)"
  unfolding deleteIfPresent_def Get_deleted_def Delete_def
  apply (rule guarded_bind[OF guarded_ask_seen], simp, simp)
  subgoal for r
    apply (cases r)
    subgoal for d
      apply (cases d)
       apply (simp add: guarded_return)
      apply simp
      apply (rule guarded_bind[OF guarded_ask_seen[where P = "\<lambda>_. True", THEN guarded_weaken]])
         apply (simp_all add: assms)
      apply (rule guarded_return)
      apply (auto simp: dropped_def delete_error_def split: api.splits)
      done
    subgoal for e
      by (auto intro!: guarded_return simp: dropped_def absent_seen_def seen_def)
    subgoal by (simp add: guarded_return)
    done
  done

lemma each_dropped:
  assumes "unit_kind m = Some k"
  shows "guarded (\<lambda>_ a. a \<in> unit_may m) (\<lambda>_. True)
    (for_each xs (\<lambda>x. deleteIfPresent env k (ns x) (n x) (ge x) (pe x) (de x)))
    (\<lambda>r h. r = None \<longrightarrow> (\<forall>x \<in> set xs. dropped env k (ns x) (n x) h))"
  by (rule guarded_conseq[OF guarded_for_each[where U = "\<lambda>x. dropped env k (ns x) (n x)" and P = "\<lambda>_. True"]])
    (auto intro!: guarded_conseq[OF deleteIfPresent_guarded[OF assms]])

lemma storageClass_gone: "guarded (\<lambda>_ a. a \<in> unit_may TopoLVMStorageClass) (\<lambda>_. True)
    (storageClass_EnsureDeleted env c) (\<lambda>r h. r = None \<longrightarrow> unit_gone env c TopoLVMStorageClass h)"
  unfolding storageClass_EnsureDeleted_def Let_def unit_gone.simps by (rule each_dropped) simp

lemma snapshotClass_gone: "guarded (\<lambda>_ a. a \<in> unit_may TopoLVMVolumeSnapshotClass) (\<lambda>_. True)
    (snapshotClass_EnsureDeleted env c) (\<lambda>r h. r = None \<longrightarrow> unit_gone env c TopoLVMVolumeSnapshotClass h)"
  unfolding snapshotClass_EnsureDeleted_def Let_def unit_gone.simps by (rule each_dropped) simp

lemma policies_namespace: "p \<in> set (allNetworkPolicies ns) \<Longrightarrow> np_Namespace p = ns"
  by (auto simp: allNetworkPolicies_def operatorAllowPolicy_def vgManagerAllowPolicy_def defaultDenyPolicy_def policy_object_def)

lemma networkPolicies_gone: "guarded (\<lambda>_ a. a \<in> unit_may NetworkPolicies) (\<lambda>_. True)
    (networkPolicy_EnsureDeleted env c) (\<lambda>r h. r = None \<longrightarrow> unit_gone env c NetworkPolicies h)"
  unfolding networkPolicy_EnsureDeleted_def unit_gone.simps
  by (rule guarded_conseq[OF each_dropped]) (auto simp: policies_namespace)

lemma scc_gone: "guarded (\<lambda>_ a. a \<in> unit_may OpenShiftSCCs) (\<lambda>_. True)
    (scc_EnsureDeleted env c) (\<lambda>r h. r = None \<longrightarrow> unit_gone env c OpenShiftSCCs h)"
  unfolding scc_EnsureDeleted_def unit_gone.simps
  by (rule guarded_conseq[OF each_dropped]) (auto simp: getAllSCCs_def)

lemma prometheus_guarded: "guarded (\<lambda>_ a. a \<in> unit_may m) (\<lambda>_. True) (IsPrometheusAvailable env)
    (\<lambda>r h. r = Inr False \<longrightarrow> absent_seen env KCustomResourceDefinition [] ''servicemonitors.monitoring.coreos.com'' h)"
  unfolding IsPrometheusAvailable_def Get_deleted_def
  apply (rule guarded_bind[OF guarded_ask_seen], simp, simp)
  apply (rule guarded_return)
  apply (auto simp: absent_seen_def seen_def split: api.splits)
  done

lemma serviceMonitor_gone: "guarded (\<lambda>_ a. a \<in> unit_may ServiceMonitor) (\<lambda>_. True)
    (serviceMonitor_EnsureDeleted env c) (\<lambda>r h. r = None \<longrightarrow> unit_gone env c ServiceMonitor h)"
  unfolding serviceMonitor_EnsureDeleted_def unit_gone.simps
  apply (rule guarded_catch[OF prometheus_guarded])
   apply (simp add: guarded_return)
  apply (rule guarded_if)
   apply (simp add: guarded_return)
  apply (rule guarded_conseq[OF deleteIfPresent_guarded])
     apply auto
  done

lemma csiDriver_gone: "guarded (\<lambda>_ a. a \<in> unit_may CSIDriver) (\<lambda>_. True)
    (csiDriver_EnsureDeleted env c) (\<lambda>r h. r = None \<longrightarrow> unit_gone env c CSIDriver h)"
proof -
  let ?G = "\<lambda>_ a. a \<in> unit_may CSIDriver"
  have get: "guarded ?G P (Get_deleted env KCSIDriver [] TopolvmCSIDriverName)
      (\<lambda>r h. \<forall>e. r = NotFound e \<longrightarrow> driver_gone env h)" for P
    unfolding Get_deleted_def
    by (rule guarded_conseq[OF guarded_ask_seen[where P = "\<lambda>_. True"]])
      (auto simp: driver_gone_def absent_seen_def seen_def)
  have del: "guarded ?G P (Delete env KCSIDriver [] TopolvmCSIDriverName)
      (\<lambda>r h. \<forall>e. r = NotFound e \<longrightarrow> driver_gone env h)" for P
    unfolding Delete_def
    by (rule guarded_conseq[OF guarded_ask_seen[where P = "\<lambda>_. True"]])
      (auto simp: driver_gone_def seen_def)
  show ?thesis
    unfolding csiDriver_EnsureDeleted_def unit_gone.simps
    apply (rule guarded_bind[OF get])
    subgoal for r
      apply (cases r)
      subgoal for d
        apply (cases d, simp add: guarded_return)
        apply simp
        apply (rule guarded_bind[OF del])
        subgoal for r'
          apply (cases r')
            apply simp
            apply (rule guarded_bind[OF get])
          subgoal for r'' by (cases r'') (simp_all add: guarded_return)
           apply (simp_all add: guarded_return)
          done
        done
       apply (simp_all add: guarded_return)
      done
    done
qed

lemma ds_template_simps [simp]: "dmn_Name (ds_template env c img) = VGManagerUnit"
  "dmn_Namespace (ds_template env c img) = oe_Namespace env" "dmn_MatchLabels (ds_template env c img) = vgm_labels"
  by (simp_all add: ds_template_def templateVGManagerDaemonset_def setDaemonsetNodeSelector_def Let_def
      split: prod.split option.split)

lemma vgManager_gone: "guarded (\<lambda>_ a. a \<in> unit_may VGManager) (\<lambda>_. True)
    (vgManager_EnsureDeleted env c) (\<lambda>r h. r = None \<longrightarrow> unit_gone env c VGManager h)"
proof -
  let ?G = "\<lambda>_ a. a \<in> unit_may VGManager" and ?ns = "oe_Namespace env"
  have del: "guarded ?G P (Delete env KDaemonSet ?ns VGManagerUnit) (\<lambda>_ _. True)" for P
    unfolding Delete_def by (rule guarded_ask) simp_all
  have get: "guarded ?G P (Get_deleted env KDaemonSet ?ns VGManagerUnit)
      (\<lambda>r h. \<forall>e. r = NotFound e \<longrightarrow> absent_seen env KDaemonSet ?ns VGManagerUnit h)" for P
    unfolding Get_deleted_def
    by (rule guarded_conseq[OF guarded_ask_seen[where P = "\<lambda>_. True"]]) (auto simp: absent_seen_def seen_def)
  have rest: "guarded ?G (\<lambda>_. True) (do {
       g \<leftarrow> Get_deleted env KDaemonSet ?ns VGManagerUnit;
       case g of
         Found _ \<Rightarrow> ret (Some e1) | ApiErr err \<Rightarrow> ret (Some (e2 err))
       | NotFound _ \<Rightarrow> catch (ask (\<lambda>h. list_count env h KPod [InNamespace ?ns, MatchingLabels vgm_labels])
             (ApiList KPod [InNamespace ?ns, MatchingLabels vgm_labels])) (\<lambda>err. ret (Some (e3 err)))
             (\<lambda>n. if n > 0 then ret (Some (e4 n)) else ret None) })
     (\<lambda>r h. r = None \<longrightarrow> absent_seen env KDaemonSet ?ns VGManagerUnit h \<and> pods_gone env h)" for e1 e2 e3 e4
    apply (rule guarded_bind[OF get])
    subgoal for g
      apply (cases g)
        apply (simp_all add: guarded_return)
      apply (rule guarded_catch[OF guarded_ask_seen])
         apply (simp_all add: guarded_return)
      apply (auto intro!: guarded_return simp: pods_gone_def Let_def seen_def)
      done
    done
  show ?thesis
    unfolding vgManager_EnsureDeleted_def unit_gone.simps Let_def ds_template_simps
    apply (rule guarded_bind[OF guarded_gets])
    apply (rule guarded_bind[OF del])
    subgoal for img d by (cases d) (simp_all add: rest guarded_return)
    done
qed

lemma lvmVG_delete_loop_guarded:
  "guarded (\<lambda>_ a. a \<in> unit_may LVMVGs) (\<lambda>_. True) (lvmVG_delete_loop env pending vgs)
     (\<lambda>r h. r = Inr [] \<longrightarrow> pending = [] \<and> (\<forall>vg \<in> set vgs.
        seen (\<lambda>pre. \<exists>e. get_vg env pre (vg_Namespace vg) (vg_Name vg) = NotFound e)
          (ApiGet KLVMVolumeGroup (vg_Namespace vg) (vg_Name vg)) h))"
proof (induction vgs arbitrary: pending)
  case Nil
  show ?case by (simp add: guarded_return)
next
  case (Cons vg vgs)
  let ?S = "\<lambda>vg. seen (\<lambda>pre. \<exists>e. get_vg env pre (vg_Namespace vg) (vg_Name vg) = NotFound e)
          (ApiGet KLVMVolumeGroup (vg_Namespace vg) (vg_Name vg))"
  have next_pending: "guarded (\<lambda>_ a. a \<in> unit_may LVMVGs) P (lvmVG_delete_loop env (pending @ [x]) vgs)
      (\<lambda>r h. r = Inr [] \<longrightarrow> pending = [] \<and> (\<forall>vg \<in> set (vg # vgs). ?S vg h))" for P x
    by (rule guarded_conseq[OF Cons.IH[of "pending @ [x]"]]) auto
  show ?case
    unfolding lvmVG_delete_loop.simps Let_def
    apply (rule guarded_bind[OF guarded_ask_seen], simp, simp)
    subgoal for r
    proof (cases r)
      case (Found cur)
      then show ?thesis
        apply (simp del: list.set)
        apply (intro conjI impI)
         apply (rule next_pending)
        unfolding Delete_def
        apply (rule guarded_bind[OF guarded_ask[where Q = "\<lambda>_ _. True"]])
          apply simp_all
        apply (rule guarded_option)
         apply (rule guarded_conseq[OF next_pending])
           apply (auto intro: guarded_return)
        done
    next
      case (NotFound e)
      have "guarded (\<lambda>_ a. a \<in> unit_may LVMVGs) (\<lambda>h. True \<and> ?S vg h) (lvmVG_delete_loop env pending vgs)
          (\<lambda>r h. r = Inr [] \<longrightarrow> pending = [] \<and> (\<forall>vg \<in> set (vg # vgs). ?S vg h))"
        by (rule guarded_conseq[OF guarded_frame[OF Cons.IH[of pending] stable_seen]]) auto
      then show ?thesis
        unfolding NotFound api.case by (rule guarded_weaken) (auto simp: seen_def)
    qed (simp add: guarded_return)
    done
qed

lemma lvmVGs_gone: "guarded (\<lambda>_ a. a \<in> unit_may LVMVGs) (\<lambda>_. True)
    (lvmVG_EnsureDeleted env c) (\<lambda>r h. r = None \<longrightarrow> unit_gone env c LVMVGs h)"
  unfolding lvmVG_EnsureDeleted_def unit_gone.simps
  apply (rule guarded_catch[OF lvmVG_delete_loop_guarded])
   apply (simp add: guarded_return)
  apply (auto intro!: guarded_return simp: lvmVolumeGroups_def new_vg_def vg_absent_def)
  done

lemma deleteNodeStatus_guarded: "guarded (\<lambda>_ a. a \<in> unit_may LVMVGNodeStatus) (\<lambda>_. True) (deleteNodeStatus env st)
    (\<lambda>r h. r = None \<longrightarrow> ns_Deleted st
       \<or> seen (\<lambda>pre. delete env pre KLVMVolumeGroupNodeStatus (ns_Namespace st) (ns_Name st) = Found ())
           (ApiDelete KLVMVolumeGroupNodeStatus (ns_Namespace st) (ns_Name st)) h)"
proof -
  let ?D = "\<lambda>h. ns_Deleted st \<or> seen (\<lambda>pre. delete env pre KLVMVolumeGroupNodeStatus (ns_Namespace st) (ns_Name st) = Found ())
           (ApiDelete KLVMVolumeGroupNodeStatus (ns_Namespace st) (ns_Name st)) h"
  let ?G = "\<lambda>_ a. a \<in> unit_may LVMVGNodeStatus"
  have sD: "stable ?D" by (intro stable_disj) simp_all
  have del: "guarded ?G (\<lambda>_. True) (if ns_Deleted st then ret None
       else do { d \<leftarrow> Delete env KLVMVolumeGroupNodeStatus (ns_Namespace st) (ns_Name st); ret (delete_error d) })
      (\<lambda>d h. d = None \<longrightarrow> ?D h)"
    unfolding Delete_def
    apply (rule guarded_if, simp add: guarded_return)
    apply (rule guarded_bind[OF guarded_ask_seen], simp, simp)
    apply (rule guarded_return)
    apply (auto simp: delete_error_def split: api.splits)
    done
  have upd: "guarded ?G ?D (let (st', removed) = removeDeleteProtectionFinalizer st in
      if removed then do { u \<leftarrow> Update env (ONodeStatus st'); ret (map_option f u) } else ret None) (\<lambda>_. ?D)" for f
    by (rule guarded_only[where A = "unit_may LVMVGNodeStatus", OF _ sD])
      (auto intro!: only_intros simp: Update_def)
  show ?thesis
    unfolding deleteNodeStatus_def
    apply (rule guarded_bind[OF del])
    apply (rule guarded_option)
     apply (rule guarded_conseq[OF upd])
       apply (auto intro: guarded_return)
    done
qed

lemma nodeStatuses_gone: "guarded (\<lambda>_ a. a \<in> unit_may LVMVGNodeStatus) (\<lambda>_. True)
    (nodeStatus_EnsureDeleted env c) (\<lambda>r h. r = None \<longrightarrow> unit_gone env c LVMVGNodeStatus h)"
proof -
  let ?G = "\<lambda>_ a. a \<in> unit_may LVMVGNodeStatus" and ?ns = "[InNamespace (oe_Namespace env)]"
  let ?D = "\<lambda>st h. ns_Deleted st \<or> seen (\<lambda>pre. delete env pre KLVMVolumeGroupNodeStatus (ns_Namespace st) (ns_Name st) = Found ())
           (ApiDelete KLVMVolumeGroupNodeStatus (ns_Namespace st) (ns_Name st)) h"
  let ?L = "\<lambda>sts h. seen (\<lambda>pre. list_nodestatus env pre ?ns = Inr sts) (ApiList KLVMVolumeGroupNodeStatus ?ns) h"
  let ?N = "\<lambda>ns h. seen (\<lambda>pre. list_nodes env pre [] = Inr ns) (ApiList KNode []) h"
  have sD: "stable (\<lambda>h. isValidNode (ns_Name st) v \<longrightarrow> ?D st h)" for st v
    by (rule stable_all_const) (auto dest: seen_mono)
  have each: "guarded ?G (\<lambda>h. ?L sts h \<and> ?N ns h) (for_each sts (\<lambda>st. if isValidNode (ns_Name st) v then deleteNodeStatus env st else ret None))
     (\<lambda>r h. (?L sts h \<and> ?N ns h) \<and> (r = None \<longrightarrow> (\<forall>st \<in> set sts. isValidNode (ns_Name st) v \<longrightarrow> ?D st h)))" for sts ns v
  proof (rule guarded_for_each[OF _ sD])
    show st: "stable (\<lambda>h. ?L sts h \<and> ?N ns h)" by (intro stable_conj stable_seen)
    show "guarded ?G (\<lambda>h. ?L sts h \<and> ?N ns h) (if isValidNode (ns_Name st) v then deleteNodeStatus env st else ret None)
       (\<lambda>r h. (?L sts h \<and> ?N ns h) \<and> (r = None \<longrightarrow> isValidNode (ns_Name st) v \<longrightarrow> ?D st h))" for st
      apply (rule guarded_if)
       apply (rule guarded_conseq[OF guarded_frame[OF deleteNodeStatus_guarded st]])
         apply (auto intro: guarded_return)
      done
  qed
  have fin: "guarded ?G (\<lambda>h. ?L sts h \<and> ?N ns h)
      (let (v, err) = ValidNodes env c ns in catch_err
         (for_each sts (\<lambda>st. if isValidNode (ns_Name st) v then deleteNodeStatus env st else ret None))
         (\<lambda>e. ret (Some e)) (ret err)) (\<lambda>r h. r = None \<longrightarrow> statuses_dropped env c h)" for sts ns
    apply (cases "ValidNodes env c ns")
    subgoal for v err
      apply simp
      apply (rule guarded_catch_err[OF each[of sts ns v]])
       apply (simp add: guarded_return)
      apply (rule guarded_return)
      apply (auto simp: statuses_dropped_def)
      apply (rule exI[of _ sts])
      apply simp
      apply (rule exI[of _ ns])
      apply simp
      done
    done
  show ?thesis
    unfolding nodeStatus_EnsureDeleted_def unit_gone.simps List_nodestatus_def List_nodes_def
    apply (rule guarded_catch[OF guarded_ask_seen], simp, simp)
     apply (simp add: guarded_return)
    apply (rule guarded_catch[OF guarded_ask_seen])
       apply (simp_all add: guarded_return)
    subgoal for sts ns by (rule fin[unfolded Let_def])
    done
qed

lemma getCSINodes_guarded:
  "guarded (\<lambda>_ a. a \<in> unit_may m) (\<lambda>_. True) (getCSINodes env acc ns)
     (\<lambda>r h. \<forall>cns. r = Inr cns \<longrightarrow> set acc \<subseteq> set cns \<and> (\<forall>n \<in> set ns. \<exists>cn \<in> set cns.
        seen (\<lambda>pre. get_csinode env pre (node_Name n) = Found cn) (ApiGet KCSINode [] (node_Name n)) h))"
proof (induction ns arbitrary: acc)
  case (Cons n ns)
  show ?case
    unfolding getCSINodes.simps
    apply (rule guarded_bind[OF guarded_ask_seen], simp, simp)
    subgoal for r
    proof (cases r)
      case (Found cn)
      then show ?thesis
        apply (simp add: api_error_def)
        apply (rule guarded_conseq[OF guarded_frame[OF Cons.IH[of "acc @ [cn]"] stable_seen[of
            "\<lambda>pre. get_csinode env pre (node_Name n) = Found cn" "ApiGet KCSINode [] (node_Name n)"]]])
          apply auto
        done
    qed (simp_all add: api_error_def guarded_return)
    done
qed (simp add: guarded_return)

lemma csiNodes_gone: "guarded (\<lambda>_ a. a \<in> unit_may CSINode) (\<lambda>_. True)
    (csiNode_EnsureDeleted env c) (\<lambda>r h. r = None \<longrightarrow> unit_gone env c CSINode h)"
proof -
  let ?G = "\<lambda>_ a. a \<in> unit_may CSINode"
  let ?N = "\<lambda>ns h. seen (\<lambda>pre. list_nodes env pre [] = Inr ns) (ApiList KNode []) h"
  have cand: "guarded ?G (\<lambda>_. True) (GetAllCSINodeCandidates env c)
      (\<lambda>(cns, err) h. err = None \<longrightarrow> (\<exists>nodes. ?N nodes h \<and> snd (ValidNodes env c nodes) = None
         \<and> (\<forall>n \<in> set (fst (ValidNodes env c nodes)). \<exists>cn \<in> set cns.
              seen (\<lambda>pre. get_csinode env pre (node_Name n) = Found cn) (ApiGet KCSINode [] (node_Name n)) h)))"
    unfolding GetAllCSINodeCandidates_def List_nodes_def
    apply (rule guarded_catch[OF guarded_ask_seen], simp, simp)
     apply (simp add: guarded_return)
    subgoal for nodes
      apply (cases "ValidNodes env c nodes")
      subgoal for v err
        apply simp
        apply (rule guarded_catch[OF guarded_frame[OF getCSINodes_guarded stable_seen, THEN guarded_weaken]])
          apply simp
         apply (simp add: guarded_return)
        apply (rule guarded_return)
        apply auto
        done
      done
    done
  show ?thesis
    unfolding csiNode_EnsureDeleted_def unit_gone.simps
    apply (rule guarded_bind[OF cand])
    apply (rule guarded_prod)
    apply (rule guarded_return)
    apply (auto simp: registrations_gone_def find_None_iff seen_def split: option.splits)
    apply blast
    done
qed

lemma EnsureDeleted_guarded:
  "guarded (\<lambda>_ a. a \<in> unit_may m) (\<lambda>_. True) (EnsureDeleted env c m) (\<lambda>r h. r = None \<longrightarrow> unit_gone env c m h)"
  by (cases m) (simp_all only: EnsureDeleted.simps lvmVGs_gone vgManager_gone nodeStatuses_gone storageClass_gone
      csiDriver_gone csiNodes_gone serviceMonitor_gone networkPolicies_gone scc_gone snapshotClass_gone)

lemma stable_unit_gone: "stable (unit_gone env c m)"
  by (cases m; rule stable_all_const)
    (auto simp: vg_absent_def absent_seen_def pods_gone_def Let_def statuses_dropped_def dropped_def driver_gone_def
      registrations_gone_def intro: seen_mono)

lemma delete_unit_guarded:
  "guarded (\<lambda>_ a. a \<in> unit_may m) (\<lambda>_. True) (delete_unit env c m) (\<lambda>r h. r = None \<longrightarrow> unit_gone env c m h)"
  unfolding delete_unit_def
  apply (rule guarded_bind[OF EnsureDeleted_guarded])
  subgoal for r
    apply (cases r)
     apply (simp add: guarded_return)
    apply (simp add: Let_def LVMCluster_WarningEvent_def)
    apply (rule guarded_bind[OF guarded_emit[where Q = "\<lambda>_ _. True"]])
      apply (simp_all add: guarded_return)
    done
  done

interpretation managers: teardown "delete_unit env c" "unit_gone env c" unit_may for env c
  by unfold_locales (rule stable_unit_gone, rule delete_unit_guarded)

section \<open>The order of the teardown\<close>

text \<open>An object is deleted only by its manager, after all managers before it in the list are done; the
  finalizer of the cluster goes after all of them.\<close>

text \<open>The order of a teardown: what cleans up a volume group goes after it, the storage classes and the
  driver after the pods that serve them, the registrations of the driver after the driver itself.\<close>

definition teardown_order :: "op_env \<Rightarrow> manager list" where
  "teardown_order env = filter (\<lambda>m. (m = OpenShiftSCCs \<longrightarrow> oe_ClusterType env = TypeOCP)
       \<and> (m = TopoLVMVolumeSnapshotClass \<longrightarrow> oe_EnableSnapshotting env))
     [LVMVGs, VGManager, LVMVGNodeStatus, TopoLVMStorageClass, CSIDriver, CSINode, ServiceMonitor,
      NetworkPolicies, OpenShiftSCCs, TopoLVMVolumeSnapshotClass]"

lemma deletion_list_order: "deletion_list env = teardown_order env"
  by (simp add: deletion_list_def teardown_order_def)

definition turn_of :: "op_env \<Rightarrow> LVMCluster \<Rightarrow> (manager \<Rightarrow> bool) \<Rightarrow> op_history \<Rightarrow> bool" where
  "turn_of env c Q h \<longleftrightarrow> (\<exists>before m after. teardown_order env = before @ m # after \<and> Q m
     \<and> (\<forall>v \<in> set before. unit_gone env c v h))"

definition all_gone :: "op_env \<Rightarrow> LVMCluster \<Rightarrow> op_history \<Rightarrow> bool" where
  "all_gone env c h \<longleftrightarrow> lvmClusterFinalizer \<notin> set (lc_Finalizers c) \<or> (\<forall>m \<in> set (teardown_order env). unit_gone env c m h)"

fun teardown_guard :: "op_env \<Rightarrow> LVMCluster \<Rightarrow> op_history \<Rightarrow> op_action \<Rightarrow> bool" where
  "teardown_guard env c h (ApiDelete k ns n) = turn_of env c (\<lambda>m. unit_kind m = Some k) h"
| "teardown_guard env c h (ApiUpdate (ONodeStatus st)) = turn_of env c (\<lambda>m. m = LVMVGNodeStatus) h"
| "teardown_guard env c h (ApiUpdate (OCluster c')) =
     (c' = c\<lparr>lc_Finalizers := fst (oe_RemoveFinalizer env (lc_Finalizers c) lvmClusterFinalizer)\<rparr> \<and> all_gone env c h)"
| "teardown_guard env c h a = (a \<in> reads)"

lemma stable_all_gone: "stable (all_gone env c)"
  unfolding all_gone_def[abs_def] by (intro stable_disj stable_const stable_all stable_unit_gone)

lemma may_guard:
  assumes "teardown_order env = before @ m # after" "a \<in> unit_may m" "\<forall>v \<in> set before. unit_gone env c v h"
  shows "teardown_guard env c h a"
proof (cases a)
  case (ApiDelete k ns n)
  then show ?thesis using assms by (auto simp: turn_of_def)
next
  case (ApiUpdate x)
  then show ?thesis using assms by (cases x) (auto simp: turn_of_def unit_may_def)
qed (use assms(2) in \<open>auto simp: unit_may_def reads_def\<close>)

lemma processDelete_guarded:
  "guarded (teardown_guard env c) (\<lambda>_. True) (LVMCluster_processDelete env c) (\<lambda>r h. r = None \<longrightarrow> all_gone env c h)"
proof -
  have units: "guarded (teardown_guard env c) (\<lambda>_. True) (for_each (deletion_list env) (delete_unit env c))
      (\<lambda>r h. r = None \<longrightarrow> (\<forall>m \<in> set (deletion_list env). unit_gone env c m h))"
    by (rule guarded_conseq[OF managers.in_order]) (auto simp: deletion_list_order elim: may_guard)
  have first: "guarded (teardown_guard env c) (\<lambda>_. True)
      (if lvmClusterFinalizer \<in> set (lc_Finalizers c) then for_each (deletion_list env) (delete_unit env c) else ret None)
      (\<lambda>r h. r = None \<longrightarrow> all_gone env c h)"
    by (auto intro!: guarded_if guarded_return guarded_conseq[OF units[unfolded deletion_list_order]] simp: all_gone_def deletion_list_order)
  have fin: "guarded (teardown_guard env c) (all_gone env c) (removeClusterFinalizer env c) (\<lambda>_. all_gone env c)"
    by (rule guarded_only[where A = "{ApiUpdate (OCluster (c\<lparr>lc_Finalizers := fst (oe_RemoveFinalizer env (lc_Finalizers c) lvmClusterFinalizer)\<rparr>))}"])
      (auto intro!: only_intros stable_all_gone simp: removeClusterFinalizer_def)
  show ?thesis
    unfolding LVMCluster_processDelete_def
    apply (rule guarded_catch_err[OF first])
     apply (simp add: guarded_return)
    apply (rule guarded_conseq[OF fin])
      apply auto
    done
qed


section \<open>What has to be known before\<close>

definition no_claims :: "op_env \<Rightarrow> LVMCluster \<Rightarrow> op_history \<Rightarrow> bool" where
  "no_claims env c h \<longleftrightarrow> (\<forall>dc \<in> set (lc_DeviceClasses c). let opts = by_class (GetStorageClassName (dc_Name dc)) in
     seen (\<lambda>pre. list_count env pre KPersistentVolumeClaim opts = Inr 0) (ApiList KPersistentVolumeClaim opts) h)"

definition no_retained :: "op_env \<Rightarrow> LVMCluster \<Rightarrow> op_history \<Rightarrow> bool" where
  "no_retained env c h \<longleftrightarrow> (\<forall>dc \<in> {dc \<in> set (lc_DeviceClasses c). retains dc}. let opts = by_class (GetStorageClassName (dc_Name dc)) in
     seen (\<lambda>pre. list_count env pre KPersistentVolume opts = Inr 0) (ApiList KPersistentVolume opts) h)"

text \<open>A volume group after finalizers of nodes that are not in the list were removed from it.\<close>

inductive stale_steps :: "op_env \<Rightarrow> string list \<Rightarrow> LVMVolumeGroup \<Rightarrow> LVMVolumeGroup \<Rightarrow> bool" for env nodes vg where
  stale_none: "stale_steps env nodes vg vg"
| stale_one: "stale_steps env nodes vg vg' \<Longrightarrow> HasPrefix f NodeCleanupFinalizer \<Longrightarrow>
    TrimPrefix f (NodeCleanupFinalizer @ ''/'') \<notin> set nodes \<Longrightarrow>
    stale_steps env nodes vg (vg'\<lparr>vg_Finalizers := fst (oe_RemoveFinalizer env (vg_Finalizers vg') f)\<rparr>)"

definition nodes_listed :: "op_env \<Rightarrow> string list \<Rightarrow> op_history \<Rightarrow> bool" where
  "nodes_listed env names h \<longleftrightarrow> (\<exists>nodes. names = map node_Name nodes
     \<and> seen (\<lambda>pre. list_nodes env pre [] = Inr nodes) (ApiList KNode []) h)"

definition stale_vg :: "op_env \<Rightarrow> LVMVolumeGroup \<Rightarrow> op_history \<Rightarrow> bool" where
  "stale_vg env vg h \<longleftrightarrow> (\<exists>names vgs vg0. nodes_listed env names h
     \<and> seen (\<lambda>pre. list_vgs env pre [InNamespace (oe_Namespace env)] = Found vgs)
         (ApiList KLVMVolumeGroup [InNamespace (oe_Namespace env)]) h
     \<and> vg0 \<in> set vgs \<and> stale_steps env names vg0 vg)"

definition stale_lv :: "op_env \<Rightarrow> LogicalVolumeObject \<Rightarrow> op_history \<Rightarrow> bool" where
  "stale_lv env lv h \<longleftrightarrow> (\<exists>names lvs lv0. nodes_listed env names h
     \<and> seen (\<lambda>pre. list_lvs env pre [] = Inr lvs) (ApiList KLogicalVolume []) h
     \<and> lv0 \<in> set lvs \<and> lvo_NodeName lv0 \<notin> set names
     \<and> lv = lv0\<lparr>lvo_Finalizers := fst (oe_RemoveFinalizer env (lvo_Finalizers lv0) ''topolvm.io/logicalvolume'')\<rparr>)"

fun cluster_delete_guard :: "op_env \<Rightarrow> LVMCluster \<Rightarrow> op_history \<Rightarrow> op_action \<Rightarrow> bool" where
  "cluster_delete_guard env c h (ApiUpdate (OVolumeGroup vg)) = stale_vg env vg h"
| "cluster_delete_guard env c h (ApiUpdate (OLogicalVolume lv)) = stale_lv env lv h"
| "cluster_delete_guard env c h a = (a \<in> reads \<or> no_claims env c h \<and> no_retained env c h \<and> teardown_guard env c h a)"

lemma delete_guard_reads: "a \<in> reads \<Longrightarrow> cluster_delete_guard env c h a"
  by (cases a) (auto simp: reads_def)

lemma stable_nodes_listed [simp, intro]: "stable (nodes_listed env names)"
  unfolding nodes_listed_def[abs_def] by (rule stable_all_const) (auto intro: seen_mono)

lemma clusterNodes_guarded: "guarded (cluster_delete_guard env c) (\<lambda>_. True) (clusterNodes env)
    (\<lambda>r h. \<forall>names. r = Inr names \<longrightarrow> nodes_listed env names h)"
  unfolding clusterNodes_def List_nodes_def
  apply (rule guarded_catch[OF guarded_ask_seen])
     apply (simp_all add: delete_guard_reads guarded_return)
  apply (rule guarded_return)
  apply (auto simp: nodes_listed_def)
  done

lemma stale_loop_guarded:
  assumes "stale_steps env names vg0 vg" and "vg0 \<in> set vgs"
  shows "guarded (cluster_delete_guard env c) (\<lambda>h. nodes_listed env names h
      \<and> seen (\<lambda>pre. list_vgs env pre [InNamespace (oe_Namespace env)] = Found vgs) (ApiList KLVMVolumeGroup [InNamespace (oe_Namespace env)]) h)
    (stale_loop env names is arr vg) (\<lambda>_. nodes_listed env names)"
  using assms(1)
proof (induction "is" arbitrary: arr vg)
  case Nil
  show ?case by (auto intro: guarded_return)
next
  case (Cons i "is")
  let ?P = "\<lambda>h. nodes_listed env names h
      \<and> seen (\<lambda>pre. list_vgs env pre [InNamespace (oe_Namespace env)] = Found vgs) (ApiList KLVMVolumeGroup [InNamespace (oe_Namespace env)]) h"
  let ?vg = "vg\<lparr>vg_Finalizers := fst (oe_RemoveFinalizer env (vg_Finalizers vg) (arr ! i))\<rparr>"
  have sP: "stable ?P" by (intro stable_conj) simp_all
  show ?case
  proof (cases "(i < length arr \<and> HasPrefix (arr ! i) NodeCleanupFinalizer)
      \<and> TrimPrefix (arr ! i) (NodeCleanupFinalizer @ ''/'') \<notin> set names")
    case True
    then have st: "stale_steps env names vg0 ?vg" using Cons.prems by (auto intro: stale_one)
    have upd: "guarded (cluster_delete_guard env c) ?P (Update env (OVolumeGroup ?vg)) (\<lambda>_. ?P)"
      unfolding Update_def
      by (rule guarded_only[OF only_ask[where A = "{ApiUpdate (OVolumeGroup ?vg)}"] sP])
        (use st assms(2) in \<open>auto simp: stale_vg_def\<close>)
    have rest: "guarded (cluster_delete_guard env c) ?P (do { h \<leftarrow> gets tr; stale_loop env names is (range_array env h arr) ?vg })
        (\<lambda>_. nodes_listed env names)"
      by (rule guarded_bind[OF guarded_gets]) (rule Cons.IH[OF st])
    have "guarded (cluster_delete_guard env c) ?P (do {
        u \<leftarrow> Update env (OVolumeGroup ?vg);
        case u of
          Some err \<Rightarrow> ret (Some (Errorf ''failed to delete finalizer from volumegroup %s, error: %w'' [S (vg_Name vg), W err]))
        | None \<Rightarrow> do { h \<leftarrow> gets tr; stale_loop env names is (range_array env h arr) ?vg } }) (\<lambda>_. nodes_listed env names)"
      by (rule guarded_bind[OF upd], rule guarded_option, rule rest) (auto intro: guarded_return)
    with True show ?thesis by (simp add: Let_def cong: option.case_cong)
  next
    case False
    with Cons show ?thesis by auto
  qed
qed

lemma checkStale_guarded: "guarded (cluster_delete_guard env c) (nodes_listed env names)
    (checkStaleNodeFinalizers env names) (\<lambda>_. nodes_listed env names)"
  unfolding checkStaleNodeFinalizers_def List_vgs_def
  apply (rule guarded_bind[OF guarded_ask_seen])
    apply (simp_all add: delete_guard_reads)
  subgoal for r
  proof (cases r)
    case (Found vgs)
    let ?S = "seen (\<lambda>pre. list_vgs env pre [InNamespace (oe_Namespace env)] = Found vgs) (ApiList KLVMVolumeGroup [InNamespace (oe_Namespace env)])"
    have sP: "stable (\<lambda>h. nodes_listed env names h \<and> ?S h)" by (intro stable_conj) simp_all
    have "guarded (cluster_delete_guard env c) (\<lambda>h. nodes_listed env names h \<and> ?S h)
        (for_each vgs (\<lambda>vg. stale_loop env names [0..<length (vg_Finalizers vg)] (vg_Finalizers vg) vg))
        (\<lambda>_ h. nodes_listed env names h \<and> ?S h)"
    proof (rule for_each_keep[OF sP])
      fix vg assume "vg \<in> set vgs"
      from guarded_frame[OF stale_loop_guarded[OF stale_none this] stable_seen[of "\<lambda>pre. list_vgs env pre [InNamespace (oe_Namespace env)] = Found vgs" "ApiList KLVMVolumeGroup [InNamespace (oe_Namespace env)]"]]
      show "guarded (cluster_delete_guard env c) (\<lambda>h. nodes_listed env names h \<and> ?S h)
          (stale_loop env names [0..<length (vg_Finalizers vg)] (vg_Finalizers vg) vg) (\<lambda>_ h. nodes_listed env names h \<and> ?S h)"
        by (rule guarded_conseq) auto
    qed
    then show ?thesis unfolding Found api.case by (rule guarded_conseq) auto
  qed (auto intro: guarded_return)
  done

lemma stale_lvs_guarded:
  assumes "set lvs \<subseteq> set all"
  shows "guarded (cluster_delete_guard env c) (\<lambda>h. nodes_listed env names h
      \<and> seen (\<lambda>pre. list_lvs env pre [] = Inr all) (ApiList KLogicalVolume []) h)
    (stale_lvs_loop env names lvs) (\<lambda>_ _. True)"
  using assms
proof (induction lvs)
  case Nil
  show ?case by (simp add: guarded_return)
next
  case (Cons lv lvs)
  let ?P = "\<lambda>h. nodes_listed env names h \<and> seen (\<lambda>pre. list_lvs env pre [] = Inr all) (ApiList KLogicalVolume []) h"
  let ?lv = "lv\<lparr>lvo_Finalizers := fst (oe_RemoveFinalizer env (lvo_Finalizers lv) ''topolvm.io/logicalvolume'')\<rparr>"
  have sP: "stable ?P" by (intro stable_conj) simp_all
  have upd: "guarded (cluster_delete_guard env c) ?P (Update env (OLogicalVolume ?lv)) (\<lambda>_. ?P)" if "lvo_NodeName lv \<notin> set names"
    unfolding Update_def
    by (rule guarded_only[OF only_ask[where A = "{ApiUpdate (OLogicalVolume ?lv)}"] sP])
      (use that Cons.prems in \<open>auto simp: stale_lv_def\<close>)
  have IH: "guarded (cluster_delete_guard env c) ?P (stale_lvs_loop env names lvs) (\<lambda>_ _. True)"
    by (rule Cons.IH) (use Cons.prems in simp)
  show ?case
    unfolding stale_lvs_loop.simps
    apply (rule guarded_if)
     apply (rule guarded_bind[OF upd], assumption)
     apply (rule guarded_option, rule IH)
     apply (simp_all add: guarded_return)
    done
qed

lemma logicalVolumesExist_guarded: "guarded (cluster_delete_guard env c) (nodes_listed env names)
    (logicalVolumesExist env names) (\<lambda>_ _. True)"
  unfolding logicalVolumesExist_def
  apply (rule guarded_catch[OF guarded_ask_seen])
     apply (simp_all add: delete_guard_reads guarded_return)
  apply (auto intro!: guarded_return stale_lvs_guarded)
  done

lemma pvcs_loop_guarded: "guarded (cluster_delete_guard env c) (\<lambda>_. True) (pvcs_loop env dcs)
    (\<lambda>r h. r = Inr False \<longrightarrow> (\<forall>dc \<in> set dcs. seen (\<lambda>pre. list_count env pre KPersistentVolumeClaim (by_class (GetStorageClassName (dc_Name dc))) = Inr 0)
       (ApiList KPersistentVolumeClaim (by_class (GetStorageClassName (dc_Name dc)))) h))"
proof (induction dcs)
  case (Cons dc dcs)
  show ?case
    unfolding pvcs_loop.simps Let_def
    apply (rule guarded_catch[OF guarded_ask_seen])
       apply (simp_all add: delete_guard_reads guarded_return)
    apply (intro conjI impI)
     apply (rule guarded_conseq[OF guarded_frame[OF Cons.IH stable_seen]])
       apply (auto intro: guarded_return)
    done
qed (simp add: guarded_return)

lemma retain_loop_guarded: "guarded (cluster_delete_guard env c) (\<lambda>_. True) (retain_loop env dcs)
    (\<lambda>r h. r = Inr False \<longrightarrow> (\<forall>dc \<in> {dc \<in> set dcs. retains dc}. seen (\<lambda>pre. list_count env pre KPersistentVolume (by_class (GetStorageClassName (dc_Name dc))) = Inr 0)
       (ApiList KPersistentVolume (by_class (GetStorageClassName (dc_Name dc)))) h))"
proof (induction dcs)
  case (Cons dc dcs)
  show ?case
    unfolding retain_loop.simps Let_def
    apply (rule guarded_if)
     apply (rule guarded_conseq[OF Cons.IH])
       apply auto[3]
    apply (rule guarded_catch[OF guarded_ask_seen])
       apply (simp_all add: delete_guard_reads guarded_return)
    apply (intro conjI impI)
     apply (rule guarded_conseq[OF guarded_frame[OF Cons.IH stable_seen]])
       apply (auto intro: guarded_return)
    done
qed (simp add: guarded_return)

lemma stable_no_claims: "stable (no_claims env c)"
  unfolding no_claims_def[abs_def] Let_def by (intro stable_all stable_seen)

lemma stable_no_retained: "stable (no_retained env c)"
  unfolding no_retained_def[abs_def] Let_def by (intro stable_all stable_seen)

lemma teardown_not_stale: "teardown_guard env c h a \<Longrightarrow> no_claims env c h \<Longrightarrow> no_retained env c h \<Longrightarrow> cluster_delete_guard env c h a"
  by (cases "(env, c, h, a)" rule: cluster_delete_guard.cases) simp_all

lemma gates_guarded: "guarded (cluster_delete_guard env c) (\<lambda>_. True) (deletion_gates env c) (\<lambda>_ _. True)"
proof -
  let ?G = "cluster_delete_guard env c"
  have ev: "guarded ?G P (do { _ \<leftarrow> LVMCluster_WarningEvent env c r e; ret (x :: outcome) }) (\<lambda>_ _. True)" for P r e x
    by (rule guarded_any[where A = reads]) (auto intro!: only_intros simp: LVMCluster_WarningEvent_def delete_guard_reads)
  have del: "guarded ?G (\<lambda>h. no_claims env c h \<and> no_retained env c h) (LVMCluster_processDelete env c) (\<lambda>_ _. True)"
    by (rule guarded_under[OF processDelete_guarded])
      (auto intro: stable_conj stable_no_claims stable_no_retained teardown_not_stale)
  have claims: "guarded ?G (\<lambda>_. True) (activePVCsExistForClusterStorageClasses env c)
      (\<lambda>r h. r = Inr False \<longrightarrow> no_claims env c h)"
    unfolding activePVCsExistForClusterStorageClasses_def no_claims_def Let_def by (rule pvcs_loop_guarded)
  have retained: "guarded ?G (no_claims env c) (retainPVsExistForCluster env c)
      (\<lambda>r h. (r = Inr False \<longrightarrow> no_retained env c h) \<and> no_claims env c h)"
    unfolding retainPVsExistForCluster_def no_retained_def Let_def
    by (rule guarded_weaken[OF guarded_frame[OF retain_loop_guarded stable_no_claims]]) simp
  show ?thesis
    unfolding deletion_gates_def
    apply (rule guarded_catch[OF claims])
     apply (simp add: guarded_return)
    apply (rule guarded_if, rule ev)
    apply (rule guarded_weaken[where P' = "no_claims env c"])
     apply (rule guarded_catch[OF retained])
      apply (simp add: guarded_return)
     apply (rule guarded_if, rule ev)
     apply (rule guarded_catch_err[OF guarded_weaken[OF del]])
       apply (simp_all add: guarded_return)
    done
qed

lemma reconcile_deletion_guarded: "guarded (cluster_delete_guard env c) (\<lambda>_. True) (reconcile_deletion env c) (\<lambda>_ _. True)"
  unfolding reconcile_deletion_def
  apply (rule guarded_catch[OF clusterNodes_guarded])
   apply (simp add: guarded_return)
  subgoal for names
    apply (rule guarded_weaken[where P' = "nodes_listed env names"])
     apply (rule guarded_catch_err[OF checkStale_guarded])
      apply (simp add: guarded_return)
     apply (rule guarded_catch[OF logicalVolumesExist_guarded])
      apply (simp_all add: guarded_return gates_guarded)
    done
  done

text \<open>C3: Nothing of a cluster is torn down while it is in use.  In every run of the controller for a
  cluster that is being deleted, whatever is deleted or updated comes after a listing of the claims of
  the storage class of every device class that was empty and, for every class with the retain policy, a
  listing of its volumes that was empty, and in the order of the managers.  Before that only finalizers
  are removed, and only such of nodes that a listing of the nodes did not show: the cleanup finalizers
  of volume groups and the finalizer of logical volumes.\<close>

theorem cluster_deletion_gated: "always (cluster_delete_guard env c) (reconcile_deletion env c)"
  by (rule alwaysI[OF reconcile_deletion_guarded])

end
