(* ===== verification/Cluster_Runs.thy ===== *)
theory Cluster_Runs
  imports Cluster_Deletion
begin

text \<open>
  Properties of whole runs of the cluster controller: what is deleted when a device class is removed,
  when the controller acts at all, and when it reports the cluster as ready.
\<close>

section \<open>Removed device classes\<close>

definition settled :: "op_env \<Rightarrow> kind \<Rightarrow> string \<Rightarrow> op_history \<Rightarrow> bool" where
  "settled env k n h \<longleftrightarrow> dropped env k [] n h \<or> seen (\<lambda>pre. get_deleted env pre k [] n = Found True) (ApiGet k [] n) h"

definition orphan :: "op_env \<Rightarrow> LVMCluster \<Rightarrow> LVMVolumeGroup \<Rightarrow> op_history \<Rightarrow> bool" where
  "orphan env c vg h \<longleftrightarrow> IsControlledBy env (vg_OwnerReferences vg) c \<and> vg_Name vg \<notin> dc_Name ` set (lc_DeviceClasses c)
     \<and> (\<exists>vgs. vg \<in> set vgs \<and> seen (\<lambda>pre. api_error (list_vgs env pre [InNamespace (oe_Namespace env)]) = Inr vgs)
         (ApiList KLVMVolumeGroup [InNamespace (oe_Namespace env)]) h)"

definition snapshots_settled :: "op_env \<Rightarrow> LVMVolumeGroup \<Rightarrow> op_history \<Rightarrow> bool" where
  "snapshots_settled env vg h \<longleftrightarrow> \<not> oe_EnableSnapshotting env
     \<or> settled env KVolumeSnapshotClass (GetVolumeSnapshotClassName (vg_Name vg)) h"

fun orphan_guard :: "op_env \<Rightarrow> LVMCluster \<Rightarrow> op_history \<Rightarrow> op_action \<Rightarrow> bool" where
  "orphan_guard env c h (ApiDelete k ns n) = (\<exists>vg. orphan env c vg h \<and>
     (k = KStorageClass \<and> ns = [] \<and> n = GetStorageClassName (vg_Name vg)
      \<or> k = KVolumeSnapshotClass \<and> ns = [] \<and> n = GetVolumeSnapshotClassName (vg_Name vg) \<and> oe_EnableSnapshotting env
          \<and> settled env KStorageClass (GetStorageClassName (vg_Name vg)) h
      \<or> k = KLVMVolumeGroup \<and> ns = vg_Namespace vg \<and> n = vg_Name vg \<and> \<not> vg_Deleted vg
          \<and> settled env KStorageClass (GetStorageClassName (vg_Name vg)) h \<and> snapshots_settled env vg h))"
| "orphan_guard env c h a = (a \<in> reads)"

lemma orphan_guard_reads: "a \<in> reads \<Longrightarrow> orphan_guard env c h a"
  by (cases a) (auto simp: reads_def)

lemma stable_settled [simp, intro]: "stable (settled env k n)"
  unfolding settled_def[abs_def] by (intro stable_disj) simp_all

lemma stable_orphan [simp, intro]: "stable (orphan env c vg)"
  unfolding orphan_def[abs_def] by (rule stable_all_const) (auto intro: seen_mono)

lemma stable_snapshots_settled [simp, intro]: "stable (snapshots_settled env vg)"
  unfolding snapshots_settled_def[abs_def] by (intro stable_disj) simp_all

lemma deleteUnmarked_guarded:
  assumes "stable P" and "\<And>h. P h \<Longrightarrow> G h (ApiDelete k [] n)" and "\<And>h. P h \<Longrightarrow> G h (ApiGet k [] n)"
  shows "guarded G P (deleteUnmarked env k n ge de) (\<lambda>r h. P h \<and> (r = None \<longrightarrow> settled env k n h))"
  unfolding deleteUnmarked_def Get_deleted_def Delete_def
  apply (rule guarded_bind[OF guarded_ask_seen[OF assms(1)]], erule assms(3))
  subgoal for r
  proof (cases r)
    case (Found d)
    show ?thesis
    proof (cases d)
      case True
      with Found show ?thesis by (auto intro!: guarded_return simp: settled_def)
    next
      case False
      have "guarded G P (ask (\<lambda>h. delete env h k [] n) (ApiDelete k [] n) \<bind> (\<lambda>d. ret (map_option de (delete_error d))))
          (\<lambda>r h. P h \<and> (r = None \<longrightarrow> settled env k n h))"
        by (rule guarded_bind[OF guarded_ask_seen[OF assms(1)]], erule assms(2), rule guarded_return)
          (auto simp: settled_def dropped_def delete_error_def split: api.splits)
      with Found False show ?thesis by (auto intro: guarded_weaken)
    qed
  next
    case (NotFound e)
    then show ?thesis by (auto intro!: guarded_return simp: settled_def dropped_def absent_seen_def seen_def)
  qed (auto intro: guarded_return)
  done

lemma deleteOrphanedVG_guarded:
  "guarded (orphan_guard env c) (orphan env c vg) (deleteOrphanedVG env vg) (\<lambda>_. orphan env c vg)"
proof -
  let ?sc = "GetStorageClassName (vg_Name vg)" and ?vsc = "GetVolumeSnapshotClassName (vg_Name vg)"
  let ?P1 = "\<lambda>h. orphan env c vg h \<and> settled env KStorageClass ?sc h"
  let ?P2 = "\<lambda>h. ?P1 h \<and> snapshots_settled env vg h"
  have sc: "guarded (orphan_guard env c) (orphan env c vg) (deleteUnmarked env KStorageClass ?sc ge de)
      (\<lambda>r h. orphan env c vg h \<and> (r = None \<longrightarrow> settled env KStorageClass ?sc h))" for ge de
    by (rule deleteUnmarked_guarded) (auto simp: orphan_guard_reads)
  have s1: "stable ?P1" and s2: "stable ?P2" by (intro stable_conj; simp)+
  have vsc: "guarded (orphan_guard env c) ?P1
      (if oe_EnableSnapshotting env then deleteUnmarked env KVolumeSnapshotClass ?vsc ge de else ret None)
      (\<lambda>r h. ?P1 h \<and> (r = None \<longrightarrow> snapshots_settled env vg h))" for ge de
    apply (rule guarded_if)
     apply (rule guarded_conseq[OF deleteUnmarked_guarded[OF s1]])
         apply (auto simp: orphan_guard_reads snapshots_settled_def intro: guarded_return)
    done
  have vg: "guarded (orphan_guard env c) ?P2 (if vg_Deleted vg then ret None else do {
       d \<leftarrow> Delete env KLVMVolumeGroup (vg_Namespace vg) (vg_Name vg); ret (map_option f (delete_error d)) })
      (\<lambda>_. ?P2)" for f
  proof (cases "vg_Deleted vg")
    case False
    then show ?thesis
      unfolding Delete_def if_not_P[OF False]
      by (intro guarded_only[where A = "{ApiDelete KLVMVolumeGroup (vg_Namespace vg) (vg_Name vg)}", OF _ s2])
        (auto intro!: only_intros)
  qed (simp add: guarded_return)
  show ?thesis
    unfolding deleteOrphanedVG_def Let_def
    apply (rule guarded_catch_err[OF sc])
     apply (simp add: guarded_return)
    apply (rule guarded_weaken[where P' = ?P1])
     apply (rule guarded_catch_err[OF vsc])
      apply (auto intro: guarded_return)[1]
     apply (rule guarded_conseq[OF vg])
       apply auto
    done
qed

lemma orphans_guarded: "guarded (orphan_guard env c) (\<lambda>_. True) (checkForDeletedDeviceClasses env c) (\<lambda>_ _. True)"
proof -
  let ?L = "\<lambda>vgs. seen (\<lambda>pre. api_error (list_vgs env pre [InNamespace (oe_Namespace env)]) = Inr vgs)
         (ApiList KLVMVolumeGroup [InNamespace (oe_Namespace env)])"
  have one: "guarded (orphan_guard env c) (?L vgs)
      (if \<not> IsControlledBy env (vg_OwnerReferences vg) c then ret None
       else if vg_Name vg \<in> dc_Name ` set (lc_DeviceClasses c) then ret None
       else deleteOrphanedVG env vg) (\<lambda>_. ?L vgs)" if "vg \<in> set vgs" for vg vgs
    apply (intro guarded_if)
      apply (simp_all add: guarded_return)
    apply (rule guarded_conseq[OF guarded_frame[OF deleteOrphanedVG_guarded stable_seen[of
        "\<lambda>pre. api_error (list_vgs env pre [InNamespace (oe_Namespace env)]) = Inr vgs"]]])
      apply (use that in \<open>auto simp: orphan_def\<close>)
    done
  show ?thesis
    unfolding checkForDeletedDeviceClasses_def List_vgs_def
    apply (rule guarded_bind[OF guarded_ask_seen])
      apply (simp_all add: orphan_guard_reads)
    subgoal for r
    proof (cases "api_error r")
      case (Inr vgs)
      have "guarded (orphan_guard env c) (?L vgs) (for_each vgs (\<lambda>vg.
          if \<not> IsControlledBy env (vg_OwnerReferences vg) c then ret None
          else if vg_Name vg \<in> dc_Name ` set (lc_DeviceClasses c) then ret None
          else deleteOrphanedVG env vg)) (\<lambda>_. ?L vgs)"
        by (rule for_each_keep[OF stable_seen]) (rule one)
      then show ?thesis unfolding Inr sum.case by (rule guarded_conseq) (use Inr in \<open>auto simp: seen_def\<close>)
    qed (simp add: guarded_return)
    done
qed

text \<open>C9: Removing a device class deletes what belonged to it and nothing else, the volume group last.
  In every run of \<open>checkForDeletedDeviceClasses\<close> the only deletions are those of the storage class, the
  snapshot class and the volume group of a listed volume group that the cluster controls and whose name
  is no device class of it; the snapshot class and the volume group are deleted only after the storage
  class was found absent or marked or its deletion was accepted, and the volume group also after the
  snapshot class when snapshots are enabled.\<close>

theorem removed_classes_deleted: "always (orphan_guard env c) (checkForDeletedDeviceClasses env c)"
  by (rule alwaysI[OF orphans_guarded])

section \<open>When the controller acts\<close>

definition created :: "op_action set" where
  "created = reads \<union> {a. case a of CouFetch _ \<Rightarrow> True | CouWrite _ \<Rightarrow> True | ApiApply _ \<Rightarrow> True | _ \<Rightarrow> False}"

lemma created_simps [simp]: "a \<in> reads \<Longrightarrow> a \<in> created" "CouFetch x \<in> created" "CouWrite x \<in> created" "ApiApply sc \<in> created"
  by (simp_all add: created_def)

lemma only_CreateOrUpdate [only_intros]: "only created (CreateOrUpdate env fetch wrap obj mutate)"
  unfolding CreateOrUpdate_def by (intro only_intros) simp_all

lemma only_getCSINodes [only_intros]: "only created (getCSINodes env acc ns)"
  by (induction ns arbitrary: acc) (auto intro!: only_intros)

lemma only_EnsureCreated: "only created (EnsureCreated env c m)"
  by (cases m) (auto intro!: only_intros simp: networkPolicy_EnsureCreated_def csiDriver_EnsureCreated_def
      vgManager_EnsureCreated_def lvmVG_EnsureCreated_def nodeStatus_EnsureCreated_def storageClass_EnsureCreated_def
      csiNode_EnsureCreated_def serviceMonitor_EnsureCreated_def scc_EnsureCreated_def snapshotClass_EnsureCreated_def
      getTopolvmStorageClasses_def GetAllCSINodeCandidates_def IsPrometheusAvailable_def Get_deleted_def List_nodes_def)

lemma only_sync_all: "only created (sync_all env c ms)"
  by (induction ms) (auto intro!: only_intros only_EnsureCreated)

definition status_of :: "LVMCluster \<Rightarrow> op_action set" where
  "status_of i = reads \<union> {ApiUpdateStatus (i\<lparr>lc_Status := st\<rparr>) | st. True}"

lemma setCondition_shape: "setCondition env cd i = i\<lparr>lc_Status := lc_Status (setCondition env cd i)\<rparr>"
  by (simp add: setCondition_def)

lemma VGsReady_shape: "\<exists>st. setVolumeGroupsReadyCondition env nodes statuses i = i\<lparr>lc_Status := st\<rparr>"
proof -
  have "\<exists>st. setCondition env cd i = i\<lparr>lc_Status := st\<rparr>" for cd using setCondition_shape by blast
  moreover have "\<exists>st. i = i\<lparr>lc_Status := st\<rparr>" by (rule exI[of _ "lc_Status i"]) simp
  ultimately show ?thesis
    by (auto simp: setVolumeGroupsReadyCondition_def Let_def setVolumeGroupsReadyConditionTrue_def
        setVolumeGroupsReadyConditionFailed_def setVolumeGroupsReadyConditionDegraded_def split: option.split)
qed

lemma only_applyStatus: "\<exists>st. j = i\<lparr>lc_Status := st\<rparr> \<Longrightarrow> only (status_of i) (applyStatus env j)"
  unfolding applyStatus_def status_instance_def Let_def
  by (auto intro!: only_intros simp: status_of_def split: prod.splits)

lemma only_updateStatus: "only (status_of i) (updateLVMClusterStatus env i)"
proof -
  have u: "\<exists>st. setVolumeGroupsReadyConditionUnmanaged env i = i\<lparr>lc_Status := st\<rparr>"
    unfolding setVolumeGroupsReadyConditionUnmanaged_def using setCondition_shape by blast
  have v: "\<exists>st'. (setVolumeGroupsReadyCondition env nodes statuses i)\<lparr>lc_Status := st\<rparr> = i\<lparr>lc_Status := st'\<rparr>" for nodes statuses st
    using VGsReady_shape[of env nodes statuses i] by auto
  show ?thesis
    unfolding updateLVMClusterStatus_def List_nodestatus_def List_nodes_def Let_def
    by (intro only_intros only_applyStatus u v) (simp_all add: status_of_def)
qed

lemma only_setRunningPodImage: "only reads (setRunningPodImage env)"
  unfolding setRunningPodImage_def Let_def by (auto intro!: only_intros)

lemma only_ClusterNormalEvent: "only reads (LVMCluster_NormalEvent env i r m)"
  unfolding LVMCluster_NormalEvent_def by (auto intro!: only_intros)

text \<open>The object the managers work with: the fetched one up to its status and finalizers, or what the
  API server answered to the update that adds the finalizer.\<close>

definition working_copy :: "op_env \<Rightarrow> LVMCluster \<Rightarrow> LVMCluster \<Rightarrow> op_history \<Rightarrow> bool" where
  "working_copy env c i h \<longleftrightarrow> (\<exists>st fs. i = c\<lparr>lc_Status := st, lc_Finalizers := fs\<rparr>)
     \<or> (\<exists>x. seen (\<lambda>pre. update_cluster env pre x = Inr i) (ApiUpdate (OCluster x)) h)"

fun converge_guard :: "op_env \<Rightarrow> LVMCluster \<Rightarrow> op_history \<Rightarrow> op_action \<Rightarrow> bool" where
  "converge_guard env c h (ApiUpdate (OCluster x)) =
     (\<exists>st. x = c\<lparr>lc_Status := st, lc_Finalizers := fst (oe_AddFinalizer env (lc_Finalizers c) lvmClusterFinalizer)\<rparr>)"
| "converge_guard env c h (ApiDelete k ns n) = (\<exists>i. working_copy env c i h \<and> orphan_guard env i h (ApiDelete k ns n))"
| "converge_guard env c h (ApiUpdateStatus i) = (\<exists>st. working_copy env c (i\<lparr>lc_Status := st\<rparr>) h)"
| "converge_guard env c h a = (a \<in> created)"

lemma converge_created: "a \<in> created \<Longrightarrow> converge_guard env c h a"
  by (cases a) (auto simp: created_def reads_def)

lemma stable_working_copy [simp, intro]: "stable (working_copy env c i)"
  unfolding working_copy_def[abs_def] by (rule stable_all_const) (auto intro: seen_mono)

lemma converge_status:
  assumes "working_copy env c i h" and "a \<in> status_of (i\<lparr>lc_Status := st\<rparr>)"
  shows "converge_guard env c h a"
  using assms
proof (cases a)
  case (ApiUpdateStatus x)
  with assms(2) obtain st' where "x = i\<lparr>lc_Status := st'\<rparr>" by (auto simp: status_of_def reads_def)
  then have "i = x\<lparr>lc_Status := lc_Status i\<rparr>" by simp
  with assms(1) have "working_copy env c (x\<lparr>lc_Status := lc_Status i\<rparr>) h" by metis
  with ApiUpdateStatus show ?thesis by (simp, blast)
qed (auto simp: status_of_def reads_def created_def)

lemma updateStatus_guarded:
  assumes "\<exists>st. j = i\<lparr>lc_Status := st\<rparr>"
  shows "guarded (converge_guard env c) (working_copy env c i) (updateLVMClusterStatus env j) (\<lambda>_. working_copy env c i)"
  using assms by (auto intro!: guarded_only[OF only_updateStatus] elim: converge_status)

lemma reconcile_resources_guarded:
  "guarded (converge_guard env c) (working_copy env c i) (reconcile_resources env i) (\<lambda>_ _. True)"
proof -
  let ?G = "converge_guard env c" and ?W = "working_copy env c i"
  have sync: "guarded ?G ?W (sync_all env i ms) (\<lambda>_. ?W)" for ms
    by (rule guarded_only[OF only_sync_all]) (simp_all add: converge_created)
  have ev: "guarded ?G ?W (LVMCluster_WarningEvent env i r e) (\<lambda>_. ?W)" for r e
    by (rule guarded_only[where A = reads])
      (auto intro!: only_intros simp: LVMCluster_WarningEvent_def converge_created)
  have nev: "guarded ?G ?W (LVMCluster_NormalEvent env i r m) (\<lambda>_. ?W)" for r m
    by (rule guarded_only[OF only_ClusterNormalEvent]) (simp_all add: converge_created)
  have stF: "guarded ?G ?W (updateLVMClusterStatus env (setResourcesAvailableConditionFalse env e i)) (\<lambda>_. ?W)" for e
    by (rule updateStatus_guarded) (metis setResourcesAvailableConditionFalse_def setCondition_shape)
  have stT: "guarded ?G ?W (updateLVMClusterStatus env (setResourcesAvailableConditionTrue env i)) (\<lambda>_. ?W)"
    by (rule updateStatus_guarded) (metis setResourcesAvailableConditionTrue_def setCondition_shape)
  have orphans: "guarded ?G ?W (checkForDeletedDeviceClasses env i) (\<lambda>_. ?W)"
  proof (rule guarded_conseq[OF guarded_while[where P = ?W and G' = ?G, OF orphans_guarded]])
    show "?G h a" if "?W h" "orphan_guard env i h a" for h a
      using that by (cases a) (auto simp: reads_def created_def)
  qed simp_all
  show ?thesis
    unfolding reconcile_resources_def Let_def
    apply (rule guarded_bind[OF guarded_gets])
    apply (rule guarded_bind[OF sync])
    apply (rule guarded_if)
     apply (rule guarded_bind[OF ev], rule guarded_bind[OF stF])
     apply (simp add: guarded_return)
    apply (rule guarded_catch_err[OF orphans])
     apply (simp add: guarded_return)
    apply (rule guarded_bind[OF nev])
    apply (rule guarded_catch_err[OF stT])
     apply (simp_all add: guarded_return)
    done
qed

lemma reconcile_converges: "guarded (converge_guard env c) (\<lambda>_. True) (LVMCluster_reconcile env c) (\<lambda>_ _. True)"
proof -
  obtain fs updated where f: "oe_AddFinalizer env (lc_Finalizers c) lvmClusterFinalizer = (fs, updated)" by force
  obtain st where i: "setVolumeGroupsReadyConditionInProgress env (setResourcesAvailableConditionInProgress env c) = c\<lparr>lc_Status := st\<rparr>"
    by (simp add: setVolumeGroupsReadyConditionInProgress_def setResourcesAvailableConditionInProgress_def setCondition_def)
  let ?i = "c\<lparr>lc_Status := st, lc_Finalizers := fs\<rparr>"
  have run: "guarded (converge_guard env c) (\<lambda>_. True) (reconcile_resources env ?i) (\<lambda>_ _. True)"
    by (rule guarded_weaken[OF reconcile_resources_guarded]) (auto simp: working_copy_def)
  have upd: "guarded (converge_guard env c) (\<lambda>_. True) (catch (ask (\<lambda>h. update_cluster env h ?i) (ApiUpdate (OCluster ?i)))
      (\<lambda>err. op_fails (e err)) (reconcile_resources env)) (\<lambda>_ _. True)" for e
    apply (rule guarded_catch[OF guarded_ask_seen])
       apply (simp_all add: f guarded_return)
    subgoal by blast
    subgoal for i by (rule guarded_weaken[OF reconcile_resources_guarded]) (auto simp: working_copy_def)
    done
  show ?thesis
    unfolding LVMCluster_reconcile_def Let_def i using upd run by (simp add: f)
qed

definition single :: "op_env \<Rightarrow> op_history \<Rightarrow> bool" where
  "single env h \<longleftrightarrow> (\<exists>items. length items \<le> 1
     \<and> seen (\<lambda>pre. list_clusters env pre [] = Inr items) (ApiList KLVMCluster []) h)"

definition fetched_cluster :: "op_env \<Rightarrow> string \<Rightarrow> string \<Rightarrow> LVMCluster \<Rightarrow> op_history \<Rightarrow> bool" where
  "fetched_cluster env ns n c = seen (\<lambda>pre. get_cluster env pre ns n = Found c) (ApiGet KLVMCluster ns n)"

definition run_guard :: "op_env \<Rightarrow> string \<Rightarrow> string \<Rightarrow> op_history \<Rightarrow> op_action \<Rightarrow> bool" where
  "run_guard env ns n h a \<longleftrightarrow> a = ApiList KLVMCluster [] \<or> single env h \<and> (a = ApiGet KLVMCluster ns n
     \<or> (\<exists>c. fetched_cluster env ns n c h \<and>
          (a \<in> reads \<or> (if lc_Deleted c then cluster_delete_guard env c h a else converge_guard env c h a))))"

lemma stable_single [simp, intro]: "stable (single env)"
  unfolding single_def[abs_def] by (rule stable_all_const) (auto intro: seen_mono)

lemma stable_fetched_cluster [simp, intro]: "stable (fetched_cluster env ns n c)"
  by (simp add: fetched_cluster_def)

text \<open>C11: The controller acts on the one cluster there is, and deletes parts of it only when it is being
  deleted.  In every run of \<open>Reconcile\<close> everything but the first listing comes after a listing with at
  most one cluster, and everything but the fetch after the cluster was found.  For a cluster that is
  marked for deletion every write satisfies the guard of the deletion; for one that is not, objects are
  only created, updated and applied, the finalizer is added and the status written, and the only
  deletions are those of removed device classes.\<close>

theorem cluster_run_guarded: "always (run_guard env ns n) (LVMCluster_Reconcile env ns n)"
proof (rule alwaysI)
  let ?G = "run_guard env ns n"
  have body: "guarded ?G (\<lambda>h. single env h \<and> fetched_cluster env ns n c h)
      (catch_err (setRunningPodImage env) (\<lambda>err. op_fails (e err))
        (if lc_Deleted c then reconcile_deletion env c else LVMCluster_reconcile env c)) (\<lambda>_ _. True)" for c e
  proof -
    let ?P = "\<lambda>h. single env h \<and> fetched_cluster env ns n c h"
    have sP: "stable ?P" by (intro stable_conj) simp_all
    have img: "guarded ?G ?P (setRunningPodImage env) (\<lambda>_. ?P)"
      by (rule guarded_only[OF only_setRunningPodImage sP]) (auto simp: run_guard_def)
    have del: "guarded ?G ?P (reconcile_deletion env c) (\<lambda>_ _. True)" if "lc_Deleted c"
      by (rule guarded_under[OF reconcile_deletion_guarded sP]) (use that in \<open>auto simp: run_guard_def\<close>)
    have conv: "guarded ?G ?P (LVMCluster_reconcile env c) (\<lambda>_ _. True)" if "\<not> lc_Deleted c"
      by (rule guarded_under[OF reconcile_converges sP]) (use that in \<open>auto simp: run_guard_def\<close>)
    show ?thesis
      by (rule guarded_catch_err[OF img]) (auto intro!: guarded_if del conv guarded_return)
  qed
  show "guarded ?G (\<lambda>_. True) (LVMCluster_Reconcile env ns n) (\<lambda>_ _. True)"
    unfolding LVMCluster_Reconcile_def
    apply (rule guarded_catch[OF guarded_ask_seen])
       apply (simp_all add: run_guard_def guarded_return)
    apply (intro impI)
    apply (rule guarded_weaken[where P' = "single env"])
     apply (rule guarded_bind[OF guarded_ask_seen])
       apply (simp_all add: run_guard_def)
    subgoal for items r
      apply (cases r)
        apply (simp_all add: guarded_return split del: if_split)
      apply (rule guarded_weaken[OF body])
      apply (auto simp: fetched_cluster_def seen_def)
      done
    subgoal for items by (auto simp: single_def intro!: exI[of _ items])
    done
qed

section \<open>When the cluster is reported ready\<close>

text \<open>What \<open>meta.SetStatusCondition\<close> documents: the condition of the given type is replaced or added,
  the others are kept.\<close>

definition condition_setter :: "(Condition list \<Rightarrow> Condition \<Rightarrow> Condition list) \<Rightarrow> bool" where
  "condition_setter f \<longleftrightarrow> (\<forall>cs cd. set (f cs cd) = insert cd {d \<in> set cs. cond_Type d \<noteq> cond_Type cd})"

text \<open>The conditions of the object are one of each of the two types.\<close>

definition two_conditions :: "LVMCluster \<Rightarrow> Condition \<Rightarrow> Condition \<Rightarrow> bool" where
  "two_conditions i ra vg \<longleftrightarrow> set (lcs_Conditions (lc_Status i)) = {ra, vg}
     \<and> cond_Type ra = ResourcesAvailable \<and> cond_Type vg = VolumeGroupsReady"

definition ready_guard :: "op_env \<Rightarrow> op_history \<Rightarrow> op_action \<Rightarrow> bool" where
  "ready_guard env h a \<longleftrightarrow> (case a of
     ApiUpdateStatus i \<Rightarrow> \<not> lcs_Ready (lc_Status i) \<or> lc_DeviceClasses i = []
       \<or> (\<exists>statuses nodes. all_classes_ready env i nodes statuses
            \<and> seen (\<lambda>pre. list_nodestatus env pre [InNamespace (oe_Namespace env)] = Inr statuses)
                (ApiList KLVMVolumeGroupNodeStatus [InNamespace (oe_Namespace env)]) h
            \<and> seen (\<lambda>pre. list_nodes env pre [] = Inr nodes) (ApiList KNode []) h)
   | _ \<Rightarrow> True)"

lemma types_differ [simp]: "ResourcesAvailable \<noteq> VolumeGroupsReady" "VolumeGroupsReady \<noteq> ResourcesAvailable"
  by (simp_all add: ResourcesAvailable_def VolumeGroupsReady_def)

lemma set_vg_condition:
  assumes "condition_setter (SetStatusCondition env)" and "two_conditions i ra vg" and "cond_Type cd = VolumeGroupsReady"
  shows "two_conditions (setCondition env cd i) ra cd"
  using assms unfolding two_conditions_def setCondition_def condition_setter_def by auto

lemma set_ra_condition:
  assumes "condition_setter (SetStatusCondition env)" and "two_conditions i ra vg" and "cond_Type cd = ResourcesAvailable"
  shows "two_conditions (setCondition env cd i) cd vg"
  using assms unfolding two_conditions_def setCondition_def condition_setter_def by auto

definition known :: "Condition \<Rightarrow> bool" where
  "known cd \<longleftrightarrow> cond_Reason cd \<in> known_reasons"

text \<open>With only known reasons a ready state has only good ones.\<close>

lemma ready_only_good:
  assumes "set cs = {ra, vg}" "known ra" "known vg" "snd (computeLVMClusterReadiness cs)"
  shows "cond_Reason vg \<in> {ReasonResourcesAvailable, ReasonVGsReady, ReasonVGsUnmanaged}"
proof -
  have all: "\<forall>d \<in> set cs. cond_Reason d \<in> known_reasons" using assms(1-3) by (auto simp: known_def)
  then have "relevant cs = cs" by (simp add: relevant_def takeWhile_eq_all_conv[THEN iffD2])
  with assms(4) have "worst (cond_Reason ` set cs) = LVMStatusReady"
    by (simp add: computeLVMClusterReadiness_def readiness_fold Let_def split: if_splits)
  with assms(1) have "worst {cond_Reason ra, cond_Reason vg} = LVMStatusReady" by simp
  then have "cond_Reason vg \<notin> {ReasonVGsFailed, ReasonVGsDegraded, ReasonReconciliationInProgress,
      ReasonVGReadinessInProgress, ReasonResourcesIncomplete}"
    by (auto simp: worst_def split: if_splits)
  moreover have "cond_Reason vg \<in> known_reasons" using assms(3) by (simp add: known_def)
  ultimately show ?thesis by (auto simp: known_reasons_def)
qed

lemma all_classes_ready_status [simp]: "all_classes_ready env (i\<lparr>lc_Status := st\<rparr>) nodes statuses = all_classes_ready env i nodes statuses"
  by (simp add: all_classes_ready_def isNodeValid_def)

lemma ready_guard_other [simp]: "a \<in> reads \<Longrightarrow> ready_guard env h a" "a \<in> created \<Longrightarrow> ready_guard env h a"
  "orphan_guard env i h a \<Longrightarrow> ready_guard env h a"
  by (cases a; simp add: ready_guard_def reads_def created_def)+

lemma applyStatus_ready:
  assumes "\<And>h st. P h \<Longrightarrow> snd (computeLVMClusterReadiness (lcs_Conditions (lc_Status j))) \<Longrightarrow>
      lc_DeviceClasses j = [] \<or> ready_guard env h (ApiUpdateStatus (j\<lparr>lc_Status := (lc_Status j)\<lparr>lcs_State := st, lcs_Ready := True\<rparr>\<rparr>))"
  shows "guarded (ready_guard env) P (applyStatus env j) (\<lambda>_ _. True)"
proof -
  obtain st r where c: "computeLVMClusterReadiness (lcs_Conditions (lc_Status j)) = (st, r)" by force
  have "ready_guard env h (ApiUpdateStatus (status_instance env j))" if "P h" for h
    using assms[OF that, of st] by (cases r) (auto simp: status_instance_def c ready_guard_def)
  then show ?thesis
    unfolding applyStatus_def Let_def
    by (intro guarded_bind[OF guarded_ask[where Q = "\<lambda>_ _. True"]]) (auto intro: guarded_return)
qed

lemma vgs_condition_ready:
  assumes "condition_setter (SetStatusCondition env)" and "two_conditions i ra vg" "known ra"
    and "cond_Reason vg = ReasonVGReadinessInProgress"
    and "snd (computeLVMClusterReadiness (lcs_Conditions (lc_Status (setVolumeGroupsReadyCondition env nodes statuses i))))"
  shows "all_classes_ready env i nodes statuses"
proof (rule ccontr)
  assume "\<not> all_classes_ready env i nodes statuses"
  then have "validateDeviceClassSetup env i nodes statuses \<noteq> None" by (simp add: setup_valid)
  then obtain e where e: "validateDeviceClassSetup env i nodes statuses = Some e" by blast
  have bad: False if "two_conditions j ra cd" "cond_Reason cd \<in> {ReasonVGsFailed, ReasonVGsDegraded, ReasonVGReadinessInProgress}"
      "snd (computeLVMClusterReadiness (lcs_Conditions (lc_Status j)))" for j cd
  proof -
    have "known cd" using that(2) by (auto simp: known_def known_reasons_def)
    from ready_only_good[OF _ assms(3) this that(3)] that(1,2) show False
      by (auto simp: two_conditions_def reason_defs)
  qed
  have vgT: "cond_Type \<lparr>cond_Type = VolumeGroupsReady, cond_Status = s, cond_Reason = r, cond_Message = m\<rparr> = VolumeGroupsReady" for s r m
    by simp
  note set_vg = set_vg_condition[OF assms(1,2) vgT]
  from assms(5) show False
    unfolding setVolumeGroupsReadyCondition_def e Let_def option.case setVolumeGroupsReadyConditionFailed_def
      setVolumeGroupsReadyConditionDegraded_def
    using bad[OF set_vg] bad[OF assms(2)] assms(4) by (auto split: if_splits)
qed

lemma updateStatus_ready:
  assumes "condition_setter (SetStatusCondition env)" and "two_conditions i ra vg" "known ra"
    and "cond_Reason vg = ReasonVGReadinessInProgress"
  shows "guarded (ready_guard env) (\<lambda>_. True) (updateLVMClusterStatus env i) (\<lambda>_ _. True)"
proof -
  let ?o = "[InNamespace (oe_Namespace env)]"
  let ?L = "\<lambda>sts. seen (\<lambda>pre. list_nodestatus env pre ?o = Inr sts) (ApiList KLVMVolumeGroupNodeStatus ?o)"
  let ?N = "\<lambda>ns. seen (\<lambda>pre. list_nodes env pre [] = Inr ns) (ApiList KNode [])"
  have app: "guarded (ready_guard env) (\<lambda>h. ?L sts h \<and> ?N ns h) (let i' = setVolumeGroupsReadyCondition env ns sts i in
      applyStatus env (i'\<lparr>lc_Status := (lc_Status i')\<lparr>lcs_DeviceClassStatuses := x\<rparr>\<rparr>)) (\<lambda>_ _. True)" for sts ns x
    unfolding Let_def
  proof (rule applyStatus_ready, rule disjI2)
    fix h st
    let ?i = "setVolumeGroupsReadyCondition env ns sts i"
    let ?j = "?i\<lparr>lc_Status := (lc_Status ?i)\<lparr>lcs_DeviceClassStatuses := x\<rparr>\<rparr>"
    assume h: "?L sts h \<and> ?N ns h" and r: "snd (computeLVMClusterReadiness (lcs_Conditions (lc_Status ?j)))"
    from vgs_condition_ready[OF assms] r have "all_classes_ready env i ns sts" by simp
    then have "all_classes_ready env (?i\<lparr>lc_Status := s\<rparr>) ns sts" for s
      using VGsReady_shape[of env ns sts i] by auto
    with h show "ready_guard env h (ApiUpdateStatus (?j\<lparr>lc_Status := (lc_Status ?j)\<lparr>lcs_State := st, lcs_Ready := True\<rparr>\<rparr>))"
      by (auto simp: ready_guard_def)
  qed
  show ?thesis
    unfolding updateLVMClusterStatus_def List_nodestatus_def List_nodes_def
    apply (rule guarded_if)
     apply (rule applyStatus_ready)
     apply (simp add: setVolumeGroupsReadyConditionUnmanaged_def setCondition_def)
    apply (rule guarded_catch[OF guarded_ask_seen], simp, simp)
     apply (simp add: guarded_return)
    apply (rule guarded_catch[OF guarded_ask_seen])
       apply (simp_all add: guarded_return)
    subgoal for sts ns by (rule guarded_weaken[OF app]) simp
    done
qed

lemma conditions_in_progress:
  assumes "condition_setter (SetStatusCondition env)"
    and "cond_Type ` set (lcs_Conditions (lc_Status c)) \<subseteq> {ResourcesAvailable, VolumeGroupsReady}"
  shows "\<exists>ra vg. two_conditions (setVolumeGroupsReadyConditionInProgress env (setResourcesAvailableConditionInProgress env c)) ra vg
    \<and> cond_Reason vg = ReasonVGReadinessInProgress"
  using assms
  unfolding two_conditions_def setVolumeGroupsReadyConditionInProgress_def setResourcesAvailableConditionInProgress_def
    setCondition_def condition_setter_def
  by (intro exI[of _ "\<lparr>cond_Type = ResourcesAvailable, cond_Status = ConditionFalse,
        cond_Reason = ReasonReconciliationInProgress, cond_Message = MessageReconciliationInProgress\<rparr>"]
      exI[of _ "\<lparr>cond_Type = VolumeGroupsReady, cond_Status = ConditionFalse,
        cond_Reason = ReasonVGReadinessInProgress, cond_Message = MessageVGReadinessInProgress\<rparr>"]) auto

lemma reconcile_resources_ready:
  assumes "condition_setter (SetStatusCondition env)" and "two_conditions i ra vg"
    and "cond_Reason vg = ReasonVGReadinessInProgress"
  shows "guarded (ready_guard env) (\<lambda>_. True) (reconcile_resources env i) (\<lambda>_ _. True)"
proof -
  let ?G = "ready_guard env"
  have sync: "guarded ?G P (sync_all env i ms) (\<lambda>_ _. True)" for P ms
    by (rule guarded_any[OF only_sync_all]) simp
  have ev: "guarded ?G P (LVMCluster_WarningEvent env i r e) (\<lambda>_ _. True)" for P r e
    by (rule guarded_any[where A = reads]) (auto intro!: only_intros simp: LVMCluster_WarningEvent_def)
  have nev: "guarded ?G P (LVMCluster_NormalEvent env i r m) (\<lambda>_ _. True)" for P r m
    by (rule guarded_any[OF only_ClusterNormalEvent]) simp
  have orphans: "guarded ?G P (checkForDeletedDeviceClasses env i) (\<lambda>_ _. True)" for P
    by (rule guarded_conseq[OF orphans_guarded[of env i]]) simp_all
  have st: "guarded ?G (\<lambda>_. True) (updateLVMClusterStatus env (setCondition env
       \<lparr>cond_Type = ResourcesAvailable, cond_Status = s, cond_Reason = r, cond_Message = m\<rparr> i)) (\<lambda>_ _. True)"
    if "r \<in> known_reasons" for s r m
    by (rule updateStatus_ready[OF assms(1) set_ra_condition[OF assms(1,2)] _ assms(3)]) (simp_all add: known_def that)
  show ?thesis
    unfolding reconcile_resources_def Let_def setResourcesAvailableConditionFalse_def setResourcesAvailableConditionTrue_def
    apply (rule guarded_bind[OF guarded_gets])
    apply (rule guarded_bind[OF sync])
    apply (rule guarded_if)
     apply (rule guarded_bind[OF ev])
     apply (rule guarded_bind[OF st], simp add: known_reasons_def)
     apply (simp add: guarded_return)
    apply (rule guarded_catch_err[OF orphans])
     apply (simp add: guarded_return)
    apply (rule guarded_bind[OF nev])
    apply (rule guarded_catch_err[OF st])
      apply (simp_all add: known_reasons_def guarded_return)
    done
qed



end
