(* ===== verification/Cluster_Progress.thy ===== *)
theory Cluster_Progress
  imports Cluster_Controller
begin

text \<open>
  Progress of the deletion of a cluster: once what belongs to it is gone, one more run of the controller lets
  the object itself go.
\<close>

section \<open>Programs that succeed\<close>

definition succeeds :: "go_error option op \<Rightarrow> bool" where
  "succeeds m \<longleftrightarrow> (\<forall>s. fst (run_state m s) = None)"

lemma succeeds_run: "succeeds m \<Longrightarrow> run_state m s = (None, snd (run_state m s))"
  by (simp add: succeeds_def prod_eq_iff)

lemma succeeds_for_each: "(\<And>x. x \<in> set xs \<Longrightarrow> succeeds (f x)) \<Longrightarrow> succeeds (for_each xs f)"
proof (induction xs)
  case (Cons x xs)
  then have "run_state (f x) s = (None, snd (run_state (f x) s))" for s by (intro succeeds_run) simp
  with Cons show ?case unfolding succeeds_def by (simp add: run_catch_err split_beta)
qed (simp add: succeeds_def)

section \<open>When nothing is left\<close>

text \<open>The nodes are readable and their CSI nodes no longer have the driver; no volume group, node status,
  logical volume, claim, volume or pod is listed, none of the objects exists, and deleting is allowed.
  The definition of service monitors may be there.\<close>

definition api_gone :: "'a api \<Rightarrow> bool" where
  "api_gone r \<longleftrightarrow> (\<exists>e. r = NotFound e)"

definition driver_free :: "op_env \<Rightarrow> Node list \<Rightarrow> bool" where
  "driver_free env nodes \<longleftrightarrow> (\<forall>h. \<forall>n \<in> set nodes. \<exists>cn. get_csinode env h (node_Name n) = Found cn
     \<and> TopolvmCSIDriverName \<notin> set (cn_Drivers cn))"

definition nothing_left :: "op_env \<Rightarrow> LVMCluster \<Rightarrow> bool" where
  "nothing_left env c \<longleftrightarrow>
     (\<exists>nodes valid. (\<forall>h. list_nodes env h [] = Inr nodes) \<and> ValidNodes env c nodes = (valid, None) \<and> driver_free env valid)
     \<and> (\<forall>h k ns n. api_gone (get_deleted env h k ns n) \<or> k = KCustomResourceDefinition \<and> (\<exists>d. get_deleted env h k ns n = Found d))
     \<and> (\<forall>h ns n. api_gone (get_vg env h ns n)) \<and> (\<forall>h opts. list_vgs env h opts = Found [])
     \<and> (\<forall>h opts. list_nodestatus env h opts = Inr []) \<and> (\<forall>h opts. list_lvs env h opts = Inr [])
     \<and> (\<forall>h k opts. list_count env h k opts = Inr 0) \<and> (\<forall>h k ns n err. delete env h k ns n \<noteq> ApiErr err)"

lemma nothing_leftD:
  assumes "nothing_left env c"
  shows "\<exists>nodes valid. (\<forall>h. list_nodes env h [] = Inr nodes) \<and> ValidNodes env c nodes = (valid, None) \<and> driver_free env valid"
    and "api_gone (get_deleted env h k ns n) \<or> k = KCustomResourceDefinition \<and> (\<exists>d. get_deleted env h k ns n = Found d)"
    and "api_gone (get_vg env h ns n)" and "list_vgs env h opts = Found []" and "list_nodestatus env h opts = Inr []"
    and "list_lvs env h opts = Inr []" and "list_count env h k opts = Inr 0" and "delete env h k ns n \<noteq> ApiErr err"
  using assms unfolding nothing_left_def by (elim conjE; simp)+

lemma Get_gone:
  "nothing_left env c \<Longrightarrow> k \<noteq> KCustomResourceDefinition \<Longrightarrow> \<exists>e. get_deleted env h k ns n = NotFound e"
  using nothing_leftD(2)[of env c h k ns n] by (auto simp: api_gone_def)

lemma deleteIfPresent_gone:
  "nothing_left env c \<Longrightarrow> k \<noteq> KCustomResourceDefinition \<Longrightarrow> succeeds (deleteIfPresent env k ns n ge p de)"
  unfolding succeeds_def deleteIfPresent_def Get_deleted_def
  using Get_gone[of env c k] by (auto split: api.split) (metis api.distinct)+

lemma lvmVG_delete_gone: "nothing_left env c \<Longrightarrow> fst (run_state (lvmVG_delete_loop env pending vgs) s) = Inr pending"
proof (induction vgs arbitrary: s)
  case (Cons vg vgs)
  then obtain e where "get_vg env (tr s) (vg_Namespace vg) (vg_Name vg) = NotFound e"
    using nothing_leftD(3)[of env c] unfolding api_gone_def by blast
  with Cons show ?case by simp
qed simp

lemma getCSINodes_clean:
  assumes "driver_free env valid"
    and "\<forall>cn \<in> set acc. TopolvmCSIDriverName \<notin> set (cn_Drivers cn)"
  shows "\<exists>cns. fst (run_state (getCSINodes env acc valid) s) = Inr cns \<and> (\<forall>cn \<in> set cns. TopolvmCSIDriverName \<notin> set (cn_Drivers cn))"
  using assms
proof (induction valid arbitrary: acc s)
  case (Cons n ns)
  from Cons.prems(1) obtain cn where cn: "get_csinode env (tr s) (node_Name n) = Found cn"
      "TopolvmCSIDriverName \<notin> set (cn_Drivers cn)" by (fastforce simp: driver_free_def)
  with Cons.IH[of "acc @ [cn]"] Cons.prems show ?case by (simp add: api_error_def driver_free_def)
qed simp

lemma csiNode_gone:
  assumes "nothing_left env c"
  shows "succeeds (csiNode_EnsureDeleted env c)"
  unfolding succeeds_def
proof
  fix s :: op_state
  from assms obtain nodes valid where v: "\<forall>h. list_nodes env h [] = Inr nodes" "ValidNodes env c nodes = (valid, None)"
      "driver_free env valid"
    using nothing_leftD(1) by blast
  let ?s = "s\<lparr>tr := tr s @ [ApiList KNode []]\<rparr>"
  obtain cns where cns: "fst (run_state (getCSINodes env [] valid) ?s) = Inr cns"
      "\<forall>cn \<in> set cns. TopolvmCSIDriverName \<notin> set (cn_Drivers cn)"
    using getCSINodes_clean[OF v(3), of "[]" ?s] by auto
  then have "find (\<lambda>cn. TopolvmCSIDriverName \<in> set (cn_Drivers cn)) cns = None" by (auto simp: find_None_iff)
  with v cns show "fst (run_state (csiNode_EnsureDeleted env c) s) = None"
    by (simp add: csiNode_EnsureDeleted_def GetAllCSINodeCandidates_def List_nodes_def run_catch split_beta)
qed

lemma EnsureDeleted_gone:
  assumes n: "nothing_left env c"
  shows "succeeds (EnsureDeleted env c m)"
proof (cases m)
  case LVMVGs
  then show ?thesis using lvmVG_delete_gone[OF n, of "[]"]
    by (simp add: succeeds_def lvmVG_EnsureDeleted_def run_catch split_beta)
next
  case LVMVGNodeStatus
  with n show ?thesis
    by (auto simp: succeeds_def nodeStatus_EnsureDeleted_def List_nodestatus_def List_nodes_def run_catch run_catch_err
        nothing_left_def)
next
  case VGManager
  with n Get_gone[OF n, of KDaemonSet] show ?thesis
    by (auto simp: succeeds_def vgManager_EnsureDeleted_def Delete_def Get_deleted_def run_catch nothing_left_def Let_def
        split: api.split) (metis api.distinct)+
next
  case ServiceMonitor
  with deleteIfPresent_gone[OF n, of KServiceMonitor] n show ?thesis
    by (auto simp: succeeds_def serviceMonitor_EnsureDeleted_def IsPrometheusAvailable_def Get_deleted_def run_catch
        nothing_left_def api_gone_def split: api.split) (metis api.distinct)+
next
  case CSIDriver
  with Get_gone[OF n, of KCSIDriver] show ?thesis
    by (auto simp: succeeds_def csiDriver_EnsureDeleted_def Get_deleted_def split: api.split) (metis api.distinct)+
qed (auto intro!: succeeds_for_each deleteIfPresent_gone[OF n] csiNode_gone[OF n] simp: networkPolicy_EnsureDeleted_def
    storageClass_EnsureDeleted_def scc_EnsureDeleted_def snapshotClass_EnsureDeleted_def Let_def)

section \<open>The run that lets the cluster go\<close>

lemma delete_unit_gone: "nothing_left env c \<Longrightarrow> succeeds (delete_unit env c m)"
  using EnsureDeleted_gone[of env c m] unfolding succeeds_def delete_unit_def by (simp add: split_beta)

lemma removeClusterFinalizer_done:
  assumes "oe_RemoveFinalizer env (lc_Finalizers c) lvmClusterFinalizer = (fs, True)"
    and "\<forall>h. \<exists>c'. update_cluster env h (c\<lparr>lc_Finalizers := fs\<rparr>) = Inr c'"
  shows "run_state (removeClusterFinalizer env c) s = (None, s\<lparr>tr := tr s @ [ApiUpdate (OCluster (c\<lparr>lc_Finalizers := fs\<rparr>))]\<rparr>)"
proof -
  from assms(2) obtain c' where "update_cluster env (tr s) (c\<lparr>lc_Finalizers := fs\<rparr>) = Inr c'" by blast
  with assms(1) show ?thesis by (simp add: removeClusterFinalizer_def)
qed

lemma processDelete_done:
  assumes "nothing_left env c" and "oe_RemoveFinalizer env (lc_Finalizers c) lvmClusterFinalizer = (fs, True)"
    and "\<forall>h. \<exists>c'. update_cluster env h (c\<lparr>lc_Finalizers := fs\<rparr>) = Inr c'"
  shows "\<exists>s'. run_state (LVMCluster_processDelete env c) s =
    (None, s'\<lparr>tr := tr s' @ [ApiUpdate (OCluster (c\<lparr>lc_Finalizers := fs\<rparr>))]\<rparr>)"
proof -
  have "succeeds (if lvmClusterFinalizer \<in> set (lc_Finalizers c) then for_each (deletion_list env) (delete_unit env c) else ret None)"
    by (simp add: succeeds_for_each delete_unit_gone[OF assms(1)]) (simp add: succeeds_def)
  then obtain s1 where "run_state (if lvmClusterFinalizer \<in> set (lc_Finalizers c)
      then for_each (deletion_list env) (delete_unit env c) else ret None) s = (None, s1)"
    by (metis succeeds_run)
  then have "run_state (LVMCluster_processDelete env c) s = run_state (removeClusterFinalizer env c) s1"
    unfolding LVMCluster_processDelete_def run_catch_err by (simp only: prod.case option.case)
  with removeClusterFinalizer_done[OF assms(2,3)] show ?thesis by (intro exI[of _ s1]) simp
qed

lemma no_claims: "nothing_left env c \<Longrightarrow> fst (run_state (pvcs_loop env dcs) s) = Inr False"
  by (induction dcs arbitrary: s) (simp_all add: nothing_leftD Let_def run_catch)

lemma no_retained: "nothing_left env c \<Longrightarrow> fst (run_state (retain_loop env dcs) s) = Inr False"
  by (induction dcs arbitrary: s) (simp_all add: nothing_leftD Let_def run_catch)

lemma deletion_gates_done:
  assumes "nothing_left env c" and "oe_RemoveFinalizer env (lc_Finalizers c) lvmClusterFinalizer = (fs, True)"
    and "\<forall>h. \<exists>c'. update_cluster env h (c\<lparr>lc_Finalizers := fs\<rparr>) = Inr c'"
  shows "\<exists>s'. run_state (deletion_gates env c) s =
    ((done_result, None), s'\<lparr>tr := tr s' @ [ApiUpdate (OCluster (c\<lparr>lc_Finalizers := fs\<rparr>))]\<rparr>)"
proof -
  let ?p = "activePVCsExistForClusterStorageClasses env c" and ?r = "retainPVsExistForCluster env c"
  define s1 where "s1 = snd (run_state ?p s)"
  define s2 where "s2 = snd (run_state ?r s1)"
  have p: "run_state ?p s = (Inr False, s1)"
    using no_claims[OF assms(1)] by (simp add: activePVCsExistForClusterStorageClasses_def s1_def prod_eq_iff)
  have r: "run_state ?r s1 = (Inr False, s2)"
    using no_retained[OF assms(1)] by (simp add: retainPVsExistForCluster_def s2_def prod_eq_iff)
  from processDelete_done[OF assms, of s2] show ?thesis
    by (auto simp: deletion_gates_def run_catch run_catch_err p r)
qed


definition leaving_cluster :: LVMCluster where
  "leaving_cluster = sample_cluster\<lparr>lc_Deleted := True\<rparr>"

definition leaving_env :: op_env where
  "leaving_env = quiet_op\<lparr>list_clusters := (\<lambda>h opts. Inr [leaving_cluster]), get_cluster := (\<lambda>h ns n. Found leaving_cluster)\<rparr>"


end
