(* ===== verification/Cluster_Watches.thy ===== *)
theory Cluster_Watches
  imports Cluster_Deletion
begin

text \<open>
  The registration of the cluster controller with its manager (\<open>SetupWithManager\<close> of
  \<open>controller_watches.go\<close>): the indices of the cache, the kinds it watches and the handlers they have; and
  what the indices mean for the checks before a deletion.
\<close>

section \<open>Registration\<close>

datatype watch_handler = FittingNodeSelector | ManagedLabelObjs

datatype watch = For kind | Owns kind | Watches kind watch_handler

definition storageClassName_field :: string where
  "storageClassName_field = ''spec.storageClassName''"

definition claim_index :: "PersistentVolumeClaim \<Rightarrow> string list" where
  "claim_index pvc = (case pvc_StorageClassName pvc of None \<Rightarrow> [] | Some n \<Rightarrow> [n])"

definition volume_index :: "PersistentVolume \<Rightarrow> string list" where
  "volume_index pv = (if kpv_StorageClassName pv = [] then [] else [kpv_StorageClassName pv])"

definition cluster_watches :: "op_env \<Rightarrow> watch list" where
  "cluster_watches env =
     [For KLVMCluster, Owns KDaemonSet, Owns KDeployment, Owns KLVMVolumeGroup,
      Watches KLVMVolumeGroupNodeStatus FittingNodeSelector, Watches KStorageClass ManagedLabelObjs] @
     (if oe_ClusterType env = TypeOCP then [Watches KSecurityContextConstraints ManagedLabelObjs] else []) @
     (if oe_EnableSnapshotting env then [Watches KVolumeSnapshotClass ManagedLabelObjs] else [])"

text \<open>\<open>IndexField\<close> and \<open>Complete\<close> are the manager's.\<close>

definition LVMCluster_SetupWithManager ::
  "op_env \<Rightarrow> (kind \<Rightarrow> string \<Rightarrow> go_error option) \<Rightarrow> (watch list \<Rightarrow> go_error option) \<Rightarrow> go_error option" where
  "LVMCluster_SetupWithManager env IndexField Complete =
     (case IndexField KPersistentVolumeClaim storageClassName_field of
        Some err \<Rightarrow> Some (Errorf ''failed to index PVCs by storageClassName: %w'' [W err])
      | None \<Rightarrow> (case IndexField KPersistentVolume storageClassName_field of
          Some err \<Rightarrow> Some (Errorf ''failed to index PVs by storageClassName: %w'' [W err])
        | None \<Rightarrow> Complete (cluster_watches env)))"

section \<open>What the checks see\<close>

text \<open>A cache answers a listing by a field with the objects whose index has the value, up to the limit.\<close>

definition indexed :: "('a \<Rightarrow> string list) \<Rightarrow> string \<Rightarrow> 'a list \<Rightarrow> 'a list" where
  "indexed index v xs = filter (\<lambda>x. v \<in> set (index x)) xs"

definition cache_lists :: "op_env \<Rightarrow> (op_history \<Rightarrow> PersistentVolumeClaim list) \<Rightarrow> (op_history \<Rightarrow> PersistentVolume list) \<Rightarrow> bool" where
  "cache_lists env claims volumes \<longleftrightarrow> (\<forall>h v.
     list_count env h KPersistentVolumeClaim [MatchingField storageClassName_field v, Limit 1]
       = Inr (length (take 1 (indexed claim_index v (claims h))))
     \<and> list_count env h KPersistentVolume [MatchingField storageClassName_field v, Limit 1]
       = Inr (length (take 1 (indexed volume_index v (volumes h)))))"

text \<open>The checks list by a field that is indexed for the kind.\<close>

lemma by_class_indexed: "by_class sc = [MatchingField storageClassName_field sc, Limit 1]"
  by (simp add: by_class_def storageClassName_field_def)

lemma indexed_empty:
  "indexed claim_index v claims = [] \<longleftrightarrow> (\<forall>pvc \<in> set claims. pvc_StorageClassName pvc \<noteq> Some v)"
  "indexed volume_index v volumes = [] \<longleftrightarrow> (\<forall>pv \<in> set volumes. kpv_StorageClassName pv = [] \<or> kpv_StorageClassName pv \<noteq> v)"
  by (auto simp: indexed_def filter_empty_conv claim_index_def volume_index_def split: option.splits)

text \<open>Some moment before the history \<open>h\<close> at which a fact held.\<close>

definition once :: "(op_history \<Rightarrow> bool) \<Rightarrow> op_history \<Rightarrow> bool" where
  "once P h \<longleftrightarrow> (\<exists>pre post. h = pre @ post \<and> P pre)"

lemma seen_once: "seen P a h \<Longrightarrow> (\<And>pre. P pre \<Longrightarrow> Q pre) \<Longrightarrow> once Q h"
  unfolding seen_def once_def by blast

definition unused_classes :: "LVMCluster \<Rightarrow> (op_history \<Rightarrow> PersistentVolumeClaim list) \<Rightarrow> (op_history \<Rightarrow> PersistentVolume list) \<Rightarrow> op_history \<Rightarrow> bool" where
  "unused_classes c claims volumes h \<longleftrightarrow> (\<forall>dc \<in> set (lc_DeviceClasses c).
     let sc = GetStorageClassName (dc_Name dc) in
     once (\<lambda>pre. \<forall>pvc \<in> set (claims pre). pvc_StorageClassName pvc \<noteq> Some sc) h
     \<and> (retains dc \<longrightarrow> once (\<lambda>pre. \<forall>pv \<in> set (volumes pre). kpv_StorageClassName pv \<noteq> sc) h))"

lemma limit_none [simp]: "min (length xs) (Suc 0) = 0 \<longleftrightarrow> xs = []"
  by (cases xs) simp_all

lemma class_name_not_empty [simp]: "GetStorageClassName n \<noteq> []"
  by (simp add: GetStorageClassName_def StorageClassPrefix_def)

lemma gates_see_claims:
  assumes law: "cache_lists env claims volumes" and gates: "no_claims env c h" "no_retained env c h"
  shows "unused_classes c claims volumes h"
  unfolding unused_classes_def Let_def
proof (intro ballI conjI impI)
  fix dc assume dc: "dc \<in> set (lc_DeviceClasses c)"
  let ?sc = "GetStorageClassName (dc_Name dc)"
  have "seen (\<lambda>pre. list_count env pre KPersistentVolumeClaim (by_class ?sc) = Inr 0) (ApiList KPersistentVolumeClaim (by_class ?sc)) h"
    using gates(1) dc by (simp add: no_claims_def Let_def)
  then show "once (\<lambda>pre. \<forall>pvc \<in> set (claims pre). pvc_StorageClassName pvc \<noteq> Some ?sc) h"
    by (rule seen_once) (use law in \<open>simp add: by_class_indexed cache_lists_def flip: indexed_empty(1)\<close>)
  assume "retains dc"
  with gates(2) dc have "seen (\<lambda>pre. list_count env pre KPersistentVolume (by_class ?sc) = Inr 0) (ApiList KPersistentVolume (by_class ?sc)) h"
    by (simp add: no_retained_def Let_def)
  then show "once (\<lambda>pre. \<forall>pv \<in> set (volumes pre). kpv_StorageClassName pv \<noteq> ?sc) h"
  proof (rule seen_once)
    fix pre assume "list_count env pre KPersistentVolume (by_class ?sc) = Inr 0"
    then have "indexed volume_index ?sc (volumes pre) = []" using law by (simp add: by_class_indexed cache_lists_def)
    then show "\<forall>pv \<in> set (volumes pre). kpv_StorageClassName pv \<noteq> ?sc" by (metis indexed_empty(2) class_name_not_empty)
  qed
qed


definition other_claim :: PersistentVolumeClaim where
  "other_claim = \<lparr>pvc_Name = ''data'', pvc_Namespace = ''app'', pvc_Deleted = False, pvc_StorageClassName = Some ''gp3'',
     pvc_Phase = ''Bound'', pvc_RequestedStorage = ChunkSizeMinimum\<rparr>"

definition indexing_env :: op_env where
  "indexing_env = quiet_op\<lparr>list_count := (\<lambda>h k opts. case opts of
     [MatchingField f v, Limit _] \<Rightarrow> if k = KPersistentVolumeClaim then Inr (length (take 1 (indexed claim_index v [other_claim]))) else Inr 0
   | _ \<Rightarrow> Inr 0)\<rparr>"


end
