(* ===== verification/Op_Controllers.thy ===== *)
theory Op_Controllers
  imports Cluster_Controller
begin

text \<open>
  The smaller controllers of the operator: removal of nodes (\<open>node/removal/controller.go\<close>), persistent
  volumes and claims (\<open>persistent-volume\<close>, \<open>persistent-volume-claim\<close>), the discovery of the cluster
  (\<open>internal/cluster\<close>) and the migrations run at start (\<open>internal/migration\<close>).
\<close>

section \<open>Removal of nodes\<close>

definition cleanup_finalizer :: "string \<Rightarrow> string" where
  "cleanup_finalizer nodeName = NodeCleanupFinalizer @ ''/'' @ nodeName"

text \<open>The volume group without what belongs to the node, and whether something changed.\<close>

definition without_node :: "op_env \<Rightarrow> string \<Rightarrow> LVMVolumeGroup \<Rightarrow> LVMVolumeGroup \<times> bool" where
  "without_node env nodeName vg =
     (let (fs, removed) = oe_RemoveFinalizer env (vg_Finalizers vg) (cleanup_finalizer nodeName);
          key = DevicesWipedAnnotationPrefix @ nodeName;
          vg' = vg\<lparr>vg_Finalizers := fs\<rparr>
      in if map_of (vg_Annotations vg) key \<noteq> None
         then (vg'\<lparr>vg_Annotations := AList.delete key (vg_Annotations vg)\<rparr>, True)
         else (vg', removed))"

definition cleanupVolumeGroupsForNode :: "op_env \<Rightarrow> string \<Rightarrow> go_error option op" where
  "cleanupVolumeGroupsForNode env nodeName = do {
     r \<leftarrow> List_vgs env [InNamespace (oe_Namespace env)];
     case api_error r of
       Inl err \<Rightarrow> ret (Some (Errorf ''failed to list LVMVolumeGroups: %w'' [W err]))
     | Inr vgs \<Rightarrow> for_each vgs (\<lambda>vg. let (vg', needsUpdate) = without_node env nodeName vg in
         if \<not> needsUpdate then ret None
         else do {
           u \<leftarrow> Update env (OVolumeGroup vg');
           ret (map_option (\<lambda>err. Errorf ''failed to update LVMVolumeGroup %s: %w'' [S (vg_Name vg), W err]) u) }) }"

definition Removal_Reconcile :: "op_env \<Rightarrow> string \<Rightarrow> string \<Rightarrow> outcome op" where
  "Removal_Reconcile env ns n = do {
     r \<leftarrow> ask (\<lambda>h. get_nodestatus env h ns n) (ApiGet KLVMVolumeGroupNodeStatus ns n);
     case r of
       NotFound _ \<Rightarrow> ret (done_result, None)
     | ApiErr err \<Rightarrow> ret (done_result, Some err)
     | Found st \<Rightarrow> do {
         g \<leftarrow> ask (\<lambda>h. get_node env h (ns_Namespace st) (ns_Name st)) (ApiGet KNode (ns_Namespace st) (ns_Name st));
         case g of
           Found _ \<Rightarrow> ret (done_result, None)
         | ApiErr err \<Rightarrow> ret (done_result, Some (Errorf
               ''error retrieving fitting LVMVolumeGroupNodeStatus for Node %s: %w'' [S (ns_Name st), W err]))
         | NotFound _ \<Rightarrow> do {
             d \<leftarrow> Delete env KLVMVolumeGroupNodeStatus (ns_Namespace st) (ns_Name st);
             case delete_error d of
               Some err \<Rightarrow> ret (done_result, Some (Errorf
                   ''error deleting LVMVolumeGroupNodeStatus for Node %s: %w'' [S (ns_Name st), W err]))
             | None \<Rightarrow> do {
                 u \<leftarrow> (let (st', removed) = removeDeleteProtectionFinalizer st in
                   if removed then Update env (ONodeStatus st') else ret None);
                 case u of
                   Some err \<Rightarrow> ret (done_result, Some (Errorf
                       ''failed to remove finalizer from LVMVolumeGroupNodeStatus: %w'' [W err]))
                 | None \<Rightarrow> catch_err (cleanupVolumeGroupsForNode env (ns_Name st))
                     (\<lambda>err. ret (done_result, Some (Errorf
                        ''failed to clean up VolumeGroups for Node %s: %w'' [S (ns_Name st), W err])))
                     (ret (done_result, None)) } } } }"

definition GetNodeStatusFromNode :: "op_env \<Rightarrow> string \<Rightarrow> (string \<times> string) list op" where
  "GetNodeStatusFromNode env nodeName = do {
     r \<leftarrow> ask (\<lambda>h. get_nodestatus env h (oe_Namespace env) nodeName)
       (ApiGet KLVMVolumeGroupNodeStatus (oe_Namespace env) nodeName);
     ret (case r of Found _ \<Rightarrow> [(nodeName, oe_Namespace env)] | _ \<Rightarrow> []) }"

section \<open>Persistent volumes\<close>

definition pvLabel :: string where "pvLabel = ''kubernetes.io/hostname''"

fun label_loop :: "op_env \<Rightarrow> MatchExpression list \<Rightarrow> PersistentVolume \<Rightarrow> go_error option op" where
  "label_loop env [] pv = ret None"
| "label_loop env (v # vs) pv =
     (if \<not> (me_Key v = ''topology.topolvm.io/node'' \<and> me_Operator v = ''In'') then label_loop env vs pv
      else (case me_Values v of
          [] \<Rightarrow> ret (Some (GoPanic ''index out of range [0] with length 0''))
        | x # xs \<Rightarrow>
            if go_index (kpv_Labels pv) pvLabel = x then label_loop env vs pv
            else let pv' = pv\<lparr>kpv_Labels := AList.update pvLabel x (kpv_Labels pv)\<rparr> in
              catch_err (Update env (OPersistentVolume pv')) (\<lambda>err. ret (Some err)) (label_loop env vs pv')))"

definition claimRemovedMessage :: string where
  "claimRemovedMessage = ''Claim reference has been removed. This PV is no longer dynamically managed by '' @
     ''LVM Storage and will need to be cleaned up manually.''"

definition PV_Reconcile :: "op_env \<Rightarrow> string \<Rightarrow> string \<Rightarrow> outcome op" where
  "PV_Reconcile env ns n = do {
     r \<leftarrow> ask (\<lambda>h. get_pv env h ns n) (ApiGet KPersistentVolume ns n);
     case r of
       ApiErr err \<Rightarrow> ret (done_result, Some err)
     | NotFound _ \<Rightarrow> ret (done_result, None)
     | Found pv \<Rightarrow>
         if kpv_Deleted pv \<or> \<not> HasPrefix (kpv_StorageClassName pv) StorageClassPrefix then ret (done_result, None)
         else do {
           _ \<leftarrow> (if kpv_ClaimRef pv = None
             then emit (OpEvent KPersistentVolume (kpv_Name pv) True ''ClaimReferenceRemoved'' claimRemovedMessage)
             else ret ());
           case kpv_Required pv of
             None \<Rightarrow> ret (done_result, None)
           | Some terms \<Rightarrow> do { e \<leftarrow> label_loop env (concat terms) pv; ret (done_result, e) } } }"

section \<open>Persistent volume claims\<close>

definition CapacityAnnotation :: string where "CapacityAnnotation = ''capacity.topolvm.io/''"

text \<open>The formats \<open>%3.1f\<close> and \<open>%.1f\<close> agree: every text of the second has at least three characters.\<close>

fun pretty_loop :: "op_env \<Rightarrow> rat \<Rightarrow> string list \<Rightarrow> string" where
  "pretty_loop env bf [] = fmt_1f env (Fin bf) @ ''YiB''"
| "pretty_loop env bf (u # us) = (if \<bar>bf\<bar> < 1024 then fmt_1f env (Fin bf) @ u @ ''B''
     else pretty_loop env (round_bits 53 (bf / 1024)) us)"

definition prettyByteSize :: "op_env \<Rightarrow> int \<Rightarrow> string" where
  "prettyByteSize env b = pretty_loop env (round_bits 53 (of_int b))
     [[], ''Ki'', ''Mi'', ''Gi'', ''Ti'', ''Pi'', ''Ei'', ''Zi'']"

text \<open>The loop over the nodes with the messages so far: \<open>None\<close> for a capacity that cannot be parsed,
  otherwise whether a node with enough capacity was found, and the messages.\<close>

fun capacity_loop :: "op_env \<Rightarrow> string \<Rightarrow> Quantity \<Rightarrow> string list \<Rightarrow> Node list \<Rightarrow> (bool \<times> string list) option" where
  "capacity_loop env key req msgs [] = Some (False, msgs)"
| "capacity_loop env key req msgs (n # ns) = (case map_of (node_Annotations n) key of
     None \<Rightarrow> capacity_loop env key req msgs ns
   | Some capacity \<Rightarrow> (case ParseQuantity env capacity of
       Inl _ \<Rightarrow> None
     | Inr q \<Rightarrow> if Cmp req q < 0 then Some (True, msgs)
         else capacity_loop env key req
           (msgs @ [''node '' @ node_Name n @ '' has '' @ prettyByteSize env (Value q) @ '' free storage'']) ns))"

definition requeue_15 :: ctrl_Result where
  "requeue_15 = \<lparr>Requeue = False, RequeueAfter = 15\<rparr>"

definition capacityMessage :: "op_env \<Rightarrow> Quantity \<Rightarrow> string list \<Rightarrow> string" where
  "capacityMessage env req msgs = ''Requested storage ('' @ Quantity_String env req @
     '') is greater than available capacity on any node ('' @ JoinStrings (sort msgs) '','' @ '').''"

definition PVC_Reconcile :: "op_env \<Rightarrow> string \<Rightarrow> string \<Rightarrow> outcome op" where
  "PVC_Reconcile env ns n = do {
     r \<leftarrow> ask (\<lambda>h. get_pvc env h ns n) (ApiGet KPersistentVolumeClaim ns n);
     case r of
       NotFound _ \<Rightarrow> ret (done_result, None)
     | ApiErr err \<Rightarrow> ret (done_result, Some err)
     | Found pvc \<Rightarrow>
         if pvc_Deleted pvc then ret (done_result, None)
         else (case pvc_StorageClassName pvc of
             None \<Rightarrow> ret (done_result, None)
           | Some scn \<Rightarrow> do {
               s \<leftarrow> ask (\<lambda>h. get_sc env h scn) (ApiGet KStorageClass [] scn);
               case api_error s of
                 Inl err \<Rightarrow> ret (done_result, Some err)
               | Inr sc \<Rightarrow>
                   if sc_Provisioner sc \<noteq> TopolvmCSIDriverName then ret (done_result, None)
                   else if pvc_Phase pvc \<noteq> ''Pending'' then ret (done_result, None)
                   else catch (List_nodes env) (\<lambda>err. ret (done_result, Some err)) (\<lambda>nodes.
                     let dc = Deref (map_of (sc_Parameters sc) DeviceClassKey) (DefaultDeviceClassAnnotationName env) in
                     case capacity_loop env (CapacityAnnotation @ dc) (pvc_RequestedStorage pvc) [] nodes of
                       None \<Rightarrow> ret (done_result, None)
                     | Some (found, msgs) \<Rightarrow> do {
                         _ \<leftarrow> (if found then ret () else emit (OpEvent KPersistentVolumeClaim (pvc_Name pvc) True
                           ''NotEnoughCapacity'' (capacityMessage env (pvc_RequestedStorage pvc) msgs)));
                         ret (requeue_15, None) }) }) }"

section \<open>The cluster\<close>

definition ControlPlaneIDLabel :: string where "ControlPlaneIDLabel = ''node-role.kubernetes.io/control-plane''"
definition LeaseName :: string where "LeaseName = ''1136b8a6.topolvm.io''"

definition IsSNO :: "op_env \<Rightarrow> bool res op" where
  "IsSNO env = (let opts = [MatchingLabels [(ControlPlaneIDLabel, [])]] in
     catch (ask (\<lambda>h. list_nodes env h opts) (ApiList KNode opts))
       (\<lambda>err. ret (Inl (Errorf ''unable to retrieve nodes for SNO check with lease configuration: %w'' [W err])))
       (\<lambda>nodes. ret (Inr (length nodes = 1))))"

text \<open>The settings of the election are values of a library; \<open>sno\<close> is its \<open>LeaderElectionSNOConfig\<close>.\<close>

definition LeaderElection_Resolve :: "op_env \<Rightarrow> ('le \<Rightarrow> 'le) \<Rightarrow> 'le \<Rightarrow> 'le res op" where
  "LeaderElection_Resolve env sno defaultElectionConfig = catch (IsSNO env)
     (\<lambda>err. ret (Inl err))
     (\<lambda>isSNO. if \<not> isSNO then ret (Inr defaultElectionConfig) else ret (Inr (sno defaultElectionConfig)))"

definition Default_GetType :: "op_env \<Rightarrow> cluster_Type res op" where
  "Default_GetType env = do {
     r \<leftarrow> Get_deleted env KInfrastructure [] ''cluster'';
     case r of
       Found _ \<Rightarrow> ret (Inr TypeOCP)
     | NotFound _ \<Rightarrow> ret (Inr TypeOther)
     | ApiErr err \<Rightarrow>
         if IsNoMatchError env err then do {
           m \<leftarrow> Get_deleted env KConfigMap ''kube-public'' ''microshift-version'';
           ret (Inr (case m of Found _ \<Rightarrow> TypeMicroShift | _ \<Rightarrow> TypeOther)) }
         else ret (Inl (Errorf (''failed to get Openshift Infrastructure '' @ [CHR 0x27] @ ''cluster'' @ [CHR 0x27] @ '': %w'') [W err])) }"

definition Cached_GetType :: "op_env \<Rightarrow> cluster_Type res op" where
  "Cached_GetType env = do {
     t \<leftarrow> gets cached_type;
     case t of
       Some t \<Rightarrow> ret (Inr t)
     | None \<Rightarrow> catch (Default_GetType env) (\<lambda>err. ret (Inl err))
         (\<lambda>t. do { _ \<leftarrow> modify (\<lambda>s. s\<lparr>cached_type := Some t\<rparr>); ret (Inr t) }) }"

section \<open>Migrations\<close>

definition TopoLVMLegacyControllerName :: string where "TopoLVMLegacyControllerName = ''topolvm-controller''"
definition TopoLVMLegacyNodeDaemonSetName :: string where "TopoLVMLegacyNodeDaemonSetName = ''topolvm-node''"

definition deleteImmediatelyIfExists :: "op_env \<Rightarrow> kind \<times> string \<Rightarrow> go_error option op" where
  "deleteImmediatelyIfExists env obj = do {
     d \<leftarrow> Delete env (fst obj) (oe_Namespace env) (snd obj);
     ret (case d of Found _ \<Rightarrow> None | NotFound _ \<Rightarrow> None
       | ApiErr err \<Rightarrow> Some (Errorf ''cleanup delete failed: %w'' [W err])) }"

definition legacy_objects :: "(kind \<times> string) list" where
  "legacy_objects = [(KDeployment, TopoLVMLegacyControllerName), (KDaemonSet, TopoLVMLegacyNodeDaemonSetName),
     (KLease, LeaseName)]"

fun cleanup_all :: "op_env \<Rightarrow> (kind \<times> string) list \<Rightarrow> go_error list op" where
  "cleanup_all env [] = ret []"
| "cleanup_all env (x # xs) = do {
     r \<leftarrow> deleteImmediatelyIfExists env x;
     errs \<leftarrow> cleanup_all env xs;
     ret (case r of None \<Rightarrow> errs | Some e \<Rightarrow> e # errs) }"

text \<open>The deletions run in goroutines, here in the order the environment picks.\<close>

definition RemovePreMicroLVMSComponents :: "op_env \<Rightarrow> go_error option op" where
  "RemovePreMicroLVMSComponents env = do {
     h \<leftarrow> gets tr;
     errs \<leftarrow> cleanup_all env (permute (schedule env h) legacy_objects);
     if length errs > 0
     then ret (Some (Errorf ''failed to run pre 4.16 MicroLVMS cleanup: %w'' [W (ErrorsJoin errs)]))
     else ret None }"

definition wipedMarker :: "string \<Rightarrow> string" where
  "wipedMarker t = ''the devices of this volume group have been wiped at '' @ t @
     '' by lvms according to policy. This marker'' @
     ''serves as indicator that the devices have been wiped before and should not be wiped again.'' @
     ''removal of this annotation is unsupported and may lead to data loss due to additional wiping.''"

definition wiping_enabled :: "LVMVolumeGroup \<Rightarrow> bool" where
  "wiping_enabled vg \<longleftrightarrow> \<not> (case vgs_DeviceSelector (vg_Spec vg) of None \<Rightarrow> True
     | Some ds \<Rightarrow> (case ds_ForceWipeDevicesAndDestroyAllData ds of None \<Rightarrow> True | Some b \<Rightarrow> \<not> b))"

text \<open>One volume group with the entries of all nodes: the annotated object and whether it changed.\<close>

definition annotate_vg :: "string \<Rightarrow> LVMVolumeGroupNodeStatus list \<Rightarrow> LVMVolumeGroup \<Rightarrow> LVMVolumeGroup \<times> bool" where
  "annotate_vg t statuses vg = fold (\<lambda>st acc. fold (\<lambda>v (vg, updated).
       if vs_Name v = vg_Name vg \<and> wiping_enabled vg
       then (vg\<lparr>vg_Annotations := AList.update (DevicesWipedAnnotationPrefix @ ns_Name st) (wipedMarker t) (vg_Annotations vg)\<rparr>, True)
       else (vg, updated)) (ns_LVMVGStatus st) acc) statuses (vg, False)"

definition AnnotateExistingLVMVolumeGroupsIfWipingEnabled :: "op_env \<Rightarrow> go_error option op" where
  "AnnotateExistingLVMVolumeGroupsIfWipingEnabled env =
     catch (List_nodestatus env [InNamespace (oe_Namespace env)])
       (\<lambda>err. ret (Some (Errorf ''failed to list LVMVolumeGroupNodeStatus instances: %w'' [W err])))
       (\<lambda>statuses. if length statuses < 1 then ret None
          else do {
            r \<leftarrow> List_vgs env [InNamespace (oe_Namespace env)];
            case api_error r of
              Inl err \<Rightarrow> ret (Some (Errorf ''failed to list LVMVolumeGroup instances: %w'' [W err]))
            | Inr vgs \<Rightarrow> if length vgs < 1 then ret None
                else for_each vgs (\<lambda>vg. do {
                  h \<leftarrow> gets tr;
                  let (vg', updated) = annotate_vg (oe_now env h) statuses vg;
                  if updated then do {
                    u \<leftarrow> Update env (OVolumeGroup vg');
                    ret (map_option (\<lambda>err. Errorf ''failed to add wiped annotation to LVMVolumeGroup instance: %w'' [W err]) u) }
                  else ret None }) })"

end
