(* ===== verification/Resource_Props.thy ===== *)
theory Resource_Props
  imports Cluster_Deletion
begin

text \<open>
  Properties of the resource managers: the storage classes of a cluster, the nodes that get a status
  object, the update of the daemon set and the deletion of the security context constraints.
\<close>

section \<open>Storage classes\<close>

definition is_default :: "StorageClass \<Rightarrow> bool" where
  "is_default sc \<longleftrightarrow> go_index (sc_Annotations sc) defaultSCAnnotation = ''true''"

definition additional_parameters :: "DeviceClass \<Rightarrow> labels" where
  "additional_parameters dc = (case dc_StorageClassOptions dc of None \<Rightarrow> [] | Some opts \<Rightarrow> sco_AdditionalParameters opts)"

text \<open>What the storage class of a device class has to be: its own name and provisioner, the two keys of
  the operator whatever the additional parameters say, these otherwise, the reclaim policy of the class,
  and ownership labels that are recognised for this cluster only.\<close>

definition class_for :: "op_env \<Rightarrow> LVMCluster \<Rightarrow> DeviceClass \<Rightarrow> StorageClass \<Rightarrow> bool" where
  "class_for env c dc sc \<longleftrightarrow> sc_Name sc = GetStorageClassName (dc_Name dc)
     \<and> sc_Provisioner sc = TopolvmCSIDriverName \<and> sc_AllowVolumeExpansion sc = Some True
     \<and> sc_ReclaimPolicy sc = Some (reclaimPolicyOf dc) \<and> sc_VolumeBindingMode sc = Some (volumeBindingModeOf dc)
     \<and> map_of (sc_Parameters sc) DeviceClassKey = Some (dc_Name dc)
     \<and> map_of (sc_Parameters sc) FsTypeKey = Some (FilesystemType_string (dc_FilesystemType dc))
     \<and> (\<forall>k. k \<noteq> DeviceClassKey \<and> k \<noteq> FsTypeKey \<longrightarrow> map_of (sc_Parameters sc) k = map_of (rev (additional_parameters dc)) k)
     \<and> (\<forall>g c'. cluster_gvk env = Inr g \<longrightarrow> MatchesManagedLabels (cluster_gvk env) (Some (sc_Labels sc)) (cluster_owner c') =
          (cluster_owner c' = cluster_owner c))"

lemma maps_Copy_empty: "map_of (maps_Copy m xs) k = (map_of m ++ map_of (rev xs)) k"
  by (induction xs arbitrary: m) (auto simp: maps_Copy_def update_conv' map_add_def split: option.splits)

lemma keys_differ [simp]: "FsTypeKey \<noteq> DeviceClassKey" "DeviceClassKey \<noteq> FsTypeKey"
  by (simp_all add: FsTypeKey_def DeviceClassKey_def)

lemma storageClassFor_ok: "class_for env c dc (storageClassFor env c dc d)"
proof -
  have "MatchesManagedLabels (Inr g) (Some (SetManagedLabels (Inr g) l (cluster_owner c))) (cluster_owner c') =
      (cluster_owner c' = cluster_owner c)" for g l c'
    by (auto simp: Matches_SetManagedLabels cluster_owner_def)
  then show ?thesis
    by (auto simp: class_for_def storageClassFor_def ManagedLabels_def update_conv' maps_Copy_empty additional_parameters_def
        split: option.split)
qed

lemma storageClassFor_default [simp]: "is_default (storageClassFor env c dc d) \<longleftrightarrow> d"
  by (simp add: is_default_def storageClassFor_def go_index_def defaultSCAnnotation_def)

lemma storageClassFor_name [simp]: "sc_Name (storageClassFor env c dc d) = GetStorageClassName (dc_Name dc)"
  by (simp add: storageClassFor_def)

definition default_names :: "StorageClass list \<Rightarrow> string set" where
  "default_names scs = sc_Name ` {sc \<in> set scs. is_default sc}"

lemma default_names_Cons: "default_names (sc # scs) = (if is_default sc then {sc_Name sc} else {}) \<union> default_names scs"
  by (auto simp: default_names_def)

lemma no_defaults: "default_names (storageClasses env c False d dcs) = {}"
  by (induction dcs) (auto simp: default_names_Cons Let_def, simp add: default_names_def)

lemma kept_default: "d \<noteq> [] \<Longrightarrow> default_names (storageClasses env c True d dcs) \<subseteq> {d}"
proof (induction dcs)
  case (Cons dc dcs)
  then show ?case by (auto simp: default_names_Cons Let_def)
qed (simp add: default_names_def)

lemma SCName_nonempty [simp]: "GetStorageClassName n \<noteq> []"
  by (simp add: GetStorageClassName_def StorageClassPrefix_def)

lemma new_default: "\<exists>n. default_names (storageClasses env c True [] dcs) \<subseteq> {n}"
proof (induction dcs)
  case (Cons dc dcs)
  then show ?case
    using kept_default[OF SCName_nonempty, of env c "dc_Name dc" dcs] by (cases "dc_Default dc") (auto simp: default_names_Cons Let_def)
qed (simp add: default_names_def)


section \<open>Nodes with a status object\<close>

text \<open>A node the status check demands an entry of is one the operator creates a status object for.
  If a node is valid for some device class then it is among the valid nodes of the cluster, provided the
  selector of a node is decided term by term: it matches if one of its terms does.\<close>

lemma expected_nodes_have_status:
  assumes "\<And>n ts. NodeMatches env n \<lparr>NodeSelectorTerms = ts\<rparr> = Inr (\<exists>t \<in> set ts. matches n t)"
    and "n \<in> set nodes" and "dc \<in> set (lc_DeviceClasses c)" and "isNodeValid env n c dc = Inr True"
  shows "n \<in> set (fst (ValidNodes env c nodes))"
proof -
  let ?sel = "fst (ExtractNodeSelectorAndTolerations c)"
  have m: "NodeMatches env n' s = Inr (\<exists>t \<in> set (NodeSelectorTerms s). matches n' t)" for n' s
    using assms(1)[of n' "NodeSelectorTerms s"] by (cases s) simp
  have tol: "tolerated env c n"
    using assms(4) by (auto simp: isNodeValid_def ToleratesAllTaints_eq split: option.splits if_splits)
  have sel: "?sel = None \<or> (\<exists>s. ?sel = Some s \<and> NodeMatches env n s = Inr True)"
  proof (cases "\<exists>dc \<in> set (lc_DeviceClasses c). dc_NodeSelector dc = None")
    case True
    then show ?thesis by (simp add: ExtractNodeSelectorAndTolerations_def selectorTerms_iff)
  next
    case False
    then obtain s where s: "dc_NodeSelector dc = Some s" using assms(3) by fastforce
    with assms(4) obtain t where "t \<in> set (NodeSelectorTerms s)" "matches n t"
      by (auto simp: isNodeValid_def m split: prod.splits option.splits if_splits)
    with False s assms(3) show ?thesis
      by (auto simp: ExtractNodeSelectorAndTolerations_def selectorTerms_iff m intro!: bexI[of _ dc] bexI[of _ t])
  qed
  have "selector_error env c n' = None" for n' by (simp add: selector_error_def m split: option.split)
  then have "first_some (selector_error env c) nodes = None" by simp
  with tol sel assms(2) show ?thesis
    by (auto simp del: first_some_None simp: valid_nodes considered_def)
qed

definition term_env :: op_env where
  "term_env = quiet_op\<lparr>NodeMatches := (\<lambda>n s. Inr (\<exists>t \<in> set (NodeSelectorTerms s). t = NodeSelectorTerm (node_Name n)))\<rparr>"

definition plain_node :: Node where
  "plain_node = \<lparr>node_Name = ''node1'', node_Labels = [], node_Annotations = [], node_Taints = []\<rparr>"

theorem expected_nodes_have_status_witness:
  "isNodeValid term_env plain_node sample_cluster (hd (lc_DeviceClasses sample_cluster)) = Inr True
   \<and> plain_node \<in> set (fst (ValidNodes term_env sample_cluster [plain_node]))"
proof -
  have v: "isNodeValid term_env plain_node sample_cluster (hd (lc_DeviceClasses sample_cluster)) = Inr True"
    by (simp add: isNodeValid_def plain_node_def sample_cluster_def)
  have "plain_node \<in> set (fst (ValidNodes term_env sample_cluster [plain_node]))"
    by (rule expected_nodes_have_status[where matches = "\<lambda>n t. t = NodeSelectorTerm (node_Name n)", OF _ _ _ v])
      (simp_all add: term_env_def sample_cluster_def)
  with v show ?thesis by simp
qed

section \<open>The daemon set\<close>

text \<open>The entries of a map after the template's were written over it.\<close>

definition overlaid :: "labels \<Rightarrow> labels \<Rightarrow> labels \<Rightarrow> bool" where
  "overlaid old tmpl new \<longleftrightarrow> (\<forall>k. map_of new k =
     (map_of (if length old > 1 then old else []) ++ map_of (rev tmpl)) k)"

definition updated_daemonset :: "op_env \<Rightarrow> LVMCluster \<Rightarrow> DaemonSet \<Rightarrow> DaemonSet \<Rightarrow> DaemonSet \<Rightarrow> bool" where
  "updated_daemonset env c tmpl old new \<longleftrightarrow>
     (let t = dmn_Template tmpl; o' = dmn_Template old; n = dmn_Template new in
      pt_Containers n = pt_Containers t \<and> pt_Volumes n = pt_Volumes t \<and> pt_Tolerations n = pt_Tolerations t
      \<and> pt_ServiceAccountName n = pt_ServiceAccountName t \<and> pt_PriorityClassName n = pt_PriorityClassName t
      \<and> pt_Affinity n = (if pt_Affinity t = None then pt_Affinity o' else pt_Affinity t)
      \<and> pt_HostPID n = pt_HostPID o' \<and> dmn_MatchLabels new = dmn_MatchLabels old
      \<and> dmn_Name new = dmn_Name old \<and> dmn_Namespace new = dmn_Namespace old
      \<and> SetControllerReference env c (dmn_OwnerReferences old) = Inr (dmn_OwnerReferences new)
      \<and> overlaid (dmn_Labels old) (dmn_Labels tmpl) (dmn_Labels new)
      \<and> overlaid (pt_Labels o') (dmn_Labels tmpl) (pt_Labels n)
      \<and> overlaid (dmn_Annotations old) (dmn_Annotations tmpl) (dmn_Annotations new)
      \<and> overlaid (pt_Annotations o') (pt_Annotations t) (pt_Annotations n))"

lemma overlaid_copy: "overlaid old tmpl (maps_Copy (initMapIfNil old) tmpl)"
  by (simp add: overlaid_def maps_Copy_empty initMapIfNil_def)


text \<open>A single label or annotation is lost in an update.\<close>

lemma single_entry_lost: "initMapIfNil [(k, v)] = []"
  by (simp add: initMapIfNil_def)

section \<open>Security context constraints\<close>

definition spares_scc :: "op_env \<Rightarrow> op_history \<Rightarrow> op_action \<Rightarrow> bool" where
  "spares_scc env h a \<longleftrightarrow> (\<forall>ns. a \<noteq> ApiDelete KSecurityContextConstraints ns (scc_Name (newVGManagerScc (oe_Namespace env))))"

lemma spares_reads: "a \<in> reads \<Longrightarrow> spares_scc env h a"
  by (auto simp: spares_scc_def reads_def)

lemma EnsureDeleted_spares: "guarded (spares_scc env) (\<lambda>_. True) (EnsureDeleted env c m) (\<lambda>_ _. True)"
proof (cases "m = OpenShiftSCCs")
  case True
  have "only (reads \<union> {ApiDelete KSecurityContextConstraints [] scName}) (scc_EnsureDeleted env c)"
    by (auto intro!: only_intros simp: scc_EnsureDeleted_def deleteIfPresent_def Get_deleted_def Delete_def)
  then show ?thesis
    unfolding True EnsureDeleted.simps
    by (rule guarded_any) (auto simp: spares_reads spares_scc_def scName_def newVGManagerScc_def SCCPrefix_def)
next
  case False
  then have "unit_kind m \<noteq> Some KSecurityContextConstraints" by (cases m) simp_all
  then show ?thesis
    by (intro guarded_conseq[OF EnsureDeleted_guarded]) (auto simp: spares_scc_def)
qed

text \<open>C40: The security context constraints of the volume group manager survive the cluster.  No run of
  \<open>processDelete\<close> ever asks for the deletion of the constraints \<open>EnsureCreated\<close> creates: the manager looks
  for an object with the name of the storage class manager instead.\<close>

theorem scc_left_behind: "always (spares_scc env) (LVMCluster_processDelete env c)"
proof (rule alwaysI)
  have unit: "guarded (spares_scc env) (\<lambda>_. True) (delete_unit env c m) (\<lambda>_ _. True)" for m
    unfolding delete_unit_def LVMCluster_WarningEvent_def Let_def
    apply (rule guarded_bind[OF EnsureDeleted_spares])
    apply (rule guarded_any[where A = reads])
     apply (auto intro!: only_intros simp: spares_reads)
    done
  have units: "guarded (spares_scc env) (\<lambda>_. True) (for_each ms (delete_unit env c)) (\<lambda>_ _. True)" for ms
    by (rule for_each_keep) (simp_all add: unit)
  show "guarded (spares_scc env) (\<lambda>_. True) (LVMCluster_processDelete env c) (\<lambda>_ _. True)"
    unfolding LVMCluster_processDelete_def
    apply (rule guarded_catch_err[where R = "\<lambda>_ _. True"])
      apply (auto intro!: guarded_if units guarded_return)[2]
    apply (rule guarded_any[where A = "range (\<lambda>x. ApiUpdate x)"])
     apply (auto intro!: only_intros simp: removeClusterFinalizer_def spares_scc_def)
    done
qed

end
