(* ===== verification/Op_Props.thy ===== *)
theory Op_Props
  imports Op_Controllers Resource_Props
begin

text \<open>
  Properties of the smaller controllers: the removal of nodes, the capacity check of claims, the cached
  cluster type, and the migration that marks devices as wiped together with the volume group manager
  that reads the marks.
\<close>

section \<open>Removal of nodes\<close>

definition node_gone :: "op_env \<Rightarrow> string \<Rightarrow> string \<Rightarrow> LVMVolumeGroupNodeStatus \<Rightarrow> op_history \<Rightarrow> bool" where
  "node_gone env ns n st h \<longleftrightarrow>
     seen (\<lambda>pre. get_nodestatus env pre ns n = Found st) (ApiGet KLVMVolumeGroupNodeStatus ns n) h
     \<and> seen (\<lambda>pre. \<exists>e. get_node env pre (ns_Namespace st) (ns_Name st) = NotFound e) (ApiGet KNode (ns_Namespace st) (ns_Name st)) h"

definition status_deleted :: "op_env \<Rightarrow> LVMVolumeGroupNodeStatus \<Rightarrow> op_history \<Rightarrow> bool" where
  "status_deleted env st = seen (\<lambda>pre. delete env pre KLVMVolumeGroupNodeStatus (ns_Namespace st) (ns_Name st) = Found ())
     (ApiDelete KLVMVolumeGroupNodeStatus (ns_Namespace st) (ns_Name st))"

definition vg_listed :: "op_env \<Rightarrow> LVMVolumeGroup \<Rightarrow> op_history \<Rightarrow> bool" where
  "vg_listed env vg h \<longleftrightarrow> (\<exists>vgs. vg \<in> set vgs
     \<and> seen (\<lambda>pre. api_error (list_vgs env pre [InNamespace (oe_Namespace env)]) = Inr vgs)
         (ApiList KLVMVolumeGroup [InNamespace (oe_Namespace env)]) h)"

text \<open>A volume group from which the marks of a node were removed and nothing else.\<close>

definition unmarked :: "op_env \<Rightarrow> string \<Rightarrow> LVMVolumeGroup \<Rightarrow> LVMVolumeGroup \<Rightarrow> bool" where
  "unmarked env node vg vg' \<longleftrightarrow>
     vg' = vg\<lparr>vg_Finalizers := fst (oe_RemoveFinalizer env (vg_Finalizers vg) (NodeCleanupFinalizer @ ''/'' @ node)),
              vg_Annotations := vg_Annotations vg'\<rparr>
     \<and> map_of (vg_Annotations vg') = (map_of (vg_Annotations vg))(DevicesWipedAnnotationPrefix @ node := None)"

lemma without_node_unmarked: "unmarked env node vg (fst (without_node env node vg))"
  by (auto simp: unmarked_def without_node_def cleanup_finalizer_def Let_def delete_conv split: prod.split)

lemma cut_first_remove1: "cut_first f xs = (if f \<in> set xs then Some (remove1 f xs) else None)"
  by (induction xs) auto

lemma removeDeleteProtectionFinalizer_eq:
  "removeDeleteProtectionFinalizer st = (st\<lparr>ns_Finalizers := remove1 DeleteProtectionFinalizer (ns_Finalizers st)\<rparr>,
     DeleteProtectionFinalizer \<in> set (ns_Finalizers st))"
  by (simp add: removeDeleteProtectionFinalizer_def cut_first_remove1 remove1_idem)

fun removal_guard :: "op_env \<Rightarrow> string \<Rightarrow> string \<Rightarrow> op_history \<Rightarrow> op_action \<Rightarrow> bool" where
  "removal_guard env ns n h (ApiDelete k ns' n') = (\<exists>st. node_gone env ns n st h
     \<and> k = KLVMVolumeGroupNodeStatus \<and> ns' = ns_Namespace st \<and> n' = ns_Name st)"
| "removal_guard env ns n h (ApiUpdate (ONodeStatus st')) = (\<exists>st. node_gone env ns n st h \<and> status_deleted env st h
     \<and> st' = st\<lparr>ns_Finalizers := remove1 DeleteProtectionFinalizer (ns_Finalizers st)\<rparr>)"
| "removal_guard env ns n h (ApiUpdate (OVolumeGroup vg')) = (\<exists>st vg. node_gone env ns n st h \<and> status_deleted env st h
     \<and> vg_listed env vg h \<and> unmarked env (ns_Name st) vg vg')"
| "removal_guard env ns n h a = (a \<in> reads)"

lemma removal_reads: "a \<in> reads \<Longrightarrow> removal_guard env ns n h a"
  by (cases a) (auto simp: reads_def)

lemma stable_node_gone [simp, intro]: "stable (node_gone env ns n st)"
  unfolding node_gone_def[abs_def] by (intro stable_conj) simp_all

lemma stable_status_deleted [simp, intro]: "stable (status_deleted env st)"
  by (simp add: status_deleted_def)

lemma cleanup_guarded:
  "guarded (removal_guard env ns n) (\<lambda>h. node_gone env ns n st h \<and> status_deleted env st h)
     (cleanupVolumeGroupsForNode env (ns_Name st)) (\<lambda>_ _. True)"
proof -
  let ?P = "\<lambda>h. node_gone env ns n st h \<and> status_deleted env st h"
  let ?L = "\<lambda>vgs. seen (\<lambda>pre. api_error (list_vgs env pre [InNamespace (oe_Namespace env)]) = Inr vgs)
         (ApiList KLVMVolumeGroup [InNamespace (oe_Namespace env)])"
  have sP: "stable ?P" by (intro stable_conj) simp_all
  have sL: "stable (\<lambda>h. ?P h \<and> ?L vgs h)" for vgs by (intro stable_conj) simp_all
  have one: "guarded (removal_guard env ns n) (\<lambda>h. ?P h \<and> ?L vgs h)
      (let (vg', needsUpdate) = without_node env (ns_Name st) vg in
         if \<not> needsUpdate then ret None else do { u \<leftarrow> Update env (OVolumeGroup vg'); ret (map_option f u) })
      (\<lambda>_ h. ?P h \<and> ?L vgs h)" if "vg \<in> set vgs" for vg vgs f
    by (rule guarded_only[where A = "{ApiUpdate (OVolumeGroup (fst (without_node env (ns_Name st) vg)))}", OF _ sL])
      (use that in \<open>auto intro!: only_intros without_node_unmarked simp: Update_def vg_listed_def\<close>)
  show ?thesis
    unfolding cleanupVolumeGroupsForNode_def List_vgs_def
    apply (rule guarded_bind[OF guarded_ask_seen[OF sP]])
     apply (simp add: removal_reads)
    subgoal for r
    proof (cases "api_error r")
      case (Inr vgs)
      have "guarded (removal_guard env ns n) (\<lambda>h. ?P h \<and> ?L vgs h) (for_each vgs (\<lambda>vg.
          let (vg', needsUpdate) = without_node env (ns_Name st) vg in
         if \<not> needsUpdate then ret None else do { u \<leftarrow> Update env (OVolumeGroup vg');
           ret (map_option (\<lambda>err. Errorf ''failed to update LVMVolumeGroup %s: %w'' [S (vg_Name vg), W err]) u) }))
          (\<lambda>_ h. ?P h \<and> ?L vgs h)"
        by (rule for_each_keep[OF sL]) (rule one)
      then show ?thesis unfolding Inr sum.case by (rule guarded_conseq) (use Inr in \<open>auto simp: seen_def\<close>)
    qed (simp add: guarded_return)
    done
qed

text \<open>C23: The status and marks of a node are removed only when the node is gone.  In every run of the
  removal controller the status object is deleted only after the node of that name was found absent, its
  finalizer is dropped only after its deletion was accepted, and from a listed volume group nothing is
  removed but the cleanup finalizer and the wipe mark of that node.\<close>

theorem node_removal_guarded: "always (removal_guard env ns n) (Removal_Reconcile env ns n)"
proof (rule alwaysI)
  let ?G = "removal_guard env ns n"
  have del: "guarded ?G (node_gone env ns n st) (Delete env KLVMVolumeGroupNodeStatus (ns_Namespace st) (ns_Name st))
      (\<lambda>d h. node_gone env ns n st h \<and> (delete_error d = None \<longrightarrow> status_deleted env st h))" for st
    unfolding Delete_def
    by (rule guarded_conseq[OF guarded_ask_seen[OF stable_node_gone]])
      (auto simp: status_deleted_def delete_error_def split: api.splits)
  have fin: "guarded ?G (\<lambda>h. node_gone env ns n st h \<and> status_deleted env st h)
      (let (st', removed) = removeDeleteProtectionFinalizer st in if removed then Update env (ONodeStatus st') else ret None)
      (\<lambda>_ h. node_gone env ns n st h \<and> status_deleted env st h)" for st
    by (rule guarded_only[where A = "{ApiUpdate (ONodeStatus (fst (removeDeleteProtectionFinalizer st)))}"])
      (auto intro!: only_intros simp: Update_def removeDeleteProtectionFinalizer_eq)
  show "guarded ?G (\<lambda>_. True) (Removal_Reconcile env ns n) (\<lambda>_ _. True)"
    unfolding Removal_Reconcile_def
    apply (rule guarded_bind[OF guarded_ask_seen])
      apply (simp_all add: removal_reads)
    subgoal for r
      apply (cases r)
        apply (simp_all add: guarded_return)
      subgoal for st
        apply (rule guarded_bind[OF guarded_ask_seen])
          apply (simp_all add: removal_reads)
        subgoal for g
          apply (cases g)
            apply (simp_all add: guarded_return)
          apply (rule guarded_weaken[where P' = "node_gone env ns n st"])
           apply (rule guarded_bind[OF del])
           apply (rule guarded_option)
            apply (rule guarded_bind[OF guarded_weaken[OF fin]])
             apply simp
            apply (rule guarded_option)
             apply (rule guarded_catch_err[OF cleanup_guarded])
              apply (simp_all add: guarded_return)
          apply (auto simp: node_gone_def seen_def)
          done
        done
      done
    done
qed

text \<open>The marks of the other nodes stay, so that their devices are not wiped again.\<close>

lemma without_node_other:
  "NodeName venv \<noteq> n \<Longrightarrow> shouldWipeDevicesOnVolumeGroup venv (fst (without_node env n vg)) = shouldWipeDevicesOnVolumeGroup venv vg"
  by (auto simp: without_node_def Let_def shouldWipeDevicesOnVolumeGroup_def wipedAnnotation_def delete_conv'
      split: prod.split option.split)

section \<open>The migration of wipe marks\<close>

definition reported_on :: "string \<Rightarrow> LVMVolumeGroupNodeStatus list \<Rightarrow> LVMVolumeGroup \<Rightarrow> bool" where
  "reported_on node statuses vg \<longleftrightarrow> (\<exists>st \<in> set statuses. ns_Name st = node \<and> vg_Name vg \<in> vs_Name ` set (ns_LVMVGStatus st))"

text \<open>What annotating with a part of the entries leaves.\<close>

definition annotated :: "string \<Rightarrow> LVMVolumeGroup \<Rightarrow> string set \<Rightarrow> LVMVolumeGroup \<times> bool \<Rightarrow> bool" where
  "annotated t vg nodes r \<longleftrightarrow> (fst r)\<lparr>vg_Annotations := []\<rparr> = vg\<lparr>vg_Annotations := []\<rparr>
     \<and> snd r = (wiping_enabled vg \<and> nodes \<noteq> {})
     \<and> (\<forall>k. map_of (vg_Annotations (fst r)) k =
          (if wiping_enabled vg \<and> k \<in> (\<lambda>n. DevicesWipedAnnotationPrefix @ n) ` nodes then Some (wipedMarker t)
           else map_of (vg_Annotations vg) k))"

lemma annotated_same: "annotated t vg nodes r \<Longrightarrow> vg_Name (fst r) = vg_Name vg \<and> vg_Spec (fst r) = vg_Spec vg"
  by (cases "fst r"; cases vg) (simp add: annotated_def)

lemma annotated_entries:
  assumes "annotated t vg nodes acc"
  shows "annotated t vg (nodes \<union> (if vg_Name vg \<in> vs_Name ` set vs then {n} else {}))
    (fold (\<lambda>v (vg, updated). if vs_Name v = vg_Name vg \<and> wiping_enabled vg
       then (vg\<lparr>vg_Annotations := AList.update (DevicesWipedAnnotationPrefix @ n) (wipedMarker t) (vg_Annotations vg)\<rparr>, True)
       else (vg, updated)) vs acc)"
  using assms
proof (induction vs arbitrary: nodes acc)
  case (Cons v vs)
  obtain g u where acc: "acc = (g, u)" by force
  have g: "vg_Name g = vg_Name vg" "wiping_enabled g = wiping_enabled vg"
    using annotated_same[OF Cons.prems] by (simp_all add: acc wiping_enabled_def)
  show ?case
  proof (cases "vs_Name v = vg_Name vg \<and> wiping_enabled vg")
    case True
    have "annotated t vg (nodes \<union> {n}) (g\<lparr>vg_Annotations := AList.update (DevicesWipedAnnotationPrefix @ n) (wipedMarker t) (vg_Annotations g)\<rparr>, True)"
      using Cons.prems True by (auto simp: annotated_def acc update_conv')
    from Cons.IH[OF this] True g show ?thesis
      by (simp add: acc insert_commute split: if_splits)
  next
    case False
    show ?thesis
    proof (cases "wiping_enabled vg")
      case True
      with False g Cons.IH[OF Cons.prems] show ?thesis by (auto simp: acc)
    next
      case nw: False
      have "annotated t vg (nodes \<union> x) r = annotated t vg nodes r" for x r
        using nw by (simp add: annotated_def)
      with Cons.IH[OF Cons.prems] nw g show ?thesis by (simp add: acc)
    qed
  qed
qed simp

lemma annotate_vg_annotated: "annotated t vg {n. reported_on n statuses vg} (annotate_vg t statuses vg)"
proof -
  have "annotated t vg (nodes \<union> {n. reported_on n statuses vg}) (fold (\<lambda>st acc. fold (\<lambda>v (vg, updated).
       if vs_Name v = vg_Name vg \<and> wiping_enabled vg
       then (vg\<lparr>vg_Annotations := AList.update (DevicesWipedAnnotationPrefix @ ns_Name st) (wipedMarker t) (vg_Annotations vg)\<rparr>, True)
       else (vg, updated)) (ns_LVMVGStatus st) acc) statuses acc)" if "annotated t vg nodes acc" for nodes acc
    using that
  proof (induction statuses arbitrary: nodes acc)
    case (Cons st statuses)
    have "{n. reported_on n (st # statuses) vg} =
        (if vg_Name vg \<in> vs_Name ` set (ns_LVMVGStatus st) then {ns_Name st} else {}) \<union> {n. reported_on n statuses vg}"
      by (auto simp: reported_on_def)
    with Cons.IH[OF annotated_entries[OF Cons.prems, of "ns_LVMVGStatus st" "ns_Name st"]] show ?case
      by (simp add: Un_assoc del: image_iff)
  qed (simp add: reported_on_def)
  from this[of "{}" "(vg, False)"] show ?thesis by (simp add: annotate_vg_def annotated_def)
qed

text \<open>The migration keeps the devices of running nodes from being wiped again.  After the migration
  annotated a volume group, the volume group manager of a node wants to wipe its devices exactly if it
  wanted to before and the node has not reported the volume group.\<close>

lemma annotate_vg_prevents_wipe:
  "shouldWipeDevicesOnVolumeGroup venv (fst (annotate_vg t statuses vg)) \<longleftrightarrow>
     shouldWipeDevicesOnVolumeGroup venv vg \<and> \<not> reported_on (NodeName venv) statuses vg"
proof -
  note a = annotate_vg_annotated[of t vg statuses]
  have spec: "vg_Spec (fst (annotate_vg t statuses vg)) = vg_Spec vg" using annotated_same[OF a] by simp
  have m: "map_of (vg_Annotations (fst (annotate_vg t statuses vg))) (wipedAnnotation venv) =
      (if wiping_enabled vg \<and> reported_on (NodeName venv) statuses vg then Some (wipedMarker t)
       else map_of (vg_Annotations vg) (wipedAnnotation venv))"
    using a by (auto simp: annotated_def wipedAnnotation_def)
  show ?thesis
    by (auto simp: shouldWipeDevicesOnVolumeGroup_def spec m wiping_enabled_def split: option.splits)
qed

section \<open>The type of the cluster\<close>

text \<open>The type of the cluster is found out once.  A successful call leaves its answer in the cache, and
  every later call returns it without asking the API server; a failed call leaves the cache as it was.\<close>

lemma cluster_type_cached:
  "case run_state (Cached_GetType env) s of
     (Inr t, s') \<Rightarrow> cached_type s' = Some t \<and> run_state (Cached_GetType env) s' = (Inr t, s')
   | (Inl err, s') \<Rightarrow> cached_type s' = cached_type s"
proof -
  have keep: "cached_type (snd (run_state (Default_GetType env) s)) = cached_type s"
    by (simp add: Default_GetType_def Get_deleted_def split: api.split)
  show ?thesis
  proof (cases "cached_type s")
    case None
    obtain r s' where r: "run_state (Default_GetType env) s = (r, s')" by force
    with keep None show ?thesis by (cases r) (simp_all add: Cached_GetType_def run_catch)
  qed (simp add: Cached_GetType_def)
qed

section \<open>The capacity for a claim\<close>

text \<open>Every node that reports a capacity for the class reports one that can be read and does not exceed
  the request.\<close>

definition short_of :: "op_env \<Rightarrow> string \<Rightarrow> Quantity \<Rightarrow> Node list \<Rightarrow> bool" where
  "short_of env key req nodes \<longleftrightarrow> (\<forall>n \<in> set nodes. case map_of (node_Annotations n) key of None \<Rightarrow> True
     | Some s \<Rightarrow> (\<exists>q. ParseQuantity env s = Inr q \<and> q_bytes q \<le> q_bytes req))"

lemma capacity_loop_not_found:
  "(\<exists>msgs'. capacity_loop env key req msgs nodes = Some (False, msgs')) \<longleftrightarrow> short_of env key req nodes"
proof (induction nodes arbitrary: msgs)
  case (Cons n nodes)
  show ?case
  proof (cases "map_of (node_Annotations n) key")
    case None
    with Cons show ?thesis by (simp add: short_of_def)
  next
    case (Some s)
    show ?thesis
    proof (cases "ParseQuantity env s")
      case (Inr q)
      with Some Cons show ?thesis by (simp add: short_of_def Cmp_less not_less)
    qed (simp add: Some short_of_def)
  qed
qed (simp add: short_of_def)

lemma capacity_short: "capacity_loop env key req msgs nodes = Some (False, msgs') \<Longrightarrow> short_of env key req nodes"
  using capacity_loop_not_found[of env key req msgs nodes] by blast

definition pending_claim :: "op_env \<Rightarrow> string \<Rightarrow> string \<Rightarrow> PersistentVolumeClaim \<Rightarrow> StorageClass \<Rightarrow> op_history \<Rightarrow> bool" where
  "pending_claim env ns n pvc sc h \<longleftrightarrow>
     seen (\<lambda>pre. get_pvc env pre ns n = Found pvc) (ApiGet KPersistentVolumeClaim ns n) h
     \<and> \<not> pvc_Deleted pvc \<and> pvc_Phase pvc = ''Pending'' \<and> sc_Provisioner sc = TopolvmCSIDriverName
     \<and> (\<exists>scn. pvc_StorageClassName pvc = Some scn \<and> seen (\<lambda>pre. api_error (get_sc env pre scn) = Inr sc) (ApiGet KStorageClass [] scn) h)"

definition capacity_guard :: "op_env \<Rightarrow> string \<Rightarrow> string \<Rightarrow> op_history \<Rightarrow> op_action \<Rightarrow> bool" where
  "capacity_guard env ns n h a \<longleftrightarrow> (case a of
     ApiGet _ _ _ \<Rightarrow> True
   | ApiList _ _ \<Rightarrow> True
   | OpEvent k name warning reason msg \<Rightarrow> (\<exists>pvc sc nodes. pending_claim env ns n pvc sc h
       \<and> seen (\<lambda>pre. list_nodes env pre [] = Inr nodes) (ApiList KNode []) h
       \<and> short_of env (CapacityAnnotation @ Deref (map_of (sc_Parameters sc) DeviceClassKey) (DefaultDeviceClassAnnotationName env))
           (pvc_RequestedStorage pvc) nodes)
   | _ \<Rightarrow> False)"

lemma capacity_guard_simps [simp]: "capacity_guard env ns n h (ApiGet k ns' n')" "capacity_guard env ns n h (ApiList k opts)"
  by (simp_all add: capacity_guard_def)

text \<open>A claim is reported as too large only when it does not fit on any node.  In every run of the
  claim controller the event is published only for a claim that was found pending and unmarked, whose
  storage class was found to be provisioned by TopoLVM, after a listing of the nodes in which no node
  reports a capacity above the request; nothing is ever written.\<close>

lemma claim_event_justified: "always (capacity_guard env ns n) (PVC_Reconcile env ns n)"
proof (rule alwaysI)
  let ?G = "capacity_guard env ns n"
  have last: "guarded ?G (\<lambda>h. pending_claim env ns n pvc sc h \<and> seen (\<lambda>pre. list_nodes env pre [] = Inr nodes) (ApiList KNode []) h)
      (case capacity_loop env (CapacityAnnotation @ Deref (map_of (sc_Parameters sc) DeviceClassKey) (DefaultDeviceClassAnnotationName env))
          (pvc_RequestedStorage pvc) [] nodes of
         None \<Rightarrow> ret (done_result, None)
       | Some (found, msgs) \<Rightarrow> do { _ \<leftarrow> (if found then ret () else emit (OpEvent KPersistentVolumeClaim nm True r (f msgs)));
           ret (requeue_15, None) }) (\<lambda>_ _. True)" for pvc sc nodes nm r f
    apply (rule guarded_option, simp add: guarded_return)
    apply (rule guarded_prod)
    apply (rule guarded_bind[where R = "\<lambda>_ _. True"])
     apply (rule guarded_if, simp add: guarded_return)
     apply (rule guarded_emit)
      apply (auto simp: capacity_guard_def intro: guarded_return)
    apply (blast dest: capacity_short)
    done
  show "guarded ?G (\<lambda>_. True) (PVC_Reconcile env ns n) (\<lambda>_ _. True)"
    unfolding PVC_Reconcile_def List_nodes_def
    apply (rule guarded_bind[OF guarded_ask_seen], simp, simp)
    subgoal for r
      apply (cases r)
        apply (simp_all add: guarded_return)
      apply (intro impI)
      apply (rule guarded_option, simp add: guarded_return)
      apply (rule guarded_bind[OF guarded_ask_seen])
        apply simp_all
      subgoal for pvc scn s
        apply (cases "api_error s")
         apply (simp_all add: guarded_return)
        apply (intro impI)
        subgoal for sc
          apply (rule guarded_weaken[where P' = "pending_claim env ns n pvc sc"])
           apply (rule guarded_catch[OF guarded_ask_seen])
              apply (simp_all add: guarded_return)
            apply (simp add: pending_claim_def[abs_def])
            apply (rule stable_all_const)
            apply (auto intro: seen_mono)[1]
           apply (simp add: Let_def last)
          apply (auto simp: pending_claim_def seen_def)
          done
        done
      done
    done
qed

end
