(* ===== verification/Operator_Start.thy ===== *)
theory Operator_Start
  imports Op_Controllers
begin

text \<open>
  The process of the operator (\<open>cmd/operator/operator.go\<close>): what it finds out about the cluster, the
  migrations it runs, and the controllers and servers it sets up before the manager starts.  Library calls
  are \<open>Boot\<close> actions; signals and the flags of the command line are not part of the model.
\<close>

section \<open>Minimum sizes of volumes\<close>

definition DefaultMinimumAllocationSizeBlock :: string where "DefaultMinimumAllocationSizeBlock = ''8Mi''"
definition DefaultMinimumAllocationSizeXFS :: string where "DefaultMinimumAllocationSizeXFS = ''300Mi''"
definition DefaultMinimumAllocationSizeExt4 :: string where "DefaultMinimumAllocationSizeExt4 = ''32Mi''"

section \<open>Set-up\<close>

definition boot :: "op_env \<Rightarrow> lib_call \<Rightarrow> (go_error \<Rightarrow> go_error) \<Rightarrow> go_error option op \<Rightarrow> go_error option op" where
  "boot env c wrap k = catch_err (ask (\<lambda>h. oe_boot env h c) (Boot c)) (\<lambda>err. ret (Some (wrap err))) k"

text \<open>Snapshots are left out only if the kind does not exist in the cluster; any other error of the
  listing is ignored.\<close>

definition snapshotting :: "op_env \<Rightarrow> bool op" where
  "snapshotting env = do {
     r \<leftarrow> ask (\<lambda>h. list_count env h KVolumeSnapshotClass [Limit 1]) (ApiList KVolumeSnapshotClass [Limit 1]);
     ret (case r of Inl err \<Rightarrow> \<not> IsNoMatchError env err | Inr _ \<Rightarrow> True) }"

definition setupCSI :: "op_env \<Rightarrow> bool \<Rightarrow> go_error option op" where
  "setupCSI env snap =
     boot env (NewControllerServer [(''ext4'', DefaultMinimumAllocationSizeExt4), (''xfs'', DefaultMinimumAllocationSizeXFS)]
         DefaultMinimumAllocationSizeBlock) (\<lambda>err. err)
     (boot env (AddGRPCRunner DefaultCSISocket) (\<lambda>err. err)
     (boot env (AddProvisioner TopolvmCSIDriverName DefaultCSISocket) (\<lambda>err. Errorf ''unable to create CSI Provisioner: %w'' [W err])
     (let rest = boot env (AddResizer TopolvmCSIDriverName DefaultCSISocket) (\<lambda>err. err)
        (boot env AddHealthzCheck (\<lambda>err. Errorf ''unable to set up health check: %w'' [W err])
        (boot env AddReadyzCheck (\<lambda>err. Errorf ''unable to set up health check: %w'' [W err])
        (boot env StartManager (\<lambda>err. Errorf ''problem running manager: %w'' [W err]) (ret None))))
      in if snap
         then boot env (AddSnapshotter TopolvmCSIDriverName DefaultCSISocket)
           (\<lambda>err. Errorf ''unable to create CSI Snapshotter: %w'' [W err]) rest
         else rest)))"

definition setupControllers :: "op_env \<Rightarrow> cluster_Type \<Rightarrow> bool \<Rightarrow> go_error option op" where
  "setupControllers env t snap =
     boot env SetupTLSWatcher (\<lambda>err. Errorf ''unable to create controller for TLS config observation: %w'' [W err])
     (boot env (SetupClusterController t snap (oe_Namespace env) (oe_VGManagerCommand env))
       (\<lambda>err. Errorf ''unable to create LVMCluster controller: %w'' [W err])
     (boot env (SetupNodeRemoval (oe_Namespace env)) (\<lambda>err. Errorf ''unable to create NodeRemovalController controller: %w'' [W err])
     (boot env SetupWebhook (\<lambda>err. Errorf ''unable to create LVMCluster webhook: %w'' [W err])
     (boot env SetupPVController (\<lambda>err. Errorf ''unable to create PersistentVolume controller: %w'' [W err])
     (boot env SetupPVCController (\<lambda>err. Errorf ''unable to create PersistentVolumeClaim controller: %w'' [W err])
     (boot env SetupTopoLVMNode (\<lambda>err. Errorf ''unable to create TopoLVM Node controller: %w'' [W err])
     (boot env SetupTopoLVMPVC (\<lambda>err. Errorf ''unable to create TopoLVM PVC controller: %w'' [W err])
       (setupCSI env snap))))))))"

text \<open>The run of the process in the namespace it was given.  \<open>sno\<close>, \<open>disabled\<close> and \<open>lease\<close> are functions of
  the library's election settings, \<open>defaults\<close> its defaulted ones.\<close>

definition operate :: "op_env \<Rightarrow> ('le \<Rightarrow> 'le) \<Rightarrow> ('le \<Rightarrow> bool) \<Rightarrow> ('le \<Rightarrow> string) \<Rightarrow> 'le \<Rightarrow> go_error option op" where
  "operate env sno disabled lease defaults =
     boot env NewClient (\<lambda>err. Errorf ''unable to initialize setup client for pre-manager startup checks: %w'' [W err])
     (catch (LeaderElection_Resolve env sno defaults)
       (\<lambda>err. ret (Some (Errorf ''unable to resolve leader election config: %w'' [W err])))
       (\<lambda>le. do {
          _ \<leftarrow> modify (\<lambda>s. s\<lparr>cached_type := None\<rparr>);
          catch (Cached_GetType env)
            (\<lambda>err. ret (Some (Errorf ''unable to determine cluster type: %w'' [W err])))
            (\<lambda>t. do {
               snap \<leftarrow> snapshotting env;
               catch_err (RemovePreMicroLVMSComponents env)
                 (\<lambda>err. ret (Some (Errorf ''failed to run pre 4.16 MicroLVMS cleanup: %w'' [W err])))
                 (catch_err (AnnotateExistingLVMVolumeGroupsIfWipingEnabled env)
                   (\<lambda>err. ret (Some (Errorf ''failed to run wipe migration logic: %w'' [W err])))
                   (boot env FetchAPIServerTLSProfile (\<lambda>err. Errorf ''failed to get tls profile: %w'' [W err])
                   (boot env (NewManager (oe_Namespace env) (\<not> disabled le) (lease le))
                     (\<lambda>err. Errorf ''unable to start manager: %w'' [W err])
                     (setupControllers env t snap)))) }) }))"

definition operator_run :: "op_env \<Rightarrow> ('le \<Rightarrow> 'le) \<Rightarrow> ('le \<Rightarrow> bool) \<Rightarrow> ('le \<Rightarrow> string) \<Rightarrow> (string \<Rightarrow> 'le) \<Rightarrow> go_error option op" where
  "operator_run env sno disabled lease defaults = (case GetOperatorNamespace (oe_LookupEnv env) of
     Inl err \<Rightarrow> ret (Some (Errorf ''unable to get operatorNamespace: %w'' [W err]))
   | Inr ns \<Rightarrow> operate (env\<lparr>oe_Namespace := ns\<rparr>) sno disabled lease (defaults ns))"

section \<open>Readiness\<close>

definition operator_readyCheck :: "bool \<Rightarrow> go_error option" where
  "operator_readyCheck synced = (if \<not> synced then Some (Errorf ''informer cache not synced and thus not ready'' []) else None)"

definition operator_readyz :: "bool \<Rightarrow> go_error option \<Rightarrow> go_error option" where
  "operator_readyz synced started = (case operator_readyCheck synced of Some err \<Rightarrow> Some err | None \<Rightarrow> started)"

end
