(* ===== verification/Start_Props.thy ===== *)
theory Start_Props
  imports Op_Props Operator_Start
begin

text \<open>
  The start of the operator: in which order the migrations, the controllers and the manager come, and what
  the volume group managers of the nodes will do with the volume groups the migration has seen.
\<close>

section \<open>What the start has to respect\<close>

definition legacy_gone :: "op_env \<Rightarrow> kind \<times> string \<Rightarrow> op_history \<Rightarrow> bool" where
  "legacy_gone env obj = seen (\<lambda>pre. \<forall>err. delete env pre (fst obj) (oe_Namespace env) (snd obj) \<noteq> ApiErr err)
     (ApiDelete (fst obj) (oe_Namespace env) (snd obj))"

text \<open>A volume group is settled when for every node that reports it a version was accepted that the node
  does not wipe.\<close>

definition wipe_settled :: "op_env \<Rightarrow> LVMVolumeGroupNodeStatus list \<Rightarrow> LVMVolumeGroup \<Rightarrow> op_history \<Rightarrow> bool" where
  "wipe_settled env statuses vg h \<longleftrightarrow>
     (\<forall>venv. shouldWipeDevicesOnVolumeGroup venv vg \<and> reported_on (NodeName venv) statuses vg \<longrightarrow>
       (\<exists>vg'. vg_Name vg' = vg_Name vg \<and> \<not> shouldWipeDevicesOnVolumeGroup venv vg'
          \<and> seen (\<lambda>pre. update env pre (OVolumeGroup vg') = None) (ApiUpdate (OVolumeGroup vg')) h))"

definition wipes_migrated :: "op_env \<Rightarrow> op_history \<Rightarrow> bool" where
  "wipes_migrated env h \<longleftrightarrow> (let opts = [InNamespace (oe_Namespace env)] in
     \<exists>statuses. seen (\<lambda>pre. list_nodestatus env pre opts = Inr statuses) (ApiList KLVMVolumeGroupNodeStatus opts) h
       \<and> (statuses = [] \<or> (\<exists>vgs. seen (\<lambda>pre. list_vgs env pre opts = Found vgs) (ApiList KLVMVolumeGroup opts) h
            \<and> (\<forall>vg \<in> set vgs. wipe_settled env statuses vg h))))"

definition snapshots_known :: "op_env \<Rightarrow> bool \<Rightarrow> op_history \<Rightarrow> bool" where
  "snapshots_known env snap = seen (\<lambda>pre. snap = (\<forall>err. list_count env pre KVolumeSnapshotClass [Limit 1] = Inl err \<longrightarrow>
     \<not> IsNoMatchError env err)) (ApiList KVolumeSnapshotClass [Limit 1])"

definition boot_ok :: "op_env \<Rightarrow> lib_call \<Rightarrow> op_history \<Rightarrow> bool" where
  "boot_ok env c = seen (\<lambda>pre. oe_boot env pre c = None) (Boot c)"

definition prepared :: "op_env \<Rightarrow> op_history \<Rightarrow> bool" where
  "prepared env h \<longleftrightarrow> (\<forall>obj \<in> set legacy_objects. legacy_gone env obj h) \<and> wipes_migrated env h"

text \<open>Only the client for the preparations comes before them; the manager starts after everything is set
  up.\<close>

definition start_guard :: "op_env \<Rightarrow> op_history \<Rightarrow> op_action \<Rightarrow> bool" where
  "start_guard env h a = (case a of
     Boot c \<Rightarrow> c = NewClient \<or> (prepared env h \<and> (case c of
       SetupClusterController t snap ns cmd \<Rightarrow> ns = oe_Namespace env \<and> snapshots_known env snap h
     | AddSnapshotter driver sock \<Rightarrow> snapshots_known env True h
     | StartManager \<Rightarrow> (\<forall>c \<in> {SetupNodeRemoval (oe_Namespace env), SetupWebhook, SetupTLSWatcher,
           AddProvisioner TopolvmCSIDriverName DefaultCSISocket, AddResizer TopolvmCSIDriverName DefaultCSISocket,
           AddHealthzCheck, AddReadyzCheck}. boot_ok env c h)
         \<and> (\<exists>t snap. boot_ok env (SetupClusterController t snap (oe_Namespace env) (oe_VGManagerCommand env)) h
              \<and> snapshots_known env snap h
              \<and> (snap \<longrightarrow> boot_ok env (AddSnapshotter TopolvmCSIDriverName DefaultCSISocket) h))
     | _ \<Rightarrow> True))
   | _ \<Rightarrow> True)"

section \<open>The migrations\<close>

lemma set_permute [simp]: "set (permute is xs) = set xs"
proof (induction "is" xs rule: permute.induct)
  case (3 i "is" x xs)
  let ?ys = "x # xs" and ?j = "i mod length (x # xs)"
  have j: "?j < length ?ys" by simp
  have "set ?ys = insert (?ys ! ?j) (set (take ?j ?ys @ drop (Suc ?j) ?ys))"
    by (subst id_take_nth_drop[OF j]) simp
  with 3 show ?case by (simp only: permute.simps Let_def list.set)
qed simp_all

lemma stable_start [simp, intro]:
  "stable (legacy_gone env obj)" "stable (wipe_settled env statuses vg)" "stable (boot_ok env c)"
  "stable (snapshots_known env snap)"
     apply (simp_all add: legacy_gone_def boot_ok_def snapshots_known_def)
  apply (rule stable_all_const)
  using stable_seen unfolding wipe_settled_def stable_def by meson

lemma wipe_settled_mono: "wipe_settled env statuses vg h \<Longrightarrow> wipe_settled env statuses vg (h @ es)"
  using stable_start(2) by (simp add: stable_def)

lemma stable_wipes_migrated [simp, intro]: "stable (wipes_migrated env)"
  by (rule stable_all_const) (unfold wipes_migrated_def Let_def, blast intro: seen_mono wipe_settled_mono)

lemma stable_prepared [simp, intro]: "stable (prepared env)"
  using stable_start(1)[of env] stable_wipes_migrated[of env] unfolding prepared_def stable_def by blast

lemma seen_weaken: "seen P a h \<Longrightarrow> (\<And>pre. P pre \<Longrightarrow> Q pre) \<Longrightarrow> seen Q a h"
  unfolding seen_def by blast

lemma cleanup_all_guarded:
  assumes G: "\<And>h k ns n. G h (ApiDelete k ns n)"
  shows "guarded G (\<lambda>_. True) (cleanup_all env objs) (\<lambda>errs h. errs = [] \<longrightarrow> (\<forall>obj \<in> set objs. legacy_gone env obj h))"
proof (induction objs)
  case (Cons obj objs)
  have one: "guarded G (\<lambda>_. True) (deleteImmediatelyIfExists env obj) (\<lambda>r h. r = None \<longrightarrow> legacy_gone env obj h)"
    unfolding deleteImmediatelyIfExists_def Delete_def
    by (rule guarded_bind, rule guarded_ask_seen)
      (auto intro!: guarded_return G simp: legacy_gone_def elim!: seen_weaken split: api.splits)
  have rest: "guarded G (\<lambda>h. r = None \<longrightarrow> legacy_gone env obj h) (cleanup_all env objs)
      (\<lambda>errs h. (errs = [] \<longrightarrow> (\<forall>obj \<in> set objs. legacy_gone env obj h)) \<and> (r = None \<longrightarrow> legacy_gone env obj h))" for r
    by (rule guarded_conseq[OF guarded_frame[OF Cons.IH, where R = "\<lambda>h. r = None \<longrightarrow> legacy_gone env obj h"]])
      (auto simp: stable_def dest: stable_start(1)[unfolded stable_def, rule_format])
  show ?case
    unfolding cleanup_all.simps
    by (rule guarded_bind[OF one], rule guarded_bind[OF rest], rule guarded_return) (auto split: option.splits)
qed (simp add: guarded_return)

lemma RemovePre_guarded:
  assumes "\<And>h k ns n. G h (ApiDelete k ns n)"
  shows "guarded G (\<lambda>_. True) (RemovePreMicroLVMSComponents env)
    (\<lambda>r h. r = None \<longrightarrow> (\<forall>obj \<in> set legacy_objects. legacy_gone env obj h))"
  unfolding RemovePreMicroLVMSComponents_def
  by (rule guarded_bind[OF guarded_gets], rule guarded_bind[OF cleanup_all_guarded[where G = G, OF assms]])
    (auto intro!: guarded_return)

text \<open>The accepted version of a volume group is not wiped on the nodes that report it.\<close>

lemma annotate_settles:
  assumes "seen (\<lambda>pre. update env pre (OVolumeGroup vg') = None) (ApiUpdate (OVolumeGroup vg')) h"
    and "vg' = fst (annotate_vg t statuses vg)"
  shows "wipe_settled env statuses vg h"
  using assms annotated_same[OF annotate_vg_annotated[of t vg statuses]]
  by (auto simp: wipe_settled_def annotate_vg_prevents_wipe)

lemma unannotated_settled:
  assumes "\<not> snd (annotate_vg t statuses vg)"
  shows "wipe_settled env statuses vg h"
proof -
  have "\<not> wiping_enabled vg \<or> {n. reported_on n statuses vg} = {}"
    using assms annotate_vg_annotated[of t vg statuses] by (simp add: annotated_def)
  then show ?thesis
    by (auto simp: wipe_settled_def shouldWipeDevicesOnVolumeGroup_def wiping_enabled_def split: option.splits)
qed

lemma Annotate_guarded:
  assumes G: "\<And>h k opts. G h (ApiList k opts)" "\<And>h x. G h (ApiUpdate x)"
  shows "guarded G (\<lambda>_. True) (AnnotateExistingLVMVolumeGroupsIfWipingEnabled env)
    (\<lambda>r h. r = None \<longrightarrow> wipes_migrated env h)"
proof -
  let ?opts = "[InNamespace (oe_Namespace env)]"
  let ?S = "\<lambda>statuses. seen (\<lambda>pre. list_nodestatus env pre ?opts = Inr statuses) (ApiList KLVMVolumeGroupNodeStatus ?opts)"
  let ?V = "\<lambda>vgs. seen (\<lambda>pre. list_vgs env pre ?opts = Found vgs) (ApiList KLVMVolumeGroup ?opts)"
  have upd: "guarded G (\<lambda>_. True) (Update env (OVolumeGroup vg))
      (\<lambda>r h. seen (\<lambda>pre. update env pre (OVolumeGroup vg) = r) (ApiUpdate (OVolumeGroup vg)) h)" for vg
    unfolding Update_def by (rule guarded_conseq[OF guarded_ask_seen[where P = "\<lambda>_. True"]]) (auto intro: G)
  have one: "guarded G (\<lambda>_. True) (do {
        h \<leftarrow> gets tr;
        let (vg', updated) = annotate_vg (oe_now env h) statuses vg;
        if updated then do {
          u \<leftarrow> Update env (OVolumeGroup vg');
          ret (map_option (\<lambda>err. Errorf ''failed to add wiped annotation to LVMVolumeGroup instance: %w'' [W err]) u) }
        else ret None }) (\<lambda>r h. True \<and> (r = None \<longrightarrow> wipe_settled env statuses vg h))" for statuses vg
    by (rule guarded_bind[OF guarded_gets])
      (auto simp: Let_def split_beta intro!: guarded_if guarded_bind[OF upd] guarded_return
        intro: annotate_settles[OF _ refl] unannotated_settled)
  have all: "guarded G (\<lambda>h. ?S statuses h \<and> ?V vgs h) (for_each vgs (\<lambda>vg. do {
        h \<leftarrow> gets tr;
        let (vg', updated) = annotate_vg (oe_now env h) statuses vg;
        if updated then do {
          u \<leftarrow> Update env (OVolumeGroup vg');
          ret (map_option (\<lambda>err. Errorf ''failed to add wiped annotation to LVMVolumeGroup instance: %w'' [W err]) u) }
        else ret None })) (\<lambda>r h. r = None \<longrightarrow> wipes_migrated env h)" for statuses vgs
    by (rule guarded_conseq[OF guarded_frame[OF guarded_for_each[OF _ _ one], where R = "\<lambda>h. ?S statuses h \<and> ?V vgs h"]])
      (auto simp: wipes_migrated_def Let_def stable_def intro: seen_mono wipe_settled_mono)
  have vgs: "guarded G (?S statuses) (ask (\<lambda>h. list_vgs env h ?opts) (ApiList KLVMVolumeGroup ?opts))
      (\<lambda>r h. ?S statuses h \<and> seen (\<lambda>pre. list_vgs env pre ?opts = r) (ApiList KLVMVolumeGroup ?opts) h)" for statuses
    by (rule guarded_ask_seen) (simp_all add: G)
  have statuses: "guarded G (\<lambda>_. True) (ask (\<lambda>h. list_nodestatus env h ?opts) (ApiList KLVMVolumeGroupNodeStatus ?opts))
      (\<lambda>r h. seen (\<lambda>pre. list_nodestatus env pre ?opts = r) (ApiList KLVMVolumeGroupNodeStatus ?opts) h)"
    by (rule guarded_conseq[OF guarded_ask_seen[where P = "\<lambda>_. True"]]) (auto intro: G)
  have none: "wipes_migrated env h" if "?S statuses h" "?V [] h" for h statuses
    unfolding wipes_migrated_def Let_def using that by (intro exI[of _ statuses] conjI disjI2 exI[of _ "[]"]) simp_all
  show ?thesis
    unfolding AnnotateExistingLVMVolumeGroupsIfWipingEnabled_def List_nodestatus_def List_vgs_def
    apply (rule guarded_catch[OF statuses])
     apply (rule guarded_return, simp)
    apply (rule guarded_if)
     apply (rule guarded_return, auto simp: wipes_migrated_def Let_def)[1]
    apply (rule guarded_bind[OF vgs])
    subgoal for statuses r
      by (cases r) (auto simp: api_error_def none intro!: guarded_return guarded_if all[unfolded Let_def])
    done
qed

section \<open>The order of the start\<close>

lemma boot_guarded:
  assumes "stable P" and "\<And>h. P h \<Longrightarrow> G h (Boot c)"
    and "guarded G (\<lambda>h. P h \<and> boot_ok env c h) k (\<lambda>_ _. True)"
  shows "guarded G P (boot env c wrap k) (\<lambda>_ _. True)"
  unfolding boot_def
  apply (rule guarded_catch_err[OF guarded_ask_seen[OF assms(1)]])
    apply (erule assms(2))
   apply (simp add: guarded_return)
  apply (rule guarded_weaken[OF assms(3)])
  apply (auto simp: boot_ok_def)
  done

lemma start_guard_simps [simp]: "start_guard env h (ApiGet k ns n)" "start_guard env h (ApiList k opts)"
  "start_guard env h (ApiDelete k ns n)" "start_guard env h (ApiUpdate x)" "start_guard env h (Boot NewClient)"
  by (simp_all add: start_guard_def)

text \<open>The set-up after the preparations: what is known of the snapshot kind stays known.\<close>

lemma setupControllers_guarded:
  "guarded (start_guard env) (\<lambda>h. prepared env h \<and> snapshots_known env snap h) (setupControllers env t snap) (\<lambda>_ _. True)"
  unfolding setupControllers_def setupCSI_def Let_def
  by (intro boot_guarded guarded_if) (simp_all add: start_guard_def stable_conj, auto intro!: guarded_return)

text \<open>Reading the cluster before the preparations.\<close>

lemma reads_guarded: "only {a. (\<exists>k ns n. a = ApiGet k ns n) \<or> (\<exists>k opts. a = ApiList k opts)} m \<Longrightarrow>
    guarded (start_guard env) P m (\<lambda>_ _. True)"
  by (rule guarded_any) auto

lemma Resolve_guarded: "guarded (start_guard env) P (LeaderElection_Resolve env sno d) (\<lambda>_ _. True)"
  by (rule reads_guarded) (auto simp: LeaderElection_Resolve_def IsSNO_def Let_def intro!: only_intros)

lemma GetType_guarded: "guarded (start_guard env) P (Cached_GetType env) (\<lambda>_ _. True)"
  by (rule reads_guarded)
    (auto simp: Cached_GetType_def Default_GetType_def Get_deleted_def intro!: only_intros split: option.split api.split)

lemma snapshotting_guarded:
  "guarded (start_guard env) (\<lambda>_. True) (snapshotting env) (\<lambda>snap. snapshots_known env snap)"
  unfolding snapshotting_def
  by (rule guarded_bind, rule guarded_ask_seen)
    (auto simp: snapshots_known_def intro!: guarded_return elim!: seen_weaken split: sum.splits)

lemma operate_guarded: "always (start_guard env) (operate env sno disabled lease defaults)"
proof -
  have pre: "guarded (start_guard env) (snapshots_known env snap) (RemovePreMicroLVMSComponents env)
      (\<lambda>r h. (r = None \<longrightarrow> (\<forall>obj \<in> set legacy_objects. legacy_gone env obj h)) \<and> snapshots_known env snap h)" for snap
    by (rule guarded_weaken[OF guarded_frame[OF RemovePre_guarded]]) simp_all
  let ?K = "\<lambda>snap h. (\<forall>obj \<in> set legacy_objects. legacy_gone env obj h) \<and> snapshots_known env snap h"
  have K: "stable (?K snap)" for snap by (intro stable_conj stable_all) auto
  have wipe: "guarded (start_guard env) (?K snap) (AnnotateExistingLVMVolumeGroupsIfWipingEnabled env)
      (\<lambda>r h. (r = None \<longrightarrow> wipes_migrated env h) \<and> ?K snap h)" for snap
    by (rule guarded_weaken[OF guarded_frame[OF Annotate_guarded K]]) simp_all
  have rest: "guarded (start_guard env) (\<lambda>h. wipes_migrated env h \<and> ?K snap h)
      (boot env FetchAPIServerTLSProfile w1 (boot env (NewManager ns le l) w2 (setupControllers env t snap))) (\<lambda>_ _. True)"
    for snap w1 w2 ns le l t
    apply (rule guarded_weaken[where P' = "\<lambda>h. prepared env h \<and> snapshots_known env snap h"])
     apply (intro boot_guarded)
         apply (simp_all add: start_guard_def stable_conj prepared_def[symmetric])
     apply (rule guarded_weaken[OF setupControllers_guarded])
    by (auto simp: prepared_def)
  show ?thesis
    unfolding always_def operate_def
    apply (rule boot_guarded, simp_all)
    apply (rule guarded_catch[OF Resolve_guarded])
     apply (rule guarded_return, simp)
    apply (rule guarded_bind[OF guarded_modify], simp)
    apply (rule guarded_catch[OF GetType_guarded])
     apply (rule guarded_return, simp)
    apply (rule guarded_bind[OF snapshotting_guarded])
    apply (rule guarded_catch_err[OF pre])
     apply (rule guarded_return, simp)
    subgoal for _ _ _ snap
      by (rule guarded_catch_err[OF guarded_weaken[OF wipe[of snap]]], simp, rule guarded_return, simp,
          rule guarded_weaken[OF rest]) simp
    done
qed


end
