(* ===== verification/Process_World.thy ===== *)
theory Process_World
  imports VGM_DaemonSet
begin

text \<open>
  The outside world of the processes: what the start-up code of \<open>cmd/vgmanager\<close>, the file lock of
  \<open>vgmanager/util\<close> and the runners of \<open>internal/csi\<close> do, and what they are answered.  A call into a
  library that sets something up and may fail (\<open>lib_call\<close>) is one action; the order of these calls and what the
  program does on their errors is the program's own.
\<close>

section \<open>Actions\<close>

datatype fs_op = FsCreate | FsWrite | FsRemove | FsRename | FsChmod

text \<open>What the loop of the file watcher receives from one of its two channels.\<close>

datatype watch_item = WatchEvent string "fs_op list" | WatchErr go_error

datatype proc_action =
    Mkdir string | OpenLockFile string | CheckContext | TryFlock | FlockUnlock | CloseLockFile | Sleep int
  | Lib lib_call | ReadConfig string | StatPath string | MkdirAll string | WatchAdd string
  | Cancel "go_error option" | CheckCause | Exit int
  | RemoveSocket string | ListenUnix string | ServeGRPC string | AwaitDone | GracefulStop | ForceStop

type_synonym proc_history = "proc_action list"

section \<open>The environment\<close>

text \<open>\<open>context.Canceled\<close> aside, the cause of a cancelled context is the error it was cancelled with;
  \<open>pe_cause\<close> is \<open>None\<close> as long as it is not cancelled.\<close>

record proc_env =
  LookupEnv :: "string \<Rightarrow> string option"
  pe_mkdir :: "proc_history \<Rightarrow> string \<Rightarrow> go_error option"
  IsExist :: "go_error \<Rightarrow> bool"
  pe_open :: "proc_history \<Rightarrow> string \<Rightarrow> go_error option"
  pe_ctx_err :: "proc_history \<Rightarrow> go_error option"
  pe_flock :: "proc_history \<Rightarrow> go_error option"
  pe_unlock :: "proc_history \<Rightarrow> go_error option"
  pe_close :: "proc_history \<Rightarrow> go_error option"
  pe_lib :: "proc_history \<Rightarrow> lib_call \<Rightarrow> go_error option"
  pe_read :: "proc_history \<Rightarrow> string \<Rightarrow> string res"
  pe_Unmarshal :: "string \<Rightarrow> lvmd_Config \<times> go_error option"
  pe_stat :: "proc_history \<Rightarrow> string \<Rightarrow> bool api"
  pe_mkdirAll :: "proc_history \<Rightarrow> string \<Rightarrow> go_error option"
  pe_watch :: "proc_history \<Rightarrow> string \<Rightarrow> go_error option"
  pe_cause :: "proc_history \<Rightarrow> go_error option"
  pe_remove :: "proc_history \<Rightarrow> string \<Rightarrow> unit api"
  pe_listen :: "proc_history \<Rightarrow> string \<Rightarrow> go_error option"
  pe_stopped :: "proc_history \<Rightarrow> bool"
  pe_synced :: "proc_history \<Rightarrow> bool"

type_synonym 'a proc = "(proc_action traced, 'a) state"

definition os_Getenv :: "proc_env \<Rightarrow> string \<Rightarrow> string" where
  "os_Getenv env n = (case LookupEnv env n of None \<Rightarrow> [] | Some v \<Rightarrow> v)"

text \<open>A library call whose error is wrapped and returned.\<close>

definition lib :: "proc_env \<Rightarrow> lib_call \<Rightarrow> (go_error \<Rightarrow> go_error) \<Rightarrow> go_error option proc \<Rightarrow> go_error option proc" where
  "lib env c wrap k = catch_err (ask (\<lambda>h. pe_lib env h c) (Lib c)) (\<lambda>err. ret (Some (wrap err))) k"

text \<open>The library calls that have succeeded.\<close>

definition lib_ok :: "proc_env \<Rightarrow> lib_call \<Rightarrow> proc_history \<Rightarrow> bool" where
  "lib_ok env c = seen (\<lambda>pre. pe_lib env pre c = None) (Lib c)"

lemma stable_lib_ok [simp, intro]: "stable (lib_ok env c)"
  by (simp add: lib_ok_def)

lemma lib_guarded:
  assumes "stable P" and "\<And>h. P h \<Longrightarrow> G h (Lib c)"
    and "guarded G (\<lambda>h. P h \<and> lib_ok env c h) k (\<lambda>_ _. True)"
  shows "guarded G P (lib env c wrap k) (\<lambda>_ _. True)"
  unfolding lib_def
  apply (rule guarded_catch_err[OF guarded_ask_seen[OF assms(1)]])
    apply (erule assms(2))
   apply (simp add: guarded_return)
  apply (rule guarded_weaken[OF assms(3)])
  apply (auto simp: lib_ok_def)
  done

section \<open>A concrete environment\<close>

definition calm_proc :: proc_env where
  "calm_proc = \<lparr>LookupEnv = (\<lambda>n. Some n), pe_mkdir = (\<lambda>h p. None), IsExist = (\<lambda>_. False), pe_open = (\<lambda>h p. None),
     pe_ctx_err = (\<lambda>h. None), pe_flock = (\<lambda>h. None), pe_unlock = (\<lambda>h. None), pe_close = (\<lambda>h. None),
     pe_lib = (\<lambda>h c. None), pe_read = (\<lambda>h p. Inl absent), pe_Unmarshal = (\<lambda>s. (sample_config, None)),
     pe_stat = (\<lambda>h p. Found True), pe_mkdirAll = (\<lambda>h p. None), pe_watch = (\<lambda>h p. None), pe_cause = (\<lambda>h. None),
     pe_remove = (\<lambda>h p. Found ()), pe_listen = (\<lambda>h p. None), pe_stopped = (\<lambda>h. True), pe_synced = (\<lambda>h. True)\<rparr>"

end
