(* ===== verification/CSI_Runners.thy ===== *)
theory CSI_Runners
  imports Process_World
begin

text \<open>
  The servers and controllers of the container storage interface (\<open>internal/csi\<close>): the registration of the
  plugin with the kubelet (\<open>registrar.go\<close>), the health server (\<open>health.go\<close>), the runner of a gRPC server on
  a socket (\<open>grpc_runner.go\<close>), and the start of the provisioner, the snapshotter and the resizer.
\<close>

section \<open>Registration\<close>

record registrationServer =
  rs_driverName :: string
  rs_endpoint :: string
  rs_version :: "string list"
  rs_registered :: bool

record PluginInfo =
  pi_Type :: string
  pi_Name :: string
  pi_Endpoint :: string
  pi_SupportedVersions :: "string list"

record RegistrationStatus =
  PluginRegistered :: bool
  status_Error :: string

definition ErrPluginRegistrationFailed :: go_error where
  "ErrPluginRegistrationFailed = ErrorsNew ''plugin registration failed''"

definition NewRegistrationServer :: "string \<Rightarrow> string \<Rightarrow> string list \<Rightarrow> registrationServer" where
  "NewRegistrationServer driver endpoint versions =
     \<lparr>rs_driverName = driver, rs_endpoint = endpoint, rs_version = versions, rs_registered = False\<rparr>"

definition GetInfo :: "registrationServer \<Rightarrow> PluginInfo" where
  "GetInfo e = \<lparr>pi_Type = ''CSIPlugin'', pi_Name = rs_driverName e, pi_Endpoint = rs_endpoint e,
     pi_SupportedVersions = rs_version e\<rparr>"

text \<open>The new state of the server and the error \<open>onFail\<close> is called with.\<close>

definition NotifyRegistrationStatus :: "registrationServer \<Rightarrow> RegistrationStatus \<Rightarrow> registrationServer \<times> go_error option" where
  "NotifyRegistrationStatus e status =
     (if \<not> PluginRegistered status
      then (e, Some (Errorf ''%w: %s'' [W ErrPluginRegistrationFailed, S (status_Error status)]))
      else (e\<lparr>rs_registered := PluginRegistered status\<rparr>, None))"

definition Registered :: "registrationServer \<Rightarrow> bool" where
  "Registered e = rs_registered e"

section \<open>Health\<close>

datatype ServingStatus = SERVING | NOT_SERVING

definition AlwaysHealthy :: "go_error option" where
  "AlwaysHealthy = None"

definition Health_Check :: "go_error option \<Rightarrow> ServingStatus" where
  "Health_Check checker = (case checker of Some err \<Rightarrow> NOT_SERVING | None \<Rightarrow> SERVING)"

section \<open>A gRPC server on a socket\<close>

text \<open>The server runs in a goroutine from \<open>ServeGRPC\<close> on; the deferred removal of the socket is the last
  step of every run that got as far as listening.\<close>

definition stopServer :: "proc_env \<Rightarrow> unit proc" where
  "stopServer env = do {
     inTime \<leftarrow> ask (pe_stopped env) GracefulStop;
     if inTime then ret () else emit ForceStop }"

definition GRPC_Start :: "proc_env \<Rightarrow> string \<Rightarrow> go_error option proc" where
  "GRPC_Start env sockFile = do {
     r \<leftarrow> ask (\<lambda>h. pe_remove env h sockFile) (RemoveSocket sockFile);
     case r of
       ApiErr err \<Rightarrow> ret (Some (Errorf ''failed to remove existing socket file before startup: %w'' [W err]))
     | _ \<Rightarrow> catch_err (ask (\<lambda>h. pe_listen env h sockFile) (ListenUnix sockFile))
         (\<lambda>err. ret (Some (Errorf ''failed to listen on %s: %w'' [S sockFile, W err])))
         (do {
            _ \<leftarrow> emit (ServeGRPC sockFile);
            _ \<leftarrow> emit AwaitDone;
            _ \<leftarrow> stopServer env;
            _ \<leftarrow> ask (\<lambda>h. pe_remove env h sockFile) (RemoveSocket sockFile);
            ret None }) }"

section \<open>Provisioner, snapshotter and resizer\<close>

text \<open>The connection is closed whatever the rest returns.\<close>

definition closing :: "go_error option proc \<Rightarrow> go_error option proc" where
  "closing m = do { r \<leftarrow> m; _ \<leftarrow> emit (Lib CSIClose); ret r }"

text \<open>The last steps of the provisioner: caches are filled before the controllers run until they are told
  to stop.\<close>

definition runProvisioner :: "proc_env \<Rightarrow> string \<Rightarrow> go_error option proc" where
  "runProvisioner env driver = do {
     _ \<leftarrow> emit (Lib StartInformers);
     synced \<leftarrow> ask (pe_synced env) (Lib WaitForCacheSync);
     if \<not> synced then ret (Some (Errorf ''failed to sync Informers'' []))
     else do { _ \<leftarrow> emit (Lib (RunProvisioner driver)); ret None } }"

definition Provisioner_Start :: "proc_env \<Rightarrow> string \<Rightarrow> string \<Rightarrow> go_error option proc" where
  "Provisioner_Start env driver endpoint =
     lib env (CSIConnect endpoint) (\<lambda>err. err)
     (closing (lib env GetDriverCapabilities (\<lambda>err. err)
     (lib env NewClientset (\<lambda>err. err)
     (lib env NewSnapClientset (\<lambda>err. err)
     (lib env SetFeatureGate (\<lambda>err. err)
       (let namespace = os_Getenv env ''NAMESPACE''; podName = os_Getenv env ''NAME'' in
        if namespace = [] then ret (Some (Errorf ''need NAMESPACE env variable for CSIStorageCapacity objects'' []))
        else if podName = [] then ret (Some (Errorf ''need NAME env variable to determine CSIStorageCapacity owner'' []))
        else lib env (OwnerLookup namespace podName) (\<lambda>err. Errorf ''look up owner(s) of pod failed: %w'' [W err])
          (runProvisioner env driver)))))))"

definition Snapshotter_Start :: "proc_env \<Rightarrow> string \<Rightarrow> string \<Rightarrow> go_error option proc" where
  "Snapshotter_Start env driver endpoint =
     lib env (CSIConnect endpoint) (\<lambda>err. err)
     (closing (lib env NewClientset (\<lambda>err. err)
     (lib env NewSnapClientset (\<lambda>err. err)
       (do { _ \<leftarrow> emit (Lib StartInformers); _ \<leftarrow> emit (Lib (RunSnapshotter driver)); ret None }))))"

definition Resizer_Start :: "proc_env \<Rightarrow> string \<Rightarrow> string \<Rightarrow> go_error option proc" where
  "Resizer_Start env driver endpoint =
     lib env (NewCSIClient endpoint) (\<lambda>err. err)
     (lib env NewClientset (\<lambda>err. err)
     (lib env (NewResizerFromClient driver) (\<lambda>err. err)
       (do { _ \<leftarrow> emit (Lib StartInformers); _ \<leftarrow> emit (Lib (RunResizer driver)); ret None })))"

end
