(* ===== verification/VGM_Process.thy ===== *)
theory VGM_Process
  imports CSI_Runners
begin

text \<open>
  The process of the volume group manager (\<open>cmd/vgmanager/vgmanager.go\<close>) and the file lock that lets only
  one of them run on a node (\<open>vgmanager/util/startlock.go\<close>).  The loop that waits for the lock may go on
  for ever, so it has a number of rounds it may take; \<open>None\<close> is a run that is still waiting after them.
\<close>

section \<open>The file lock\<close>

definition EAGAIN :: go_error where "EAGAIN = ErrorsNew ''resource temporarily unavailable''"

definition lock_file :: "string \<Rightarrow> string" where
  "lock_file name = FileLockDir @ ''/'' @ name @ ''.lock''"

definition NewFileLock :: "proc_env \<Rightarrow> string \<Rightarrow> go_error option proc" where
  "NewFileLock env name = do {
     r \<leftarrow> ask (\<lambda>h. pe_mkdir env h FileLockDir) (Mkdir FileLockDir);
     case (case r of None \<Rightarrow> None | Some err \<Rightarrow> if IsExist env err then None else Some err) of
       Some err \<Rightarrow> ret (Some err)
     | None \<Rightarrow> ask (\<lambda>h. pe_open env h (lock_file name)) (OpenLockFile (lock_file name)) }"

definition TryLock :: "proc_env \<Rightarrow> go_error option proc" where
  "TryLock env = ask (pe_flock env) TryFlock"

definition Unlock :: "proc_env \<Rightarrow> go_error option proc" where
  "Unlock env = ask (pe_unlock env) FlockUnlock"

definition Lock_Close :: "proc_env \<Rightarrow> go_error option proc" where
  "Lock_Close env = catch_err (ask (pe_unlock env) FlockUnlock) (\<lambda>err. ret (Some err)) (ask (pe_close env) CloseLockFile)"

fun WaitForLock :: "proc_env \<Rightarrow> nat \<Rightarrow> go_error option option proc" where
  "WaitForLock env 0 = ret None"
| "WaitForLock env (Suc rounds) = do {
     cancelled \<leftarrow> ask (pe_ctx_err env) CheckContext;
     case cancelled of
       Some err \<Rightarrow> ret (Some (Some err))
     | None \<Rightarrow> do {
         r \<leftarrow> TryLock env;
         case r of
           None \<Rightarrow> ret (Some None)
         | Some err \<Rightarrow>
             if \<not> errors_Is err EAGAIN
             then ret (Some (Some (Errorf
                 ''could not wait for lock because it was already locked by another process: %w'' [W err])))
             else do { _ \<leftarrow> emit (Sleep 3); WaitForLock env rounds } } }"

section \<open>Configuration and readiness\<close>

definition DefaultFileConfigDir :: string where "DefaultFileConfigDir = ''/etc/topolvm''"

definition ErrConfigModified :: go_error where "ErrConfigModified = ErrorsNew ''lvmd config file is modified''"
definition ErrTLSProfileModified :: go_error where "ErrTLSProfileModified = ErrorsNew ''API server TLS profile changed''"
definition ErrNoDeviceClassesAvailable :: go_error where
  "ErrNoDeviceClassesAvailable = ErrorsNew ''no device classes in lvmd.yaml configured, can not startup correctly''"
definition ErrCSIPluginNotYetRegistered :: go_error where
  "ErrCSIPluginNotYetRegistered = ErrorsNew ''CSI plugin not yet registered''"

definition registrationPath :: string where
  "registrationPath = GetAbsoluteKubeletPath CSIKubeletRootDir @ ''plugins/'' @ TopolvmCSIDriverName @ ''/node/csi-topolvm.sock''"

definition pluginRegistrationSocketPath :: string where
  "pluginRegistrationSocketPath = DefaultPluginRegistrationPath @ ''/'' @ TopolvmCSIDriverName @ ''-reg.sock''"

text \<open>The configuration is unmarshalled into an empty one, which an error may leave partly filled.\<close>

definition loadConfFile :: "proc_env \<Rightarrow> string \<Rightarrow> (lvmd_Config \<times> go_error option) proc" where
  "loadConfFile env cfgFilePath = do {
     r \<leftarrow> ask (\<lambda>h. pe_read env h cfgFilePath) (ReadConfig cfgFilePath);
     ret (case r of Inl err \<Rightarrow>
         (\<lparr>cfg_SocketName = [], cfg_DeviceClasses = [], cfg_LvcreateOptionClasses = []\<rparr>, Some err)
       | Inr b \<Rightarrow> pe_Unmarshal env b) }"

definition readyCheck :: "bool \<Rightarrow> lvmd_Config \<Rightarrow> registrationServer \<Rightarrow> go_error option" where
  "readyCheck synced config server =
     (if \<not> synced then Some (Errorf ''informer cache not synced and thus not ready'' [])
      else if length (cfg_DeviceClasses config) = 0 then Some ErrNoDeviceClassesAvailable
      else if \<not> Registered server then Some ErrCSIPluginNotYetRegistered
      else None)"

section \<open>The file watcher\<close>

text \<open>The directory is created if it is missing; anything else that is wrong with it stops the process.
  The loop ends when a channel is closed, here after the given items.\<close>

definition watchDirectory :: "proc_env \<Rightarrow> unit proc" where
  "watchDirectory env = do {
     st \<leftarrow> ask (\<lambda>h. pe_stat env h DefaultFileConfigDir) (StatPath DefaultFileConfigDir);
     _ \<leftarrow> (case st of
         NotFound _ \<Rightarrow> do { _ \<leftarrow> ask (\<lambda>h. pe_mkdirAll env h DefaultFileConfigDir) (MkdirAll DefaultFileConfigDir); ret () }
       | ApiErr err \<Rightarrow> emit (Cancel (Some err))
       | Found isDir \<Rightarrow> if \<not> isDir then emit (Cancel None) else ret ());
     _ \<leftarrow> ask (\<lambda>h. pe_watch env h DefaultFileConfigDir) (WatchAdd DefaultFileConfigDir);
     ret () }"

fun handleWatch :: "watch_item \<Rightarrow> unit proc" where
  "handleWatch (WatchErr err) = ret ()"
| "handleWatch (WatchEvent name ops) =
     (if name \<noteq> DefaultFileConfigPath then ret ()
      else if FsWrite \<in> set ops \<or> FsRemove \<in> set ops \<or> FsChmod \<in> set ops
        then emit (Cancel (Some (Errorf ''%w: %s'' [W ErrConfigModified, S name])))
        else ret ())"

definition watchTopoLVMAndNotify :: "proc_env \<Rightarrow> watch_item list \<Rightarrow> unit proc" where
  "watchTopoLVMAndNotify env items = do { _ \<leftarrow> watchDirectory env; for_do items handleWatch }"

section \<open>The process\<close>

text \<open>The TopoLVM components are set up only when the configuration could be loaded.\<close>

definition setupTopoLVM :: "proc_env \<Rightarrow> string \<Rightarrow> go_error option proc \<Rightarrow> go_error option proc" where
  "setupTopoLVM env nodeName k =
     lib env (SetupLogicalVolumeReconciler nodeName) (\<lambda>err. Errorf ''unable to create LogicalVolumeReconciler: %w'' [W err])
     (lib env (AddMetricsExporter nodeName) (\<lambda>err. Errorf ''could not add topolvm metrics: %w'' [W err])
     (lib env (NewNodeServer nodeName) (\<lambda>err. Errorf ''could not setup topolvm node server: %w'' [W err])
     (lib env (AddGRPCRunner DefaultCSISocket) (\<lambda>err. Errorf ''could not add grpc runner for node server: %w'' [W err])
     (lib env (AddGRPCRunner pluginRegistrationSocketPath)
       (\<lambda>err. Errorf ''could not add grpc runner for registration server: %w'' [W err]) k))))"

definition startVGManager :: "proc_env \<Rightarrow> string \<Rightarrow> string \<Rightarrow> go_error option proc" where
  "startVGManager env nodeName ns =
     lib env (SetupVGManager nodeName ns) (\<lambda>err. Errorf ''unable to create controller VGManager: %w'' [W err])
     (lib env AddHealthzCheck (\<lambda>err. Errorf ''unable to set up health check: %w'' [W err])
     (lib env AddReadyzCheck (\<lambda>err. Errorf ''unable to set up ready check: %w'' [W err])
     (lib env NewWatcher (\<lambda>err. Errorf ''unable to set up file watcher: %w'' [W err])
     (lib env StartManager (\<lambda>err. Errorf ''problem running manager: %w'' [W err]) (ret None)))))"

definition setupAndStart :: "proc_env \<Rightarrow> go_error option proc" where
  "setupAndStart env =
     (let nodeName = os_Getenv env ''NODE_NAME'' in
      case GetOperatorNamespace (LookupEnv env) of
        Inl err \<Rightarrow> ret (Some (Errorf ''unable to get operatorNamespace: %w'' [W err]))
      | Inr ns \<Rightarrow>
          lib env NewClient (\<lambda>err. Errorf ''unable to initialize setup client for pre-manager startup checks: %w'' [W err])
          (lib env FetchAPIServerTLSProfile (\<lambda>err. Errorf ''failed to get tls profile: %w'' [W err])
          (lib env (NewManager ns False []) (\<lambda>err. Errorf ''unable to start manager: %w'' [W err])
          (lib env SetupTLSWatcher (\<lambda>err. Errorf ''unable to create controller for TLS config observation: %w'' [W err])
            (do {
               (lvmdConfig, loadErr) \<leftarrow> loadConfFile env DefaultFileConfigPath;
               (case loadErr of
                  Some err \<Rightarrow> startVGManager env nodeName ns
                | None \<Rightarrow> setupTopoLVM env nodeName (startVGManager env nodeName ns)) })))))"

text \<open>How the process ends once the manager has stopped: \<open>os.Exit\<close> or a return.\<close>

datatype run_result = Returned "go_error option" | Exited int

definition exit_code :: "go_error option \<Rightarrow> int option" where
  "exit_code cause = (case cause of
     None \<Rightarrow> None
   | Some c \<Rightarrow> if errors_Is c ErrConfigModified then Some 0
       else if errors_Is c ErrTLSProfileModified then Some 0
       else if errors_Is c ErrPluginRegistrationFailed then Some 0
       else Some 1)"

definition vgm_run :: "proc_env \<Rightarrow> run_result proc" where
  "vgm_run env = catch_err (setupAndStart env)
     (\<lambda>err. ret (Returned (Some err)))
     (do {
        cause \<leftarrow> ask (pe_cause env) CheckCause;
        case exit_code cause of
          None \<Rightarrow> ret (Returned None)
        | Some n \<Rightarrow> do { _ \<leftarrow> emit (Exit n); ret (Exited n) } })"

text \<open>The lock is closed on every return; an exit leaves it to the operating system.\<close>

definition runWithFileLock :: "proc_env \<Rightarrow> nat \<Rightarrow> run_result option proc" where
  "runWithFileLock env rounds =
     catch_err (NewFileLock env ''vgmanager'')
       (\<lambda>err. ret (Some (Returned (Some (Errorf ''unable to create lock: %w'' [W err])))))
       (do {
          w \<leftarrow> WaitForLock env rounds;
          case w of
            None \<Rightarrow> ret None
          | Some (Some err) \<Rightarrow> do {
              _ \<leftarrow> Lock_Close env;
              ret (Some (Returned (Some (Errorf ''unable to acquire lock: %w'' [W err])))) }
          | Some None \<Rightarrow> do {
              r \<leftarrow> vgm_run env;
              case r of
                Exited n \<Rightarrow> ret (Some (Exited n))
              | Returned e \<Rightarrow> do { _ \<leftarrow> Lock_Close env; ret (Some (Returned e)) } } })"

end
