(* ===== verification/Process_Props.thy ===== *)
theory Process_Props
  imports VGM_Process "HOL-Library.Sublist"
begin

text \<open>
  Properties of the processes: when the wait for the file lock ends and that the volume group manager runs
  only while it holds it, when a node reports itself ready, what restarts the process, and the order in
  which the provisioner starts.
\<close>

section \<open>Waiting for the lock\<close>

text \<open>The history after a number of rounds without the lock, and what a round decides at a history;
  \<open>None\<close> is another round.\<close>

definition after_rounds :: "proc_history \<Rightarrow> nat \<Rightarrow> proc_history" where
  "after_rounds h k = h @ concat (replicate k [CheckContext, TryFlock, Sleep 3])"

definition lock_outcome :: "proc_env \<Rightarrow> proc_history \<Rightarrow> go_error option option" where
  "lock_outcome env h = (case pe_ctx_err env h of
     Some err \<Rightarrow> Some (Some err)
   | None \<Rightarrow> (case pe_flock env (h @ [CheckContext]) of
       None \<Rightarrow> Some None
     | Some err \<Rightarrow> if errors_Is err EAGAIN then None
         else Some (Some (Errorf ''could not wait for lock because it was already locked by another process: %w'' [W err]))))"

lemma after_rounds_simps [simp]: "after_rounds h 0 = h"
  "after_rounds (h @ [CheckContext, TryFlock, Sleep 3]) k = after_rounds h (Suc k)"
  by (simp_all add: after_rounds_def)

lemma first_some_map: "first_some f (map g xs) = first_some (\<lambda>x. f (g x)) xs"
  by (induction xs) (simp_all split: option.split)

lemma first_some_upt_Suc:
  "first_some f [0..<Suc n] = (case f 0 of Some y \<Rightarrow> Some y | None \<Rightarrow> first_some (\<lambda>k. f (Suc k)) [0..<n])"
proof -
  have "[0..<Suc n] = 0 # map Suc [0..<n]" by (simp only: map_Suc_upt upt_conv_Cons zero_less_Suc)
  then show ?thesis by (simp only: first_some.simps first_some_map)
qed

lemma first_some_upt: "(\<exists>n y. first_some f [0..<n] = Some y) \<longleftrightarrow> (\<exists>k y. f k = Some y)"
proof
  show "\<exists>k y. f k = Some y" if "\<exists>n y. first_some f [0..<n] = Some y"
  proof -
    have "first_some f xs = Some y \<Longrightarrow> \<exists>k y. f k = Some y" for xs y
      by (induction xs) (auto split: option.splits)
    with that show ?thesis by blast
  qed
  show "\<exists>n y. first_some f [0..<n] = Some y" if "\<exists>k y. f k = Some y"
  proof -
    have "k \<in> set xs \<Longrightarrow> f k = Some y \<Longrightarrow> \<exists>z. first_some f xs = Some z" for k y xs
      by (induction xs) (auto split: option.splits)
    moreover have "k \<in> set [0..<Suc k]" for k :: nat by simp
    ultimately show ?thesis using that by blast
  qed
qed

lemma WaitForLock_result:
  "fst (run_state (WaitForLock env n) s) = first_some (\<lambda>k. lock_outcome env (after_rounds (tr s) k)) [0..<n]"
proof (induction n arbitrary: s)
  case (Suc n)
  have "fst (run_state (WaitForLock env (Suc n)) s) = (case lock_outcome env (tr s) of Some r \<Rightarrow> Some r
      | None \<Rightarrow> fst (run_state (WaitForLock env n) (s\<lparr>tr := tr s @ [CheckContext, TryFlock, Sleep 3]\<rparr>)))"
    by (simp add: TryLock_def lock_outcome_def split: option.split)
  then show ?case
    unfolding first_some_upt_Suc by (simp add: Suc.IH split: option.split)
qed simp

text \<open>C24: The wait for the lock ends as soon as it can.  Within a number of rounds \<open>WaitForLock\<close> returns
  what the first deciding round says: the error of a cancelled context, success when the lock was taken,
  or the error of the attempt unless it is that another process has the lock.  It returns at all exactly
  if some round decides, so a lock that is released at some point is taken.\<close>

theorem WaitForLock_returns:
  "fst (run_state (WaitForLock env n) s) = first_some (\<lambda>k. lock_outcome env (after_rounds (tr s) k)) [0..<n]
   \<and> ((\<exists>n r. fst (run_state (WaitForLock env n) s) = Some r) \<longleftrightarrow> (\<exists>k r. lock_outcome env (after_rounds (tr s) k) = Some r))"
  by (simp add: WaitForLock_result first_some_upt)

section \<open>Running with the lock\<close>

text \<open>A process holds the lock from an attempt that succeeded until it unlocks or exits.\<close>

definition lock_steps :: "proc_action set" where
  "lock_steps = {Mkdir FileLockDir, OpenLockFile (lock_file ''vgmanager''), CheckContext, TryFlock, Sleep 3,
     FlockUnlock, CloseLockFile}"

definition releases :: "proc_action \<Rightarrow> bool" where
  "releases a \<longleftrightarrow> a = FlockUnlock \<or> a \<in> range Exit"

definition holds_lock :: "proc_env \<Rightarrow> proc_history \<Rightarrow> bool" where
  "holds_lock env h \<longleftrightarrow> seen (\<lambda>pre. pe_flock env pre = None) TryFlock h \<and> (\<forall>a \<in> set h. \<not> releases a)"

definition lock_guard :: "proc_env \<Rightarrow> proc_history \<Rightarrow> proc_action \<Rightarrow> bool" where
  "lock_guard env h a \<longleftrightarrow> a \<in> lock_steps \<or> holds_lock env h"

lemma lock_guard_steps [simp, intro]: "a \<in> lock_steps \<Longrightarrow> lock_guard env h a"
  by (simp add: lock_guard_def)

lemma lock_steps_simps [simp]: "CheckContext \<in> lock_steps" "TryFlock \<in> lock_steps" "Sleep 3 \<in> lock_steps"
  "FlockUnlock \<in> lock_steps" "CloseLockFile \<in> lock_steps" "Mkdir FileLockDir \<in> lock_steps"
  "OpenLockFile (lock_file ''vgmanager'') \<in> lock_steps"
  by (simp_all add: lock_steps_def)

lemma releases_simps [simp]: "\<not> releases CheckContext" "\<not> releases TryFlock" "\<not> releases (Sleep n)"
  "\<not> releases (Lib c)" "\<not> releases (ReadConfig f)" "\<not> releases CheckCause" "\<not> releases (Mkdir f)"
  "\<not> releases (OpenLockFile f)" "releases FlockUnlock" "releases (Exit k)"
  by (auto simp: releases_def)

text \<open>A program keeps a fact that each of its actions keeps.\<close>

lemma guarded_keep:
  fixes m :: "(('act, 'b) traced_scheme, 'x) state"
  assumes "only A m" and step: "\<And>h a. P h \<Longrightarrow> a \<in> A \<Longrightarrow> G h a \<and> P (h @ [a])"
  shows "guarded G P m (\<lambda>_. P)"
  unfolding guarded_def
proof (intro allI impI)
  fix s :: "('act, 'b) traced_scheme"
  assume P: "P (tr s)"
  from assms(1) obtain es where es: "tr (snd (run_state m s)) = tr s @ es"
      "\<And>pre a post. es = pre @ a # post \<Longrightarrow> a \<in> A"
    unfolding only_def guarded_def by blast
  have inA: "a \<in> A" if "a \<in> set es" for a
    using that es(2) by (metis split_list)
  have keeps: "P (h @ xs)" if "P h" "set xs \<subseteq> A" for h xs
    using that
  proof (induction xs arbitrary: h)
    case (Cons x xs)
    then have "P (h @ [x])" using step[of h x] by simp
    from Cons.IH[OF this] Cons.prems show ?case by simp
  qed simp
  have "G (tr s @ pre) a" if "es = pre @ a # post" for pre a post
    using step[OF keeps[OF P, of pre], of a] inA that by auto
  moreover have "P (tr s @ es)" by (rule keeps[OF P]) (use inA in blast)
  ultimately show "\<exists>es. tr (snd (run_state m s)) = tr s @ es
      \<and> (\<forall>pre a post. es = pre @ a # post \<longrightarrow> G (tr s @ pre) a) \<and> P (tr (snd (run_state m s)))"
    using es(1) by auto
qed

lemma holds_lock_step: "holds_lock env h \<Longrightarrow> \<not> releases a \<Longrightarrow> holds_lock env (h @ [a])"
  using stable_seen[of "\<lambda>pre. pe_flock env pre = None" TryFlock] by (auto simp: holds_lock_def stable_def)

abbreviation unreleased :: "proc_history \<Rightarrow> bool" where
  "unreleased h \<equiv> \<forall>a \<in> set h. \<not> releases a"

lemma only_lib [only_intros]: "Lib c \<in> A \<Longrightarrow> only A k \<Longrightarrow> only A (lib env c wrap k)"
  unfolding lib_def by (intro only_intros)

lemma setupAndStart_only: "only (range Lib \<union> {ReadConfig DefaultFileConfigPath}) (setupAndStart env)"
  unfolding setupAndStart_def setupTopoLVM_def startVGManager_def loadConfFile_def Let_def
  by (cases "GetOperatorNamespace (LookupEnv env)") (auto intro!: only_intros split: prod.split option.split)

lemma vgm_run_guarded: "guarded (lock_guard env) (holds_lock env) (vgm_run env) (\<lambda>_ _. True)"
proof -
  have start: "guarded (lock_guard env) (holds_lock env) (setupAndStart env) (\<lambda>_. holds_lock env)"
    by (rule guarded_keep[OF setupAndStart_only]) (auto simp: lock_guard_def intro!: holds_lock_step)
  have cause: "guarded (lock_guard env) (holds_lock env) (ask (pe_cause env) CheckCause) (\<lambda>_. holds_lock env)"
    by (rule guarded_ask) (auto simp: lock_guard_def intro!: holds_lock_step)
  have exit: "guarded (lock_guard env) (holds_lock env) (emit (Exit n)) (\<lambda>_ _. True)" for n
    by (rule guarded_emit) (auto simp: lock_guard_def)
  show ?thesis
    unfolding vgm_run_def
    apply (rule guarded_catch_err[OF start])
     apply (rule guarded_return, simp)
    apply (rule guarded_bind[OF cause])
    apply (auto intro!: guarded_option guarded_bind[OF exit] guarded_return)
    done
qed

lemma WaitForLock_guarded:
  "guarded (lock_guard env) unreleased (WaitForLock env n)
     (\<lambda>r h. unreleased h \<and> (r = Some None \<longrightarrow> holds_lock env h))"
proof (induction n)
  case (Suc n)
  have ctx: "guarded (lock_guard env) unreleased (ask (pe_ctx_err env) CheckContext) (\<lambda>_. unreleased)"
    by (rule guarded_ask) auto
  have attempt: "guarded (lock_guard env) unreleased (TryLock env)
      (\<lambda>r h. unreleased h \<and> (r = None \<longrightarrow> holds_lock env h))"
    unfolding TryLock_def by (rule guarded_ask) (auto simp: holds_lock_def seen_def)
  have sleep: "guarded (lock_guard env) unreleased (emit (Sleep 3)) (\<lambda>_. unreleased)"
    by (rule guarded_emit) auto
  show ?case
    unfolding WaitForLock.simps
    apply (rule guarded_bind[OF ctx])
    apply (rule guarded_option)
     apply (rule guarded_bind[OF attempt])
     apply (rule guarded_option)
      apply (rule guarded_return, simp)
     apply (rule guarded_if)
      apply (rule guarded_return, simp)
     apply (rule guarded_weaken[OF guarded_bind[OF sleep Suc.IH]], simp)
    apply (rule guarded_return, simp)
    done
qed (auto intro!: guarded_return)

lemma Lock_Close_guarded: "guarded (lock_guard env) P (Lock_Close env) (\<lambda>_ _. True)"
  by (rule guarded_any[where A = lock_steps]) (auto simp: Lock_Close_def intro!: only_intros)

lemma runWithFileLock_guarded:
  "guarded (lock_guard env) (\<lambda>h. h = []) (runWithFileLock env rounds) (\<lambda>_ _. True)"
proof -
  have lock: "guarded (lock_guard env) (\<lambda>h. h = []) (NewFileLock env ''vgmanager'') (\<lambda>_. unreleased)"
    by (rule guarded_weaken[where P' = unreleased],
        rule guarded_keep[where A = "{Mkdir FileLockDir, OpenLockFile (lock_file ''vgmanager'')}"])
      (auto simp: NewFileLock_def intro!: only_intros split: option.split)
  have close: "guarded (lock_guard env) P (do { _ \<leftarrow> Lock_Close env; ret r }) (\<lambda>_ _. True)" for P and r :: "run_result option"
    by (rule guarded_bind[OF Lock_Close_guarded]) (rule guarded_return, simp)
  have run: "guarded (lock_guard env) (\<lambda>h. unreleased h \<and> holds_lock env h)
      (do { r \<leftarrow> vgm_run env; case r of Exited n \<Rightarrow> ret (Some (Exited n))
        | Returned e \<Rightarrow> do { _ \<leftarrow> Lock_Close env; ret (Some (Returned e)) } }) (\<lambda>_ _. True)"
    by (rule guarded_weaken[where P' = "holds_lock env"], rule guarded_bind[OF vgm_run_guarded])
      (auto intro!: close guarded_return split: run_result.split)
  show ?thesis
    unfolding runWithFileLock_def
    apply (rule guarded_catch_err[OF lock])
     apply (rule guarded_return, simp)
    apply (rule guarded_bind[OF WaitForLock_guarded])
    apply (rule guarded_option)
     apply (rule guarded_return, simp)
    apply (rule guarded_option)
     apply (rule guarded_weaken[OF run], simp)
    apply (rule close)
    done
qed

section \<open>Several processes on a node\<close>

text \<open>A history of the node is an interleaving of processes, numbered here; what a process does is a
  beginning of a run of \<open>runWithFileLock\<close> in its own environment.  The operating system grants the lock
  only when no other process holds it.\<close>

definition proj :: "nat \<Rightarrow> (nat \<times> proc_action) list \<Rightarrow> proc_history" where
  "proj p g = map snd (filter (\<lambda>x. fst x = p) g)"

definition lock_trace :: "proc_env \<Rightarrow> nat \<Rightarrow> proc_history" where
  "lock_trace env rounds = tr (snd (run_state (runWithFileLock env rounds) \<lparr>tr = []\<rparr>))"

definition interleaving :: "(nat \<Rightarrow> proc_env) \<Rightarrow> (nat \<Rightarrow> nat) \<Rightarrow> (nat \<times> proc_action) list \<Rightarrow> bool" where
  "interleaving envs rounds g \<longleftrightarrow> (\<forall>p. prefix (proj p g) (lock_trace (envs p) (rounds p)))"

definition flock_exclusive :: "(nat \<Rightarrow> proc_env) \<Rightarrow> (nat \<times> proc_action) list \<Rightarrow> bool" where
  "flock_exclusive envs g \<longleftrightarrow> (\<forall>g1 p g2. g = g1 @ (p, TryFlock) # g2 \<longrightarrow> pe_flock (envs p) (proj p g1) = None \<longrightarrow>
     (\<forall>q. q \<noteq> p \<longrightarrow> \<not> holds_lock (envs q) (proj q g1)))"

lemma proj_simps [simp]: "proj p [] = []" "proj p (g @ g') = proj p g @ proj p g'"
  "proj p (x # g) = (if fst x = p then snd x # proj p g else proj p g)"
  by (simp_all add: proj_def)

lemma holds_lock_Nil [simp]: "\<not> holds_lock env []"
  by (simp add: holds_lock_def seen_def)

lemma holds_lock_snoc:
  "holds_lock env (h @ [a]) \<Longrightarrow> holds_lock env h \<or> a = TryFlock \<and> pe_flock env h = None"
  by (auto simp: holds_lock_def seen_def append_eq_append_conv2 append_eq_Cons_conv Cons_eq_append_conv)

lemma one_holder:
  assumes "flock_exclusive envs g" and "prefix g1 g" and "p \<noteq> q"
  shows "\<not> (holds_lock (envs p) (proj p g1) \<and> holds_lock (envs q) (proj q g1))"
  using assms(2,3)
proof (induction g1 arbitrary: p q rule: rev_induct)
  case (snoc x g1)
  obtain r a where x: "x = (r, a)" by force
  from snoc.prems(1) obtain g2 where g: "g = g1 @ (r, a) # g2" by (auto simp: prefix_def x)
  have pre: "prefix g1 g" using snoc.prems(1) by (rule append_prefixD)
  have grant: "\<not> holds_lock (envs q') (proj q' g1)" if "a = TryFlock" "pe_flock (envs r) (proj r g1) = None" "q' \<noteq> r" for q'
    using assms(1) g that unfolding flock_exclusive_def by blast
  show ?case
    using snoc.IH[OF pre] snoc.prems(2) grant holds_lock_snoc[of "envs r" "proj r g1" a]
    by (cases "r = p"; cases "r = q") (auto simp: x)
qed simp

lemma interleaving_guarded:
  assumes "interleaving envs rounds g" and g: "g = g1 @ (p, a) # g2"
  shows "lock_guard (envs p) (proj p g1) a"
proof -
  have "prefix (proj p g1 @ a # proj p g2) (lock_trace (envs p) (rounds p))"
    using assms unfolding interleaving_def by (auto dest: spec[of _ p])
  then obtain rest where "lock_trace (envs p) (rounds p) = proj p g1 @ a # rest"
    by (auto simp: prefix_def)
  then show ?thesis
    using runWithFileLock_guarded[of "envs p" "rounds p", unfolded guarded_def, rule_format, of "\<lparr>tr = []\<rparr>"]
    by (auto simp: lock_trace_def)
qed

text \<open>C13: At most one volume group manager works on a node.  However the processes of a node interleave,
  when one of them does anything other than wait for the lock or release it, it holds the lock and no
  other process does: neither an older one that is still shutting down nor a newer one.\<close>

theorem vgmanager_exclusive:
  assumes "interleaving envs rounds g" and "flock_exclusive envs g"
    and "g = g1 @ (p, a) # g2" and "a \<notin> lock_steps"
  shows "{q. holds_lock (envs q) (proj q g1)} = {p}"
proof -
  have p: "holds_lock (envs p) (proj p g1)"
    using interleaving_guarded[OF assms(1,3)] assms(4) by (simp add: lock_guard_def)
  have "prefix g1 g" by (simp add: assms(3))
  from one_holder[OF assms(2) this] p show ?thesis by blast
qed

definition node_envs :: "nat \<Rightarrow> proc_env" where
  "node_envs p = (if p = 0 then calm_proc\<lparr>pe_lib := (\<lambda>_ _. Some EAGAIN)\<rparr> else calm_proc\<lparr>pe_flock := (\<lambda>_. Some EAGAIN)\<rparr>)"

definition node_history :: "(nat \<times> proc_action) list" where
  "node_history = map (Pair 0) [Mkdir FileLockDir, OpenLockFile (lock_file ''vgmanager''), CheckContext, TryFlock]
     @ map (Pair 1) [Mkdir FileLockDir, OpenLockFile (lock_file ''vgmanager''), CheckContext, TryFlock]"

lemma node_interleaving: "interleaving node_envs (\<lambda>_. 1) (node_history @ [(0, Lib NewClient)])"
proof -
  have "prefix (proj p (node_history @ [(0, Lib NewClient)])) (lock_trace (node_envs p) 1)" for p
    by (simp add: node_history_def lock_trace_def runWithFileLock_def run_catch_err NewFileLock_def TryLock_def
        vgm_run_def setupAndStart_def lib_def Let_def node_envs_def calm_proc_def GetOperatorNamespace_def
        Lock_Close_def EAGAIN_def split_beta)
  then show ?thesis by (simp add: interleaving_def)
qed

lemma node_flock: "flock_exclusive node_envs (node_history @ [(0, Lib NewClient)])"
  by (auto simp: flock_exclusive_def node_history_def node_envs_def Cons_eq_append_conv)

theorem vgmanager_exclusive_witness:
  "{q. holds_lock (node_envs q) (proj q node_history)} = {0}"
  using vgmanager_exclusive[OF node_interleaving node_flock refl] by (simp add: lock_steps_def)

section \<open>Registration and restarts\<close>

text \<open>The kubelet's notifications in order: the final state of the server, and the causes the process was
  cancelled with.\<close>

fun notify_all :: "registrationServer \<Rightarrow> RegistrationStatus list \<Rightarrow> registrationServer \<times> go_error list" where
  "notify_all e [] = (e, [])"
| "notify_all e (st # sts) =
     (let (e', failed) = NotifyRegistrationStatus e st;
          (e'', causes) = notify_all e' sts
      in (e'', (case failed of None \<Rightarrow> causes | Some c \<Rightarrow> c # causes)))"

lemma notify_all_registered:
  "Registered (fst (notify_all e sts)) \<longleftrightarrow> Registered e \<or> (\<exists>st \<in> set sts. PluginRegistered st)"
  by (induction sts arbitrary: e)
    (auto simp: NotifyRegistrationStatus_def Registered_def split_beta)

lemma notify_all_causes:
  "snd (notify_all e sts) = map (\<lambda>st. Errorf ''%w: %s'' [W ErrPluginRegistrationFailed, S (status_Error st)])
     (filter (\<lambda>st. \<not> PluginRegistered st) sts)"
  by (induction sts arbitrary: e) (auto simp: NotifyRegistrationStatus_def split_beta)

lemma registration_failure_exit:
  "exit_code (Some (Errorf ''%w: %s'' [W ErrPluginRegistrationFailed, S m])) = Some 0"
  by (simp add: exit_code_def ErrPluginRegistrationFailed_def)

text \<open>C32: A node reports itself ready exactly when the informers have synced, the loaded lvmd configuration
  has a device class, and some notification of the kubelet said that the plugin is registered; a later
  failed notification does not take this back but cancels the process, once for each, with a cause for
  which it exits with code 0 to be restarted.\<close>

theorem registration_ready:
  "(let (e, causes) = notify_all (NewRegistrationServer driver endpoint versions) sts in
     (Health_Check (readyCheck synced config e) = SERVING \<longleftrightarrow>
        synced \<and> cfg_DeviceClasses config \<noteq> [] \<and> (\<exists>st \<in> set sts. PluginRegistered st))
     \<and> map (\<lambda>c. exit_code (Some c)) causes = map (\<lambda>_. Some 0) (filter (\<lambda>st. \<not> PluginRegistered st) sts))"
  using notify_all_registered[of "NewRegistrationServer driver endpoint versions" sts]
  by (auto simp: split_beta notify_all_causes registration_failure_exit readyCheck_def Health_Check_def
      NewRegistrationServer_def Registered_def Let_def)

text \<open>The watcher cancels the process once for each write, removal or change of mode of the configuration.\<close>

fun config_changed :: "watch_item \<Rightarrow> bool" where
  "config_changed (WatchErr err) = False"
| "config_changed (WatchEvent name ops) =
     (name = DefaultFileConfigPath \<and> (\<exists>f \<in> set ops. f = FsWrite \<or> f = FsRemove \<or> f = FsChmod))"

definition config_cause :: go_error where
  "config_cause = Errorf ''%w: %s'' [W ErrConfigModified, S DefaultFileConfigPath]"

lemma handleWatch_trace:
  "tr (snd (run_state (handleWatch i) s)) = tr s @ (if config_changed i then [Cancel (Some config_cause)] else [])"
  by (cases i) (auto simp: config_cause_def)

lemma handleWatch_all:
  "tr (snd (run_state (for_do items handleWatch) s)) =
     tr s @ map (\<lambda>_. Cancel (Some config_cause)) (filter config_changed items)"
  by (induction items arbitrary: s) (simp_all add: handleWatch_trace split_beta)

lemma watch_restarts:
  "tr (snd (run_state (watchTopoLVMAndNotify env items) s)) =
     tr (snd (run_state (watchDirectory env) s)) @ map (\<lambda>_. Cancel (Some config_cause)) (filter config_changed items)
   \<and> exit_code (Some config_cause) = Some 0"
  by (simp add: watchTopoLVMAndNotify_def handleWatch_all exit_code_def config_cause_def ErrConfigModified_def split_beta)

section \<open>The provisioner\<close>

text \<open>The controllers run for the given driver only when the driver answered with its capabilities, the
  clients exist, the pod is named and its owner was found, and the caches have synced.\<close>

definition provisioner_guard :: "proc_env \<Rightarrow> string \<Rightarrow> string \<Rightarrow> proc_history \<Rightarrow> proc_action \<Rightarrow> bool" where
  "provisioner_guard env driver endpoint h a = (case a of
     Lib (RunProvisioner d) \<Rightarrow> d = driver
       \<and> (\<forall>c \<in> {CSIConnect endpoint, GetDriverCapabilities, NewClientset, NewSnapClientset, SetFeatureGate,
             OwnerLookup (os_Getenv env ''NAMESPACE'') (os_Getenv env ''NAME'')}. lib_ok env c h)
       \<and> os_Getenv env ''NAMESPACE'' \<noteq> [] \<and> os_Getenv env ''NAME'' \<noteq> []
       \<and> seen (pe_synced env) (Lib WaitForCacheSync) h
   | Lib c \<Rightarrow> c = CSIConnect endpoint \<or> lib_ok env (CSIConnect endpoint) h
   | _ \<Rightarrow> False)"

lemma closing_guarded:
  assumes "stable P" and "guarded G P m (\<lambda>_ _. True)" and "\<And>h. P h \<Longrightarrow> G h (Lib CSIClose)"
  shows "guarded G P (closing m) (\<lambda>_ _. True)"
proof -
  have m: "guarded G P m (\<lambda>_. P)"
    by (rule guarded_conseq[OF guarded_frame[OF assms(2,1)]]) simp_all
  have close: "guarded G P (emit (Lib CSIClose)) (\<lambda>_ _. True)" by (rule guarded_emit) (simp_all add: assms(3))
  show ?thesis
    unfolding closing_def by (rule guarded_bind[OF m], rule guarded_bind[OF close], rule guarded_return) simp
qed

lemma closing_trace [simp]: "tr (snd (run_state (closing m) s)) = tr (snd (run_state m s)) @ [Lib CSIClose]"
  by (simp add: closing_def split_beta)

lemma runProvisioner_guarded:
  assumes "stable P" and P: "\<And>h a. P h \<Longrightarrow> G h (Lib StartInformers) \<and> G h (Lib WaitForCacheSync)"
    and "\<And>h. P h \<Longrightarrow> seen (pe_synced env) (Lib WaitForCacheSync) h \<Longrightarrow> G h (Lib (RunProvisioner driver))"
  shows "guarded G P (runProvisioner env driver) (\<lambda>_ _. True)"
proof -
  have inf: "guarded G P (emit (Lib StartInformers)) (\<lambda>_. P)"
    by (rule guarded_emit) (use assms(1) P in \<open>auto simp: stable_def\<close>)
  have sync: "guarded G P (ask (pe_synced env) (Lib WaitForCacheSync))
      (\<lambda>r h. P h \<and> seen (\<lambda>pre. pe_synced env pre = r) (Lib WaitForCacheSync) h)"
    by (rule guarded_ask_seen[OF assms(1)]) (simp add: P)
  show ?thesis
    unfolding runProvisioner_def
    by (rule guarded_bind[OF inf], rule guarded_bind[OF sync])
      (auto intro!: guarded_if guarded_return guarded_bind[OF guarded_emit[where Q = "\<lambda>_ _. True"]] assms(3))
qed

text \<open>The provisioner runs only when everything it needs is there, and it never leaks the connection.
  Every call other than the connection needs the connection; the controllers need the driver's
  capabilities, the clients, the owner of the pod and filled caches; a run that got a connection ends by closing it,
  whatever failed in between, and one that did not ends with the attempt.\<close>

lemma provisioner_start_ordered:
  "always (provisioner_guard env driver endpoint) (Provisioner_Start env driver endpoint)
   \<and> last (tr (snd (run_state (Provisioner_Start env driver endpoint) s))) =
       (if pe_lib env (tr s) (CSIConnect endpoint) = None then Lib CSIClose else Lib (CSIConnect endpoint))"
proof
  let ?ns = "os_Getenv env ''NAMESPACE''" and ?pod = "os_Getenv env ''NAME''"
  have run: "guarded (provisioner_guard env driver endpoint) (\<lambda>h. (\<forall>c \<in> {CSIConnect endpoint, GetDriverCapabilities,
       NewClientset, NewSnapClientset, SetFeatureGate, OwnerLookup ?ns ?pod}. lib_ok env c h))
      (runProvisioner env driver) (\<lambda>_ _. True)" if "?ns \<noteq> []" "?pod \<noteq> []"
    by (rule runProvisioner_guarded) (use that in \<open>auto simp: provisioner_guard_def intro!: stable_conj\<close>)
  show "always (provisioner_guard env driver endpoint) (Provisioner_Start env driver endpoint)"
    unfolding always_def Provisioner_Start_def Let_def
    by (intro lib_guarded closing_guarded guarded_if guarded_return guarded_weaken[OF run])
      (simp_all add: provisioner_guard_def stable_conj)
qed (simp add: Provisioner_Start_def lib_def run_catch_err split: option.split)

end
