(* ===== verification/Go_Heap.thy ===== *)
theory Go_Heap
  imports LVMS_Prelude
begin

text \<open>
  Go pointers with an explicit heap, for the code whose point is aliasing: the deep copies of the
  API types and of lvmd's configuration.

  A heap is the list of the cells allocated so far, an address is an index, and \<open>alloc\<close> appends.
  A pointer, a slice and a map are an address or nil.  A \<open>view\<close> reads an object as a value of the
  pure model; \<open>view lo h x\<close> succeeds only if everything reached from \<open>x\<close> lies at an address of
  \<open>h\<close> from \<open>lo\<close> on.  The locale \<open>copier\<close> is the contract of a deep copy: the view depends on no
  other cell, and the copy extends the heap and reaches new cells only, with the same view.
  Pointers, slices and structs of copiers are copiers.
\<close>

type_synonym addr = nat
type_synonym 'c heap = "'c list"
type_synonym ('c, 'a) mem = "('c heap, 'a) state"

definition alloc :: "'c \<Rightarrow> ('c, addr) mem" where
  "alloc c = State (\<lambda>h. (length h, h @ [c]))"

definition deref :: "('c \<Rightarrow> 'o option) \<Rightarrow> addr \<Rightarrow> 'c heap \<Rightarrow> 'o option" where
  "deref get a h = (if a < length h then get (h ! a) else None)"

definition agree :: "nat \<Rightarrow> 'c heap \<Rightarrow> 'c heap \<Rightarrow> bool" where
  "agree lo h h' \<longleftrightarrow> length h \<le> length h' \<and> (\<forall>a. lo \<le> a \<longrightarrow> a < length h \<longrightarrow> h' ! a = h ! a)"

lemma run_alloc [simp]: "run_state (alloc c) h = (length h, h @ [c])"
  by (simp add: alloc_def)

lemma agree_append [simp, intro]: "agree lo h (h @ ext)"
  by (simp add: agree_def nth_append)

lemma agree_append2 [simp, intro]: "agree lo (h @ e) (h @ e @ ext)"
  using agree_append [of lo "h @ e" ext] by simp

lemma agree_refl [simp, intro]: "agree lo h h"
  by (simp add: agree_def)

text \<open>Any sequence of writes through pointers.\<close>

definition writes :: "(addr \<times> 'c) list \<Rightarrow> 'c heap \<Rightarrow> 'c heap" where
  "writes ws h = fold (\<lambda>(a, c) h. h[a := c]) ws h"

lemma writes_simps [simp]:
  "writes [] h = h"
  "writes ((a, c) # ws) h = writes ws (h[a := c])"
  by (simp_all add: writes_def)

lemma length_writes [simp]: "length (writes ws h) = length h"
  by (induction ws arbitrary: h) auto

lemma nth_writes: "a \<notin> fst ` set ws \<Longrightarrow> writes ws h ! a = h ! a"
  by (induction ws arbitrary: h) (auto simp: nth_list_update)

lemma agree_writes:
  assumes "\<forall>(a, x) \<in> set ws. length h \<le> a"
  shows "agree 0 h (writes ws (h @ ext))"
proof -
  have "writes ws (h @ ext) ! a = h ! a" if "a < length h" for a
    using assms that nth_writes [of a ws "h @ ext"] by (fastforce simp: nth_append)
  thus ?thesis by (simp add: agree_def)
qed

section \<open>The contract of a deep copy\<close>

locale copier =
  fixes view :: "nat \<Rightarrow> 'c heap \<Rightarrow> 'o \<Rightarrow> 'v option"
    and copy :: "'o \<Rightarrow> ('c, 'o) mem"
  assumes view_local: "view lo h x = Some v \<Longrightarrow> agree lo h h' \<Longrightarrow> lo' \<le> lo \<Longrightarrow> view lo' h' x = Some v"
    and copy_fresh: "view lo h x = Some v \<Longrightarrow>
      \<exists>y ext. run_state (copy x) h = (y, h @ ext) \<and> view (length h) (h @ ext) y = Some v"
begin

text \<open>
  The copy reads as the original did, nothing written to the cells that existed before changes it,
  and nothing written to the cells it allocated changes the original.
\<close>

lemma copy_extends:
  assumes "view lo h x = Some v" "run_state (copy x) h = (y, h')"
  obtains ext where "h' = h @ ext" "view (length h) (h @ ext) y = Some v"
  using copy_fresh [OF assms(1)] assms(2) by auto

lemma copy_equal:
  assumes "view 0 h x = Some v" "run_state (copy x) h = (y, h')"
  shows "view 0 h' y = Some v"
  using assms by (rule copy_extends) (auto intro: view_local)

lemma copy_kept:
  assumes "view 0 h x = Some v" "run_state (copy x) h = (y, h')" "\<forall>(a, c) \<in> set ws. a < length h"
  shows "view 0 (writes ws h') y = Some v"
proof -
  obtain ext where h': "h' = h @ ext" and y: "view (length h) (h @ ext) y = Some v"
    using copy_extends [OF assms(1, 2)] .
  have "agree (length h) (h @ ext) (writes ws (h @ ext))"
    using assms(3) by (auto simp: agree_def intro!: nth_writes)
  from view_local [OF y this] show ?thesis by (simp add: h')
qed

lemma original_kept:
  assumes "view 0 h x = Some v" "run_state (copy x) h = (y, h')" "\<forall>(a, c) \<in> set ws. length h \<le> a"
  shows "view 0 (writes ws h') x = Some v"
  using assms(1, 2)
proof (rule copy_extends)
  fix ext assume "h' = h @ ext"
  thus ?thesis using view_local [OF assms(1) agree_writes [OF assms(3)]] by simp
qed

end

definition independent_copy :: "(nat \<Rightarrow> 'c heap \<Rightarrow> 'o \<Rightarrow> 'v option) \<Rightarrow> ('o \<Rightarrow> ('c, 'o) mem) \<Rightarrow> bool" where
  "independent_copy view copy \<longleftrightarrow> (\<forall>h x v y h'. view 0 h x = Some v \<longrightarrow> run_state (copy x) h = (y, h') \<longrightarrow>
     view 0 h' y = Some v
     \<and> (\<forall>ws. (\<forall>(a, c) \<in> set ws. a < length h) \<longrightarrow> view 0 (writes ws h') y = Some v)
     \<and> (\<forall>ws. (\<forall>(a, c) \<in> set ws. length h \<le> a) \<longrightarrow> view 0 (writes ws h') x = Some v))"

lemma copier_independent: "copier view copy \<Longrightarrow> independent_copy view copy"
  unfolding independent_copy_def
  by (blast intro: copier.copy_equal copier.copy_kept copier.original_kept)

lemma independent_copyD:
  assumes "independent_copy view copy" "view 0 h x = Some v" "run_state (copy x) h = (y, h')"
    "\<forall>(a, c) \<in> set ws. a < length h"
  shows "view 0 (writes ws h') y = Some v"
  using assms(1) [unfolded independent_copy_def, rule_format, OF assms(2, 3)] assms(4) by simp

section \<open>Values and converted views\<close>

definition view_plain :: "nat \<Rightarrow> 'c heap \<Rightarrow> 'v \<Rightarrow> 'v option" where
  "view_plain lo h x = Some x"

definition copy_plain :: "'v \<Rightarrow> ('c, 'v) mem" where
  "copy_plain x = ret x"

lemma plain_copier: "copier view_plain copy_plain"
  by unfold_locales (auto simp: view_plain_def copy_plain_def)

definition view_as :: "('v \<Rightarrow> 'w) \<Rightarrow> (nat \<Rightarrow> 'c heap \<Rightarrow> 'o \<Rightarrow> 'v option) \<Rightarrow> nat \<Rightarrow> 'c heap \<Rightarrow> 'o \<Rightarrow> 'w option" where
  "view_as f view lo h x = map_option f (view lo h x)"

lemma as_copier:
  assumes "copier view copy"
  shows "copier (view_as f view) copy"
proof
  fix lo lo' :: nat and h h' :: "'a heap" and x w
  assume w: "view_as f view lo h x = Some w" and h': "agree lo h h'" "lo' \<le> lo"
  then obtain v where v: "view lo h x = Some v" "w = f v" by (auto simp: view_as_def)
  show "view_as f view lo' h' x = Some w"
    using copier.view_local [OF assms v(1) h'] by (simp add: view_as_def v(2))
next
  fix lo h x w
  assume "view_as f view lo h x = Some w"
  then obtain v where v: "view lo h x = Some v" "w = f v" by (auto simp: view_as_def)
  show "\<exists>y ext. run_state (copy x) h = (y, h @ ext) \<and> view_as f view (length h) (h @ ext) y = Some w"
    using copier.copy_fresh [OF assms v(1)] by (auto simp: view_as_def v(2))
qed

section \<open>Lists, pointers and slices\<close>

fun view_list :: "(nat \<Rightarrow> 'c heap \<Rightarrow> 'o \<Rightarrow> 'v option) \<Rightarrow> nat \<Rightarrow> 'c heap \<Rightarrow> 'o list \<Rightarrow> 'v list option" where
  "view_list view lo h [] = Some []"
| "view_list view lo h (x # xs) = do { v \<leftarrow> view lo h x; vs \<leftarrow> view_list view lo h xs; Some (v # vs) }"

fun copy_list :: "('o \<Rightarrow> ('c, 'o) mem) \<Rightarrow> 'o list \<Rightarrow> ('c, 'o list) mem" where
  "copy_list copy [] = ret []"
| "copy_list copy (x # xs) = do { y \<leftarrow> copy x; ys \<leftarrow> copy_list copy xs; ret (y # ys) }"

lemma list_view_local:
  assumes "copier view copy"
  shows "view_list view lo h xs = Some vs \<Longrightarrow> agree lo h h' \<Longrightarrow> lo' \<le> lo \<Longrightarrow> view_list view lo' h' xs = Some vs"
proof (induction xs arbitrary: vs)
  case (Cons x xs)
  thus ?case
    by (auto simp: bind_eq_Some_conv copier.view_local [OF assms _ Cons.prems(2, 3)])
qed simp

lemma list_copy_fresh:
  assumes "copier view copy"
  shows "view_list view lo h xs = Some vs \<Longrightarrow>
    \<exists>ys ext. run_state (copy_list copy xs) h = (ys, h @ ext) \<and> view_list view (length h) (h @ ext) ys = Some vs"
proof (induction xs arbitrary: lo h vs)
  case (Cons x xs)
  then obtain v ws where vs: "vs = v # ws" and v: "view lo h x = Some v" and ws: "view_list view lo h xs = Some ws"
    by (auto simp: bind_eq_Some_conv)
  obtain y e where y: "run_state (copy x) h = (y, h @ e)" "view (length h) (h @ e) y = Some v"
    using copier.copy_fresh [OF assms v] by blast
  have "view_list view lo (h @ e) xs = Some ws"
    by (rule list_view_local [OF assms ws]) auto
  from Cons.IH [OF this] obtain ys e' where ys: "run_state (copy_list copy xs) (h @ e) = (ys, (h @ e) @ e')"
      "view_list view (length (h @ e)) ((h @ e) @ e') ys = Some ws" by blast
  have "view (length h) ((h @ e) @ e') y = Some v"
    by (rule copier.view_local [OF assms y(2)]) auto
  moreover have "view_list view (length h) ((h @ e) @ e') ys = Some ws"
    by (rule list_view_local [OF assms ys(2)]) auto
  ultimately show ?case
    using y(1) ys(1) by (intro exI [of _ "y # ys"] exI [of _ "e @ e'"]) (simp add: vs)
qed simp

lemma list_copier: "copier view copy \<Longrightarrow> copier (view_list view) (copy_list copy)"
  by (rule copier.intro) (blast intro: list_view_local, blast intro: list_copy_fresh)

text \<open>
  \<open>*out = new(T)\<close> and the copy of what \<open>in\<close> points to into it; nil stays nil.  \<open>get\<close> reads the
  content of a cell of the pointer's type.  Go's type system rules out a cell of another type.  The
  cell is allocated with its final content, after what it points to; the code allocates it first and
  fills it, which differs in the numbering of the addresses only.
\<close>

definition view_ptr :: "('c \<Rightarrow> 'o option) \<Rightarrow> (nat \<Rightarrow> 'c heap \<Rightarrow> 'o \<Rightarrow> 'v option)
    \<Rightarrow> nat \<Rightarrow> 'c heap \<Rightarrow> addr option \<Rightarrow> 'v option option" where
  "view_ptr get view lo h p = (case p of
     None \<Rightarrow> Some None
   | Some a \<Rightarrow> if a < lo then None else do { x \<leftarrow> deref get a h; v \<leftarrow> view lo h x; Some (Some v) })"

definition copy_ptr :: "('c \<Rightarrow> 'o option) \<Rightarrow> ('o \<Rightarrow> 'c) \<Rightarrow> ('o \<Rightarrow> ('c, 'o) mem)
    \<Rightarrow> addr option \<Rightarrow> ('c, addr option) mem" where
  "copy_ptr get cell copy p = (case p of
     None \<Rightarrow> ret None
   | Some a \<Rightarrow> do { h \<leftarrow> State_Monad.get;
                   case deref get a h of
                     None \<Rightarrow> ret (Some a)
                   | Some x \<Rightarrow> do { y \<leftarrow> copy x; b \<leftarrow> alloc (cell y); ret (Some b) } })"

lemma ptr_copier:
  assumes "copier view copy" and get: "\<And>x. get (cell x) = Some x"
  shows "copier (view_ptr get view) (copy_ptr get cell copy)"
proof
  fix lo lo' :: nat and h h' :: "'a heap" and p v
  assume v: "view_ptr get view lo h p = Some v" and h': "agree lo h h'" "lo' \<le> lo"
  have "deref get a h' = Some x" if "deref get a h = Some x" "\<not> a < lo" for a x
    using that h'(1) by (auto simp: deref_def agree_def split: if_splits)
  thus "view_ptr get view lo' h' p = Some v"
    using v h'(2) by (auto simp: view_ptr_def bind_eq_Some_conv copier.view_local [OF assms(1) _ h']
        split: option.splits if_splits)
next
  fix lo h p v
  assume v: "view_ptr get view lo h p = Some v"
  show "\<exists>q ext. run_state (copy_ptr get cell copy p) h = (q, h @ ext)
      \<and> view_ptr get view (length h) (h @ ext) q = Some v"
  proof (cases p)
    case None
    thus ?thesis using v by (simp add: view_ptr_def copy_ptr_def)
  next
    case (Some a)
    then obtain x w where x: "deref get a h = Some x" and w: "view lo h x = Some w" "v = Some w"
      using v by (auto simp: view_ptr_def bind_eq_Some_conv split: if_splits)
    obtain y e where y: "run_state (copy x) h = (y, h @ e)" "view (length h) (h @ e) y = Some w"
      using copier.copy_fresh [OF assms(1) w(1)] by blast
    have "view (length h) ((h @ e) @ [cell y]) y = Some w"
      by (rule copier.view_local [OF assms(1) y(2)]) auto
    thus ?thesis using y(1) x w(2)
      by (intro exI [of _ "Some (length h + length e)"] exI [of _ "e @ [cell y]"])
        (simp add: copy_ptr_def view_ptr_def Some deref_def get nth_append)
  qed
qed

text \<open>A slice of structs is copied element by element; a nil slice reads as the empty list.\<close>

definition view_slice :: "('c \<Rightarrow> 'o list option) \<Rightarrow> (nat \<Rightarrow> 'c heap \<Rightarrow> 'o \<Rightarrow> 'v option)
    \<Rightarrow> nat \<Rightarrow> 'c heap \<Rightarrow> addr option \<Rightarrow> 'v list option" where
  "view_slice get view = view_as (\<lambda>vs. case vs of None \<Rightarrow> [] | Some vs \<Rightarrow> vs) (view_ptr get (view_list view))"

definition copy_slice :: "('c \<Rightarrow> 'o list option) \<Rightarrow> ('o list \<Rightarrow> 'c) \<Rightarrow> ('o \<Rightarrow> ('c, 'o) mem)
    \<Rightarrow> addr option \<Rightarrow> ('c, addr option) mem" where
  "copy_slice get cell copy = copy_ptr get cell (copy_list copy)"

lemma slice_copier:
  assumes "copier view copy" "\<And>x. get (cell x) = Some x"
  shows "copier (view_slice get view) (copy_slice get cell copy)"
  unfolding view_slice_def copy_slice_def by (intro as_copier ptr_copier list_copier assms)

section \<open>Structs\<close>

text \<open>
  The copy of a struct copies its fields one after the other and assigns them; its view reads them
  in the same order.  \<open>copies P U m R\<close> says that \<open>m\<close>, run where the fields copied so far satisfy
  \<open>P\<close>, returns an object that \<open>R\<close> reads as \<open>U\<close> reads the original; the rules follow the bind of
  the two.
\<close>

definition copies :: "(nat \<Rightarrow> 'c heap \<Rightarrow> bool) \<Rightarrow> (nat \<Rightarrow> 'c heap \<Rightarrow> 'v option) \<Rightarrow> ('c, 'o) mem
    \<Rightarrow> (nat \<Rightarrow> 'c heap \<Rightarrow> 'o \<Rightarrow> 'v option) \<Rightarrow> bool" where
  "copies P U m R \<longleftrightarrow>
     (\<forall>lo lo' h h' v. U lo h = Some v \<longrightarrow> agree lo h h' \<longrightarrow> lo' \<le> lo \<longrightarrow> U lo' h' = Some v)
   \<and> ((\<forall>base h ext. P base h \<longrightarrow> P base (h @ ext)) \<longrightarrow>
      (\<forall>base lo h v. base \<le> length h \<longrightarrow> P base h \<longrightarrow> U lo h = Some v \<longrightarrow>
         (\<exists>y ext. run_state m h = (y, h @ ext) \<and> R base (h @ ext) y = Some v)))"

lemma copies_local:
  "copies P U m R \<Longrightarrow> U lo h = Some v \<Longrightarrow> agree lo h h' \<Longrightarrow> lo' \<le> lo \<Longrightarrow> U lo' h' = Some v"
  unfolding copies_def by blast

lemma copies_run:
  assumes "copies P U m R" "\<And>base h ext. P base h \<Longrightarrow> P base (h @ ext)" "base \<le> length h" "P base h"
    "U lo h = Some v"
  obtains y ext where "run_state m h = (y, h @ ext)" "R base (h @ ext) y = Some v"
  using assms unfolding copies_def by meson

lemma copierI:
  assumes "\<And>x. copies (\<lambda>base h. True) (\<lambda>lo h. view lo h x) (copy x) view"
  shows "copier view copy"
proof
  fix lo lo' h h' x v
  assume "view lo h x = Some v" "agree lo h h'" "lo' \<le> lo"
  thus "view lo' h' x = Some v" by (rule copies_local [OF assms])
next
  fix lo h x v
  assume v: "view lo h x = Some v"
  show "\<exists>y ext. run_state (copy x) h = (y, h @ ext) \<and> view (length h) (h @ ext) y = Some v"
    by (rule copies_run [OF assms, where base = "length h", OF _ _ _ v]) auto
qed

lemma copies_ret:
  assumes "\<And>base h. P base h \<Longrightarrow> R base h r = Some v"
  shows "copies P (\<lambda>lo h. Some v) (ret r) R"
  using assms by (auto simp: copies_def intro!: exI [of _ "[]"])

lemma copies_bind:
  assumes f: "copier view f"
    and g: "\<And>y a. copies (\<lambda>base h. P base h \<and> view base h y = Some a) (\<lambda>lo h. K a lo h) (g y) R"
  shows "copies P (\<lambda>lo h. Option.bind (view lo h x) (\<lambda>a. K a lo h)) (State_Monad.bind (f x) g) R"
  unfolding copies_def
proof (intro conjI allI impI)
  fix lo lo' h h' v
  assume v: "Option.bind (view lo h x) (\<lambda>a. K a lo h) = Some v" and h': "agree lo h h'" "lo' \<le> lo"
  show "Option.bind (view lo' h' x) (\<lambda>a. K a lo' h') = Some v"
    using v by (auto simp: bind_eq_Some_conv copier.view_local [OF f _ h'] copies_local [OF g _ h'])
next
  fix base lo h v
  assume P: "\<forall>base h ext. P base h \<longrightarrow> P base (h @ ext)" "P base h" and base: "base \<le> length h"
    and "Option.bind (view lo h x) (\<lambda>a. K a lo h) = Some v"
  then obtain a where a: "view lo h x = Some a" and K: "K a lo h = Some v"
    by (auto simp: bind_eq_Some_conv)
  obtain y e where y: "run_state (f x) h = (y, h @ e)" "view (length h) (h @ e) y = Some a"
    using copier.copy_fresh [OF f a] by blast
  have "view base (h @ e) y = Some a" by (rule copier.view_local [OF f y(2)]) (use base in auto)
  with P have PP: "P base (h @ e) \<and> view base (h @ e) y = Some a" by simp
  have K': "K a lo (h @ e) = Some v" by (rule copies_local [OF g K]) auto
  have mono: "P b k \<and> view b k y = Some a \<Longrightarrow> P b (k @ e) \<and> view b (k @ e) y = Some a" for b k e
    using P(1) copier.view_local [OF f, of b k y a "k @ e" b] by auto
  obtain z e' where "run_state (g y) (h @ e) = (z, (h @ e) @ e')" "R base ((h @ e) @ e') z = Some v"
    by (rule copies_run [OF g mono _ PP K']) (use base in auto)
  thus "\<exists>z ext. run_state (State_Monad.bind (f x) g) h = (z, h @ ext) \<and> R base (h @ ext) z = Some v"
    using y(1) by (intro exI [of _ z] exI [of _ "e @ e'"]) simp
qed

section \<open>Slices of pointers\<close>

text \<open>
  A pointer that is not nil, and a slice built by appending the copies of the elements to a nil
  slice, which stays nil if there is no element.
\<close>

definition view_ref :: "('c \<Rightarrow> 'o option) \<Rightarrow> (nat \<Rightarrow> 'c heap \<Rightarrow> 'o \<Rightarrow> 'v option)
    \<Rightarrow> nat \<Rightarrow> 'c heap \<Rightarrow> addr \<Rightarrow> 'v option" where
  "view_ref get view lo h a = (case view_ptr get view lo h (Some a) of Some (Some v) \<Rightarrow> Some v | _ \<Rightarrow> None)"

definition copy_ref :: "('c \<Rightarrow> 'o option) \<Rightarrow> ('o \<Rightarrow> 'c) \<Rightarrow> ('o \<Rightarrow> ('c, 'o) mem) \<Rightarrow> addr \<Rightarrow> ('c, addr) mem" where
  "copy_ref get cell copy a =
     do { q \<leftarrow> copy_ptr get cell copy (Some a); ret (case q of None \<Rightarrow> a | Some b \<Rightarrow> b) }"

lemma view_ref_eq: "view_ref get view lo h a = Some v \<longleftrightarrow> view_ptr get view lo h (Some a) = Some (Some v)"
  by (auto simp: view_ref_def split: option.splits)

lemma ref_copier:
  assumes "copier view copy" and get: "\<And>x. get (cell x) = Some x"
  shows "copier (view_ref get view) (copy_ref get cell copy)"
proof -
  note ptr = ptr_copier [of view copy get cell, OF assms]
  show ?thesis
  proof
    fix lo lo' h h' a v
    assume "view_ref get view lo h a = Some v" "agree lo h h'" "lo' \<le> lo"
    thus "view_ref get view lo' h' a = Some v"
      unfolding view_ref_eq by (rule copier.view_local [OF ptr])
  next
    fix lo h a v
    assume "view_ref get view lo h a = Some v"
    then obtain q e where q: "run_state (copy_ptr get cell copy (Some a)) h = (q, h @ e)"
        "view_ptr get view (length h) (h @ e) q = Some (Some v)"
      using copier.copy_fresh [OF ptr] unfolding view_ref_eq by blast
    then obtain b where "q = Some b" by (cases q) (auto simp: view_ptr_def)
    thus "\<exists>b ext. run_state (copy_ref get cell copy a) h = (b, h @ ext)
        \<and> view_ref get view (length h) (h @ ext) b = Some v"
      using q by (simp add: copy_ref_def view_ref_eq)
  qed
qed

definition copy_append :: "('c \<Rightarrow> 'o list option) \<Rightarrow> ('o list \<Rightarrow> 'c) \<Rightarrow> ('o \<Rightarrow> ('c, 'o) mem)
    \<Rightarrow> addr option \<Rightarrow> ('c, addr option) mem" where
  "copy_append get cell copy p =
     do { h \<leftarrow> State_Monad.get;
          case (case p of None \<Rightarrow> Some [] | Some a \<Rightarrow> deref get a h) of
            None \<Rightarrow> ret p
          | Some xs \<Rightarrow> do { ys \<leftarrow> copy_list copy xs;
                          if ys = [] then ret None else do { b \<leftarrow> alloc (cell ys); ret (Some b) } } }"

lemma append_copier:
  assumes "copier view copy" and get: "\<And>x. get (cell x) = Some x"
  shows "copier (view_slice get view) (copy_append get cell copy)"
proof
  fix lo lo' h h' p v
  assume "view_slice get view lo h p = Some v" "agree lo h h'" "lo' \<le> lo"
  thus "view_slice get view lo' h' p = Some v"
    by (rule copier.view_local [OF slice_copier [of view copy get cell, OF assms]])
next
  fix lo h p v
  assume v: "view_slice get view lo h p = Some v"
  obtain xs where xs: "(case p of None \<Rightarrow> Some [] | Some a \<Rightarrow> deref get a h) = Some xs"
      "view_list view lo h xs = Some v"
    using v by (cases p) (auto simp: view_slice_def view_as_def view_ptr_def bind_eq_Some_conv split: if_splits)
  obtain ys e where ys: "run_state (copy_list copy xs) h = (ys, h @ e)"
      "view_list view (length h) (h @ e) ys = Some v"
    using list_copy_fresh [OF assms(1) xs(2)] by blast
  have ys': "view_list view (length h) ((h @ e) @ [cell ys]) ys = Some v"
    by (rule list_view_local [OF assms(1) ys(2)]) auto
  show "\<exists>q ext. run_state (copy_append get cell copy p) h = (q, h @ ext)
      \<and> view_slice get view (length h) (h @ ext) q = Some v"
  proof (cases "ys = []")
    case True
    thus ?thesis using ys xs(1)
      by (intro exI [of _ None] exI [of _ e])
        (simp add: copy_append_def view_slice_def view_as_def view_ptr_def)
  next
    case False
    thus ?thesis using ys(1) ys' xs(1)
      by (intro exI [of _ "Some (length h + length e)"] exI [of _ "e @ [cell ys]"])
        (simp add: copy_append_def view_slice_def view_as_def view_ptr_def deref_def get nth_append)
  qed
qed

text \<open>A copy keeps nil and only nil: the copy of a slice or map that is empty but not nil is not nil.\<close>

lemma copy_ptr_nil: "fst (run_state (copy_ptr get cell copy p) h) = None \<longleftrightarrow> p = None"
  by (auto simp: copy_ptr_def split: option.splits prod.splits)

end
