(* ===== verification/API_Objects.thy ===== *)
theory API_Objects
  imports API_Types Go_Heap
begin

text \<open>
  The structs of \<open>api/v1alpha1\<close> as Go lays them out: a pointer, slice or map field is an address of
  the heap or nil, an embedded struct is part of its parent.  \<open>cell\<close> has one constructor for each
  type something points to.  The structs of Kubernetes' own packages (quantities, node selectors,
  tolerations, conditions and the metadata of objects and lists) are of a type \<open>'l\<close> of their own,
  and the record \<open>library\<close> has their generated copy functions and how they read as values.
\<close>

datatype TypeMeta = TypeMeta string string

record ObjectMeta =
  om_Name :: string
  om_Namespace :: string
  om_UID :: string
  om_Finalizers :: "string list"
  om_Annotations :: "(string \<times> string) list"
  om_OwnerReferences :: "OwnerReference list"
  om_Deleted :: bool

section \<open>Structs\<close>

record ThinPoolConfig_obj =
  tpo_Name :: string
  tpo_SizePercent :: int
  tpo_OverprovisionRatio :: int
  tpo_ChunkSizeCalculationPolicy :: ChunkSizeCalculationPolicy
  tpo_ChunkSize :: "addr option"
  tpo_MetadataSize :: "addr option"
  tpo_MetadataSizeCalculationPolicy :: MetadataSizePolicy

record RAIDConfig_obj =
  rco_Type :: RAIDType
  rco_Mirrors :: "addr option"
  rco_Stripes :: "addr option"
  rco_StripeSize :: "addr option"

record DeviceSelector_obj =
  dso_Paths :: "addr option"
  dso_OptionalPaths :: "addr option"
  dso_ForceWipeDevicesAndDestroyAllData :: "addr option"

record StorageClassOptions_obj =
  scoo_ReclaimPolicy :: "addr option"
  scoo_VolumeBindingMode :: "addr option"
  scoo_AdditionalParameters :: "addr option"
  scoo_AdditionalLabels :: "addr option"

record DeviceClass_obj =
  dco_Name :: string
  dco_DeviceSelector :: "addr option"
  dco_NodeSelector :: "addr option"
  dco_ThinPoolConfig :: "addr option"
  dco_RAIDConfig :: "addr option"
  dco_Default :: bool
  dco_FilesystemType :: DeviceFilesystemType
  dco_DeviceDiscoveryPolicy :: "addr option"
  dco_StorageClassOptions :: "addr option"

record Storage_obj =
  sto_DeviceClasses :: "addr option"

record LVMClusterSpec_obj =
  lso_Tolerations :: "addr option"
  lso_Storage :: Storage_obj

record RAIDStatus_obj =
  rso_Status :: RAIDHealthStatus
  rso_MemberCount :: nat
  rso_DegradedMemberCount :: nat
  rso_MinSyncPercent :: "addr option"
  rso_LVHealth :: "addr option"

record ExcludedDevice_obj =
  edo_Name :: string
  edo_Reasons :: "addr option"

record VGStatus_obj =
  vso_Name :: string
  vso_Status :: VGStatusType
  vso_Reason :: string
  vso_Devices :: "addr option"
  vso_Excluded :: "addr option"
  vso_DeviceDiscoveryPolicy :: DeviceDiscoveryPolicyStatus
  vso_RAIDStatus :: "addr option"

record NodeStatus_obj =
  nto_Node :: string
  nto_VGStatus :: VGStatus_obj

record DeviceClassStatus_obj =
  dto_Name :: string
  dto_NodeStatus :: "addr option"

record LVMClusterStatus_obj =
  lto_Ready :: bool
  lto_State :: LVMStateType
  lto_Conditions :: "addr option"
  lto_DeviceClassStatuses :: "addr option"

record LVMVolumeGroupSpec_obj =
  vgo_DeviceSelector :: "addr option"
  vgo_NodeSelector :: "addr option"
  vgo_ThinPoolConfig :: "addr option"
  vgo_RAIDConfig :: "addr option"
  vgo_Default :: bool
  vgo_DeviceDiscoveryPolicy :: "addr option"

record LVMVolumeGroupNodeStatusSpec_obj =
  nso_LVMVGStatus :: "addr option"

record 'l LVMCluster_obj =
  lco_TypeMeta :: TypeMeta
  lco_ObjectMeta :: "'l"
  lco_Spec :: LVMClusterSpec_obj
  lco_Status :: LVMClusterStatus_obj

record 'l LVMVolumeGroup_obj =
  lvo_TypeMeta :: TypeMeta
  lvo_ObjectMeta :: "'l"
  lvo_Spec :: LVMVolumeGroupSpec_obj
  lvo_Status :: unit

record 'l LVMVolumeGroupNodeStatus_obj =
  lno_TypeMeta :: TypeMeta
  lno_ObjectMeta :: "'l"
  lno_Spec :: LVMVolumeGroupNodeStatusSpec_obj
  lno_Status :: unit

record 'l LVMClusterList_obj =
  lcl_TypeMeta :: TypeMeta
  lcl_ListMeta :: "'l"
  lcl_Items :: "addr option"

record 'l LVMVolumeGroupList_obj =
  lvl_TypeMeta :: TypeMeta
  lvl_ListMeta :: "'l"
  lvl_Items :: "addr option"

record 'l LVMVolumeGroupNodeStatusList_obj =
  lnl_TypeMeta :: TypeMeta
  lnl_ListMeta :: "'l"
  lnl_Items :: "addr option"

section \<open>The heap\<close>

named_theorems cell_simps

datatype 'l cell =
    CInt int
  | CBool bool
  | CStrings "string list"
  | CEntries "(string \<times> string) list"
  | CDeviceDiscoveryPolicy DeviceDiscoveryPolicySpec
  | CReclaimPolicy ReclaimPolicy
  | CVolumeBindingMode VolumeBindingMode
  | CQuantity 'l
  | CNodeSelector 'l
  | CTolerations "'l list"
  | CConditions "'l list"
  | CRAIDLVHealths "RAIDLVHealth list"
  | CDeviceClasses "DeviceClass_obj list"
  | CExcludedDevices "ExcludedDevice_obj list"
  | CNodeStatuses "NodeStatus_obj list"
  | CDeviceClassStatuses "DeviceClassStatus_obj list"
  | CVGStatuses "VGStatus_obj list"
  | CLVMClusters "'l LVMCluster_obj list"
  | CLVMVolumeGroups "'l LVMVolumeGroup_obj list"
  | CLVMVolumeGroupNodeStatuses "'l LVMVolumeGroupNodeStatus_obj list"
  | CThinPoolConfig ThinPoolConfig_obj
  | CRAIDConfig RAIDConfig_obj
  | CDeviceSelector DeviceSelector_obj
  | CStorageClassOptions StorageClassOptions_obj
  | CDeviceClass DeviceClass_obj
  | CStorage Storage_obj
  | CLVMClusterSpec LVMClusterSpec_obj
  | CRAIDStatus RAIDStatus_obj
  | CExcludedDevice ExcludedDevice_obj
  | CVGStatus VGStatus_obj
  | CNodeStatus NodeStatus_obj
  | CDeviceClassStatus DeviceClassStatus_obj
  | CLVMClusterStatus LVMClusterStatus_obj
  | CLVMVolumeGroupSpec LVMVolumeGroupSpec_obj
  | CLVMVolumeGroupNodeStatusSpec LVMVolumeGroupNodeStatusSpec_obj
  | CLVMCluster "'l LVMCluster_obj"
  | CLVMVolumeGroup "'l LVMVolumeGroup_obj"
  | CLVMVolumeGroupNodeStatus "'l LVMVolumeGroupNodeStatus_obj"
  | CLVMClusterList "'l LVMClusterList_obj"
  | CLVMVolumeGroupList "'l LVMVolumeGroupList_obj"
  | CLVMVolumeGroupNodeStatusList "'l LVMVolumeGroupNodeStatusList_obj"
  | CRAIDLVHealth RAIDLVHealth
  | CLVMVolumeGroupStatus unit
  | CLVMVolumeGroupNodeStatusStatus unit

definition get_Int :: "'l cell \<Rightarrow> int option" where
  [cell_simps]: "get_Int c = (case c of CInt x \<Rightarrow> Some x | _ \<Rightarrow> None)"

definition get_Bool :: "'l cell \<Rightarrow> bool option" where
  [cell_simps]: "get_Bool c = (case c of CBool x \<Rightarrow> Some x | _ \<Rightarrow> None)"

definition get_Strings :: "'l cell \<Rightarrow> (string list) option" where
  [cell_simps]: "get_Strings c = (case c of CStrings x \<Rightarrow> Some x | _ \<Rightarrow> None)"

definition get_Entries :: "'l cell \<Rightarrow> ((string \<times> string) list) option" where
  [cell_simps]: "get_Entries c = (case c of CEntries x \<Rightarrow> Some x | _ \<Rightarrow> None)"

definition get_DeviceDiscoveryPolicy :: "'l cell \<Rightarrow> DeviceDiscoveryPolicySpec option" where
  [cell_simps]: "get_DeviceDiscoveryPolicy c = (case c of CDeviceDiscoveryPolicy x \<Rightarrow> Some x | _
      \<Rightarrow> None)"

definition get_ReclaimPolicy :: "'l cell \<Rightarrow> ReclaimPolicy option" where
  [cell_simps]: "get_ReclaimPolicy c = (case c of CReclaimPolicy x \<Rightarrow> Some x | _ \<Rightarrow> None)"

definition get_VolumeBindingMode :: "'l cell \<Rightarrow> VolumeBindingMode option" where
  [cell_simps]: "get_VolumeBindingMode c = (case c of CVolumeBindingMode x \<Rightarrow> Some x | _ \<Rightarrow> None)"

definition get_Quantity :: "'l cell \<Rightarrow> 'l option" where
  [cell_simps]: "get_Quantity c = (case c of CQuantity x \<Rightarrow> Some x | _ \<Rightarrow> None)"

definition get_NodeSelector :: "'l cell \<Rightarrow> 'l option" where
  [cell_simps]: "get_NodeSelector c = (case c of CNodeSelector x \<Rightarrow> Some x | _ \<Rightarrow> None)"

definition get_Tolerations :: "'l cell \<Rightarrow> ('l list) option" where
  [cell_simps]: "get_Tolerations c = (case c of CTolerations x \<Rightarrow> Some x | _ \<Rightarrow> None)"

definition get_Conditions :: "'l cell \<Rightarrow> ('l list) option" where
  [cell_simps]: "get_Conditions c = (case c of CConditions x \<Rightarrow> Some x | _ \<Rightarrow> None)"

definition get_RAIDLVHealths :: "'l cell \<Rightarrow> (RAIDLVHealth list) option" where
  [cell_simps]: "get_RAIDLVHealths c = (case c of CRAIDLVHealths x \<Rightarrow> Some x | _ \<Rightarrow> None)"

definition get_DeviceClasses :: "'l cell \<Rightarrow> (DeviceClass_obj list) option" where
  [cell_simps]: "get_DeviceClasses c = (case c of CDeviceClasses x \<Rightarrow> Some x | _ \<Rightarrow> None)"

definition get_ExcludedDevices :: "'l cell \<Rightarrow> (ExcludedDevice_obj list) option" where
  [cell_simps]: "get_ExcludedDevices c = (case c of CExcludedDevices x \<Rightarrow> Some x | _ \<Rightarrow> None)"

definition get_NodeStatuses :: "'l cell \<Rightarrow> (NodeStatus_obj list) option" where
  [cell_simps]: "get_NodeStatuses c = (case c of CNodeStatuses x \<Rightarrow> Some x | _ \<Rightarrow> None)"

definition get_DeviceClassStatuses :: "'l cell \<Rightarrow> (DeviceClassStatus_obj list) option" where
  [cell_simps]: "get_DeviceClassStatuses c = (case c of CDeviceClassStatuses x \<Rightarrow> Some x | _ \<Rightarrow> None)"

definition get_VGStatuses :: "'l cell \<Rightarrow> (VGStatus_obj list) option" where
  [cell_simps]: "get_VGStatuses c = (case c of CVGStatuses x \<Rightarrow> Some x | _ \<Rightarrow> None)"

definition get_LVMClusters :: "'l cell \<Rightarrow> ('l LVMCluster_obj list) option" where
  [cell_simps]: "get_LVMClusters c = (case c of CLVMClusters x \<Rightarrow> Some x | _ \<Rightarrow> None)"

definition get_LVMVolumeGroups :: "'l cell \<Rightarrow> ('l LVMVolumeGroup_obj list) option" where
  [cell_simps]: "get_LVMVolumeGroups c = (case c of CLVMVolumeGroups x \<Rightarrow> Some x | _ \<Rightarrow> None)"

definition get_LVMVolumeGroupNodeStatuses :: "'l cell
    \<Rightarrow> ('l LVMVolumeGroupNodeStatus_obj list) option" where
  [cell_simps]: "get_LVMVolumeGroupNodeStatuses c = (case c of CLVMVolumeGroupNodeStatuses x
      \<Rightarrow> Some x | _ \<Rightarrow> None)"

definition get_ThinPoolConfig :: "'l cell \<Rightarrow> ThinPoolConfig_obj option" where
  [cell_simps]: "get_ThinPoolConfig c = (case c of CThinPoolConfig x \<Rightarrow> Some x | _ \<Rightarrow> None)"

definition get_RAIDConfig :: "'l cell \<Rightarrow> RAIDConfig_obj option" where
  [cell_simps]: "get_RAIDConfig c = (case c of CRAIDConfig x \<Rightarrow> Some x | _ \<Rightarrow> None)"

definition get_DeviceSelector :: "'l cell \<Rightarrow> DeviceSelector_obj option" where
  [cell_simps]: "get_DeviceSelector c = (case c of CDeviceSelector x \<Rightarrow> Some x | _ \<Rightarrow> None)"

definition get_StorageClassOptions :: "'l cell \<Rightarrow> StorageClassOptions_obj option" where
  [cell_simps]: "get_StorageClassOptions c = (case c of CStorageClassOptions x \<Rightarrow> Some x | _ \<Rightarrow> None)"

definition get_DeviceClass :: "'l cell \<Rightarrow> DeviceClass_obj option" where
  [cell_simps]: "get_DeviceClass c = (case c of CDeviceClass x \<Rightarrow> Some x | _ \<Rightarrow> None)"

definition get_Storage :: "'l cell \<Rightarrow> Storage_obj option" where
  [cell_simps]: "get_Storage c = (case c of CStorage x \<Rightarrow> Some x | _ \<Rightarrow> None)"

definition get_LVMClusterSpec :: "'l cell \<Rightarrow> LVMClusterSpec_obj option" where
  [cell_simps]: "get_LVMClusterSpec c = (case c of CLVMClusterSpec x \<Rightarrow> Some x | _ \<Rightarrow> None)"

definition get_RAIDStatus :: "'l cell \<Rightarrow> RAIDStatus_obj option" where
  [cell_simps]: "get_RAIDStatus c = (case c of CRAIDStatus x \<Rightarrow> Some x | _ \<Rightarrow> None)"

definition get_ExcludedDevice :: "'l cell \<Rightarrow> ExcludedDevice_obj option" where
  [cell_simps]: "get_ExcludedDevice c = (case c of CExcludedDevice x \<Rightarrow> Some x | _ \<Rightarrow> None)"

definition get_VGStatus :: "'l cell \<Rightarrow> VGStatus_obj option" where
  [cell_simps]: "get_VGStatus c = (case c of CVGStatus x \<Rightarrow> Some x | _ \<Rightarrow> None)"

definition get_NodeStatus :: "'l cell \<Rightarrow> NodeStatus_obj option" where
  [cell_simps]: "get_NodeStatus c = (case c of CNodeStatus x \<Rightarrow> Some x | _ \<Rightarrow> None)"

definition get_DeviceClassStatus :: "'l cell \<Rightarrow> DeviceClassStatus_obj option" where
  [cell_simps]: "get_DeviceClassStatus c = (case c of CDeviceClassStatus x \<Rightarrow> Some x | _ \<Rightarrow> None)"

definition get_LVMClusterStatus :: "'l cell \<Rightarrow> LVMClusterStatus_obj option" where
  [cell_simps]: "get_LVMClusterStatus c = (case c of CLVMClusterStatus x \<Rightarrow> Some x | _ \<Rightarrow> None)"

definition get_LVMVolumeGroupSpec :: "'l cell \<Rightarrow> LVMVolumeGroupSpec_obj option" where
  [cell_simps]: "get_LVMVolumeGroupSpec c = (case c of CLVMVolumeGroupSpec x \<Rightarrow> Some x | _ \<Rightarrow> None)"

definition get_LVMVolumeGroupNodeStatusSpec :: "'l cell \<Rightarrow> LVMVolumeGroupNodeStatusSpec_obj option"
    where
  [cell_simps]: "get_LVMVolumeGroupNodeStatusSpec c = (case c of CLVMVolumeGroupNodeStatusSpec x
      \<Rightarrow> Some x | _ \<Rightarrow> None)"

definition get_LVMCluster :: "'l cell \<Rightarrow> ('l LVMCluster_obj) option" where
  [cell_simps]: "get_LVMCluster c = (case c of CLVMCluster x \<Rightarrow> Some x | _ \<Rightarrow> None)"

definition get_LVMVolumeGroup :: "'l cell \<Rightarrow> ('l LVMVolumeGroup_obj) option" where
  [cell_simps]: "get_LVMVolumeGroup c = (case c of CLVMVolumeGroup x \<Rightarrow> Some x | _ \<Rightarrow> None)"

definition get_LVMVolumeGroupNodeStatus :: "'l cell \<Rightarrow> ('l LVMVolumeGroupNodeStatus_obj) option"
    where
  [cell_simps]: "get_LVMVolumeGroupNodeStatus c = (case c of CLVMVolumeGroupNodeStatus x
      \<Rightarrow> Some x | _ \<Rightarrow> None)"

definition get_LVMClusterList :: "'l cell \<Rightarrow> ('l LVMClusterList_obj) option" where
  [cell_simps]: "get_LVMClusterList c = (case c of CLVMClusterList x \<Rightarrow> Some x | _ \<Rightarrow> None)"

definition get_LVMVolumeGroupList :: "'l cell \<Rightarrow> ('l LVMVolumeGroupList_obj) option" where
  [cell_simps]: "get_LVMVolumeGroupList c = (case c of CLVMVolumeGroupList x \<Rightarrow> Some x | _ \<Rightarrow> None)"

definition get_LVMVolumeGroupNodeStatusList :: "'l cell
    \<Rightarrow> ('l LVMVolumeGroupNodeStatusList_obj) option" where
  [cell_simps]: "get_LVMVolumeGroupNodeStatusList c = (case c of CLVMVolumeGroupNodeStatusList x
      \<Rightarrow> Some x | _ \<Rightarrow> None)"

definition get_RAIDLVHealth :: "'l cell \<Rightarrow> RAIDLVHealth option" where
  [cell_simps]: "get_RAIDLVHealth c = (case c of CRAIDLVHealth x \<Rightarrow> Some x | _ \<Rightarrow> None)"

definition get_LVMVolumeGroupStatus :: "'l cell \<Rightarrow> unit option" where
  [cell_simps]: "get_LVMVolumeGroupStatus c = (case c of CLVMVolumeGroupStatus x \<Rightarrow> Some x | _
      \<Rightarrow> None)"

definition get_LVMVolumeGroupNodeStatusStatus :: "'l cell \<Rightarrow> unit option" where
  [cell_simps]: "get_LVMVolumeGroupNodeStatusStatus c = (case c of CLVMVolumeGroupNodeStatusStatus x
      \<Rightarrow> Some x | _ \<Rightarrow> None)"

lemma get_cell [simp]:
  "get_Int (CInt x0) = Some x0"
  "get_Bool (CBool x1) = Some x1"
  "get_Strings (CStrings x2) = Some x2"
  "get_Entries (CEntries x3) = Some x3"
  "get_DeviceDiscoveryPolicy (CDeviceDiscoveryPolicy x4) = Some x4"
  "get_ReclaimPolicy (CReclaimPolicy x5) = Some x5"
  "get_VolumeBindingMode (CVolumeBindingMode x6) = Some x6"
  "get_Quantity (CQuantity x7) = Some x7"
  "get_NodeSelector (CNodeSelector x8) = Some x8"
  "get_Tolerations (CTolerations x9) = Some x9"
  "get_Conditions (CConditions x10) = Some x10"
  "get_RAIDLVHealths (CRAIDLVHealths x11) = Some x11"
  "get_DeviceClasses (CDeviceClasses x12) = Some x12"
  "get_ExcludedDevices (CExcludedDevices x13) = Some x13"
  "get_NodeStatuses (CNodeStatuses x14) = Some x14"
  "get_DeviceClassStatuses (CDeviceClassStatuses x15) = Some x15"
  "get_VGStatuses (CVGStatuses x16) = Some x16"
  "get_LVMClusters (CLVMClusters x17) = Some x17"
  "get_LVMVolumeGroups (CLVMVolumeGroups x18) = Some x18"
  "get_LVMVolumeGroupNodeStatuses (CLVMVolumeGroupNodeStatuses x19) = Some x19"
  "get_ThinPoolConfig (CThinPoolConfig x20) = Some x20"
  "get_RAIDConfig (CRAIDConfig x21) = Some x21"
  "get_DeviceSelector (CDeviceSelector x22) = Some x22"
  "get_StorageClassOptions (CStorageClassOptions x23) = Some x23"
  "get_DeviceClass (CDeviceClass x24) = Some x24"
  "get_Storage (CStorage x25) = Some x25"
  "get_LVMClusterSpec (CLVMClusterSpec x26) = Some x26"
  "get_RAIDStatus (CRAIDStatus x27) = Some x27"
  "get_ExcludedDevice (CExcludedDevice x28) = Some x28"
  "get_VGStatus (CVGStatus x29) = Some x29"
  "get_NodeStatus (CNodeStatus x30) = Some x30"
  "get_DeviceClassStatus (CDeviceClassStatus x31) = Some x31"
  "get_LVMClusterStatus (CLVMClusterStatus x32) = Some x32"
  "get_LVMVolumeGroupSpec (CLVMVolumeGroupSpec x33) = Some x33"
  "get_LVMVolumeGroupNodeStatusSpec (CLVMVolumeGroupNodeStatusSpec x34) = Some x34"
  "get_LVMCluster (CLVMCluster x35) = Some x35"
  "get_LVMVolumeGroup (CLVMVolumeGroup x36) = Some x36"
  "get_LVMVolumeGroupNodeStatus (CLVMVolumeGroupNodeStatus x37) = Some x37"
  "get_LVMClusterList (CLVMClusterList x38) = Some x38"
  "get_LVMVolumeGroupList (CLVMVolumeGroupList x39) = Some x39"
  "get_LVMVolumeGroupNodeStatusList (CLVMVolumeGroupNodeStatusList x40) = Some x40"
  "get_RAIDLVHealth (CRAIDLVHealth x41) = Some x41"
  "get_LVMVolumeGroupStatus (CLVMVolumeGroupStatus x42) = Some x42"
  "get_LVMVolumeGroupNodeStatusStatus (CLVMVolumeGroupNodeStatusStatus x43) = Some x43"
  by (simp_all add: cell_simps)

section \<open>The copies of Kubernetes' structs\<close>

record 'l library =
  Quantity_view :: "nat \<Rightarrow> 'l cell heap \<Rightarrow> 'l \<Rightarrow> Quantity option"
  Quantity_DeepCopy :: "'l \<Rightarrow> ('l cell, 'l) mem"
  NodeSelector_view :: "nat \<Rightarrow> 'l cell heap \<Rightarrow> 'l \<Rightarrow> NodeSelector option"
  NodeSelector_DeepCopyInto :: "'l \<Rightarrow> ('l cell, 'l) mem"
  Toleration_view :: "nat \<Rightarrow> 'l cell heap \<Rightarrow> 'l \<Rightarrow> Toleration option"
  Toleration_DeepCopyInto :: "'l \<Rightarrow> ('l cell, 'l) mem"
  Condition_view :: "nat \<Rightarrow> 'l cell heap \<Rightarrow> 'l \<Rightarrow> Condition option"
  Condition_DeepCopyInto :: "'l \<Rightarrow> ('l cell, 'l) mem"
  ObjectMeta_view :: "nat \<Rightarrow> 'l cell heap \<Rightarrow> 'l \<Rightarrow> ObjectMeta option"
  ObjectMeta_DeepCopyInto :: "'l \<Rightarrow> ('l cell, 'l) mem"
  ListMeta_view :: "nat \<Rightarrow> 'l cell heap \<Rightarrow> 'l \<Rightarrow> string option"
  ListMeta_DeepCopyInto :: "'l \<Rightarrow> ('l cell, 'l) mem"

text \<open>What Kubernetes documents of the generated copies of its own structs: they are deep.\<close>

definition library_copies :: "'l library \<Rightarrow> bool" where
  "library_copies lib \<longleftrightarrow>
     copier (Quantity_view lib) (Quantity_DeepCopy lib)
   \<and> copier (NodeSelector_view lib) (NodeSelector_DeepCopyInto lib)
   \<and> copier (Toleration_view lib) (Toleration_DeepCopyInto lib)
   \<and> copier (Condition_view lib) (Condition_DeepCopyInto lib)
   \<and> copier (ObjectMeta_view lib) (ObjectMeta_DeepCopyInto lib)
   \<and> copier (ListMeta_view lib) (ListMeta_DeepCopyInto lib)"

lemma library_copiesD:
  assumes "library_copies lib"
  shows "copier (Quantity_view lib) (Quantity_DeepCopy lib)"
    "copier (NodeSelector_view lib) (NodeSelector_DeepCopyInto lib)"
    "copier (Toleration_view lib) (Toleration_DeepCopyInto lib)"
    "copier (Condition_view lib) (Condition_DeepCopyInto lib)"
    "copier (ObjectMeta_view lib) (ObjectMeta_DeepCopyInto lib)"
    "copier (ListMeta_view lib) (ListMeta_DeepCopyInto lib)"
  using assms by (simp_all add: library_copies_def)

end
