(* ===== verification/Deep_Copy.thy ===== *)
theory Deep_Copy
  imports API_Objects
begin

text \<open>
  The generated deep copies, \<open>api/v1alpha1/zz_generated.deepcopy.go\<close>, on the heap of \<open>API_Objects\<close>:
  \<open>DeepCopyInto\<close> of every struct field by field in the order of the code (returning what it writes
  into \<open>out\<close>), \<open>DeepCopy\<close> with its nil check and \<open>DeepCopyObject\<close> with the check that keeps a
  nil pointer out of the interface.  \<open>view_T\<close> reads an object of type \<open>T\<close> as the value the other
  theories use.  Each copy satisfies the contract \<open>copier\<close>; those that reach structs of Kubernetes
  do if the copies of these structs do (\<open>library_copies\<close>).  This is why the other theories may
  treat a deep copy as the identity on values.
\<close>

named_theorems copiers

lemmas [copiers] = plain_copier ptr_copier slice_copier library_copiesD

section \<open>ThinPoolConfig\<close>

definition DeepCopyInto_ThinPoolConfig :: "'l library \<Rightarrow> ThinPoolConfig_obj
    \<Rightarrow> ('l cell, ThinPoolConfig_obj) mem" where
  "DeepCopyInto_ThinPoolConfig lib x =
     do { chunkSize \<leftarrow> copy_ptr get_Quantity CQuantity (Quantity_DeepCopy lib) (tpo_ChunkSize x);
          metadataSize \<leftarrow> copy_ptr get_Quantity CQuantity (Quantity_DeepCopy lib)
              (tpo_MetadataSize x);
          ret (x\<lparr>tpo_ChunkSize := chunkSize, tpo_MetadataSize := metadataSize\<rparr>) }"

definition view_ThinPoolConfig :: "'l library \<Rightarrow> nat \<Rightarrow> 'l cell heap \<Rightarrow> ThinPoolConfig_obj
    \<Rightarrow> ThinPoolConfig option" where
  "view_ThinPoolConfig lib lo h x =
     do { chunkSize \<leftarrow> view_ptr get_Quantity (Quantity_view lib) lo h (tpo_ChunkSize x);
          metadataSize \<leftarrow> view_ptr get_Quantity (Quantity_view lib) lo h (tpo_MetadataSize x);
          Some (\<lparr>tpc_Name = tpo_Name x, tpc_SizePercent = tpo_SizePercent x,
              tpc_OverprovisionRatio = tpo_OverprovisionRatio x,
              tpc_ChunkSizeCalculationPolicy = tpo_ChunkSizeCalculationPolicy x,
              tpc_ChunkSize = chunkSize, tpc_MetadataSize = metadataSize,
              tpc_MetadataSizeCalculationPolicy = tpo_MetadataSizeCalculationPolicy x\<rparr>) }"

lemma copier_ThinPoolConfig [copiers]: "library_copies lib \<Longrightarrow> copier (view_ThinPoolConfig lib)
    (DeepCopyInto_ThinPoolConfig lib)"
  by (rule copierI, unfold view_ThinPoolConfig_def DeepCopyInto_ThinPoolConfig_def)
    (intro copies_ret copiers [THEN copies_bind] copiers get_cell;
        simp add: view_ThinPoolConfig_def)

definition DeepCopy_ThinPoolConfig :: "'l library \<Rightarrow> addr option \<Rightarrow> ('l cell, addr option) mem" where
  "DeepCopy_ThinPoolConfig lib = copy_ptr get_ThinPoolConfig CThinPoolConfig
      (DeepCopyInto_ThinPoolConfig lib)"

section \<open>RAIDConfig\<close>

definition DeepCopyInto_RAIDConfig :: "'l library \<Rightarrow> RAIDConfig_obj \<Rightarrow> ('l cell, RAIDConfig_obj) mem"
    where
  "DeepCopyInto_RAIDConfig lib x =
     do { mirrors \<leftarrow> copy_ptr get_Int CInt copy_plain (rco_Mirrors x);
          stripes \<leftarrow> copy_ptr get_Int CInt copy_plain (rco_Stripes x);
          stripeSize \<leftarrow> copy_ptr get_Quantity CQuantity (Quantity_DeepCopy lib) (rco_StripeSize x);
          ret (x\<lparr>rco_Mirrors := mirrors, rco_Stripes := stripes, rco_StripeSize := stripeSize\<rparr>) }"

definition view_RAIDConfig :: "'l library \<Rightarrow> nat \<Rightarrow> 'l cell heap \<Rightarrow> RAIDConfig_obj \<Rightarrow> RAIDConfig option"
    where
  "view_RAIDConfig lib lo h x =
     do { mirrors \<leftarrow> view_ptr get_Int view_plain lo h (rco_Mirrors x);
          stripes \<leftarrow> view_ptr get_Int view_plain lo h (rco_Stripes x);
          stripeSize \<leftarrow> view_ptr get_Quantity (Quantity_view lib) lo h (rco_StripeSize x);
          Some (\<lparr>rc_Type = rco_Type x, rc_Mirrors = mirrors, rc_Stripes = stripes,
              rc_StripeSize = stripeSize\<rparr>) }"

lemma copier_RAIDConfig [copiers]: "library_copies lib \<Longrightarrow> copier (view_RAIDConfig lib)
    (DeepCopyInto_RAIDConfig lib)"
  by (rule copierI, unfold view_RAIDConfig_def DeepCopyInto_RAIDConfig_def)
    (intro copies_ret copiers [THEN copies_bind] copiers get_cell; simp add: view_RAIDConfig_def)

definition DeepCopy_RAIDConfig :: "'l library \<Rightarrow> addr option \<Rightarrow> ('l cell, addr option) mem" where
  "DeepCopy_RAIDConfig lib = copy_ptr get_RAIDConfig CRAIDConfig (DeepCopyInto_RAIDConfig lib)"

section \<open>DeviceSelector\<close>

definition DeepCopyInto_DeviceSelector :: "DeviceSelector_obj \<Rightarrow> ('l cell, DeviceSelector_obj) mem"
    where
  "DeepCopyInto_DeviceSelector x =
     do { paths \<leftarrow> copy_slice get_Strings CStrings copy_plain (dso_Paths x);
          optionalPaths \<leftarrow> copy_slice get_Strings CStrings copy_plain (dso_OptionalPaths x);
          forceWipe \<leftarrow> copy_ptr get_Bool CBool copy_plain (dso_ForceWipeDevicesAndDestroyAllData x);
          ret (x\<lparr>dso_Paths := paths, dso_OptionalPaths := optionalPaths,
              dso_ForceWipeDevicesAndDestroyAllData := forceWipe\<rparr>) }"

definition view_DeviceSelector :: "nat \<Rightarrow> 'l cell heap \<Rightarrow> DeviceSelector_obj \<Rightarrow> DeviceSelector option"
    where
  "view_DeviceSelector lo h x =
     do { paths \<leftarrow> view_slice get_Strings view_plain lo h (dso_Paths x);
          optionalPaths \<leftarrow> view_slice get_Strings view_plain lo h (dso_OptionalPaths x);
          forceWipe \<leftarrow> view_ptr get_Bool view_plain lo h (dso_ForceWipeDevicesAndDestroyAllData x);
          Some (\<lparr>ds_Paths = paths, ds_OptionalPaths = optionalPaths,
              ds_ForceWipeDevicesAndDestroyAllData = forceWipe\<rparr>) }"

lemma copier_DeviceSelector [copiers]: "copier view_DeviceSelector DeepCopyInto_DeviceSelector"
  by (rule copierI, unfold view_DeviceSelector_def DeepCopyInto_DeviceSelector_def)
    (intro copies_ret copiers [THEN copies_bind] copiers get_cell;
        simp add: view_DeviceSelector_def)

definition DeepCopy_DeviceSelector :: "addr option \<Rightarrow> ('l cell, addr option) mem" where
  "DeepCopy_DeviceSelector = copy_ptr get_DeviceSelector CDeviceSelector
      DeepCopyInto_DeviceSelector"

section \<open>StorageClassOptions\<close>

definition DeepCopyInto_StorageClassOptions :: "StorageClassOptions_obj
    \<Rightarrow> ('l cell, StorageClassOptions_obj) mem" where
  "DeepCopyInto_StorageClassOptions x =
     do { reclaimPolicy \<leftarrow> copy_ptr get_ReclaimPolicy CReclaimPolicy copy_plain
         (scoo_ReclaimPolicy x);
          volumeBindingMode \<leftarrow> copy_ptr get_VolumeBindingMode CVolumeBindingMode copy_plain
              (scoo_VolumeBindingMode x);
          additionalParameters \<leftarrow> copy_slice get_Entries CEntries copy_plain
              (scoo_AdditionalParameters x);
          additionalLabels \<leftarrow> copy_slice get_Entries CEntries copy_plain (scoo_AdditionalLabels x);
          ret (x\<lparr>scoo_ReclaimPolicy := reclaimPolicy, scoo_VolumeBindingMode := volumeBindingMode,
              scoo_AdditionalParameters := additionalParameters,
              scoo_AdditionalLabels := additionalLabels\<rparr>) }"

definition view_StorageClassOptions :: "nat \<Rightarrow> 'l cell heap \<Rightarrow> StorageClassOptions_obj
    \<Rightarrow> StorageClassOptions option" where
  "view_StorageClassOptions lo h x =
     do { reclaimPolicy \<leftarrow> view_ptr get_ReclaimPolicy view_plain lo h (scoo_ReclaimPolicy x);
          volumeBindingMode \<leftarrow> view_ptr get_VolumeBindingMode view_plain lo h
              (scoo_VolumeBindingMode x);
          additionalParameters \<leftarrow> view_slice get_Entries view_plain lo h
              (scoo_AdditionalParameters x);
          additionalLabels \<leftarrow> view_slice get_Entries view_plain lo h (scoo_AdditionalLabels x);
          Some (\<lparr>sco_ReclaimPolicy = reclaimPolicy, sco_VolumeBindingMode = volumeBindingMode,
              sco_AdditionalParameters = additionalParameters,
              sco_AdditionalLabels = additionalLabels\<rparr>) }"

lemma copier_StorageClassOptions [copiers]: "copier view_StorageClassOptions
    DeepCopyInto_StorageClassOptions"
  by (rule copierI, unfold view_StorageClassOptions_def DeepCopyInto_StorageClassOptions_def)
    (intro copies_ret copiers [THEN copies_bind] copiers get_cell;
        simp add: view_StorageClassOptions_def)

definition DeepCopy_StorageClassOptions :: "addr option \<Rightarrow> ('l cell, addr option) mem" where
  "DeepCopy_StorageClassOptions = copy_ptr get_StorageClassOptions CStorageClassOptions
      DeepCopyInto_StorageClassOptions"

section \<open>DeviceClass\<close>

definition DeepCopyInto_DeviceClass :: "'l library \<Rightarrow> DeviceClass_obj
    \<Rightarrow> ('l cell, DeviceClass_obj) mem" where
  "DeepCopyInto_DeviceClass lib x =
     do { deviceSelector \<leftarrow> copy_ptr get_DeviceSelector CDeviceSelector DeepCopyInto_DeviceSelector
         (dco_DeviceSelector x);
          nodeSelector \<leftarrow> copy_ptr get_NodeSelector CNodeSelector (NodeSelector_DeepCopyInto lib)
              (dco_NodeSelector x);
          thinPoolConfig \<leftarrow> copy_ptr get_ThinPoolConfig CThinPoolConfig
              (DeepCopyInto_ThinPoolConfig lib) (dco_ThinPoolConfig x);
          raidConfig \<leftarrow> copy_ptr get_RAIDConfig CRAIDConfig (DeepCopyInto_RAIDConfig lib)
              (dco_RAIDConfig x);
          deviceDiscoveryPolicy \<leftarrow> copy_ptr get_DeviceDiscoveryPolicy CDeviceDiscoveryPolicy copy_plain (dco_DeviceDiscoveryPolicy x);
          storageClassOptions \<leftarrow> copy_ptr get_StorageClassOptions CStorageClassOptions
              DeepCopyInto_StorageClassOptions (dco_StorageClassOptions x);
          ret (x\<lparr>dco_DeviceSelector := deviceSelector, dco_NodeSelector := nodeSelector,
              dco_ThinPoolConfig := thinPoolConfig, dco_RAIDConfig := raidConfig,
              dco_DeviceDiscoveryPolicy := deviceDiscoveryPolicy,
              dco_StorageClassOptions := storageClassOptions\<rparr>) }"

definition view_DeviceClass :: "'l library \<Rightarrow> nat \<Rightarrow> 'l cell heap \<Rightarrow> DeviceClass_obj
    \<Rightarrow> DeviceClass option" where
  "view_DeviceClass lib lo h x =
     do { deviceSelector \<leftarrow> view_ptr get_DeviceSelector view_DeviceSelector lo h
         (dco_DeviceSelector x);
          nodeSelector \<leftarrow> view_ptr get_NodeSelector (NodeSelector_view lib) lo h
              (dco_NodeSelector x);
          thinPoolConfig \<leftarrow> view_ptr get_ThinPoolConfig (view_ThinPoolConfig lib) lo h
              (dco_ThinPoolConfig x);
          raidConfig \<leftarrow> view_ptr get_RAIDConfig (view_RAIDConfig lib) lo h (dco_RAIDConfig x);
          deviceDiscoveryPolicy \<leftarrow> view_ptr get_DeviceDiscoveryPolicy view_plain lo h
              (dco_DeviceDiscoveryPolicy x);
          storageClassOptions \<leftarrow> view_ptr get_StorageClassOptions view_StorageClassOptions lo h
              (dco_StorageClassOptions x);
          Some (\<lparr>dc_Name = dco_Name x, dc_DeviceSelector = deviceSelector,
              dc_NodeSelector = nodeSelector, dc_ThinPoolConfig = thinPoolConfig,
              dc_RAIDConfig = raidConfig, dc_Default = dco_Default x,
              dc_FilesystemType = dco_FilesystemType x,
              dc_DeviceDiscoveryPolicy = deviceDiscoveryPolicy,
              dc_StorageClassOptions = storageClassOptions\<rparr>) }"

lemma copier_DeviceClass [copiers]: "library_copies lib \<Longrightarrow> copier (view_DeviceClass lib)
    (DeepCopyInto_DeviceClass lib)"
  by (rule copierI, unfold view_DeviceClass_def DeepCopyInto_DeviceClass_def)
    (intro copies_ret copiers [THEN copies_bind] copiers get_cell; simp add: view_DeviceClass_def)

definition DeepCopy_DeviceClass :: "'l library \<Rightarrow> addr option \<Rightarrow> ('l cell, addr option) mem" where
  "DeepCopy_DeviceClass lib = copy_ptr get_DeviceClass CDeviceClass (DeepCopyInto_DeviceClass lib)"

section \<open>Storage\<close>

definition DeepCopyInto_Storage :: "'l library \<Rightarrow> Storage_obj \<Rightarrow> ('l cell, Storage_obj) mem" where
  "DeepCopyInto_Storage lib x =
     do { deviceClasses \<leftarrow> copy_slice get_DeviceClasses CDeviceClasses (DeepCopyInto_DeviceClass lib)
         (sto_DeviceClasses x);
          ret (x\<lparr>sto_DeviceClasses := deviceClasses\<rparr>) }"

definition view_Storage :: "'l library \<Rightarrow> nat \<Rightarrow> 'l cell heap \<Rightarrow> Storage_obj
    \<Rightarrow> (DeviceClass list) option" where
  "view_Storage lib lo h x =
     do { deviceClasses \<leftarrow> view_slice get_DeviceClasses (view_DeviceClass lib) lo h
         (sto_DeviceClasses x);
          Some (deviceClasses) }"

lemma copier_Storage [copiers]: "library_copies lib \<Longrightarrow> copier (view_Storage lib)
    (DeepCopyInto_Storage lib)"
  by (rule copierI, unfold view_Storage_def DeepCopyInto_Storage_def)
    (intro copies_ret copiers [THEN copies_bind] copiers get_cell; simp add: view_Storage_def)

definition DeepCopy_Storage :: "'l library \<Rightarrow> addr option \<Rightarrow> ('l cell, addr option) mem" where
  "DeepCopy_Storage lib = copy_ptr get_Storage CStorage (DeepCopyInto_Storage lib)"

section \<open>LVMClusterSpec\<close>

definition DeepCopyInto_LVMClusterSpec :: "'l library \<Rightarrow> LVMClusterSpec_obj
    \<Rightarrow> ('l cell, LVMClusterSpec_obj) mem" where
  "DeepCopyInto_LVMClusterSpec lib x =
     do { tolerations \<leftarrow> copy_slice get_Tolerations CTolerations (Toleration_DeepCopyInto lib)
         (lso_Tolerations x);
          storage \<leftarrow> DeepCopyInto_Storage lib (lso_Storage x);
          ret (x\<lparr>lso_Tolerations := tolerations, lso_Storage := storage\<rparr>) }"

definition view_LVMClusterSpec :: "'l library \<Rightarrow> nat \<Rightarrow> 'l cell heap \<Rightarrow> LVMClusterSpec_obj
    \<Rightarrow> (Toleration list \<times> DeviceClass list) option" where
  "view_LVMClusterSpec lib lo h x =
     do { tolerations \<leftarrow> view_slice get_Tolerations (Toleration_view lib) lo h (lso_Tolerations x);
          storage \<leftarrow> view_Storage lib lo h (lso_Storage x);
          Some ((tolerations, storage)) }"

lemma copier_LVMClusterSpec [copiers]: "library_copies lib \<Longrightarrow> copier (view_LVMClusterSpec lib)
    (DeepCopyInto_LVMClusterSpec lib)"
  by (rule copierI, unfold view_LVMClusterSpec_def DeepCopyInto_LVMClusterSpec_def)
    (intro copies_ret copiers [THEN copies_bind] copiers get_cell;
        simp add: view_LVMClusterSpec_def)

definition DeepCopy_LVMClusterSpec :: "'l library \<Rightarrow> addr option \<Rightarrow> ('l cell, addr option) mem" where
  "DeepCopy_LVMClusterSpec lib = copy_ptr get_LVMClusterSpec CLVMClusterSpec
      (DeepCopyInto_LVMClusterSpec lib)"

section \<open>RAIDStatus\<close>

definition DeepCopyInto_RAIDStatus :: "RAIDStatus_obj \<Rightarrow> ('l cell, RAIDStatus_obj) mem" where
  "DeepCopyInto_RAIDStatus x =
     do { minSyncPercent \<leftarrow> copy_ptr get_Int CInt copy_plain (rso_MinSyncPercent x);
          lvHealth \<leftarrow> copy_slice get_RAIDLVHealths CRAIDLVHealths copy_plain (rso_LVHealth x);
          ret (x\<lparr>rso_MinSyncPercent := minSyncPercent, rso_LVHealth := lvHealth\<rparr>) }"

definition view_RAIDStatus :: "nat \<Rightarrow> 'l cell heap \<Rightarrow> RAIDStatus_obj \<Rightarrow> RAIDStatus option" where
  "view_RAIDStatus lo h x =
     do { minSyncPercent \<leftarrow> view_ptr get_Int view_plain lo h (rso_MinSyncPercent x);
          lvHealth \<leftarrow> view_slice get_RAIDLVHealths view_plain lo h (rso_LVHealth x);
          Some (\<lparr>rs_Status = rso_Status x, rs_MemberCount = rso_MemberCount x,
              rs_DegradedMemberCount = rso_DegradedMemberCount x,
              rs_MinSyncPercent = minSyncPercent, rs_LVHealth = lvHealth\<rparr>) }"

lemma copier_RAIDStatus [copiers]: "copier view_RAIDStatus DeepCopyInto_RAIDStatus"
  by (rule copierI, unfold view_RAIDStatus_def DeepCopyInto_RAIDStatus_def)
    (intro copies_ret copiers [THEN copies_bind] copiers get_cell; simp add: view_RAIDStatus_def)

definition DeepCopy_RAIDStatus :: "addr option \<Rightarrow> ('l cell, addr option) mem" where
  "DeepCopy_RAIDStatus = copy_ptr get_RAIDStatus CRAIDStatus DeepCopyInto_RAIDStatus"

section \<open>ExcludedDevice\<close>

definition DeepCopyInto_ExcludedDevice :: "ExcludedDevice_obj \<Rightarrow> ('l cell, ExcludedDevice_obj) mem"
    where
  "DeepCopyInto_ExcludedDevice x =
     do { reasons \<leftarrow> copy_slice get_Strings CStrings copy_plain (edo_Reasons x);
          ret (x\<lparr>edo_Reasons := reasons\<rparr>) }"

definition view_ExcludedDevice :: "nat \<Rightarrow> 'l cell heap \<Rightarrow> ExcludedDevice_obj \<Rightarrow> ExcludedDevice option"
    where
  "view_ExcludedDevice lo h x =
     do { reasons \<leftarrow> view_slice get_Strings view_plain lo h (edo_Reasons x);
          Some (\<lparr>ed_Name = edo_Name x, ed_Reasons = reasons\<rparr>) }"

lemma copier_ExcludedDevice [copiers]: "copier view_ExcludedDevice DeepCopyInto_ExcludedDevice"
  by (rule copierI, unfold view_ExcludedDevice_def DeepCopyInto_ExcludedDevice_def)
    (intro copies_ret copiers [THEN copies_bind] copiers get_cell;
        simp add: view_ExcludedDevice_def)

definition DeepCopy_ExcludedDevice :: "addr option \<Rightarrow> ('l cell, addr option) mem" where
  "DeepCopy_ExcludedDevice = copy_ptr get_ExcludedDevice CExcludedDevice
      DeepCopyInto_ExcludedDevice"

section \<open>VGStatus\<close>

definition DeepCopyInto_VGStatus :: "VGStatus_obj \<Rightarrow> ('l cell, VGStatus_obj) mem" where
  "DeepCopyInto_VGStatus x =
     do { devices \<leftarrow> copy_slice get_Strings CStrings copy_plain (vso_Devices x);
          excluded \<leftarrow> copy_slice get_ExcludedDevices CExcludedDevices DeepCopyInto_ExcludedDevice
              (vso_Excluded x);
          raidStatus \<leftarrow> copy_ptr get_RAIDStatus CRAIDStatus DeepCopyInto_RAIDStatus
              (vso_RAIDStatus x);
          ret (x\<lparr>vso_Devices := devices, vso_Excluded := excluded, vso_RAIDStatus := raidStatus\<rparr>) }"

definition view_VGStatus :: "nat \<Rightarrow> 'l cell heap \<Rightarrow> VGStatus_obj \<Rightarrow> VGStatus option" where
  "view_VGStatus lo h x =
     do { devices \<leftarrow> view_slice get_Strings view_plain lo h (vso_Devices x);
          excluded \<leftarrow> view_slice get_ExcludedDevices view_ExcludedDevice lo h (vso_Excluded x);
          raidStatus \<leftarrow> view_ptr get_RAIDStatus view_RAIDStatus lo h (vso_RAIDStatus x);
          Some (\<lparr>vs_Name = vso_Name x, vs_Status = vso_Status x, vs_Reason = vso_Reason x,
              vs_Devices = devices, vs_Excluded = excluded,
              vs_DeviceDiscoveryPolicy = vso_DeviceDiscoveryPolicy x,
              vs_RAIDStatus = raidStatus\<rparr>) }"

lemma copier_VGStatus [copiers]: "copier view_VGStatus DeepCopyInto_VGStatus"
  by (rule copierI, unfold view_VGStatus_def DeepCopyInto_VGStatus_def)
    (intro copies_ret copiers [THEN copies_bind] copiers get_cell; simp add: view_VGStatus_def)

definition DeepCopy_VGStatus :: "addr option \<Rightarrow> ('l cell, addr option) mem" where
  "DeepCopy_VGStatus = copy_ptr get_VGStatus CVGStatus DeepCopyInto_VGStatus"

section \<open>NodeStatus\<close>

definition DeepCopyInto_NodeStatus :: "NodeStatus_obj \<Rightarrow> ('l cell, NodeStatus_obj) mem" where
  "DeepCopyInto_NodeStatus x =
     do { vgStatus \<leftarrow> DeepCopyInto_VGStatus (nto_VGStatus x);
          ret (x\<lparr>nto_VGStatus := vgStatus\<rparr>) }"

definition view_NodeStatus :: "nat \<Rightarrow> 'l cell heap \<Rightarrow> NodeStatus_obj \<Rightarrow> NodeStatus option" where
  "view_NodeStatus lo h x =
     do { vgStatus \<leftarrow> view_VGStatus lo h (nto_VGStatus x);
          Some (\<lparr>nst_Node = nto_Node x, nst_VGStatus = vgStatus\<rparr>) }"

lemma copier_NodeStatus [copiers]: "copier view_NodeStatus DeepCopyInto_NodeStatus"
  by (rule copierI, unfold view_NodeStatus_def DeepCopyInto_NodeStatus_def)
    (intro copies_ret copiers [THEN copies_bind] copiers get_cell; simp add: view_NodeStatus_def)

definition DeepCopy_NodeStatus :: "addr option \<Rightarrow> ('l cell, addr option) mem" where
  "DeepCopy_NodeStatus = copy_ptr get_NodeStatus CNodeStatus DeepCopyInto_NodeStatus"

section \<open>DeviceClassStatus\<close>

definition DeepCopyInto_DeviceClassStatus :: "DeviceClassStatus_obj
    \<Rightarrow> ('l cell, DeviceClassStatus_obj) mem" where
  "DeepCopyInto_DeviceClassStatus x =
     do { nodeStatus \<leftarrow> copy_slice get_NodeStatuses CNodeStatuses DeepCopyInto_NodeStatus
         (dto_NodeStatus x);
          ret (x\<lparr>dto_NodeStatus := nodeStatus\<rparr>) }"

definition view_DeviceClassStatus :: "nat \<Rightarrow> 'l cell heap \<Rightarrow> DeviceClassStatus_obj
    \<Rightarrow> DeviceClassStatus option" where
  "view_DeviceClassStatus lo h x =
     do { nodeStatus \<leftarrow> view_slice get_NodeStatuses view_NodeStatus lo h (dto_NodeStatus x);
          Some (\<lparr>dcs_Name = dto_Name x, dcs_NodeStatus = nodeStatus\<rparr>) }"

lemma copier_DeviceClassStatus [copiers]: "copier view_DeviceClassStatus
    DeepCopyInto_DeviceClassStatus"
  by (rule copierI, unfold view_DeviceClassStatus_def DeepCopyInto_DeviceClassStatus_def)
    (intro copies_ret copiers [THEN copies_bind] copiers get_cell;
        simp add: view_DeviceClassStatus_def)

definition DeepCopy_DeviceClassStatus :: "addr option \<Rightarrow> ('l cell, addr option) mem" where
  "DeepCopy_DeviceClassStatus = copy_ptr get_DeviceClassStatus CDeviceClassStatus
      DeepCopyInto_DeviceClassStatus"

section \<open>LVMClusterStatus\<close>

definition DeepCopyInto_LVMClusterStatus :: "'l library \<Rightarrow> LVMClusterStatus_obj
    \<Rightarrow> ('l cell, LVMClusterStatus_obj) mem" where
  "DeepCopyInto_LVMClusterStatus lib x =
     do { conditions \<leftarrow> copy_slice get_Conditions CConditions (Condition_DeepCopyInto lib)
         (lto_Conditions x);
          deviceClassStatuses \<leftarrow> copy_slice get_DeviceClassStatuses CDeviceClassStatuses
              DeepCopyInto_DeviceClassStatus (lto_DeviceClassStatuses x);
          ret (x\<lparr>lto_Conditions := conditions, lto_DeviceClassStatuses := deviceClassStatuses\<rparr>) }"

definition view_LVMClusterStatus :: "'l library \<Rightarrow> nat \<Rightarrow> 'l cell heap \<Rightarrow> LVMClusterStatus_obj
    \<Rightarrow> LVMClusterStatus option" where
  "view_LVMClusterStatus lib lo h x =
     do { conditions \<leftarrow> view_slice get_Conditions (Condition_view lib) lo h (lto_Conditions x);
          deviceClassStatuses \<leftarrow> view_slice get_DeviceClassStatuses view_DeviceClassStatus lo h
              (lto_DeviceClassStatuses x);
          Some (\<lparr>lcs_Ready = lto_Ready x, lcs_State = lto_State x, lcs_Conditions = conditions,
              lcs_DeviceClassStatuses = deviceClassStatuses\<rparr>) }"

lemma copier_LVMClusterStatus [copiers]: "library_copies lib \<Longrightarrow> copier (view_LVMClusterStatus lib)
    (DeepCopyInto_LVMClusterStatus lib)"
  by (rule copierI, unfold view_LVMClusterStatus_def DeepCopyInto_LVMClusterStatus_def)
    (intro copies_ret copiers [THEN copies_bind] copiers get_cell;
        simp add: view_LVMClusterStatus_def)

definition DeepCopy_LVMClusterStatus :: "'l library \<Rightarrow> addr option \<Rightarrow> ('l cell, addr option) mem"
    where
  "DeepCopy_LVMClusterStatus lib = copy_ptr get_LVMClusterStatus CLVMClusterStatus
      (DeepCopyInto_LVMClusterStatus lib)"

section \<open>LVMVolumeGroupSpec\<close>

definition DeepCopyInto_LVMVolumeGroupSpec :: "'l library \<Rightarrow> LVMVolumeGroupSpec_obj
    \<Rightarrow> ('l cell, LVMVolumeGroupSpec_obj) mem" where
  "DeepCopyInto_LVMVolumeGroupSpec lib x =
     do { deviceSelector \<leftarrow> copy_ptr get_DeviceSelector CDeviceSelector DeepCopyInto_DeviceSelector
         (vgo_DeviceSelector x);
          nodeSelector \<leftarrow> copy_ptr get_NodeSelector CNodeSelector (NodeSelector_DeepCopyInto lib)
              (vgo_NodeSelector x);
          thinPoolConfig \<leftarrow> copy_ptr get_ThinPoolConfig CThinPoolConfig
              (DeepCopyInto_ThinPoolConfig lib) (vgo_ThinPoolConfig x);
          raidConfig \<leftarrow> copy_ptr get_RAIDConfig CRAIDConfig (DeepCopyInto_RAIDConfig lib)
              (vgo_RAIDConfig x);
          deviceDiscoveryPolicy \<leftarrow> copy_ptr get_DeviceDiscoveryPolicy CDeviceDiscoveryPolicy copy_plain (vgo_DeviceDiscoveryPolicy x);
          ret (x\<lparr>vgo_DeviceSelector := deviceSelector, vgo_NodeSelector := nodeSelector,
              vgo_ThinPoolConfig := thinPoolConfig, vgo_RAIDConfig := raidConfig,
              vgo_DeviceDiscoveryPolicy := deviceDiscoveryPolicy\<rparr>) }"

definition view_LVMVolumeGroupSpec :: "'l library \<Rightarrow> nat \<Rightarrow> 'l cell heap \<Rightarrow> LVMVolumeGroupSpec_obj
    \<Rightarrow> LVMVolumeGroupSpec option" where
  "view_LVMVolumeGroupSpec lib lo h x =
     do { deviceSelector \<leftarrow> view_ptr get_DeviceSelector view_DeviceSelector lo h
         (vgo_DeviceSelector x);
          nodeSelector \<leftarrow> view_ptr get_NodeSelector (NodeSelector_view lib) lo h
              (vgo_NodeSelector x);
          thinPoolConfig \<leftarrow> view_ptr get_ThinPoolConfig (view_ThinPoolConfig lib) lo h
              (vgo_ThinPoolConfig x);
          raidConfig \<leftarrow> view_ptr get_RAIDConfig (view_RAIDConfig lib) lo h (vgo_RAIDConfig x);
          deviceDiscoveryPolicy \<leftarrow> view_ptr get_DeviceDiscoveryPolicy view_plain lo h
              (vgo_DeviceDiscoveryPolicy x);
          Some (\<lparr>vgs_DeviceSelector = deviceSelector, vgs_NodeSelector = nodeSelector,
              vgs_ThinPoolConfig = thinPoolConfig, vgs_RAIDConfig = raidConfig,
              vgs_Default = vgo_Default x, vgs_DeviceDiscoveryPolicy = deviceDiscoveryPolicy\<rparr>) }"

lemma copier_LVMVolumeGroupSpec [copiers]: "library_copies lib \<Longrightarrow>
    copier (view_LVMVolumeGroupSpec lib) (DeepCopyInto_LVMVolumeGroupSpec lib)"
  by (rule copierI, unfold view_LVMVolumeGroupSpec_def DeepCopyInto_LVMVolumeGroupSpec_def)
    (intro copies_ret copiers [THEN copies_bind] copiers get_cell;
        simp add: view_LVMVolumeGroupSpec_def)

definition DeepCopy_LVMVolumeGroupSpec :: "'l library \<Rightarrow> addr option \<Rightarrow> ('l cell, addr option) mem"
    where
  "DeepCopy_LVMVolumeGroupSpec lib = copy_ptr get_LVMVolumeGroupSpec CLVMVolumeGroupSpec
      (DeepCopyInto_LVMVolumeGroupSpec lib)"

section \<open>LVMVolumeGroupNodeStatusSpec\<close>

definition DeepCopyInto_LVMVolumeGroupNodeStatusSpec :: "LVMVolumeGroupNodeStatusSpec_obj
    \<Rightarrow> ('l cell, LVMVolumeGroupNodeStatusSpec_obj) mem" where
  "DeepCopyInto_LVMVolumeGroupNodeStatusSpec x =
     do { lvmVGStatus \<leftarrow> copy_slice get_VGStatuses CVGStatuses DeepCopyInto_VGStatus
         (nso_LVMVGStatus x);
          ret (x\<lparr>nso_LVMVGStatus := lvmVGStatus\<rparr>) }"

definition view_LVMVolumeGroupNodeStatusSpec :: "nat \<Rightarrow> 'l cell heap
    \<Rightarrow> LVMVolumeGroupNodeStatusSpec_obj \<Rightarrow> (VGStatus list) option" where
  "view_LVMVolumeGroupNodeStatusSpec lo h x =
     do { lvmVGStatus \<leftarrow> view_slice get_VGStatuses view_VGStatus lo h (nso_LVMVGStatus x);
          Some (lvmVGStatus) }"

lemma copier_LVMVolumeGroupNodeStatusSpec [copiers]: "copier view_LVMVolumeGroupNodeStatusSpec
    DeepCopyInto_LVMVolumeGroupNodeStatusSpec"
  by (rule copierI, unfold view_LVMVolumeGroupNodeStatusSpec_def
      DeepCopyInto_LVMVolumeGroupNodeStatusSpec_def)
    (intro copies_ret copiers [THEN copies_bind] copiers get_cell;
        simp add: view_LVMVolumeGroupNodeStatusSpec_def)

definition DeepCopy_LVMVolumeGroupNodeStatusSpec :: "addr option \<Rightarrow> ('l cell, addr option) mem" where
  "DeepCopy_LVMVolumeGroupNodeStatusSpec
      = copy_ptr get_LVMVolumeGroupNodeStatusSpec CLVMVolumeGroupNodeStatusSpec
      DeepCopyInto_LVMVolumeGroupNodeStatusSpec"

section \<open>LVMCluster\<close>

definition DeepCopyInto_LVMCluster :: "'l library \<Rightarrow> 'l LVMCluster_obj
    \<Rightarrow> ('l cell, 'l LVMCluster_obj) mem" where
  "DeepCopyInto_LVMCluster lib x =
     do { objectMeta \<leftarrow> ObjectMeta_DeepCopyInto lib (lco_ObjectMeta x);
          spec \<leftarrow> DeepCopyInto_LVMClusterSpec lib (lco_Spec x);
          status \<leftarrow> DeepCopyInto_LVMClusterStatus lib (lco_Status x);
          ret (x\<lparr>lco_ObjectMeta := objectMeta, lco_Spec := spec, lco_Status := status\<rparr>) }"

definition view_LVMCluster :: "'l library \<Rightarrow> nat \<Rightarrow> 'l cell heap \<Rightarrow> 'l LVMCluster_obj
    \<Rightarrow> LVMCluster option" where
  "view_LVMCluster lib lo h x =
     do { objectMeta \<leftarrow> ObjectMeta_view lib lo h (lco_ObjectMeta x);
          spec \<leftarrow> view_LVMClusterSpec lib lo h (lco_Spec x);
          status \<leftarrow> view_LVMClusterStatus lib lo h (lco_Status x);
          Some (\<lparr>lc_Name = om_Name objectMeta, lc_Namespace = om_Namespace objectMeta,
              lc_UID = om_UID objectMeta,
       lc_Finalizers = om_Finalizers objectMeta, lc_Deleted = om_Deleted objectMeta,
           lc_Tolerations = fst spec,
       lc_DeviceClasses = snd spec, lc_Status = status\<rparr>) }"

lemma copier_LVMCluster [copiers]: "library_copies lib \<Longrightarrow> copier (view_LVMCluster lib)
    (DeepCopyInto_LVMCluster lib)"
  by (rule copierI, unfold view_LVMCluster_def DeepCopyInto_LVMCluster_def)
    (intro copies_ret copiers [THEN copies_bind] copiers get_cell; simp add: view_LVMCluster_def)

definition DeepCopy_LVMCluster :: "'l library \<Rightarrow> addr option \<Rightarrow> ('l cell, addr option) mem" where
  "DeepCopy_LVMCluster lib = copy_ptr get_LVMCluster CLVMCluster (DeepCopyInto_LVMCluster lib)"

section \<open>LVMVolumeGroup\<close>

definition DeepCopyInto_LVMVolumeGroup :: "'l library \<Rightarrow> 'l LVMVolumeGroup_obj
    \<Rightarrow> ('l cell, 'l LVMVolumeGroup_obj) mem" where
  "DeepCopyInto_LVMVolumeGroup lib x =
     do { objectMeta \<leftarrow> ObjectMeta_DeepCopyInto lib (lvo_ObjectMeta x);
          spec \<leftarrow> DeepCopyInto_LVMVolumeGroupSpec lib (lvo_Spec x);
          ret (x\<lparr>lvo_ObjectMeta := objectMeta, lvo_Spec := spec\<rparr>) }"

definition view_LVMVolumeGroup :: "'l library \<Rightarrow> nat \<Rightarrow> 'l cell heap \<Rightarrow> 'l LVMVolumeGroup_obj
    \<Rightarrow> LVMVolumeGroup option" where
  "view_LVMVolumeGroup lib lo h x =
     do { objectMeta \<leftarrow> ObjectMeta_view lib lo h (lvo_ObjectMeta x);
          spec \<leftarrow> view_LVMVolumeGroupSpec lib lo h (lvo_Spec x);
          Some (\<lparr>vg_Name = om_Name objectMeta, vg_Namespace = om_Namespace objectMeta,
              vg_UID = om_UID objectMeta,
       vg_Finalizers = om_Finalizers objectMeta, vg_Annotations = om_Annotations objectMeta,
       vg_OwnerReferences = om_OwnerReferences objectMeta, vg_Deleted = om_Deleted objectMeta,
           vg_Spec = spec\<rparr>) }"

lemma copier_LVMVolumeGroup [copiers]: "library_copies lib \<Longrightarrow> copier (view_LVMVolumeGroup lib)
    (DeepCopyInto_LVMVolumeGroup lib)"
  by (rule copierI, unfold view_LVMVolumeGroup_def DeepCopyInto_LVMVolumeGroup_def)
    (intro copies_ret copiers [THEN copies_bind] copiers get_cell;
        simp add: view_LVMVolumeGroup_def)

definition DeepCopy_LVMVolumeGroup :: "'l library \<Rightarrow> addr option \<Rightarrow> ('l cell, addr option) mem" where
  "DeepCopy_LVMVolumeGroup lib = copy_ptr get_LVMVolumeGroup CLVMVolumeGroup
      (DeepCopyInto_LVMVolumeGroup lib)"

section \<open>LVMVolumeGroupNodeStatus\<close>

definition DeepCopyInto_LVMVolumeGroupNodeStatus :: "'l library \<Rightarrow> 'l LVMVolumeGroupNodeStatus_obj
    \<Rightarrow> ('l cell, 'l LVMVolumeGroupNodeStatus_obj) mem" where
  "DeepCopyInto_LVMVolumeGroupNodeStatus lib x =
     do { objectMeta \<leftarrow> ObjectMeta_DeepCopyInto lib (lno_ObjectMeta x);
          spec \<leftarrow> DeepCopyInto_LVMVolumeGroupNodeStatusSpec (lno_Spec x);
          ret (x\<lparr>lno_ObjectMeta := objectMeta, lno_Spec := spec\<rparr>) }"

definition view_LVMVolumeGroupNodeStatus :: "'l library \<Rightarrow> nat \<Rightarrow> 'l cell heap
    \<Rightarrow> 'l LVMVolumeGroupNodeStatus_obj \<Rightarrow> LVMVolumeGroupNodeStatus option" where
  "view_LVMVolumeGroupNodeStatus lib lo h x =
     do { objectMeta \<leftarrow> ObjectMeta_view lib lo h (lno_ObjectMeta x);
          spec \<leftarrow> view_LVMVolumeGroupNodeStatusSpec lo h (lno_Spec x);
          Some (\<lparr>ns_Name = om_Name objectMeta, ns_Namespace = om_Namespace objectMeta,
              ns_OwnerReferences = om_OwnerReferences objectMeta,
       ns_Finalizers = om_Finalizers objectMeta, ns_Deleted = om_Deleted objectMeta,
           ns_LVMVGStatus = spec\<rparr>) }"

lemma copier_LVMVolumeGroupNodeStatus [copiers]: "library_copies lib \<Longrightarrow>
    copier (view_LVMVolumeGroupNodeStatus lib) (DeepCopyInto_LVMVolumeGroupNodeStatus lib)"
  by (rule copierI, unfold view_LVMVolumeGroupNodeStatus_def
      DeepCopyInto_LVMVolumeGroupNodeStatus_def)
    (intro copies_ret copiers [THEN copies_bind] copiers get_cell;
        simp add: view_LVMVolumeGroupNodeStatus_def)

definition DeepCopy_LVMVolumeGroupNodeStatus :: "'l library \<Rightarrow> addr option
    \<Rightarrow> ('l cell, addr option) mem" where
  "DeepCopy_LVMVolumeGroupNodeStatus lib
      = copy_ptr get_LVMVolumeGroupNodeStatus CLVMVolumeGroupNodeStatus
      (DeepCopyInto_LVMVolumeGroupNodeStatus lib)"

section \<open>LVMClusterList\<close>

definition DeepCopyInto_LVMClusterList :: "'l library \<Rightarrow> 'l LVMClusterList_obj
    \<Rightarrow> ('l cell, 'l LVMClusterList_obj) mem" where
  "DeepCopyInto_LVMClusterList lib x =
     do { listMeta \<leftarrow> ListMeta_DeepCopyInto lib (lcl_ListMeta x);
          items \<leftarrow> copy_slice get_LVMClusters CLVMClusters (DeepCopyInto_LVMCluster lib)
              (lcl_Items x);
          ret (x\<lparr>lcl_ListMeta := listMeta, lcl_Items := items\<rparr>) }"

definition view_LVMClusterList :: "'l library \<Rightarrow> nat \<Rightarrow> 'l cell heap \<Rightarrow> 'l LVMClusterList_obj
    \<Rightarrow> (string \<times> LVMCluster list) option" where
  "view_LVMClusterList lib lo h x =
     do { listMeta \<leftarrow> ListMeta_view lib lo h (lcl_ListMeta x);
          items \<leftarrow> view_slice get_LVMClusters (view_LVMCluster lib) lo h (lcl_Items x);
          Some ((listMeta, items)) }"

lemma copier_LVMClusterList [copiers]: "library_copies lib \<Longrightarrow> copier (view_LVMClusterList lib)
    (DeepCopyInto_LVMClusterList lib)"
  by (rule copierI, unfold view_LVMClusterList_def DeepCopyInto_LVMClusterList_def)
    (intro copies_ret copiers [THEN copies_bind] copiers get_cell;
        simp add: view_LVMClusterList_def)

definition DeepCopy_LVMClusterList :: "'l library \<Rightarrow> addr option \<Rightarrow> ('l cell, addr option) mem" where
  "DeepCopy_LVMClusterList lib = copy_ptr get_LVMClusterList CLVMClusterList
      (DeepCopyInto_LVMClusterList lib)"

section \<open>LVMVolumeGroupList\<close>

definition DeepCopyInto_LVMVolumeGroupList :: "'l library \<Rightarrow> 'l LVMVolumeGroupList_obj
    \<Rightarrow> ('l cell, 'l LVMVolumeGroupList_obj) mem" where
  "DeepCopyInto_LVMVolumeGroupList lib x =
     do { listMeta \<leftarrow> ListMeta_DeepCopyInto lib (lvl_ListMeta x);
          items \<leftarrow> copy_slice get_LVMVolumeGroups CLVMVolumeGroups (DeepCopyInto_LVMVolumeGroup lib)
              (lvl_Items x);
          ret (x\<lparr>lvl_ListMeta := listMeta, lvl_Items := items\<rparr>) }"

definition view_LVMVolumeGroupList :: "'l library \<Rightarrow> nat \<Rightarrow> 'l cell heap \<Rightarrow> 'l LVMVolumeGroupList_obj
    \<Rightarrow> (string \<times> LVMVolumeGroup list) option" where
  "view_LVMVolumeGroupList lib lo h x =
     do { listMeta \<leftarrow> ListMeta_view lib lo h (lvl_ListMeta x);
          items \<leftarrow> view_slice get_LVMVolumeGroups (view_LVMVolumeGroup lib) lo h (lvl_Items x);
          Some ((listMeta, items)) }"

lemma copier_LVMVolumeGroupList [copiers]: "library_copies lib \<Longrightarrow>
    copier (view_LVMVolumeGroupList lib) (DeepCopyInto_LVMVolumeGroupList lib)"
  by (rule copierI, unfold view_LVMVolumeGroupList_def DeepCopyInto_LVMVolumeGroupList_def)
    (intro copies_ret copiers [THEN copies_bind] copiers get_cell;
        simp add: view_LVMVolumeGroupList_def)

definition DeepCopy_LVMVolumeGroupList :: "'l library \<Rightarrow> addr option \<Rightarrow> ('l cell, addr option) mem"
    where
  "DeepCopy_LVMVolumeGroupList lib = copy_ptr get_LVMVolumeGroupList CLVMVolumeGroupList
      (DeepCopyInto_LVMVolumeGroupList lib)"

section \<open>LVMVolumeGroupNodeStatusList\<close>

definition DeepCopyInto_LVMVolumeGroupNodeStatusList :: "'l library
    \<Rightarrow> 'l LVMVolumeGroupNodeStatusList_obj \<Rightarrow> ('l cell, 'l LVMVolumeGroupNodeStatusList_obj) mem"
    where
  "DeepCopyInto_LVMVolumeGroupNodeStatusList lib x =
     do { listMeta \<leftarrow> ListMeta_DeepCopyInto lib (lnl_ListMeta x);
          items \<leftarrow> copy_slice get_LVMVolumeGroupNodeStatuses CLVMVolumeGroupNodeStatuses
              (DeepCopyInto_LVMVolumeGroupNodeStatus lib) (lnl_Items x);
          ret (x\<lparr>lnl_ListMeta := listMeta, lnl_Items := items\<rparr>) }"

definition view_LVMVolumeGroupNodeStatusList :: "'l library \<Rightarrow> nat \<Rightarrow> 'l cell heap
    \<Rightarrow> 'l LVMVolumeGroupNodeStatusList_obj \<Rightarrow> (string \<times> LVMVolumeGroupNodeStatus list) option" where
  "view_LVMVolumeGroupNodeStatusList lib lo h x =
     do { listMeta \<leftarrow> ListMeta_view lib lo h (lnl_ListMeta x);
          items \<leftarrow> view_slice get_LVMVolumeGroupNodeStatuses (view_LVMVolumeGroupNodeStatus lib) lo h
              (lnl_Items x);
          Some ((listMeta, items)) }"

lemma copier_LVMVolumeGroupNodeStatusList [copiers]: "library_copies lib \<Longrightarrow>
    copier (view_LVMVolumeGroupNodeStatusList lib) (DeepCopyInto_LVMVolumeGroupNodeStatusList lib)"
  by (rule copierI, unfold view_LVMVolumeGroupNodeStatusList_def
      DeepCopyInto_LVMVolumeGroupNodeStatusList_def)
    (intro copies_ret copiers [THEN copies_bind] copiers get_cell;
        simp add: view_LVMVolumeGroupNodeStatusList_def)

definition DeepCopy_LVMVolumeGroupNodeStatusList :: "'l library \<Rightarrow> addr option
    \<Rightarrow> ('l cell, addr option) mem" where
  "DeepCopy_LVMVolumeGroupNodeStatusList lib
      = copy_ptr get_LVMVolumeGroupNodeStatusList CLVMVolumeGroupNodeStatusList
      (DeepCopyInto_LVMVolumeGroupNodeStatusList lib)"

section \<open>Structs of plain fields\<close>

definition DeepCopyInto_RAIDLVHealth :: "RAIDLVHealth \<Rightarrow> ('l cell, RAIDLVHealth) mem" where
  "DeepCopyInto_RAIDLVHealth x = ret x"

definition DeepCopy_RAIDLVHealth :: "addr option \<Rightarrow> ('l cell, addr option) mem" where
  "DeepCopy_RAIDLVHealth = copy_ptr get_RAIDLVHealth CRAIDLVHealth DeepCopyInto_RAIDLVHealth"

definition DeepCopyInto_LVMVolumeGroupStatus :: "unit \<Rightarrow> ('l cell, unit) mem" where
  "DeepCopyInto_LVMVolumeGroupStatus x = ret x"

definition DeepCopy_LVMVolumeGroupStatus :: "addr option \<Rightarrow> ('l cell, addr option) mem" where
  "DeepCopy_LVMVolumeGroupStatus = copy_ptr get_LVMVolumeGroupStatus CLVMVolumeGroupStatus
      DeepCopyInto_LVMVolumeGroupStatus"

definition DeepCopyInto_LVMVolumeGroupNodeStatusStatus :: "unit \<Rightarrow> ('l cell, unit) mem" where
  "DeepCopyInto_LVMVolumeGroupNodeStatusStatus x = ret x"

definition DeepCopy_LVMVolumeGroupNodeStatusStatus :: "addr option \<Rightarrow> ('l cell, addr option) mem"
    where
  "DeepCopy_LVMVolumeGroupNodeStatusStatus
      = copy_ptr get_LVMVolumeGroupNodeStatusStatus CLVMVolumeGroupNodeStatusStatus
      DeepCopyInto_LVMVolumeGroupNodeStatusStatus"

lemma copier_plain_structs:
  "copier view_plain DeepCopyInto_RAIDLVHealth"
  "copier view_plain DeepCopyInto_LVMVolumeGroupStatus"
  "copier view_plain DeepCopyInto_LVMVolumeGroupNodeStatusStatus"
  by unfold_locales (simp_all add: view_plain_def DeepCopyInto_RAIDLVHealth_def
      DeepCopyInto_LVMVolumeGroupStatus_def DeepCopyInto_LVMVolumeGroupNodeStatusStatus_def)

section \<open>DeepCopyObject\<close>

text \<open>
  A \<open>runtime.Object\<close> is nil or a type with a pointer of that type, which may itself be nil.
\<close>

datatype runtime_Object =
    LVMCluster_ref "addr option"
  | LVMClusterList_ref "addr option"
  | LVMVolumeGroup_ref "addr option"
  | LVMVolumeGroupList_ref "addr option"
  | LVMVolumeGroupNodeStatus_ref "addr option"
  | LVMVolumeGroupNodeStatusList_ref "addr option"

definition DeepCopyObject_LVMCluster :: "'l library \<Rightarrow> addr option
    \<Rightarrow> ('l cell, runtime_Object option) mem" where
  "DeepCopyObject_LVMCluster lib p =
     do { c \<leftarrow> DeepCopy_LVMCluster lib p;
          ret (if c \<noteq> None then Some (LVMCluster_ref c) else None) }"

definition DeepCopyObject_LVMClusterList :: "'l library \<Rightarrow> addr option
    \<Rightarrow> ('l cell, runtime_Object option) mem" where
  "DeepCopyObject_LVMClusterList lib p =
     do { c \<leftarrow> DeepCopy_LVMClusterList lib p;
          ret (if c \<noteq> None then Some (LVMClusterList_ref c) else None) }"

definition DeepCopyObject_LVMVolumeGroup :: "'l library \<Rightarrow> addr option
    \<Rightarrow> ('l cell, runtime_Object option) mem" where
  "DeepCopyObject_LVMVolumeGroup lib p =
     do { c \<leftarrow> DeepCopy_LVMVolumeGroup lib p;
          ret (if c \<noteq> None then Some (LVMVolumeGroup_ref c) else None) }"

definition DeepCopyObject_LVMVolumeGroupList :: "'l library \<Rightarrow> addr option
    \<Rightarrow> ('l cell, runtime_Object option) mem" where
  "DeepCopyObject_LVMVolumeGroupList lib p =
     do { c \<leftarrow> DeepCopy_LVMVolumeGroupList lib p;
          ret (if c \<noteq> None then Some (LVMVolumeGroupList_ref c) else None) }"

definition DeepCopyObject_LVMVolumeGroupNodeStatus :: "'l library \<Rightarrow> addr option
    \<Rightarrow> ('l cell, runtime_Object option) mem" where
  "DeepCopyObject_LVMVolumeGroupNodeStatus lib p =
     do { c \<leftarrow> DeepCopy_LVMVolumeGroupNodeStatus lib p;
          ret (if c \<noteq> None then Some (LVMVolumeGroupNodeStatus_ref c) else None) }"

definition DeepCopyObject_LVMVolumeGroupNodeStatusList :: "'l library \<Rightarrow> addr option
    \<Rightarrow> ('l cell, runtime_Object option) mem" where
  "DeepCopyObject_LVMVolumeGroupNodeStatusList lib p =
     do { c \<leftarrow> DeepCopy_LVMVolumeGroupNodeStatusList lib p;
          ret (if c \<noteq> None then Some (LVMVolumeGroupNodeStatusList_ref c) else None) }"

end
