(* ===== verification/Copy_Props.thy ===== *)
theory Copy_Props
  imports Deep_Copy
begin

text \<open>
  The generated copies are deep: every \<open>DeepCopy\<close> of an API object returns an object that reads as
  the original and shares no cell with it, so that neither is changed by writes to the cells of the
  other.  The caches of controller-runtime rely on this when they hand out objects, and
  \<open>computeDeviceClassStatuses\<close> when it puts the statuses of nodes into the status of the cluster.

  The contract \<open>copier\<close> is interpreted for the copies that need no other package.  The
  others hold under \<open>library_copies\<close>, which a library with a slice of its own satisfies.
\<close>

section \<open>Copies without structs of other packages\<close>

interpretation selector_copy: copier view_DeviceSelector DeepCopyInto_DeviceSelector
  by (rule copier_DeviceSelector)

interpretation options_copy: copier view_StorageClassOptions DeepCopyInto_StorageClassOptions
  by (rule copier_StorageClassOptions)

interpretation raid_copy: copier view_RAIDStatus DeepCopyInto_RAIDStatus
  by (rule copier_RAIDStatus)

interpretation status_copy: copier "view_ptr get_VGStatus view_VGStatus" DeepCopy_VGStatus
  unfolding DeepCopy_VGStatus_def by (intro ptr_copier copier_VGStatus get_cell)

interpretation class_copy: copier view_DeviceClassStatus DeepCopyInto_DeviceClassStatus
  by (rule copier_DeviceClassStatus)

interpretation spec_copy: copier view_LVMVolumeGroupNodeStatusSpec DeepCopyInto_LVMVolumeGroupNodeStatusSpec
  by (rule copier_LVMVolumeGroupNodeStatusSpec)

text \<open>\<open>VGStatus: *item.DeepCopy()\<close>: a later change of the node status leaves the status of the cluster.\<close>

lemma copied_status_kept:
  assumes "view_ptr get_VGStatus view_VGStatus 0 h item = Some s"
    and "run_state (DeepCopy_VGStatus item) h = (q, h')" and "\<forall>(a, c) \<in> set ws. a < length h"
  shows "view_ptr get_VGStatus view_VGStatus 0 (writes ws h') q = Some s"
  using assms by (rule status_copy.copy_kept)

section \<open>API objects\<close>

lemmas object_copies = DeepCopy_LVMCluster_def DeepCopy_LVMClusterList_def DeepCopy_LVMVolumeGroup_def
  DeepCopy_LVMVolumeGroupList_def DeepCopy_LVMVolumeGroupNodeStatus_def DeepCopy_LVMVolumeGroupNodeStatusList_def

lemma DeepCopyObject_nil:
  "fst (run_state (DeepCopyObject_LVMCluster lib p) h) = None \<longleftrightarrow> p = None"
  "fst (run_state (DeepCopyObject_LVMClusterList lib p) h) = None \<longleftrightarrow> p = None"
  "fst (run_state (DeepCopyObject_LVMVolumeGroup lib p) h) = None \<longleftrightarrow> p = None"
  "fst (run_state (DeepCopyObject_LVMVolumeGroupList lib p) h) = None \<longleftrightarrow> p = None"
  "fst (run_state (DeepCopyObject_LVMVolumeGroupNodeStatus lib p) h) = None \<longleftrightarrow> p = None"
  "fst (run_state (DeepCopyObject_LVMVolumeGroupNodeStatusList lib p) h) = None \<longleftrightarrow> p = None"
  by (simp_all add: DeepCopyObject_LVMCluster_def DeepCopyObject_LVMClusterList_def
      DeepCopyObject_LVMVolumeGroup_def DeepCopyObject_LVMVolumeGroupList_def
      DeepCopyObject_LVMVolumeGroupNodeStatus_def DeepCopyObject_LVMVolumeGroupNodeStatusList_def
      object_copies copy_ptr_nil split_beta del: not_None_eq)

section \<open>A library with a slice\<close>

text \<open>The finalizers of an object are a slice of the heap; the other structs are flat.\<close>

datatype k8s =
    KQuantity Quantity
  | KNodeSelector NodeSelector
  | KToleration Toleration
  | KCondition Condition
  | KListMeta string
  | KObjectMeta ObjectMeta "addr option"

definition k8s_meta_view :: "nat \<Rightarrow> k8s cell heap \<Rightarrow> k8s \<Rightarrow> ObjectMeta option" where
  "k8s_meta_view lo h x = (case x of
     KObjectMeta m f \<Rightarrow> map_option (\<lambda>fs. m\<lparr>om_Finalizers := fs\<rparr>) (view_slice get_Strings view_plain lo h f)
   | _ \<Rightarrow> None)"

definition k8s_meta_copy :: "k8s \<Rightarrow> (k8s cell, k8s) mem" where
  "k8s_meta_copy x = (case x of
     KObjectMeta m f \<Rightarrow> do { g \<leftarrow> copy_slice get_Strings CStrings copy_plain f; ret (KObjectMeta m g) }
   | _ \<Rightarrow> ret x)"

definition flat_view :: "(k8s \<Rightarrow> 'v option) \<Rightarrow> nat \<Rightarrow> k8s cell heap \<Rightarrow> k8s \<Rightarrow> 'v option" where
  "flat_view f lo h x = f x"

definition k8s_library :: "k8s library" where
  "k8s_library = \<lparr>
     Quantity_view = flat_view (\<lambda>x. case x of KQuantity q \<Rightarrow> Some q | _ \<Rightarrow> None), Quantity_DeepCopy = ret,
     NodeSelector_view = flat_view (\<lambda>x. case x of KNodeSelector s \<Rightarrow> Some s | _ \<Rightarrow> None),
     NodeSelector_DeepCopyInto = ret,
     Toleration_view = flat_view (\<lambda>x. case x of KToleration t \<Rightarrow> Some t | _ \<Rightarrow> None),
     Toleration_DeepCopyInto = ret,
     Condition_view = flat_view (\<lambda>x. case x of KCondition c \<Rightarrow> Some c | _ \<Rightarrow> None),
     Condition_DeepCopyInto = ret,
     ObjectMeta_view = k8s_meta_view, ObjectMeta_DeepCopyInto = k8s_meta_copy,
     ListMeta_view = flat_view (\<lambda>x. case x of KListMeta l \<Rightarrow> Some l | _ \<Rightarrow> None),
     ListMeta_DeepCopyInto = ret\<rparr>"

lemma flat_copier: "copier (flat_view f) ret"
  by unfold_locales (simp_all add: flat_view_def)

lemma k8s_meta_copier: "copier k8s_meta_view k8s_meta_copy"
proof -
  note c = slice_copier [where cell = CStrings, OF plain_copier get_cell(3)]
  show ?thesis
  proof
    fix lo lo' h h' x v
    assume "k8s_meta_view lo h x = Some v" and h': "agree lo h h'" "lo' \<le> lo"
    thus "k8s_meta_view lo' h' x = Some v"
      by (auto simp: k8s_meta_view_def dest: copier.view_local [OF c _ h'] split: k8s.splits)
  next
    fix lo h x v
    assume "k8s_meta_view lo h x = Some v"
    then obtain m f fs where x: "x = KObjectMeta m f" and fs: "view_slice get_Strings view_plain lo h f = Some fs"
      and v: "v = m\<lparr>om_Finalizers := fs\<rparr>"
      by (auto simp: k8s_meta_view_def split: k8s.splits)
    obtain g e where "run_state (copy_slice get_Strings CStrings copy_plain f) h = (g, h @ e)"
        "view_slice get_Strings view_plain (length h) (h @ e) g = Some fs"
      using copier.copy_fresh [OF c fs] by blast
    thus "\<exists>y ext. run_state (k8s_meta_copy x) h = (y, h @ ext) \<and> k8s_meta_view (length h) (h @ ext) y = Some v"
      by (simp add: x v k8s_meta_copy_def k8s_meta_view_def)
  qed
qed

lemma k8s_library_copies: "library_copies k8s_library"
  by (simp add: library_copies_def k8s_library_def flat_copier k8s_meta_copier)

text \<open>A volume group with a finalizer and a selected path.\<close>

definition vg_object :: "k8s LVMVolumeGroup_obj" where
  "vg_object = \<lparr>lvo_TypeMeta = TypeMeta ''LVMVolumeGroup'' ''v1'',
     lvo_ObjectMeta = KObjectMeta \<lparr>om_Name = ''vg1'', om_Namespace = ''ns'', om_UID = ''u'', om_Finalizers = [],
       om_Annotations = [], om_OwnerReferences = [], om_Deleted = False\<rparr> (Some 2),
     lvo_Spec = \<lparr>vgo_DeviceSelector = Some 1, vgo_NodeSelector = None, vgo_ThinPoolConfig = None,
       vgo_RAIDConfig = None, vgo_Default = True, vgo_DeviceDiscoveryPolicy = None\<rparr>,
     lvo_Status = ()\<rparr>"

definition vg_heap :: "k8s cell heap" where
  "vg_heap = [CStrings [''/dev/sda''],
     CDeviceSelector \<lparr>dso_Paths = Some 0, dso_OptionalPaths = None, dso_ForceWipeDevicesAndDestroyAllData = None\<rparr>,
     CStrings [''lvm.openshift.io''], CLVMVolumeGroup vg_object]"

definition vg_value :: "string \<Rightarrow> LVMVolumeGroup" where
  "vg_value path = \<lparr>vg_Name = ''vg1'', vg_Namespace = ''ns'', vg_UID = ''u'', vg_Finalizers = [''lvm.openshift.io''],
     vg_Annotations = [], vg_OwnerReferences = [], vg_Deleted = False,
     vg_Spec = \<lparr>vgs_DeviceSelector = Some \<lparr>ds_Paths = [path], ds_OptionalPaths = [],
         ds_ForceWipeDevicesAndDestroyAllData = None\<rparr>,
       vgs_NodeSelector = None, vgs_ThinPoolConfig = None, vgs_RAIDConfig = None, vgs_Default = True,
       vgs_DeviceDiscoveryPolicy = None\<rparr>\<rparr>"

lemma view_list_plain [simp]: "view_list view_plain lo h xs = Some xs"
  by (induction xs) (simp_all add: view_plain_def)

lemmas vg_eval = vg_heap_def vg_object_def vg_value_def view_ptr_def view_slice_def view_as_def deref_def
  view_LVMVolumeGroup_def view_LVMVolumeGroupSpec_def view_DeviceSelector_def k8s_library_def k8s_meta_view_def

lemma vg_heap_view:
  "view_ptr get_LVMVolumeGroup (view_LVMVolumeGroup k8s_library) 0 vg_heap (Some 3) = Some (Some (vg_value ''/dev/sda''))"
  by (simp add: vg_eval)

section \<open>Independence\<close>

text \<open>C17: The generated deep copies of API objects are deep.  If the copies of the structs of
  Kubernetes' own packages are, then for \<open>LVMCluster\<close>, \<open>LVMVolumeGroup\<close>,
  \<open>LVMVolumeGroupNodeStatus\<close> and their lists \<open>DeepCopy\<close> of a pointer whose object is well-typed
  returns a pointer that reads as the same value; whatever is written afterwards to the cells that
  existed before leaves the copy as it is, and whatever is written to the cells the copy allocated
  leaves the original.  \<open>DeepCopyObject\<close> returns the nil interface exactly for a nil pointer.\<close>

theorem deep_copies_independent:
  assumes "library_copies lib"
  shows "independent_copy (view_ptr get_LVMCluster (view_LVMCluster lib)) (DeepCopy_LVMCluster lib)
    \<and> independent_copy (view_ptr get_LVMClusterList (view_LVMClusterList lib)) (DeepCopy_LVMClusterList lib)
    \<and> independent_copy (view_ptr get_LVMVolumeGroup (view_LVMVolumeGroup lib)) (DeepCopy_LVMVolumeGroup lib)
    \<and> independent_copy (view_ptr get_LVMVolumeGroupList (view_LVMVolumeGroupList lib))
        (DeepCopy_LVMVolumeGroupList lib)
    \<and> independent_copy (view_ptr get_LVMVolumeGroupNodeStatus (view_LVMVolumeGroupNodeStatus lib))
        (DeepCopy_LVMVolumeGroupNodeStatus lib)
    \<and> independent_copy (view_ptr get_LVMVolumeGroupNodeStatusList (view_LVMVolumeGroupNodeStatusList lib))
        (DeepCopy_LVMVolumeGroupNodeStatusList lib)
    \<and> (\<forall>p h. (fst (run_state (DeepCopyObject_LVMCluster lib p) h) = None) = (p = None)
        \<and> (fst (run_state (DeepCopyObject_LVMClusterList lib p) h) = None) = (p = None)
        \<and> (fst (run_state (DeepCopyObject_LVMVolumeGroup lib p) h) = None) = (p = None)
        \<and> (fst (run_state (DeepCopyObject_LVMVolumeGroupList lib p) h) = None) = (p = None)
        \<and> (fst (run_state (DeepCopyObject_LVMVolumeGroupNodeStatus lib p) h) = None) = (p = None)
        \<and> (fst (run_state (DeepCopyObject_LVMVolumeGroupNodeStatusList lib p) h) = None) = (p = None))"
  unfolding object_copies DeepCopyObject_nil
  by (intro conjI copier_independent ptr_copier copiers get_cell assms allI refl)

theorem deep_copies_independent_witness:
  "library_copies k8s_library
    \<and> (\<exists>q h'. run_state (DeepCopy_LVMVolumeGroup k8s_library (Some 3)) vg_heap = (q, h')
      \<and> view_ptr get_LVMVolumeGroup (view_LVMVolumeGroup k8s_library) 0
          (writes [(0, CStrings [''/dev/sdb''])] h') q = Some (Some (vg_value ''/dev/sda'')))"
proof -
  obtain q h' where run: "run_state (DeepCopy_LVMVolumeGroup k8s_library (Some 3)) vg_heap = (q, h')"
    by (cases "run_state (DeepCopy_LVMVolumeGroup k8s_library (Some 3)) vg_heap")
  have "independent_copy (view_ptr get_LVMVolumeGroup (view_LVMVolumeGroup k8s_library))
      (DeepCopy_LVMVolumeGroup k8s_library)"
    using deep_copies_independent [OF k8s_library_copies] by (elim conjE)
  from independent_copyD [OF this vg_heap_view run, of "[(0, CStrings [''/dev/sdb''])]"]
  show ?thesis using k8s_library_copies run by (auto simp: vg_heap_def simp del: writes_simps)
qed

end
