(* ===== verification/Lvmd_Heap.thy ===== *)
theory Lvmd_Heap
  imports Lvmd Go_Heap
begin

text \<open>
  \<open>DeepCopyConfig\<close> of \<open>vgmanager/lvmd/lvmd.go\<close> on a heap.  The other theories treat the
  configuration as a value, and \<open>Lvmd.DeepCopyConfig\<close> is the identity on values.  Here the
  configuration is what the code works on: a pointer to a struct with slices of pointers to structs.
  The function builds every struct anew but assigns the option slices \<open>LVCreateOptions\<close> and
  \<open>Options\<close> as they are.  The theory shows that this is enough for the cached configuration to be
  safe from writes to the structs of a loaded one, that the copy reads as the value model says, and
  that the option slices are the only thing shared.

  A nil element of one of the slices, on which the code panics, has no view.
\<close>

section \<open>Structs and heap\<close>

record lvmd_DeviceClass_obj =
  ldo_Name :: string
  ldo_VolumeGroup :: string
  ldo_Default :: bool
  ldo_SpareGB :: "addr option"
  ldo_Stripe :: "addr option"
  ldo_StripeSize :: string
  ldo_LVCreateOptions :: "addr option"
  ldo_Type :: lvmd_type
  ldo_ThinPoolConfig :: "addr option"

record lvmd_OptionClass_obj =
  loo_Name :: string
  loo_Options :: "addr option"

record lvmd_Config_obj =
  lgo_SocketName :: string
  lgo_DeviceClasses :: "addr option"
  lgo_LvcreateOptionClasses :: "addr option"

datatype lvmd_cell =
    LNat nat
  | LStrings "string list"
  | LThinPool lvmd_ThinPoolConfig
  | LDeviceClass lvmd_DeviceClass_obj
  | LOptionClass lvmd_OptionClass_obj
  | LRefs "addr list"
  | LConfig lvmd_Config_obj

definition get_LNat :: "lvmd_cell \<Rightarrow> nat option" where
  "get_LNat c = (case c of LNat x \<Rightarrow> Some x | _ \<Rightarrow> None)"

definition get_LStrings :: "lvmd_cell \<Rightarrow> string list option" where
  "get_LStrings c = (case c of LStrings x \<Rightarrow> Some x | _ \<Rightarrow> None)"

definition get_LThinPool :: "lvmd_cell \<Rightarrow> lvmd_ThinPoolConfig option" where
  "get_LThinPool c = (case c of LThinPool x \<Rightarrow> Some x | _ \<Rightarrow> None)"

definition get_LDeviceClass :: "lvmd_cell \<Rightarrow> lvmd_DeviceClass_obj option" where
  "get_LDeviceClass c = (case c of LDeviceClass x \<Rightarrow> Some x | _ \<Rightarrow> None)"

definition get_LOptionClass :: "lvmd_cell \<Rightarrow> lvmd_OptionClass_obj option" where
  "get_LOptionClass c = (case c of LOptionClass x \<Rightarrow> Some x | _ \<Rightarrow> None)"

definition get_LRefs :: "lvmd_cell \<Rightarrow> addr list option" where
  "get_LRefs c = (case c of LRefs x \<Rightarrow> Some x | _ \<Rightarrow> None)"

definition get_LConfig :: "lvmd_cell \<Rightarrow> lvmd_Config_obj option" where
  "get_LConfig c = (case c of LConfig x \<Rightarrow> Some x | _ \<Rightarrow> None)"

lemma get_lvmd_cell [simp]:
  "get_LNat (LNat a) = Some a"
  "get_LStrings (LStrings b) = Some b"
  "get_LThinPool (LThinPool c) = Some c"
  "get_LDeviceClass (LDeviceClass d) = Some d"
  "get_LOptionClass (LOptionClass e) = Some e"
  "get_LRefs (LRefs f) = Some f"
  "get_LConfig (LConfig g) = Some g"
  by (simp_all add: get_LNat_def get_LStrings_def get_LThinPool_def get_LDeviceClass_def
      get_LOptionClass_def get_LRefs_def get_LConfig_def)

section \<open>The copy\<close>

definition newDc :: "lvmd_DeviceClass_obj \<Rightarrow> (lvmd_cell, lvmd_DeviceClass_obj) mem" where
  "newDc dc =
     do { spareGB \<leftarrow> copy_ptr get_LNat LNat copy_plain (ldo_SpareGB dc);
          stripe \<leftarrow> copy_ptr get_LNat LNat copy_plain (ldo_Stripe dc);
          thinPoolConfig \<leftarrow> copy_ptr get_LThinPool LThinPool (\<lambda>t. ret (copyThinPool t)) (ldo_ThinPoolConfig dc);
          ret \<lparr>ldo_Name = ldo_Name dc, ldo_VolumeGroup = ldo_VolumeGroup dc, ldo_Default = ldo_Default dc,
               ldo_SpareGB = spareGB, ldo_Stripe = stripe, ldo_StripeSize = ldo_StripeSize dc,
               ldo_LVCreateOptions = ldo_LVCreateOptions dc, ldo_Type = ldo_Type dc,
               ldo_ThinPoolConfig = thinPoolConfig\<rparr> }"

definition newOpt :: "lvmd_OptionClass_obj \<Rightarrow> (lvmd_cell, lvmd_OptionClass_obj) mem" where
  "newOpt co = ret \<lparr>loo_Name = loo_Name co, loo_Options = loo_Options co\<rparr>"

definition newConf :: "lvmd_Config_obj \<Rightarrow> (lvmd_cell, lvmd_Config_obj) mem" where
  "newConf c =
     do { deviceClasses \<leftarrow> copy_append get_LRefs LRefs (copy_ref get_LDeviceClass LDeviceClass newDc)
            (lgo_DeviceClasses c);
          optionClasses \<leftarrow> copy_append get_LRefs LRefs (copy_ref get_LOptionClass LOptionClass newOpt)
            (lgo_LvcreateOptionClasses c);
          ret \<lparr>lgo_SocketName = lgo_SocketName c, lgo_DeviceClasses = deviceClasses,
               lgo_LvcreateOptionClasses = optionClasses\<rparr> }"

definition DeepCopyConfig_ptr :: "addr option \<Rightarrow> (lvmd_cell, addr option) mem" where
  "DeepCopyConfig_ptr = copy_ptr get_LConfig LConfig newConf"

section \<open>Views\<close>

text \<open>
  The structs of a configuration, with the addresses of the option slices in place of the options;
  \<open>fill\<close> reads the slices.
\<close>

type_synonym lvmd_structs =
  "string \<times> (lvmd_DeviceClass \<times> addr option) list \<times> (string \<times> addr option) list"

definition view_newDc :: "nat \<Rightarrow> lvmd_cell heap \<Rightarrow> lvmd_DeviceClass_obj \<Rightarrow> (lvmd_DeviceClass \<times> addr option) option" where
  "view_newDc lo h dc =
     do { spareGB \<leftarrow> view_ptr get_LNat view_plain lo h (ldo_SpareGB dc);
          stripe \<leftarrow> view_ptr get_LNat view_plain lo h (ldo_Stripe dc);
          thinPoolConfig \<leftarrow> view_ptr get_LThinPool view_plain lo h (ldo_ThinPoolConfig dc);
          Some (\<lparr>ldc_Name = ldo_Name dc, ldc_VolumeGroup = ldo_VolumeGroup dc, ldc_Default = ldo_Default dc,
                 ldc_SpareGB = spareGB, ldc_Stripe = stripe, ldc_StripeSize = ldo_StripeSize dc,
                 ldc_LVCreateOptions = [], ldc_Type = ldo_Type dc, ldc_ThinPoolConfig = thinPoolConfig\<rparr>,
                ldo_LVCreateOptions dc) }"

definition view_newOpt :: "nat \<Rightarrow> lvmd_cell heap \<Rightarrow> lvmd_OptionClass_obj \<Rightarrow> (string \<times> addr option) option" where
  "view_newOpt lo h co = Some (loo_Name co, loo_Options co)"

definition view_newConf :: "nat \<Rightarrow> lvmd_cell heap \<Rightarrow> lvmd_Config_obj \<Rightarrow> lvmd_structs option" where
  "view_newConf lo h c =
     do { deviceClasses \<leftarrow> view_slice get_LRefs (view_ref get_LDeviceClass view_newDc) lo h (lgo_DeviceClasses c);
          optionClasses \<leftarrow> view_slice get_LRefs (view_ref get_LOptionClass view_newOpt) lo h
            (lgo_LvcreateOptionClasses c);
          Some (lgo_SocketName c, deviceClasses, optionClasses) }"

definition options_at :: "lvmd_cell heap \<Rightarrow> addr option \<Rightarrow> string list option" where
  "options_at h p = view_slice get_LStrings view_plain 0 h p"

definition fill_class :: "lvmd_cell heap \<Rightarrow> lvmd_DeviceClass \<times> addr option \<Rightarrow> lvmd_DeviceClass option" where
  "fill_class h dp = map_option (\<lambda>os. (fst dp)\<lparr>ldc_LVCreateOptions := os\<rparr>) (options_at h (snd dp))"

definition fill_option :: "lvmd_cell heap \<Rightarrow> string \<times> addr option \<Rightarrow> (string \<times> string list) option" where
  "fill_option h np = map_option (Pair (fst np)) (options_at h (snd np))"

definition fill :: "lvmd_cell heap \<Rightarrow> lvmd_structs \<Rightarrow> lvmd_Config option" where
  "fill h s = (case s of (n, dcs, ocs) \<Rightarrow>
     do { dcs' \<leftarrow> those (map (fill_class h) dcs);
          ocs' \<leftarrow> those (map (fill_option h) ocs);
          Some \<lparr>cfg_SocketName = n, cfg_DeviceClasses = dcs', cfg_LvcreateOptionClasses = ocs'\<rparr> })"

definition structs_of :: "nat \<Rightarrow> lvmd_cell heap \<Rightarrow> addr option \<Rightarrow> lvmd_structs option option" where
  "structs_of = view_ptr get_LConfig view_newConf"

definition config_at :: "lvmd_cell heap \<Rightarrow> addr option \<Rightarrow> lvmd_Config option option" where
  "config_at h p = (case structs_of 0 h p of
     None \<Rightarrow> None | Some None \<Rightarrow> Some None | Some (Some s) \<Rightarrow> map_option Some (fill h s))"

section \<open>The copy satisfies the contract on the structs\<close>

lemma copyThinPool_copier: "copier view_plain (\<lambda>t. ret (copyThinPool t))"
  by unfold_locales (simp_all add: copyThinPool_def view_plain_def)

lemmas lvmd_copiers = plain_copier copyThinPool_copier ptr_copier

lemma newDc_copier: "copier view_newDc newDc"
  by (rule copierI, unfold view_newDc_def newDc_def)
    (intro copies_ret lvmd_copiers [THEN copies_bind] lvmd_copiers get_lvmd_cell; simp add: view_newDc_def)

lemma newOpt_copier: "copier view_newOpt newOpt"
  by unfold_locales (simp_all add: view_newOpt_def newOpt_def)

lemma newConf_copier: "copier view_newConf newConf"
  by (rule copierI, unfold view_newConf_def newConf_def)
    (intro copies_ret append_copier [THEN copies_bind] ref_copier newDc_copier newOpt_copier get_lvmd_cell;
      simp add: view_newConf_def)

interpretation lvmd_copy: copier structs_of DeepCopyConfig_ptr
  unfolding structs_of_def DeepCopyConfig_ptr_def by (intro ptr_copier newConf_copier get_lvmd_cell)

section \<open>The option slices\<close>

lemma options_at_kept: "options_at h p = Some xs \<Longrightarrow> agree 0 h h' \<Longrightarrow> options_at h' p = Some xs"
  unfolding options_at_def
  by (rule copier.view_local [OF slice_copier [where cell = LStrings, OF plain_copier get_lvmd_cell(2)]]) simp_all

lemma those_map_mono:
  "those (map f xs) = Some ys \<Longrightarrow> (\<And>x y. f x = Some y \<Longrightarrow> g x = Some y) \<Longrightarrow> those (map g xs) = Some ys"
  by (induction xs arbitrary: ys) (auto split: option.splits)

lemma fill_kept:
  assumes "fill h s = Some c" "agree 0 h h'"
  shows "fill h' s = Some c"
proof -
  obtain n dcs ocs where s: "s = (n, dcs, ocs)" by (cases s)
  obtain dcs' ocs' where d: "those (map (fill_class h) dcs) = Some dcs'"
    and c: "those (map (fill_option h) ocs) = Some ocs'"
      "c = \<lparr>cfg_SocketName = n, cfg_DeviceClasses = dcs', cfg_LvcreateOptionClasses = ocs'\<rparr>"
    using assms(1) by (auto simp: fill_def s bind_eq_Some_conv)
  have "those (map (fill_class h') dcs) = Some dcs'"
    by (rule those_map_mono [OF d]) (auto simp: fill_class_def options_at_kept [OF _ assms(2)])
  moreover have "those (map (fill_option h') ocs) = Some ocs'"
    by (rule those_map_mono [OF c(1)]) (auto simp: fill_option_def options_at_kept [OF _ assms(2)])
  ultimately show ?thesis by (simp add: fill_def s c(2))
qed

lemma config_at_kept:
  assumes "config_at h p = Some c" "agree 0 h h'" "structs_of 0 h' q = structs_of 0 h p"
  shows "config_at h' q = Some c"
  using assms(1, 3) by (auto simp: config_at_def fill_kept [OF _ assms(2)] split: option.splits)

lemma config_at_structs: "config_at h p = Some c \<Longrightarrow> \<exists>s. structs_of 0 h p = Some s"
  by (auto simp: config_at_def split: option.splits)

lemma config_copy:
  assumes c: "config_at h p = Some c" and run: "run_state (DeepCopyConfig_ptr p) h = (q, h')"
  obtains ext where "h' = h @ ext" "structs_of (length h) h' q = structs_of 0 h p"
    "structs_of 0 h' q = structs_of 0 h p"
proof -
  obtain s where s: "structs_of 0 h p = Some s" using config_at_structs [OF c] by blast
  obtain ext where "h' = h @ ext" "structs_of (length h) (h @ ext) q = Some s"
    using lvmd_copy.copy_extends [OF s run] .
  thus ?thesis using that s lvmd_copy.copy_equal [OF s run] by simp
qed

text \<open>C18: Isolation of the cached lvmd configuration.  Let \<open>DeepCopyConfig\<close> copy a configuration
  (or nil).  The result reads as the value model says and the original reads as before.  No sequence
  of writes to cells allocated by the copy changes the original: a caller of \<open>Load\<close> that assigns
  fields of the loaded structs does not change the cache, so \<open>Save\<close> sees the difference.  Every
  struct of the copy is newly allocated, while the option slices are the very slices of the original:
  the structs reached from the copy within the new cells are those of the original, addresses of the
  option slices included.\<close>

theorem loaded_config_isolated:
  assumes "config_at h p = Some c" and "run_state (DeepCopyConfig_ptr p) h = (q, h')"
  shows "config_at h' q = Some (map_option DeepCopyConfig c)
    \<and> config_at h' p = Some c
    \<and> (\<forall>ws. (\<forall>(a, x) \<in> set ws. length h \<le> a) \<longrightarrow> config_at (writes ws h') p = Some c)
    \<and> structs_of (length h) h' q = structs_of 0 h p"
proof -
  obtain ext where h': "h' = h @ ext" and fresh: "structs_of (length h) h' q = structs_of 0 h p"
    and q: "structs_of 0 h' q = structs_of 0 h p"
    using config_copy [OF assms] .
  have kept: "config_at (writes ws h') p = Some c" if ws: "\<forall>(a, x) \<in> set ws. length h \<le> a" for ws
  proof -
    obtain s where s: "structs_of 0 h p = Some s" using config_at_structs [OF assms(1)] by blast
    show ?thesis
      using config_at_kept [OF assms(1) agree_writes [OF ws]] lvmd_copy.original_kept [OF s assms(2) ws] s
      by (simp add: h')
  qed
  have "config_at h' q = Some c" by (rule config_at_kept [OF assms(1) _ q]) (simp add: h')
  moreover have "map_option DeepCopyConfig c = c" by (cases c) simp_all
  ultimately show ?thesis using kept [of "[]"] kept fresh by simp
qed

text \<open>
  A configuration of one RAID class with one option.  The class is copied to a new cell; writing the
  name of the copied class leaves the original, writing its option slice changes the original.
\<close>

definition raid_class :: lvmd_DeviceClass_obj where
  "raid_class = \<lparr>ldo_Name = ''vg1'', ldo_VolumeGroup = ''vg1'', ldo_Default = True, ldo_SpareGB = Some 1,
     ldo_Stripe = None, ldo_StripeSize = '''', ldo_LVCreateOptions = Some 0, ldo_Type = TypeThick,
     ldo_ThinPoolConfig = None\<rparr>"

definition raid_heap :: "lvmd_cell heap" where
  "raid_heap = [LStrings [''--type=raid1''], LNat 0, LDeviceClass raid_class, LRefs [2],
     LConfig \<lparr>lgo_SocketName = ''sock'', lgo_DeviceClasses = Some 3, lgo_LvcreateOptionClasses = None\<rparr>]"

definition raid_config :: "string list \<Rightarrow> lvmd_Config" where
  "raid_config os = \<lparr>cfg_SocketName = ''sock'', cfg_DeviceClasses = [\<lparr>ldc_Name = ''vg1'',
     ldc_VolumeGroup = ''vg1'', ldc_Default = True, ldc_SpareGB = Some 0, ldc_Stripe = None,
     ldc_StripeSize = '''', ldc_LVCreateOptions = os, ldc_Type = TypeThick, ldc_ThinPoolConfig = None\<rparr>],
     cfg_LvcreateOptionClasses = []\<rparr>"

lemmas lvmd_heap_eval = raid_heap_def raid_class_def raid_config_def config_at_def structs_of_def view_ptr_def
  view_newConf_def view_slice_def view_as_def view_ref_def view_newDc_def view_newOpt_def view_plain_def
  deref_def fill_def fill_class_def fill_option_def options_at_def DeepCopyConfig_ptr_def copy_ptr_def
  newConf_def copy_append_def copy_ref_def newDc_def newOpt_def copy_plain_def copyThinPool_def

lemma raid_heap_config: "config_at raid_heap (Some 4) = Some (Some (raid_config [''--type=raid1'']))"
  by (simp add: lvmd_heap_eval)

lemma raid_heap_copy:
  "run_state (DeepCopyConfig_ptr (Some 4)) raid_heap = (Some 8, raid_heap @
     [LNat 0, LDeviceClass (raid_class\<lparr>ldo_SpareGB := Some 5\<rparr>), LRefs [6],
      LConfig \<lparr>lgo_SocketName = ''sock'', lgo_DeviceClasses = Some 7, lgo_LvcreateOptionClasses = None\<rparr>])"
  by (simp add: lvmd_heap_eval)

theorem loaded_config_isolated_witness:
  "\<exists>q h'. run_state (DeepCopyConfig_ptr (Some 4)) raid_heap = (q, h')
    \<and> config_at h' q = Some (Some (raid_config [''--type=raid1'']))
    \<and> config_at (writes [(6, LDeviceClass (raid_class\<lparr>ldo_Name := ''x''\<rparr>))] h') (Some 4)
        = Some (Some (raid_config [''--type=raid1'']))
    \<and> structs_of 5 h' q = structs_of 0 raid_heap (Some 4)"
proof -
  have "length raid_heap = 5" by (simp add: raid_heap_def)
  thus ?thesis
    using loaded_config_isolated [OF raid_heap_config raid_heap_copy]
    by (auto simp: raid_heap_copy simp del: writes_simps)
qed

lemma option_slice_shared:
  "\<exists>q h'. run_state (DeepCopyConfig_ptr (Some 4)) raid_heap = (q, h')
    \<and> config_at (writes [(0, LStrings [''x''])] h') q = Some (Some (raid_config [''x'']))
    \<and> config_at (writes [(0, LStrings [''x''])] h') (Some 4) = Some (Some (raid_config [''x'']))"
  unfolding raid_heap_copy by (simp add: lvmd_heap_eval)

end
