(* ===== verification/Spec2Isabelle.thy ===== *)
theory Spec2Isabelle
  imports Webhook_Props VGM_Invariant VGM_Thin VGM_Settle Cluster_Runs Cluster_Progress Cluster_Watches
    Start_Props Process_Props Copy_Props Lvmd_Heap
begin

text \<open>
  A verification of the LVM operator (\<^verbatim>\<open>openshift/lvm-operator\<close>).

  \<^bold>\<open>The program.\<close>  The operator turns an \<^verbatim>\<open>LVMCluster\<close> object into volume groups on the nodes of a
  cluster.  An admission webhook checks every \<^verbatim>\<open>LVMCluster\<close> (\<^verbatim>\<open>api/v1alpha1\<close>).  The operator process
  (\<^verbatim>\<open>cmd/operator\<close>) runs its migrations and sets up the controllers.  The cluster controller
  (\<^verbatim>\<open>internal/controllers/lvmcluster\<close>) creates one \<^verbatim>\<open>LVMVolumeGroup\<close> per device class, the storage classes
  and the daemon set of the volume group manager, reports the state, and takes everything down again.
  Smaller controllers look after removed nodes, persistent volumes and claims.  The volume group manager
  (\<^verbatim>\<open>cmd/vgmanager\<close>, \<^verbatim>\<open>internal/controllers/vgmanager\<close>) runs on every node under a file lock: it lists the
  block devices, filters them, wipes them when told to, creates and extends the volume group and its thin
  pool with the LVM command line tools, writes the configuration of \<^verbatim>\<open>lvmd\<close>, and reports in an
  \<^verbatim>\<open>LVMVolumeGroupNodeStatus\<close>.  Both processes start servers and sidecars of the container storage
  interface (\<^verbatim>\<open>internal/csi\<close>).

  \<^bold>\<open>The model.\<close>  Every Go function is one HOL function of the same name (with the type's name in front where
  two would clash); a long one is cut at its stages.  A struct is a record, a
  string enumeration a datatype, a nil-able pointer an option, \<^verbatim>\<open>int\<close> and \<^verbatim>\<open>int64\<close> are integers with the
  wrap-around written out (\<^verbatim>\<open>wrap64\<close>) where a value can be large, \<^verbatim>\<open>float64\<close> is the exact rational of its
  bits with rounding to even.  An error is a value of \<^verbatim>\<open>go_error\<close>, the tree that \<^verbatim>\<open>fmt.Errorf\<close>,
  \<^verbatim>\<open>errors.New\<close> and \<^verbatim>\<open>errors.Join\<close> build, so that \<^verbatim>\<open>errors.Is\<close> and the message are functions of it; a
  function returns \<^verbatim>\<open>go_error option\<close> or \<^verbatim>\<open>go_error + 'a\<close>; a nil dereference is the error \<^verbatim>\<open>GoPanic\<close>.
  Code with effects is a state transformer: each effect on the outside world (a command on the host, a
  call of the API server, a file operation, an event, a metric, a call of a library at start-up) is appended
  to a trace, and its answer is a function of the trace so far, given by an environment: \<^verbatim>\<open>vgm_env\<close> for the
  volume group manager's controller, \<^verbatim>\<open>op_env\<close> for the operator, \<^verbatim>\<open>proc_env\<close> for the processes and sidecars on
  a node.  The environment is arbitrary in the theorems: it stands for the kernel, the LVM tools, the API
  server and the packages the code calls.  Goroutines that the code joins (the resource managers, the
  deletions of a migration) run one after the other in an order the environment picks (\<^verbatim>\<open>schedule\<close>); the
  array a loop ranges over while it is rewritten in place is an answer of the environment (\<^verbatim>\<open>range_array\<close>).
  Several processes on a node are interleavings of their traces (\<^verbatim>\<open>Process_Props\<close>).  Objects are values, and a
  deep copy is the identity; that this is right where the code copies is what the theories on the heap show.

  \<^bold>\<open>Loops.\<close>  Loops over slices are structural recursion; recursion over the device tree has its termination
  proof by size.  The only loop that may run for ever is the one of \<^verbatim>\<open>WaitForLock\<close>: it has a number of rounds,
  and \<^verbatim>\<open>None\<close> is a run that still waits.  \<^verbatim>\<open>WaitForLock_returns\<close> says which number is enough, and what the
  safety theorems say holds for every number, hence for every beginning of an endless run.

  \<^bold>\<open>The theories.\<close>
  \<^item> \<^verbatim>\<open>LVMS_Prelude\<close>: errors, strings, fixed-width integers, traced programs and their program logic
    (\<^verbatim>\<open>guarded\<close>, \<^verbatim>\<open>only\<close>, \<^verbatim>\<open>stable\<close>).  \<^verbatim>\<open>Traced_Programs\<close>: answers of the API server, loops, what has been
    \<^verbatim>\<open>seen\<close> in a history, and the locale \<^verbatim>\<open>teardown\<close> of ordered deletions.  \<^verbatim>\<open>Go_Numbers\<close>: \<^verbatim>\<open>strconv\<close> and
    floating point, with the round trip of \<^verbatim>\<open>Itoa\<close> and \<^verbatim>\<open>ParseInt\<close>.  \<^verbatim>\<open>Go_Errors\<close>: messages of errors,
    exit codes.
  \<^item> \<^verbatim>\<open>API_Types\<close>: the types of \<^verbatim>\<open>api/v1alpha1\<close>.  \<^verbatim>\<open>Constants_Labels\<close>: \<^verbatim>\<open>constants.go\<close> and the ownership
    labels of \<^verbatim>\<open>labels/managed.go\<close>.
  \<^item> \<^verbatim>\<open>Webhook\<close> and \<^verbatim>\<open>Webhook_Props\<close>: \<^verbatim>\<open>lvmcluster_webhook.go\<close>, and that creation and update are accepted
    exactly when a declarative condition holds.
  \<^item> \<^verbatim>\<open>Symlink_Resolver\<close>: the memoising resolver and that it is transparent (locale \<^verbatim>\<open>memo\<close>).
  \<^item> \<^verbatim>\<open>VGM_World\<close>: the outside world of the volume group manager.  \<^verbatim>\<open>Host_Exec\<close>: \<^verbatim>\<open>exec/exec.go\<close>,
    \<^verbatim>\<open>wipefs.go\<close>, \<^verbatim>\<open>dmsetup.go\<close>.  \<^verbatim>\<open>LVM_Host\<close>: \<^verbatim>\<open>lvm/lvm.go\<close>.  \<^verbatim>\<open>Lsblk\<close>: \<^verbatim>\<open>lsblk/lsblk.go\<close>.
  \<^item> \<^verbatim>\<open>Device_Filter\<close>: \<^verbatim>\<open>filter/filter.go\<close> and \<^verbatim>\<open>devices.go\<close>, and which devices are offered.
  \<^item> \<^verbatim>\<open>Raid\<close>: \<^verbatim>\<open>lv_attr.go\<close>, \<^verbatim>\<open>raid.go\<close>, \<^verbatim>\<open>raid_metrics.go\<close>.  \<^verbatim>\<open>Lvmd\<close>: \<^verbatim>\<open>lvmd/lvmd.go\<close> (locale
    \<^verbatim>\<open>configurator\<close>).  \<^verbatim>\<open>VG_Status\<close>: \<^verbatim>\<open>status.go\<close> and the events.  \<^verbatim>\<open>Wipe\<close>: \<^verbatim>\<open>wipe_devices.go\<close>.
  \<^item> \<^verbatim>\<open>VG_Manager\<close>: \<^verbatim>\<open>controller.go\<close> and \<^verbatim>\<open>device_mapping_helper.go\<close>.  \<^verbatim>\<open>VGM_Logic\<close>: what each step may do.
    \<^verbatim>\<open>VGM_Delete\<close> and \<^verbatim>\<open>VGM_Reconcile\<close>: the properties of whole runs (what is wiped, grown, removed and
    retained, and in which order).  \<^verbatim>\<open>VGM_Config\<close>: what \<^verbatim>\<open>lvmd\<close> is configured with.  \<^verbatim>\<open>VGM_Invariant\<close>: that
    this configuration stays well formed over any sequence of runs.  \<^verbatim>\<open>VGM_Thin\<close>: the checks and the
    growth of the thin pool.  \<^verbatim>\<open>VGM_Settle\<close>: that the runs the controller causes by its own writes end.
  \<^item> \<^verbatim>\<open>Op_World\<close>: the outside world of the operator.  \<^verbatim>\<open>Cluster_Status\<close>: \<^verbatim>\<open>status.go\<close> and \<^verbatim>\<open>selector.go\<close> of
    the cluster controller.  \<^verbatim>\<open>Resource_Managers\<close>, \<^verbatim>\<open>Cluster_Resources\<close> and \<^verbatim>\<open>VGM_DaemonSet\<close>: the managers of
    \<^verbatim>\<open>lvmcluster/resource\<close>.  \<^verbatim>\<open>Cluster_Controller\<close>: \<^verbatim>\<open>controller.go\<close> and \<^verbatim>\<open>controller_watches.go\<close>.
    \<^verbatim>\<open>Op_Controllers\<close>: removed nodes, persistent volumes and claims, cluster information, migrations.
  \<^item> \<^verbatim>\<open>Cluster_Deletion\<close> and \<^verbatim>\<open>Cluster_Runs\<close>: what a deletion waits for, its order, and what whole runs of the
    cluster controller may do.  \<^verbatim>\<open>Cluster_Progress\<close>: that a deletion comes to an end.
    \<^verbatim>\<open>Cluster_Watches\<close>: what the controller registers with its manager, and that claims in use block a deletion.  \<^verbatim>\<open>Resource_Props\<close> and
    \<^verbatim>\<open>Op_Props\<close>: the objects that are created, and the smaller controllers and migrations.
  \<^item> \<^verbatim>\<open>Operator_Start\<close> and \<^verbatim>\<open>Start_Props\<close>: \<^verbatim>\<open>cmd/operator\<close> and the order of its start.  \<^verbatim>\<open>Process_World\<close>: the
    outside world of the processes.  \<^verbatim>\<open>CSI_Runners\<close>: \<^verbatim>\<open>internal/csi\<close>.  \<^verbatim>\<open>VGM_Process\<close>: \<^verbatim>\<open>cmd/vgmanager\<close> and
    \<^verbatim>\<open>util/startlock.go\<close>.  \<^verbatim>\<open>Process_Props\<close>: the lock, its exclusiveness, readiness, the provisioner.
  \<^item> \<^verbatim>\<open>Go_Heap\<close>: pointers, slices and an explicit heap, the contract of a deep copy (locale \<^verbatim>\<open>copier\<close>) and its
    rules for pointers, slices and structs.  \<^verbatim>\<open>API_Objects\<close> and \<^verbatim>\<open>Deep_Copy\<close>: the structs of
    \<^verbatim>\<open>api/v1alpha1\<close> as they lie in memory and \<^verbatim>\<open>zz_generated.deepcopy.go\<close>.  \<^verbatim>\<open>Copy_Props\<close>: that a copy and its
    original are equal and independent.  \<^verbatim>\<open>Lvmd_Heap\<close>: the same for \<^verbatim>\<open>DeepCopyConfig\<close>, and what it shares.
  \<^item> This theory: what admission means for the volume group manager.

  \<^bold>\<open>What is not modelled.\<close>  Logging and contexts (no effect on the results); signals; the binding of command
  line flags and the registration of types (\<^verbatim>\<open>cmd/main.go\<close>); the options handed to the libraries' managers
  and servers, such as TLS settings; the registration of the smaller controllers (\<^verbatim>\<open>SetupWithManager\<close> with
  constant predicates), whose handlers are modelled; the copy functions of the structs of Kubernetes'
  packages, which are parameters of the deep copies with the contract as a hypothesis (\<^verbatim>\<open>library_copies\<close>);
  and the library code the sidecars start, which is a call whose answer the environment gives.
\<close>

section \<open>Admission and the volume group manager\<close>


definition thin_config :: ThinPoolConfig where
  "thin_config = \<lparr>tpc_Name = ''thin-pool-1'', tpc_SizePercent = 90, tpc_OverprovisionRatio = 10,
     tpc_ChunkSizeCalculationPolicy = ChunkSizeCalculationPolicyStatic,
     tpc_ChunkSize = Some \<lparr>q_bytes = 512 * 1024, q_repr = ''512Ki''\<rparr>, tpc_MetadataSize = None,
     tpc_MetadataSizeCalculationPolicy = MetadataSizePolicyHost\<rparr>"

definition thin_cluster :: LVMCluster where
  "thin_cluster = sample_cluster\<lparr>lc_DeviceClasses :=
     map (\<lambda>dc. dc\<lparr>dc_ThinPoolConfig := Some thin_config\<rparr>) (lc_DeviceClasses sample_cluster)\<rparr>"

definition admitting_env :: webhook_env where
  "admitting_env = \<lparr>we_LookupEnv = (\<lambda>_. Some ''openshift-lvm-storage''), we_List = (\<lambda>_. Inr []),
     we_NodeSelector_String = (\<lambda>_. []), we_IsQualifiedName = (\<lambda>_. []), we_IsValidLabelValue = (\<lambda>_. [])\<rparr>"


end
